(* ===== verification/Prelude.thy ===== *)
theory Prelude
  imports Main "HOL-Library.Word" "HOL-Library.Char_ord" "HOL-Library.AList"
begin

text \<open>
  What the components share: the machine types, the part of the Go standard library the
  sources call on strings (\<open>strings\<close>, \<open>strconv\<close>, \<open>encoding/hex\<close>, \<open>fmt\<close>), the clock
  arithmetic of \<open>time\<close>, and the generic lemmas on lists and maps.

  A Go string is a sequence of bytes, so it is a HOL \<open>string\<close> with one \<open>char\<close> per byte;
  \<open>ToLower\<close> and \<open>TrimSpace\<close> are given on ASCII, which is what the sources compare against.
  A \<open>[]byte\<close> is a list of 8-bit words.
\<close>

named_theorems go_simps \<open>evaluation of the modelled standard library\<close>
named_theorems view_simps \<open>what an operation does to the abstract view of a state\<close>

section \<open>Types\<close>

type_synonym bytes = "8 word list"
type_synonym u32 = "32 word"
type_synonym u64 = "64 word"

text \<open>An error value: \<open>nil\<close> is \<open>None\<close>; otherwise the text of \<open>Error()\<close>.\<close>

type_synonym err = "string option"

text \<open>\<open>wire.OutPoint\<close>: a 32-byte transaction hash (read as a 256-bit number) and an output index.\<close>

record outpoint =
  op_hash :: "256 word"
  op_index :: u32

section \<open>time\<close>

text \<open>
  A \<open>time.Time\<close> is the number of nanoseconds since the Unix epoch; \<open>Unix\<close> rounds towards
  minus infinity, as the seconds field of the Go value does. \<open>IsZero\<close> is year 1.
\<close>

type_synonym go_time = int

definition second :: int where "second = 1000000000"
definition hour :: int where "hour = 3600 * second"

definition time_of_unix :: "int \<Rightarrow> go_time" where "time_of_unix s = s * second"
definition unix_of_time :: "go_time \<Rightarrow> int" where "unix_of_time t = t div second"

definition zero_time :: go_time where "zero_time = time_of_unix (- 62135596800)"
definition IsZero :: "go_time \<Rightarrow> bool" where "IsZero t = (t = zero_time)"

lemma unix_time_of_unix [simp]: "unix_of_time (time_of_unix s) = s"
  by (simp add: unix_of_time_def time_of_unix_def second_def)

section \<open>strconv and fmt: decimal numbers\<close>

definition digit_char :: "nat \<Rightarrow> char" where
  "digit_char d = char_of (48 + d)"

definition char_digit :: "char \<Rightarrow> nat option" where
  "char_digit c = (let k = of_char c in if 48 \<le> k \<and> k \<le> 57 then Some (k - 48) else None)"

text \<open>\<open>strconv.FormatUint(n, 10)\<close>, \<open>Sprintf("%d", n)\<close>.\<close>

fun format_uint :: "nat \<Rightarrow> string" where
  "format_uint n = (if n < 10 then [digit_char n] else format_uint (n div 10) @ [digit_char (n mod 10)])"

declare format_uint.simps [simp del]

definition format_int :: "int \<Rightarrow> string" where
  "format_int i = (if i < 0 then CHR ''-'' # format_uint (nat (- i)) else format_uint (nat i))"

fun parse_digits :: "nat \<Rightarrow> string \<Rightarrow> nat option" where
  "parse_digits acc [] = Some acc"
| "parse_digits acc (c # cs) =
     (case char_digit c of None \<Rightarrow> None | Some d \<Rightarrow> parse_digits (10 * acc + d) cs)"

text \<open>\<open>strconv.ParseUint(s, 10, w)\<close>: digits only, at least one, and the value fits.\<close>

definition parse_uint :: "nat \<Rightarrow> string \<Rightarrow> nat option" where
  "parse_uint w s =
     (if s = [] then None
      else case parse_digits 0 s of None \<Rightarrow> None | Some n \<Rightarrow> if n < 2 ^ w then Some n else None)"

text \<open>
  \<open>fmt.Sscanf(s, "%d", &i)\<close> into a \<open>uint32\<close>: blanks are skipped, the longest run of digits is
  read and what follows it is left alone; no digit or a value over 32 bits is an error.
\<close>

definition sscanf_u32 :: "string \<Rightarrow> u32 option" where
  "sscanf_u32 s =
     (let ds = takeWhile (\<lambda>c. char_digit c \<noteq> None) (dropWhile (\<lambda>c. c = CHR '' '') s)
      in map_option of_nat (parse_uint 32 ds))"

lemma char_digit_digit_char [simp]: "d < 10 \<Longrightarrow> char_digit (digit_char d) = Some d"
  by (simp add: char_digit_def digit_char_def)

lemma parse_digits_append:
  "parse_digits acc (xs @ ys) = (case parse_digits acc xs of None \<Rightarrow> None | Some n \<Rightarrow> parse_digits n ys)"
  by (induction acc xs rule: parse_digits.induct) (auto split: option.splits)

lemma format_uint_digits: "c \<in> set (format_uint n) \<Longrightarrow> char_digit c \<noteq> None"
proof (induction n rule: format_uint.induct)
  case (1 n)
  then show ?case by (cases "n < 10") (auto simp: format_uint.simps [of n])
qed

lemma format_uint_nonempty [simp]: "format_uint n \<noteq> []"
  by (subst format_uint.simps) simp

lemma parse_digits_format_uint: "parse_digits 0 (format_uint n) = Some n"
proof (induction n rule: format_uint.induct)
  case (1 n)
  show ?case
  proof (cases "n < 10")
    case True
    then show ?thesis by (simp add: format_uint.simps [of n])
  next
    case False
    with 1 have "parse_digits 0 (format_uint (n div 10)) = Some (n div 10)" by simp
    with False show ?thesis by (simp add: format_uint.simps [of n] parse_digits_append)
  qed
qed

lemma parse_uint_format_uint [simp]: "n < 2 ^ w \<Longrightarrow> parse_uint w (format_uint n) = Some n"
  by (simp add: parse_uint_def parse_digits_format_uint)

lemma colon_not_digit [simp]: "char_digit CHR '':'' = None"
  by (simp add: char_digit_def)

lemma colon_notin_format_uint [simp]: "CHR '':'' \<notin> set (format_uint n)"
  using format_uint_digits by fastforce

lemma sscanf_u32_format_uint [simp]: "sscanf_u32 (format_uint (unat (i :: u32))) = Some i"
proof -
  have digits: "\<forall>c \<in> set (format_uint (unat i)). char_digit c \<noteq> None"
    by (blast dest: format_uint_digits)
  then have "hd (format_uint (unat i)) \<noteq> CHR '' ''"
    using hd_in_set [OF format_uint_nonempty] by (fastforce simp: char_digit_def)
  then have "dropWhile (\<lambda>c. c = CHR '' '') (format_uint (unat i)) = format_uint (unat i)"
    by (cases "format_uint (unat i)") auto
  moreover have "takeWhile (\<lambda>c. char_digit c \<noteq> None) (format_uint (unat i)) = format_uint (unat i)"
    using digits by (simp add: takeWhile_eq_all_conv)
  moreover have "unat i < 2 ^ 32"
    using unsigned_less [of i, where 'a = nat] by simp
  ultimately show ?thesis
    unfolding sscanf_u32_def Let_def by (simp only: parse_uint_format_uint) simp
qed

section \<open>encoding/hex\<close>

definition hex_char :: "nat \<Rightarrow> char" where
  "hex_char d = (if d < 10 then char_of (48 + d) else char_of (87 + d))"

definition hex_digit :: "char \<Rightarrow> nat option" where
  "hex_digit c =
     (let k = of_char c in
      if 48 \<le> k \<and> k \<le> 57 then Some (k - 48)
      else if 97 \<le> k \<and> k \<le> 102 then Some (k - 87)
      else if 65 \<le> k \<and> k \<le> 70 then Some (k - 55)
      else None)"

text \<open>\<open>hex.EncodeToString\<close> and \<open>hex.DecodeString\<close> (odd length and bad digits are errors).\<close>

fun hex_encode :: "bytes \<Rightarrow> string" where
  "hex_encode [] = []"
| "hex_encode (b # bs) = hex_char (unat b div 16) # hex_char (unat b mod 16) # hex_encode bs"

fun hex_decode :: "string \<Rightarrow> bytes option" where
  "hex_decode [] = Some []"
| "hex_decode [c] = None"
| "hex_decode (c # d # cs) =
     (case (hex_digit c, hex_digit d, hex_decode cs) of
        (Some h, Some l, Some bs) \<Rightarrow> Some (of_nat (16 * h + l) # bs)
      | _ \<Rightarrow> None)"

lemma hex_digit_hex_char [simp]: "d < 16 \<Longrightarrow> hex_digit (hex_char d) = Some d"
  by (auto simp: hex_digit_def hex_char_def Let_def)

lemma hex_decode_encode [simp]: "hex_decode (hex_encode bs) = Some bs"
proof (induction bs)
  case Nil
  then show ?case by simp
next
  case (Cons b bs)
  have b: "unat b div 16 < 16"
    using unsigned_less [of b, where 'a = nat] by simp
  have "(of_nat (16 * (unat b div 16) + unat b mod 16) :: 8 word) = b"
    by (simp only: mult_div_mod_eq) simp
  with Cons b show ?case by simp
qed

lemma hex_encode_inj: "hex_encode xs = hex_encode ys \<Longrightarrow> xs = ys"
  by (metis hex_decode_encode option.inject)

section \<open>strings\<close>

text \<open>\<open>strings.Split(s, sep)\<close> for a one-byte separator: always at least one field.\<close>

fun go_split :: "char \<Rightarrow> string \<Rightarrow> string list" where
  "go_split sep [] = [[]]"
| "go_split sep (c # cs) =
     (if c = sep then [] # go_split sep cs
      else case go_split sep cs of [] \<Rightarrow> [[c]] | w # ws \<Rightarrow> (c # w) # ws)"

text \<open>\<open>strings.SplitN(s, sep, 2)\<close>: at most one cut, at the first separator.\<close>

definition go_split2 :: "char \<Rightarrow> string \<Rightarrow> string list" where
  "go_split2 sep s =
     (if sep \<in> set s
      then [takeWhile (\<lambda>c. c \<noteq> sep) s, tl (dropWhile (\<lambda>c. c \<noteq> sep) s)]
      else [s])"

definition lower_char :: "char \<Rightarrow> char" where
  "lower_char c = (let k = of_char c :: nat in if 65 \<le> k \<and> k \<le> 90 then char_of (k + 32) else c)"

definition to_lower :: "string \<Rightarrow> string" where
  "to_lower = map lower_char"

text \<open>\<open>[a-zA-Z0-9]\<close>.\<close>

definition is_alnum :: "char \<Rightarrow> bool" where
  "is_alnum c = (let k = of_char c :: nat in (48 \<le> k \<and> k \<le> 57) \<or> (65 \<le> k \<and> k \<le> 90) \<or> (97 \<le> k \<and> k \<le> 122))"

definition is_space :: "char \<Rightarrow> bool" where
  "is_space c = (let k = of_char c :: nat in k = 32 \<or> (9 \<le> k \<and> k \<le> 13))"

definition trim_func :: "(char \<Rightarrow> bool) \<Rightarrow> string \<Rightarrow> string" where
  "trim_func p s = rev (dropWhile p (rev (dropWhile p s)))"

definition trim_space :: "string \<Rightarrow> string" where
  "trim_space = trim_func is_space"

definition has_prefix :: "string \<Rightarrow> string \<Rightarrow> bool" where
  "has_prefix p s = (take (length p) s = p)"

fun go_contains :: "string \<Rightarrow> string \<Rightarrow> bool" where
  "go_contains [] sub = (sub = [])"
| "go_contains (c # cs) sub = (has_prefix sub (c # cs) \<or> go_contains cs sub)"

lemma go_split_nonempty [simp]: "go_split sep s \<noteq> []"
  by (induction s) (auto split: list.splits)

lemma go_split_no_sep: "sep \<notin> set s \<Longrightarrow> go_split sep s = [s]"
  by (induction s) auto

lemma go_split_append:
  "sep \<notin> set s \<Longrightarrow> go_split sep (s @ sep # t) = s # go_split sep t"
  by (induction s) auto

lemma go_split_fields_no_sep: "w \<in> set (go_split sep s) \<Longrightarrow> sep \<notin> set w"
proof (induction s arbitrary: w)
  case Nil
  then show ?case by simp
next
  case (Cons c cs)
  then show ?case by (cases "go_split sep cs") (auto split: if_splits)
qed

lemma trim_func_nop:
  "s \<noteq> [] \<Longrightarrow> \<not> p (hd s) \<Longrightarrow> \<not> p (last s) \<Longrightarrow> trim_func p s = s"
proof -
  assume "s \<noteq> []" "\<not> p (hd s)" "\<not> p (last s)"
  then have "dropWhile p s = s" "dropWhile p (rev s) = rev s"
    by (cases s, auto) (cases s rule: rev_cases, auto)
  then show ?thesis by (simp add: trim_func_def)
qed

section \<open>Transaction hashes and outpoints as text\<close>

text \<open>
  \<open>chainhash.Hash.String\<close>, \<open>chainhash.NewHashFromStr\<close>, \<open>wire.OutPoint.String\<close> and
  \<open>wire.NewOutPointFromString\<close> are library code: the repositories take them as arguments.
  The functions below are their documented behaviour (64 hex digits, most significant first;
  shorter strings are padded with zeros), at which the repositories are instantiated.
\<close>

fun hex_digits :: "nat \<Rightarrow> nat \<Rightarrow> string" where
  "hex_digits 0 n = []"
| "hex_digits (Suc k) n = hex_digits k (n div 16) @ [hex_char (n mod 16)]"

fun parse_hex :: "nat \<Rightarrow> string \<Rightarrow> nat option" where
  "parse_hex acc [] = Some acc"
| "parse_hex acc (c # cs) =
     (case hex_digit c of None \<Rightarrow> None | Some d \<Rightarrow> parse_hex (16 * acc + d) cs)"

definition hash_String :: "256 word \<Rightarrow> string" where
  "hash_String h = (if h = 0 then replicate 64 CHR ''0'' else hex_digits 64 (unat h))"

definition NewHashFromStr :: "string \<Rightarrow> 256 word option" where
  "NewHashFromStr s = (if 64 < length s then None else map_option of_nat (parse_hex 0 s))"

definition OutPoint_String :: "outpoint \<Rightarrow> string" where
  "OutPoint_String op = hash_String (op_hash op) @ CHR '':'' # format_uint (unat (op_index op))"

definition NewOutPointFromString :: "string \<Rightarrow> outpoint option" where
  "NewOutPointFromString s =
     (case go_split CHR '':'' s of
        [h, i] \<Rightarrow>
         (case (NewHashFromStr h, parse_uint 32 i) of
            (Some hash, Some idx) \<Rightarrow> Some \<lparr>op_hash = hash, op_index = of_nat idx\<rparr>
          | _ \<Rightarrow> None)
      | _ \<Rightarrow> None)"

lemma length_hex_digits [simp]: "length (hex_digits k n) = k"
  by (induction k arbitrary: n) auto

lemma parse_hex_append:
  "parse_hex acc (xs @ ys) = (case parse_hex acc xs of None \<Rightarrow> None | Some n \<Rightarrow> parse_hex n ys)"
  by (induction acc xs rule: parse_hex.induct) (auto split: option.splits)

lemma parse_hex_digits: "n < 16 ^ k \<Longrightarrow> parse_hex 0 (hex_digits k n) = Some n"
proof (induction k arbitrary: n)
  case 0
  then show ?case by simp
next
  case (Suc k)
  then have "n div 16 < 16 ^ k" by (simp add: less_mult_imp_div_less mult.commute)
  with Suc.IH show ?case by (simp add: parse_hex_append)
qed

lemma hex_digits_zero: "hex_digits k 0 = replicate k CHR ''0''"
proof (induction k)
  case (Suc k)
  have "hex_char 0 = CHR ''0''" by code_simp
  with Suc show ?case by (simp add: replicate_append_same)
qed simp

lemma hash_String_digits: "hash_String h = hex_digits 64 (unat h)"
  by (simp add: hash_String_def hex_digits_zero)

lemma NewHashFromStr_String [simp]: "NewHashFromStr (hash_String h) = Some h"
proof -
  have "unat h < 16 ^ 64"
    using unsigned_less [of h, where 'a = nat] by simp
  then show ?thesis by (simp add: NewHashFromStr_def hash_String_digits parse_hex_digits)
qed

lemma hex_char_not_colon: "d < 16 \<Longrightarrow> hex_char d \<noteq> CHR '':''"
  using hex_digit_hex_char [of d] by (auto simp: hex_digit_def)

lemma hex_digits_no_colon: "CHR '':'' \<notin> set (hex_digits k n)"
  by (induction k arbitrary: n) (auto dest: sym simp: hex_char_not_colon)

lemma NewOutPointFromString_String [simp]: "NewOutPointFromString (OutPoint_String op) = Some op"
proof -
  have "CHR '':'' \<notin> set (hash_String (op_hash op))"
    by (simp add: hash_String_digits hex_digits_no_colon)
  then have "go_split CHR '':'' (OutPoint_String op) = [hash_String (op_hash op), format_uint (unat (op_index op))]"
    by (simp add: OutPoint_String_def go_split_append go_split_no_sep)
  moreover have "unat (op_index op) < 2 ^ 32"
    using unsigned_less [of "op_index op", where 'a = nat] by simp
  ultimately show ?thesis
    unfolding NewOutPointFromString_def by (simp del: power_numeral)
qed

lemma OutPoint_String_eq [simp]: "OutPoint_String x = OutPoint_String y \<longleftrightarrow> x = y" for x y :: outpoint
  by (metis NewOutPointFromString_String option.inject)

section \<open>Lists and maps\<close>

text \<open>\<open>append(s[:i], s[i+1:]...)\<close> at the first element that matches.\<close>

fun remove_first :: "('a \<Rightarrow> bool) \<Rightarrow> 'a list \<Rightarrow> 'a list" where
  "remove_first p [] = []"
| "remove_first p (x # xs) = (if p x then xs else x # remove_first p xs)"

lemma set_remove_first_subset: "set (remove_first p xs) \<subseteq> set xs"
  by (induction xs) auto

lemma remove_first_none: "\<forall>x \<in> set xs. \<not> p x \<Longrightarrow> remove_first p xs = xs"
  by (induction xs) auto

lemma update_fresh: "k \<notin> fst ` set xs \<Longrightarrow> AList.update k v xs = xs @ [(k, v)]"
  by (induction xs) auto

lemma map_of_filter_key:
  "map_of (filter (\<lambda>(k, v). P k) xs) k = (if P k then map_of xs k else None)"
  by (induction xs) auto

lemma map_of_map_val: "map_of (map (\<lambda>(k, v). (k, f k v)) xs) k = map_option (f k) (map_of xs k)"
  by (induction xs) auto

lemma map_of_SomeI: "distinct (map fst xs) \<Longrightarrow> (k, v) \<in> set xs \<Longrightarrow> map_of xs k = Some v"
  by (rule map_of_is_SomeI)

lemma sort_key_desc_sorted:
  "sorted_wrt (\<lambda>x y. key x \<ge> (key y :: int)) (sort_key (\<lambda>x. - key x) xs)"
proof -
  have "sorted (map (\<lambda>x. - key x) (sort_key (\<lambda>x. - key x) xs))" by simp
  then show ?thesis by (simp add: sorted_wrt_map)
qed

end
