(* ===== verification/Domain.thy ===== *)
theory Domain
  imports Prelude
begin

text \<open>
  \<open>internal/core/domain\<close>: the delegate task, its status and the names a status is printed
  and parsed under, the VHTLC record with its identifier, and the contract of
  \<open>DelegateRepository\<close> as a locale over an abstract view (a map from task ids to tasks).
\<close>

section \<open>Delegate tasks\<close>

record intent =
  Message :: string
  Proof :: string
  Txid :: string
  Inputs :: "outpoint list"

text \<open>
  The Go type is an \<open>int\<close> with four named constants; any other value prints as
  \<open>"unknown"\<close>.
\<close>

datatype delegate_task_status =
    DelegateTaskStatusPending
  | DelegateTaskStatusCompleted
  | DelegateTaskStatusFailed
  | DelegateTaskStatusCancelled
  | UnknownStatus int

fun int_of_status :: "delegate_task_status \<Rightarrow> int" where
  "int_of_status DelegateTaskStatusPending = 0"
| "int_of_status DelegateTaskStatusCompleted = 1"
| "int_of_status DelegateTaskStatusFailed = 2"
| "int_of_status DelegateTaskStatusCancelled = 3"
| "int_of_status (UnknownStatus i) = i"

definition status_of_int :: "int \<Rightarrow> delegate_task_status" where
  "status_of_int i =
     (if i = 0 then DelegateTaskStatusPending
      else if i = 1 then DelegateTaskStatusCompleted
      else if i = 2 then DelegateTaskStatusFailed
      else if i = 3 then DelegateTaskStatusCancelled
      else UnknownStatus i)"

fun status_String :: "delegate_task_status \<Rightarrow> string" where
  "status_String DelegateTaskStatusPending = ''pending''"
| "status_String DelegateTaskStatusCompleted = ''completed''"
| "status_String DelegateTaskStatusFailed = ''failed''"
| "status_String DelegateTaskStatusCancelled = ''cancelled''"
| "status_String (UnknownStatus _) = ''unknown''"

definition DelegateTaskStatusFromString :: "string \<Rightarrow> string + delegate_task_status" where
  "DelegateTaskStatusFromString s =
     (let statusStr = to_lower (trim_space s) in
      if statusStr = ''pending'' then Inr DelegateTaskStatusPending
      else if statusStr = ''completed'' then Inr DelegateTaskStatusCompleted
      else if statusStr = ''failed'' then Inr DelegateTaskStatusFailed
      else if statusStr = ''cancelled'' \<or> statusStr = ''canceled'' then Inr DelegateTaskStatusCancelled
      else Inl (''invalid status: '' @ s @ ''. Must be one of: pending, completed, failed, cancelled''))"

text \<open>
  A Go map is ranged over in an unspecified order: \<open>ForfeitTxs\<close> is an association list, its
  order the order of one iteration, and is read through \<^const>\<open>map_of\<close>.
\<close>

record delegate_task =
  ID :: string
  Intent :: intent
  ForfeitTxs :: "(outpoint \<times> string) list"
  Fee :: u64
  DelegatePublicKey :: string
  ScheduledAt :: go_time
  Status :: delegate_task_status
  FailReason :: string
  CommitmentTxid :: string

record pending_delegate_task =
  Pending_ID :: string
  Pending_ScheduledAt :: go_time

section \<open>VHTLCs\<close>

record vhtlc =
  Vhtlc_Id :: string
  Vhtlc_Script :: string

definition NewVhtlc :: "string \<Rightarrow> string \<Rightarrow> vhtlc" where
  "NewVhtlc vhtlcId scr = \<lparr>Vhtlc_Id = vhtlcId, Vhtlc_Script = scr\<rparr>"

text \<open>\<open>crypto/sha256\<close> is the argument \<open>sha\<close>: nothing below depends on what it computes.\<close>

definition GetVhtlcId :: "(bytes \<Rightarrow> bytes) \<Rightarrow> bytes \<Rightarrow> bytes \<Rightarrow> bytes \<Rightarrow> string" where
  "GetVhtlcId sha preimageHash sender receiver = hex_encode (sha (preimageHash @ sender @ receiver))"

section \<open>The contract of DelegateRepository\<close>

text \<open>
  What a client of the repository can see of a stored task: times at the resolution of a
  second, the inputs as a set and the forfeits as a map.
\<close>

record task_view =
  tv_status :: delegate_task_status
  tv_txid :: string
  tv_message :: string
  tv_proof :: string
  tv_inputs :: "outpoint set"
  tv_forfeits :: "outpoint \<rightharpoonup> string"
  tv_fee :: u64
  tv_pubkey :: string
  tv_scheduled :: int
  tv_reason :: string
  tv_commitment :: string

definition view_of :: "delegate_task \<Rightarrow> task_view" where
  "view_of t =
     \<lparr>tv_status = Status t, tv_txid = Txid (Intent t), tv_message = Message (Intent t),
      tv_proof = Proof (Intent t), tv_inputs = set (Inputs (Intent t)),
      tv_forfeits = map_of (ForfeitTxs t), tv_fee = Fee t, tv_pubkey = DelegatePublicKey t,
      tv_scheduled = unix_of_time (ScheduledAt t), tv_reason = FailReason t,
      tv_commitment = CommitmentTxid t\<rparr>"

type_synonym tasks_view = "string \<rightharpoonup> task_view"

definition is_pending :: "task_view \<Rightarrow> bool" where
  "is_pending v = (tv_status v = DelegateTaskStatusPending)"

text \<open>
  \<open>close_tasks f A m\<close>: every pending task of \<open>m\<close> with an id in \<open>A\<close> is rewritten by \<open>f\<close>, all
  other tasks are left alone. It is what the three closing operations do.
\<close>

definition close_tasks :: "(task_view \<Rightarrow> task_view) \<Rightarrow> string set \<Rightarrow> tasks_view \<Rightarrow> tasks_view" where
  "close_tasks f A m =
     (\<lambda>i. case m i of None \<Rightarrow> None | Some v \<Rightarrow> Some (if i \<in> A \<and> is_pending v then f v else v))"

definition cancelled :: "task_view \<Rightarrow> task_view" where
  "cancelled v = v\<lparr>tv_status := DelegateTaskStatusCancelled\<rparr>"

definition completed :: "string \<Rightarrow> task_view \<Rightarrow> task_view" where
  "completed txid v = v\<lparr>tv_status := DelegateTaskStatusCompleted, tv_commitment := txid\<rparr>"

definition failed :: "string \<Rightarrow> task_view \<Rightarrow> task_view" where
  "failed reason v = v\<lparr>tv_status := DelegateTaskStatusFailed, tv_reason := reason\<rparr>"

text \<open>
  The tasks the service hands to \<open>Add\<close>: pending, not yet closed, every forfeit keyed by one of
  the inputs and not the empty string.
\<close>

definition storable :: "delegate_task \<Rightarrow> bool" where
  "storable t =
     (Status t = DelegateTaskStatusPending \<and> FailReason t = [] \<and> CommitmentTxid t = []
      \<and> distinct (map fst (ForfeitTxs t))
      \<and> list_all (\<lambda>(k, f). k \<in> set (Inputs (Intent t)) \<and> f \<noteq> []) (ForfeitTxs t))"

text \<open>The operations of the Go interface \<open>DelegateRepository\<close> a client calls, over a state \<open>'s\<close>.\<close>

record 's delegate_repo =
  Add :: "'s \<Rightarrow> delegate_task \<Rightarrow> err \<times> 's"
  GetByID :: "'s \<Rightarrow> string \<Rightarrow> string + delegate_task"
  GetAllPending :: "'s \<Rightarrow> string + pending_delegate_task list"
  GetPendingTaskByIntentTxID :: "'s \<Rightarrow> string \<Rightarrow> string + pending_delegate_task"
  GetPendingTaskIDsByInputs :: "'s \<Rightarrow> outpoint list \<Rightarrow> string + string list"
  CancelTasks :: "'s \<Rightarrow> string list \<Rightarrow> err \<times> 's"
  CompleteTasks :: "'s \<Rightarrow> string \<Rightarrow> string list \<Rightarrow> err \<times> 's"
  FailTasks :: "'s \<Rightarrow> string \<Rightarrow> string list \<Rightarrow> err \<times> 's"
  GetAll :: "'s \<Rightarrow> delegate_task_status \<Rightarrow> int \<Rightarrow> int \<Rightarrow> string + delegate_task list"

text \<open>\<open>GetAll\<close> is under no law: the two providers page differently.\<close>

locale delegate_repository =
  fixes view :: "'s \<Rightarrow> tasks_view" and invar :: "'s \<Rightarrow> bool" and R :: "'s delegate_repo"
  assumes add_invar: "invar s \<Longrightarrow> storable t \<Longrightarrow> invar (snd (Add R s t))"
    and add_view: "invar s \<Longrightarrow> storable t \<Longrightarrow> Add R s t = (None, s') \<Longrightarrow>
          view s (ID t) = None \<and> view s' = (view s)(ID t \<mapsto> view_of t)"
    and add_error: "invar s \<Longrightarrow> storable t \<Longrightarrow> Add R s t = (Some e, s') \<Longrightarrow> view s' = view s"
    and get_by_id_view: "invar s \<Longrightarrow> GetByID R s i = Inr t \<Longrightarrow>
          view s i = Some (view_of t) \<and> ID t = i"
    and get_all_pending_view: "invar s \<Longrightarrow> GetAllPending R s = Inr ps \<Longrightarrow>
          set (map (\<lambda>p. (Pending_ID p, Pending_ScheduledAt p)) ps)
            = {(i, time_of_unix (tv_scheduled v)) |i v. view s i = Some v \<and> is_pending v}"
    and pending_by_txid_view: "invar s \<Longrightarrow> GetPendingTaskByIntentTxID R s x = Inr p \<Longrightarrow>
          \<exists>v. view s (Pending_ID p) = Some v \<and> is_pending v \<and> tv_txid v = x"
    and pending_by_inputs_view: "invar s \<Longrightarrow> GetPendingTaskIDsByInputs R s inputs = Inr ids \<Longrightarrow>
          set ids = {i. \<exists>v. view s i = Some v \<and> is_pending v \<and> tv_inputs v \<inter> set inputs \<noteq> {}}"
    and cancel_view: "invar s \<Longrightarrow> CancelTasks R s ids = (er, s') \<Longrightarrow>
          invar s' \<and> (\<exists>A \<subseteq> set ids. (er = None \<longrightarrow> A = set ids) \<and> view s' = close_tasks cancelled A (view s))"
    and complete_view: "invar s \<Longrightarrow> CompleteTasks R s c ids = (er, s') \<Longrightarrow>
          invar s' \<and> (\<exists>A \<subseteq> set ids. (er = None \<longrightarrow> A = set ids) \<and> view s' = close_tasks (completed c) A (view s))"
    and fail_view: "invar s \<Longrightarrow> FailTasks R s r ids = (er, s') \<Longrightarrow>
          invar s' \<and> (\<exists>A \<subseteq> set ids. (er = None \<longrightarrow> A = set ids) \<and> view s' = close_tasks (failed r) A (view s))"

section \<open>Lemmas on views\<close>

lemma view_of_simps [simp]:
  "tv_status (view_of t) = Status t" "tv_txid (view_of t) = Txid (Intent t)"
  "tv_inputs (view_of t) = set (Inputs (Intent t))" "tv_forfeits (view_of t) = map_of (ForfeitTxs t)"
  "tv_scheduled (view_of t) = unix_of_time (ScheduledAt t)"
  "tv_message (view_of t) = Message (Intent t)" "tv_proof (view_of t) = Proof (Intent t)"
  by (simp_all add: view_of_def)

lemma is_pending_closed [simp]:
  "\<not> is_pending (cancelled v)" "\<not> is_pending (completed c v)" "\<not> is_pending (failed r v)"
  by (simp_all add: is_pending_def cancelled_def completed_def failed_def)

lemma closed_inputs [simp]:
  "tv_inputs (cancelled v) = tv_inputs v" "tv_inputs (completed c v) = tv_inputs v"
  "tv_inputs (failed r v) = tv_inputs v"
  by (simp_all add: cancelled_def completed_def failed_def)

lemma close_tasks_dom [simp]: "dom (close_tasks f A m) = dom m"
  by (auto simp: close_tasks_def dom_def split: option.splits)

lemma close_tasks_empty [simp]: "close_tasks f {} m = m"
  by (rule ext) (simp add: close_tasks_def split: option.splits)

lemma close_tasks_eq_None [simp]: "close_tasks f A m i = None \<longleftrightarrow> m i = None"
  by (simp add: close_tasks_def split: option.splits)

lemma close_tasks_other: "i \<notin> A \<Longrightarrow> close_tasks f A m i = m i"
  by (simp add: close_tasks_def split: option.splits)

lemma close_tasks_terminal: "m i = Some v \<Longrightarrow> \<not> is_pending v \<Longrightarrow> close_tasks f A m i = Some v"
  by (simp add: close_tasks_def)

lemma close_tasks_pendingD:
  "close_tasks f A m i = Some v \<Longrightarrow> is_pending v \<Longrightarrow> (\<And>w. \<not> is_pending (f w)) \<Longrightarrow>
     m i = Some v \<and> i \<notin> A"
  by (auto simp: close_tasks_def split: option.splits if_splits)

lemma close_tasks_insert:
  "(\<And>w. \<not> is_pending (f w)) \<Longrightarrow>
     close_tasks f A (close_tasks f {i} m) = close_tasks f (insert i A) m"
  by (rule ext) (auto simp: close_tasks_def split: option.splits)

lemma status_roundtrip [simp]: "status_of_int (int_of_status (status_of_int i)) = status_of_int i"
  by (simp add: status_of_int_def)

lemma int_of_status_of_int [simp]: "int_of_status (status_of_int i) = i"
  by (simp add: status_of_int_def)

text \<open>
  A status is read back from the name it is printed under; a value outside the four named
  constants prints as \<open>"unknown"\<close>, which the parser rejects with its error message.
\<close>

theorem status_parse_print:
  "DelegateTaskStatusFromString (status_String st) =
     (case st of
        UnknownStatus _ \<Rightarrow>
          Inl (''invalid status: unknown. Must be one of: pending, completed, failed, cancelled'')
      | _ \<Rightarrow> Inr st)"
  by (cases st; simp only: status_String.simps delegate_task_status.case; code_simp)

end
