(* ===== verification/Bitcoin.thy ===== *)
theory Bitcoin
  imports Prelude
begin

text \<open>
  The transaction data the sources read and write (\<open>wire\<close>, \<open>psbt\<close>, the closures of ark-lib) and
  the library calls they make on it. The libraries are not part of the repository: their
  functions are the fields of the record \<open>crypto\<close>, an argument of every definition that uses
  one. Keys, addresses and signatures are opaque byte strings (their serialisations).
\<close>

type_synonym pubkey = bytes
type_synonym prvkey = bytes
type_synonym address = bytes

text \<open>An \<open>int64\<close> amount is its 64-bit pattern: \<^term>\<open>sint\<close> reads it as Go does.\<close>

record tx_out =
  Value :: u64
  PkScript :: bytes

record tx_in =
  PreviousOutPoint :: outpoint
  Sequence :: u32

record tap_sig =
  XOnlyPubKey :: bytes
  LeafHash :: bytes
  Signature :: bytes
  SigHash :: u32

record tap_leaf =
  LeafVersion :: "8 word"
  LeafScript :: bytes

record psbt_input =
  WitnessUtxo :: "tx_out option"
  SighashType :: u32
  TaprootScriptSpendSig :: "tap_sig list"
  TaprootLeafScript :: "tap_leaf list"

text \<open>A \<open>psbt.Packet\<close>: the unsigned transaction and the per-input data.\<close>

record psbt =
  TxIn :: "tx_in list"
  TxOut :: "tx_out list"
  PInputs :: "psbt_input list"

datatype closure =
    MultisigClosure "pubkey list"
  | CLTVMultisigClosure "pubkey list"
  | ConditionMultisigClosure "pubkey list"
  | CSVMultisigClosure "pubkey list"
  | OtherClosure string

text \<open>A map from outpoints to outputs, as \<open>NewMultiPrevOutFetcher\<close> takes it.\<close>

type_synonym prevouts = "(outpoint \<times> tx_out) list"

record crypto =
  SerializePubKey :: "pubkey \<Rightarrow> bytes" \<comment> \<open>\<open>schnorr.SerializePubKey\<close>: the x-only key\<close>
  SerializeCompressed :: "pubkey \<Rightarrow> bytes"
  PubKey :: "prvkey \<Rightarrow> pubkey"
  ParsePubKey :: "bytes \<Rightarrow> string + pubkey"
  ParseSignature :: "bytes \<Rightarrow> string + bytes"
  Verify :: "bytes \<Rightarrow> bytes \<Rightarrow> pubkey \<Rightarrow> bool"
  SchnorrSign :: "prvkey \<Rightarrow> bytes \<Rightarrow> string + bytes"
  DecodeBtcAddress :: "string \<Rightarrow> string + address"
  PayToAddrScript :: "address \<Rightarrow> string + bytes"
  TapLeafHash :: "8 word \<Rightarrow> bytes \<Rightarrow> bytes"
  DecodeClosure :: "bytes \<Rightarrow> string + closure"
  CalcSighash :: "prevouts \<Rightarrow> u32 \<Rightarrow> psbt \<Rightarrow> bytes \<Rightarrow> string + bytes"
  B64Encode :: "psbt \<Rightarrow> string + string"
  NewFromRawBytes :: "string \<Rightarrow> string + psbt"
  TxID :: "psbt \<Rightarrow> string"
  TxHash :: "psbt \<Rightarrow> 256 word"
  EncodeV0 :: "address \<Rightarrow> string + string"
  DecodeAddressV0 :: "string \<Rightarrow> string + address"
  GetPkScript :: "address \<Rightarrow> string + bytes"
  ANCHOR_PKSCRIPT :: bytes \<comment> \<open>\<open>txutils.ANCHOR_PKSCRIPT\<close>: pay to anchor\<close>

definition BaseLeafVersion :: "8 word" where "BaseLeafVersion = 0xc0"
definition SigHashDefault :: u32 where "SigHashDefault = 0"
definition SigHashAll_AnyOneCanPay :: u32 where "SigHashAll_AnyOneCanPay = 0x81"
definition MaxTxInSequenceNum :: u32 where "MaxTxInSequenceNum = 0xffffffff"

fun closure_pubkeys :: "closure \<Rightarrow> pubkey list" where
  "closure_pubkeys (MultisigClosure ks) = ks"
| "closure_pubkeys (CLTVMultisigClosure ks) = ks"
| "closure_pubkeys (ConditionMultisigClosure ks) = ks"
| "closure_pubkeys (CSVMultisigClosure ks) = ks"
| "closure_pubkeys (OtherClosure _) = []"

text \<open>A VTXO as the indexer reports it, with the fields the sources read.\<close>

record vtxo =
  Vtxo_Txid :: string
  Vtxo_VOut :: u32
  Spent :: bool
  Unrolled :: bool
  Swept :: bool
  ExpiresAt :: go_time
  Amount :: u64
  IsRecoverable :: bool \<comment> \<open>what the method of the client library answers\<close>

end
