(* ===== verification/DelegateValidation.thy ===== *)
theory DelegateValidation
  imports Domain Bitcoin
begin

text \<open>
  The checks a delegation passes before it becomes a task
  (\<open>internal/core/application/delegate_service.go\<close>): \<open>validateForfeits\<close>,
  \<open>findDelegateFeeOutput\<close>, \<open>validateDelegateFee\<close>, the delegate address and
  \<open>newDelegateTask\<close>. Each check is a function of its own, in the order of the code, and each
  is characterised by what it accepts.
\<close>

section \<open>validateForfeits\<close>

record client_config =
  ForfeitAddress :: string
  Dust :: u64

definition check_forfeit_outputs :: "crypto \<Rightarrow> bytes \<Rightarrow> psbt \<Rightarrow> string + unit" where
  "check_forfeit_outputs L forfeitOutputScript forfeit =
     (if length (TxOut forfeit) \<noteq> 2 then Inl ''invalid number of forfeit outputs''
      else if length (TxIn forfeit) \<noteq> 1 \<or> length (PInputs forfeit) \<noteq> 1 then Inl ''invalid number of inputs''
      else if PkScript (TxOut forfeit ! 0) \<noteq> forfeitOutputScript then Inl ''wrong forfeit output script''
      else if PkScript (TxOut forfeit ! 1) \<noteq> ANCHOR_PKSCRIPT L then Inl ''wrong anchor output script''
      else Inr ())"

text \<open>The witness output, when the input data is complete and the amounts agree (in \<open>int64\<close>).\<close>

definition check_forfeit_amount :: "u64 \<Rightarrow> psbt \<Rightarrow> string + tx_out" where
  "check_forfeit_amount dust forfeit =
     (case WitnessUtxo (PInputs forfeit ! 0) of
        None \<Rightarrow> Inl ''forfeit tx input witness utxo is nil''
      | Some utxo \<Rightarrow>
         if length (TaprootScriptSpendSig (PInputs forfeit ! 0)) \<noteq> 1
         then Inl ''forfeit tx input has no taproot script spend sig''
         else if length (TaprootLeafScript (PInputs forfeit ! 0)) \<noteq> 1
         then Inl ''forfeit tx input has no taproot leaf script''
         else if dust + Value utxo \<noteq> Value (TxOut forfeit ! 0) then Inl ''wrong forfeit amount''
         else Inr utxo)"

definition check_forfeit_leaf :: "crypto \<Rightarrow> pubkey \<Rightarrow> psbt \<Rightarrow> string + unit" where
  "check_forfeit_leaf L delegatePubkey forfeit =
     (let forfeitSig = TaprootScriptSpendSig (PInputs forfeit ! 0) ! 0;
          leaf = TaprootLeafScript (PInputs forfeit ! 0) ! 0
      in if LeafHash forfeitSig \<noteq> TapLeafHash L BaseLeafVersion (LeafScript leaf)
         then Inl ''forfeit tx input: missing tapleaf script''
         else
          (case DecodeClosure L (LeafScript leaf) of
             Inl e \<Rightarrow> Inl (''forfeit tx input: failed to decode closure: '' @ e)
           | Inr (OtherClosure _) \<Rightarrow> Inl ''forfeit tx input: invalid closure type''
           | Inr (CSVMultisigClosure _) \<Rightarrow> Inl ''forfeit tx input: invalid closure type''
           | Inr closure \<Rightarrow>
              if list_ex (\<lambda>k. SerializePubKey L k = SerializePubKey L delegatePubkey) (closure_pubkeys closure)
              then Inr ()
              else Inl ''forfeit tx input: delegate public key not found in taproot leaf script''))"

definition check_forfeit_sig :: "crypto \<Rightarrow> tx_out \<Rightarrow> psbt \<Rightarrow> string + unit" where
  "check_forfeit_sig L utxo forfeit =
     (let forfeitSig = TaprootScriptSpendSig (PInputs forfeit ! 0) ! 0;
          leaf = TaprootLeafScript (PInputs forfeit ! 0) ! 0
      in if SigHash forfeitSig \<noteq> SigHashAll_AnyOneCanPay
         then Inl ''forfeit tx input: invalid sighash type, expected AnyoneCanPay | All''
         else
          (case CalcSighash L [(PreviousOutPoint (TxIn forfeit ! 0), utxo)] SigHashAll_AnyOneCanPay
                  forfeit (LeafScript leaf) of
             Inl e \<Rightarrow> Inl (''forfeit tx input: failed to calculate sighash: '' @ e)
           | Inr message \<Rightarrow>
              (case ParsePubKey L (XOnlyPubKey forfeitSig) of
                 Inl e \<Rightarrow> Inl (''forfeit tx input: failed to parse signer public key: '' @ e)
               | Inr signer \<Rightarrow>
                  (case ParseSignature L (Signature forfeitSig) of
                     Inl e \<Rightarrow> Inl (''forfeit tx input: failed to parse signature: '' @ e)
                   | Inr sig \<Rightarrow>
                      if Verify L sig message signer then Inr ()
                      else Inl ''forfeit tx input: invalid forfeit signature''))))"

definition validateForfeit :: "crypto \<Rightarrow> pubkey \<Rightarrow> u64 \<Rightarrow> bytes \<Rightarrow> psbt \<Rightarrow> string + unit" where
  "validateForfeit L delegatePubkey dust forfeitOutputScript forfeit =
     (case check_forfeit_outputs L forfeitOutputScript forfeit of Inl e \<Rightarrow> Inl e | Inr _ \<Rightarrow>
      (case check_forfeit_amount dust forfeit of Inl e \<Rightarrow> Inl e | Inr utxo \<Rightarrow>
       (case check_forfeit_leaf L delegatePubkey forfeit of Inl e \<Rightarrow> Inl e | Inr _ \<Rightarrow>
         check_forfeit_sig L utxo forfeit)))"

fun validate_each :: "('a \<Rightarrow> string + unit) \<Rightarrow> 'a list \<Rightarrow> string + unit" where
  "validate_each check [] = Inr ()"
| "validate_each check (x # xs) = (case check x of Inl e \<Rightarrow> Inl e | Inr _ \<Rightarrow> validate_each check xs)"

definition validateForfeits :: "crypto \<Rightarrow> pubkey \<Rightarrow> client_config \<Rightarrow> psbt list \<Rightarrow> string + unit" where
  "validateForfeits L delegatePubkey cfg forfeitTxs =
     (case DecodeBtcAddress L (ForfeitAddress cfg) of
        Inl e \<Rightarrow> Inl (''failed to decode forfeit address: '' @ e)
      | Inr addr \<Rightarrow>
         (case PayToAddrScript L addr of
            Inl e \<Rightarrow> Inl (''failed to create forfeit output script: '' @ e)
          | Inr scr \<Rightarrow> validate_each (validateForfeit L delegatePubkey (Dust cfg) scr) forfeitTxs))"

section \<open>The delegate fee\<close>

text \<open>The amount of the first output paying the script, and whether there is one.\<close>

fun findDelegateFeeOutput :: "tx_out list \<Rightarrow> bytes \<Rightarrow> u64 \<times> bool" where
  "findDelegateFeeOutput [] delegateScript = (0, False)"
| "findDelegateFeeOutput (output # outputs) delegateScript =
     (if PkScript output = delegateScript then (Value output, True)
      else findDelegateFeeOutput outputs delegateScript)"

definition validateDelegateFee :: "u64 \<Rightarrow> u64 \<Rightarrow> bool \<Rightarrow> string \<Rightarrow> string + unit" where
  "validateDelegateFee requiredFee paidAmount feePaidToUs delegateAddr =
     (if requiredFee = 0 then Inr ()
      else if \<not> feePaidToUs
      then Inl (''intent proof has no output paying the delegate address '' @ delegateAddr
                @ '': the fee must be paid to the address returned by GetInfo'')
      else if sint paidAmount < 0
      then Inl (''invalid delegate fee output amount '' @ format_int (sint paidAmount))
      else if paidAmount < requiredFee
      then Inl (''delegate fee is less than the required fee (expected at least ''
                @ format_uint (unat requiredFee) @ '', got '' @ format_int (sint paidAmount) @ '')'')
      else Inr ())"

section \<open>The delegate address\<close>

text \<open>
  A default contract of the wallet as \<open>resolveDelegateAddress\<close> looks at it: its address, and
  what the handler, the key reference and the identity say about its key.
\<close>

record default_contract =
  Contract_Script :: string
  Contract_Address :: string
  Contract_Handler :: err \<comment> \<open>\<open>manager.GetHandler\<close>\<close>
  Contract_KeyRef :: err \<comment> \<open>\<open>handler.GetKeyRef\<close>\<close>
  Contract_KeyIndex :: "string + u32" \<comment> \<open>\<open>Identity().GetKeyIndex\<close>\<close>

text \<open>\<open>Inr None\<close>: no contract of the list is the one at index 0.\<close>

fun scan_contracts :: "default_contract list \<Rightarrow> string + string option" where
  "scan_contracts [] = Inr None"
| "scan_contracts (c # cs) =
     (case Contract_Handler c of
        Some e \<Rightarrow> Inl (''failed to get handler for contract '' @ Contract_Script c @ '': '' @ e)
      | None \<Rightarrow>
         (case Contract_KeyRef c of
            Some e \<Rightarrow> Inl (''failed to get key ref for contract '' @ Contract_Script c @ '': '' @ e)
          | None \<Rightarrow>
             (case Contract_KeyIndex c of
                Inl _ \<Rightarrow> scan_contracts cs
              | Inr index \<Rightarrow> if index = 0 then Inr (Some (Contract_Address c)) else scan_contracts cs)))"

definition resolveDelegateAddress ::
  "(string + default_contract list) \<Rightarrow> (string + string) \<Rightarrow> string + string" where
  "resolveDelegateAddress contracts newAddress =
     (case contracts of
        Inl e \<Rightarrow> Inl (''failed to list default contracts: '' @ e)
      | Inr cs \<Rightarrow>
         (case scan_contracts cs of
            Inl e \<Rightarrow> Inl e
          | Inr (Some addr) \<Rightarrow> Inr addr
          | Inr None \<Rightarrow> newAddress))"

text \<open>
  What one call sees of its surroundings: the state guard, the wallet, the server's config, the
  indexer, the clock and \<open>uuid.New\<close>. The cached address is state.
\<close>

record call_env =
  env_unlocked :: err \<comment> \<open>\<open>isInitializedAndUnlocked\<close>\<close>
  env_contracts :: "string + default_contract list"
  env_new_address :: "string + string"
  env_config :: "string + client_config"
  env_vtxos :: "outpoint list \<Rightarrow> string + vtxo list"
  env_uuid :: string
  env_now :: go_time

definition getDelegateAddress ::
  "crypto \<Rightarrow> call_env \<Rightarrow> address option \<Rightarrow> (string + address) \<times> address option" where
  "getDelegateAddress L env cached =
     (case cached of
        Some addr \<Rightarrow> (Inr addr, cached)
      | None \<Rightarrow>
         (case env_unlocked env of
            Some e \<Rightarrow> (Inl e, cached)
          | None \<Rightarrow>
             (case resolveDelegateAddress (env_contracts env) (env_new_address env) of
                Inl e \<Rightarrow> (Inl e, cached)
              | Inr addr \<Rightarrow>
                 (case DecodeAddressV0 L addr of
                    Inl e \<Rightarrow> (Inl e, cached)
                  | Inr decodedAddr \<Rightarrow> (Inr decodedAddr, Some decodedAddr)))))"

section \<open>newDelegateTask\<close>

record register_message =
  ValidAt :: int
  EncodedMessage :: "string + string" \<comment> \<open>\<open>message.Encode()\<close>\<close>

text \<open>The intent proof: the transaction, and what \<open>GetOutpoints\<close> and \<open>B64Encode\<close> return for it.\<close>

record intent_proof =
  ProofTx :: psbt
  ProofOutpoints :: "outpoint list"
  EncodedProof :: "string + string"

definition maxDelegateSchedulingWindow :: int where
  "maxDelegateSchedulingWindow = 31 * 24 * hour"

definition schedule_time :: "go_time \<Rightarrow> int \<Rightarrow> string + go_time" where
  "schedule_time now validAt =
     (if validAt > 0
      then if time_of_unix validAt > now + maxDelegateSchedulingWindow
           then Inl ''valid at is beyond the scheduling horizon''
           else Inr (time_of_unix validAt)
      else Inr now)"

fun index_forfeits :: "crypto \<Rightarrow> psbt list \<Rightarrow> (outpoint \<times> string) list \<Rightarrow> string + (outpoint \<times> string) list" where
  "index_forfeits L [] m = Inr m"
| "index_forfeits L (forfeit # forfeits) m =
     (if length (TxIn forfeit) \<noteq> 1 then Inl ''invalid number of inputs''
      else
       (case B64Encode L forfeit of
          Inl e \<Rightarrow> Inl (''failed to encode forfeit: '' @ e)
        | Inr encoded \<Rightarrow>
            index_forfeits L forfeits (AList.update (PreviousOutPoint (TxIn forfeit ! 0)) encoded m)))"

fun check_vtxos :: "nat \<Rightarrow> vtxo list \<Rightarrow> string + unit" where
  "check_vtxos i [] = Inr ()"
| "check_vtxos i (v # vs) =
     (if Spent v then Inl (''input '' @ format_uint i @ '' is already spent'')
      else if Unrolled v then Inl (''input '' @ format_uint i @ '' is unrolled'')
      else check_vtxos (Suc i) vs)"

text \<open>The part of \<open>newDelegateTask\<close> after the delegate address is known.\<close>

definition build_delegate_task ::
  "crypto \<Rightarrow> call_env \<Rightarrow> pubkey \<Rightarrow> u64 \<Rightarrow> register_message \<Rightarrow> intent_proof \<Rightarrow> psbt list \<Rightarrow>
     string \<Rightarrow> string \<Rightarrow> address \<Rightarrow> string + delegate_task" where
  "build_delegate_task L env publicKey fee message proof forfeitTxs encodedMessage encodedProof delegateAddr =
     (case GetPkScript L delegateAddr of Inl e \<Rightarrow> Inl e | Inr delegateAddrScript \<Rightarrow>
      (case findDelegateFeeOutput (TxOut (ProofTx proof)) delegateAddrScript of (feeAmount, feePaidToUs) \<Rightarrow>
       (case schedule_time (env_now env) (ValidAt message) of Inl e \<Rightarrow> Inl e | Inr scheduledAt \<Rightarrow>
         if ProofOutpoints proof = [] then Inl ''invalid number of inputs: got 0, expected at least 1''
         else
         (case index_forfeits L forfeitTxs [] of Inl e \<Rightarrow> Inl e | Inr indexedForfeitTxs \<Rightarrow>
          (case EncodeV0 L delegateAddr of Inl e \<Rightarrow> Inl e | Inr encodedDelegateAddr \<Rightarrow>
           (case validateDelegateFee fee feeAmount feePaidToUs encodedDelegateAddr of Inl e \<Rightarrow> Inl e | Inr _ \<Rightarrow>
             if \<not> list_all (\<lambda>(input, _). input \<in> set (ProofOutpoints proof)) indexedForfeitTxs
             then Inl ''forfeit tx input is not referenced in the intent''
             else
             (case env_vtxos env (ProofOutpoints proof) of
                Inl e \<Rightarrow> Inl (''failed to get vtxos: '' @ e)
              | Inr vtxos \<Rightarrow>
                 if length vtxos \<noteq> length (ProofOutpoints proof)
                 then Inl (''expected '' @ format_uint (length (ProofOutpoints proof)) @ '' vtxos, got ''
                           @ format_uint (length vtxos))
                 else
                 (case check_vtxos 0 vtxos of Inl e \<Rightarrow> Inl e | Inr _ \<Rightarrow>
                   Inr \<lparr>ID = env_uuid env,
                        Intent = \<lparr>Message = encodedMessage, Proof = encodedProof,
                                  Txid = TxID L (ProofTx proof), Inputs = ProofOutpoints proof\<rparr>,
                        ForfeitTxs = indexedForfeitTxs, Fee = feeAmount,
                        DelegatePublicKey = hex_encode (SerializeCompressed L publicKey),
                        ScheduledAt = scheduledAt, Status = DelegateTaskStatusPending,
                        FailReason = [], CommitmentTxid = []\<rparr>))))))))"

definition newDelegateTask ::
  "crypto \<Rightarrow> call_env \<Rightarrow> pubkey \<Rightarrow> u64 \<Rightarrow> register_message \<Rightarrow> intent_proof \<Rightarrow> psbt list \<Rightarrow>
     address option \<Rightarrow> (string + delegate_task) \<times> address option" where
  "newDelegateTask L env publicKey fee message proof forfeitTxs cached =
     (case env_config env of Inl e \<Rightarrow> (Inl e, cached) | Inr cfg \<Rightarrow>
      (case validateForfeits L publicKey cfg forfeitTxs of Inl e \<Rightarrow> (Inl e, cached) | Inr _ \<Rightarrow>
       (case EncodedMessage message of
          Inl e \<Rightarrow> (Inl (''failed to encode intent message: '' @ e), cached)
        | Inr encodedMessage \<Rightarrow>
        (case EncodedProof proof of
           Inl e \<Rightarrow> (Inl (''failed to encode intent proof: '' @ e), cached)
         | Inr encodedProof \<Rightarrow>
           (case getDelegateAddress L env cached of
              (Inl e, cached') \<Rightarrow> (Inl e, cached')
            | (Inr delegateAddr, cached') \<Rightarrow>
                (build_delegate_task L env publicKey fee message proof forfeitTxs
                   encodedMessage encodedProof delegateAddr, cached'))))))"

text \<open>\<open>GetInfo\<close>: the key, the fee and the address a client builds its intent with.\<close>

record delegateInfo =
  Info_PubKey :: string
  Info_Fee :: u64
  Info_Address :: string

definition GetInfo ::
  "crypto \<Rightarrow> call_env \<Rightarrow> pubkey option \<Rightarrow> u64 \<Rightarrow> address option \<Rightarrow>
     (string + delegateInfo) \<times> address option" where
  "GetInfo L env publicKey fee cached =
     (case publicKey of
        None \<Rightarrow> (Inl ''service not ready'', cached)
      | Some pk \<Rightarrow>
         (case getDelegateAddress L env cached of
            (Inl e, cached') \<Rightarrow> (Inl e, cached')
          | (Inr addr, cached') \<Rightarrow>
             (case EncodeV0 L addr of
                Inl e \<Rightarrow> (Inl e, cached')
              | Inr encodedAddr \<Rightarrow>
                  (Inr \<lparr>Info_PubKey = hex_encode (SerializeCompressed L pk), Info_Fee = fee,
                        Info_Address = encodedAddr\<rparr>, cached'))))"

section \<open>What the checks accept\<close>

text \<open>
  The conditions on one forfeit, as a client has to meet them: two outputs (the server's, then
  the anchor) and one input, complete input data, the amount, a leaf that names the delegate
  among the signers of a closure of one of the three accepted kinds, and a valid signature.
\<close>

fun accepted_closure :: "closure \<Rightarrow> bool" where
  "accepted_closure (CSVMultisigClosure _) = False"
| "accepted_closure (OtherClosure _) = False"
| "accepted_closure _ = True"

definition forfeit_valid :: "crypto \<Rightarrow> pubkey \<Rightarrow> u64 \<Rightarrow> bytes \<Rightarrow> psbt \<Rightarrow> bool" where
  "forfeit_valid L pk dust scr f \<longleftrightarrow>
     (\<exists>out anchor tin inp utxo sig leaf cl msg signer s.
        TxOut f = [out, anchor] \<and> TxIn f = [tin] \<and> PInputs f = [inp]
      \<and> PkScript out = scr \<and> PkScript anchor = ANCHOR_PKSCRIPT L
      \<and> WitnessUtxo inp = Some utxo \<and> TaprootScriptSpendSig inp = [sig] \<and> TaprootLeafScript inp = [leaf]
      \<and> Value out = dust + Value utxo
      \<and> LeafHash sig = TapLeafHash L BaseLeafVersion (LeafScript leaf)
      \<and> DecodeClosure L (LeafScript leaf) = Inr cl \<and> accepted_closure cl
      \<and> list_ex (\<lambda>k. SerializePubKey L k = SerializePubKey L pk) (closure_pubkeys cl)
      \<and> SigHash sig = SigHashAll_AnyOneCanPay
      \<and> CalcSighash L [(PreviousOutPoint tin, utxo)] SigHashAll_AnyOneCanPay f (LeafScript leaf) = Inr msg
      \<and> ParsePubKey L (XOnlyPubKey sig) = Inr signer \<and> ParseSignature L (Signature sig) = Inr s
      \<and> Verify L s msg signer)"

lemma length_1: "length xs = Suc 0 \<longleftrightarrow> (\<exists>x. xs = [x])"
  by (cases xs) auto

lemma length_2: "length xs = 2 \<longleftrightarrow> (\<exists>x y. xs = [x, y])"
  by (auto simp: numeral_2_eq_2 length_Suc_conv)

lemma check_forfeit_outputs_Inr:
  "check_forfeit_outputs L scr f = Inr () \<longleftrightarrow>
     (\<exists>out anchor tin inp. TxOut f = [out, anchor] \<and> TxIn f = [tin] \<and> PInputs f = [inp]
        \<and> PkScript out = scr \<and> PkScript anchor = ANCHOR_PKSCRIPT L)"
  by (auto simp: check_forfeit_outputs_def length_1 length_2)

lemma check_forfeit_amount_Inr:
  "PInputs f = [inp] \<Longrightarrow> TxOut f = out # outs \<Longrightarrow>
   check_forfeit_amount dust f = Inr utxo \<longleftrightarrow>
     WitnessUtxo inp = Some utxo \<and> Value out = dust + Value utxo
     \<and> (\<exists>sig. TaprootScriptSpendSig inp = [sig]) \<and> (\<exists>leaf. TaprootLeafScript inp = [leaf])"
  by (auto simp: check_forfeit_amount_def length_1 split: option.splits)

lemma check_forfeit_leaf_Inr:
  "PInputs f = [inp] \<Longrightarrow> TaprootScriptSpendSig inp = [sig] \<Longrightarrow> TaprootLeafScript inp = [leaf] \<Longrightarrow>
   check_forfeit_leaf L pk f = Inr () \<longleftrightarrow>
     LeafHash sig = TapLeafHash L BaseLeafVersion (LeafScript leaf)
     \<and> (\<exists>cl. DecodeClosure L (LeafScript leaf) = Inr cl \<and> accepted_closure cl
            \<and> list_ex (\<lambda>k. SerializePubKey L k = SerializePubKey L pk) (closure_pubkeys cl))"
  by (auto simp: check_forfeit_leaf_def Let_def split: sum.splits closure.splits)

lemma check_forfeit_sig_Inr:
  "PInputs f = [inp] \<Longrightarrow> TaprootScriptSpendSig inp = [sig] \<Longrightarrow> TaprootLeafScript inp = [leaf] \<Longrightarrow>
   TxIn f = [tin] \<Longrightarrow>
   check_forfeit_sig L utxo f = Inr () \<longleftrightarrow>
     SigHash sig = SigHashAll_AnyOneCanPay
     \<and> (\<exists>msg signer s. CalcSighash L [(PreviousOutPoint tin, utxo)] SigHashAll_AnyOneCanPay f (LeafScript leaf) = Inr msg
          \<and> ParsePubKey L (XOnlyPubKey sig) = Inr signer \<and> ParseSignature L (Signature sig) = Inr s
          \<and> Verify L s msg signer)"
  by (auto simp: check_forfeit_sig_def Let_def split: sum.splits)

lemma validateForfeit_Inr: "validateForfeit L pk dust scr f = Inr () \<longleftrightarrow> forfeit_valid L pk dust scr f"
proof
  assume v: "validateForfeit L pk dust scr f = Inr ()"
  then obtain utxo where c: "check_forfeit_outputs L scr f = Inr ()" "check_forfeit_amount dust f = Inr utxo"
    "check_forfeit_leaf L pk f = Inr ()" "check_forfeit_sig L utxo f = Inr ()"
    by (auto simp: validateForfeit_def split: sum.splits)
  from c(1) obtain out anchor tin inp where o: "TxOut f = [out, anchor]" "TxIn f = [tin]" "PInputs f = [inp]"
    "PkScript out = scr" "PkScript anchor = ANCHOR_PKSCRIPT L"
    by (auto simp: check_forfeit_outputs_Inr)
  with c(2) obtain sig leaf where s: "TaprootScriptSpendSig inp = [sig]" "TaprootLeafScript inp = [leaf]"
    "WitnessUtxo inp = Some utxo" "Value out = dust + Value utxo"
    by (auto simp: check_forfeit_amount_Inr)
  from c(3,4) o s show "forfeit_valid L pk dust scr f"
    unfolding forfeit_valid_def check_forfeit_leaf_Inr [OF o(3) s(1,2)] check_forfeit_sig_Inr [OF o(3) s(1,2) o(2)]
    by simp
next
  assume "forfeit_valid L pk dust scr f"
  then obtain out anchor tin inp utxo sig leaf where o: "TxOut f = [out, anchor]" "TxIn f = [tin]"
    "PInputs f = [inp]" "PkScript out = scr" "PkScript anchor = ANCHOR_PKSCRIPT L"
    and s: "TaprootScriptSpendSig inp = [sig]" "TaprootLeafScript inp = [leaf]"
    "WitnessUtxo inp = Some utxo" "Value out = dust + Value utxo"
    and l: "check_forfeit_leaf L pk f = Inr ()" "check_forfeit_sig L utxo f = Inr ()"
    unfolding forfeit_valid_def
    by (elim exE conjE) (simp add: check_forfeit_leaf_Inr check_forfeit_sig_Inr)
  have "check_forfeit_outputs L scr f = Inr ()" using o by (simp add: check_forfeit_outputs_Inr)
  moreover have "check_forfeit_amount dust f = Inr utxo" using o s by (simp add: check_forfeit_amount_Inr)
  ultimately show "validateForfeit L pk dust scr f = Inr ()"
    using l by (simp add: validateForfeit_def)
qed

lemma validate_each_Inr: "validate_each check xs = Inr () \<longleftrightarrow> list_all (\<lambda>x. check x = Inr ()) xs"
  by (induction xs) (auto split: sum.splits)

text \<open>
  C23: a delegation's forfeits are accepted exactly when the server's forfeit address resolves to
  a script and every forfeit meets the conditions above for that script, the delegate's key and
  the dust amount.
\<close>

theorem validateForfeits_accepts:
  "validateForfeits L pk cfg fs = Inr () \<longleftrightarrow>
     (\<exists>addr scr. DecodeBtcAddress L (ForfeitAddress cfg) = Inr addr \<and> PayToAddrScript L addr = Inr scr
        \<and> list_all (forfeit_valid L pk (Dust cfg) scr) fs)"
  by (auto simp: validateForfeits_def validate_each_Inr validateForfeit_Inr split: sum.splits)

lemma sint_nonneg_uint: "0 \<le> sint (w :: u64) \<Longrightarrow> sint w = uint w"
proof (transfer, simp only: len_bit0 len_num1, goal_cases)
  case (1 w)
  then have "\<not> bit w 63" by simp
  then show ?case
    by (simp add: signed_take_bit_eq_if_positive take_bit_Suc_from_most [of 63 w, simplified])
qed

lemma fee_accepted:
  "validateDelegateFee requiredFee paid paidToUs addr = Inr () \<longleftrightarrow>
     requiredFee = 0 \<or> (paidToUs \<and> uint requiredFee \<le> sint paid)"
proof (cases "0 \<le> sint paid")
  case True
  then show ?thesis by (simp add: validateDelegateFee_def sint_nonneg_uint word_less_def not_less)
next
  case False
  moreover have "\<not> uint requiredFee \<le> sint paid" using False uint_nonnegative [of requiredFee] by linarith
  ultimately show ?thesis by (simp add: validateDelegateFee_def)
qed

text \<open>
  C24: the fee check passes exactly when no fee is required, or an output pays the delegate at
  least the fee, both amounts read as the integers they stand for: no negative amount and no
  wrap-around of the conversion to \<open>uint64\<close> gets through.
\<close>

theorem validateDelegateFee_accepts:
  "validateDelegateFee requiredFee paid paidToUs addr = Inr () \<longleftrightarrow>
     requiredFee = 0 \<or> (paidToUs \<and> uint requiredFee \<le> sint paid)"
  by (rule fee_accepted)

lemma findDelegateFeeOutput_find:
  "findDelegateFeeOutput outs scr =
     (case find (\<lambda>out. PkScript out = scr) outs of None \<Rightarrow> (0, False) | Some out \<Rightarrow> (Value out, True))"
  by (induction outs) auto

section \<open>What newDelegateTask returns\<close>

lemma index_forfeits_map:
  assumes enc: "\<And>f s. B64Encode L f = Inr s \<Longrightarrow> s \<noteq> []"
  shows "index_forfeits L fs m = Inr m' \<Longrightarrow> distinct (map fst m) \<Longrightarrow> \<forall>k. map_of m k \<noteq> Some [] \<Longrightarrow>
    distinct (map fst m') \<and> (\<forall>k. map_of m' k \<noteq> Some [])"
proof (induction fs arbitrary: m)
  case Nil
  then show ?case by simp
next
  case (Cons f fs)
  then obtain s where s: "B64Encode L f = Inr s"
    and rest: "index_forfeits L fs (AList.update (PreviousOutPoint (TxIn f ! 0)) s m) = Inr m'"
    by (auto split: if_splits sum.splits)
  from enc [OF s] Cons.prems have "\<forall>k. map_of (AList.update (PreviousOutPoint (TxIn f ! 0)) s m) k \<noteq> Some []"
    by (simp add: update_conv)
  with Cons.IH [OF rest] Cons.prems show ?case by (simp add: distinct_update)
qed

lemma check_vtxos_Inr: "check_vtxos i vs = Inr () \<longleftrightarrow> list_all (\<lambda>v. \<not> Spent v \<and> \<not> Unrolled v) vs"
  by (induction vs arbitrary: i) auto

lemma schedule_time_Inr:
  "schedule_time now validAt = Inr at \<Longrightarrow>
     at \<le> now + maxDelegateSchedulingWindow \<and> at = (if validAt > 0 then time_of_unix validAt else now)"
  by (auto simp: schedule_time_def maxDelegateSchedulingWindow_def hour_def second_def split: if_splits)

text \<open>A task as \<open>newDelegateTask\<close> may return it to \<open>Delegate\<close>.\<close>

definition task_valid :: "call_env \<Rightarrow> u64 \<Rightarrow> delegate_task \<Rightarrow> bool" where
  "task_valid env fee t \<longleftrightarrow>
     storable t \<and> ID t = env_uuid env \<and> Inputs (Intent t) \<noteq> []
     \<and> ScheduledAt t \<le> env_now env + maxDelegateSchedulingWindow
     \<and> (fee = 0 \<or> uint fee \<le> sint (Fee t))
     \<and> (\<exists>vs. env_vtxos env (Inputs (Intent t)) = Inr vs \<and> length vs = length (Inputs (Intent t))
          \<and> list_all (\<lambda>v. \<not> Spent v \<and> \<not> Unrolled v) vs)"

lemma build_delegate_task_valid:
  assumes enc: "\<And>f s. B64Encode L f = Inr s \<Longrightarrow> s \<noteq> []"
    and b: "build_delegate_task L env pk fee message proof fs em ep addr = Inr t"
  shows "task_valid env fee t"
proof -
  from b obtain scr feeAmount paid at fm ea vs where
      c: "findDelegateFeeOutput (TxOut (ProofTx proof)) scr = (feeAmount, paid)"
      "schedule_time (env_now env) (ValidAt message) = Inr at" "ProofOutpoints proof \<noteq> []"
      "index_forfeits L fs [] = Inr fm" "validateDelegateFee fee feeAmount paid ea = Inr ()"
      "list_all (\<lambda>(input, _). input \<in> set (ProofOutpoints proof)) fm"
      "env_vtxos env (ProofOutpoints proof) = Inr vs" "length vs = length (ProofOutpoints proof)"
      "check_vtxos 0 vs = Inr ()"
    and t: "t = \<lparr>ID = env_uuid env,
        Intent = \<lparr>Message = em, Proof = ep, Txid = TxID L (ProofTx proof), Inputs = ProofOutpoints proof\<rparr>,
        ForfeitTxs = fm, Fee = feeAmount, DelegatePublicKey = hex_encode (SerializeCompressed L pk),
        ScheduledAt = at, Status = DelegateTaskStatusPending, FailReason = [], CommitmentTxid = []\<rparr>"
    by (auto simp: build_delegate_task_def split: sum.splits prod.splits if_splits)
  have "distinct (map fst fm) \<and> (\<forall>k. map_of fm k \<noteq> Some [])"
    by (rule index_forfeits_map [OF _ c(4)]) (simp_all add: enc)
  then have fm: "distinct (map fst fm)" "\<forall>k. map_of fm k \<noteq> Some []" by auto
  then have "(k, f) \<in> set fm \<Longrightarrow> f \<noteq> []" for k f by (metis map_of_is_SomeI)
  with fm c(6) have "storable t" by (fastforce simp: storable_def t list_all_iff)
  moreover have "fee = 0 \<or> uint fee \<le> sint feeAmount" using c(5) fee_accepted by blast
  ultimately show ?thesis
    using c schedule_time_Inr [OF c(2)] by (simp add: task_valid_def t check_vtxos_Inr)
qed

lemma newDelegateTask_valid:
  assumes enc: "\<And>f s. B64Encode L f = Inr s \<Longrightarrow> s \<noteq> []"
    and n: "newDelegateTask L env pk fee message proof fs cached = (Inr t, cached')"
  shows "task_valid env fee t"
proof -
  from n obtain em ep addr where "build_delegate_task L env pk fee message proof fs em ep addr = Inr t"
    by (auto simp: newDelegateTask_def split: sum.splits prod.splits)
  from build_delegate_task_valid [OF _ this] enc show ?thesis by blast
qed

lemma newDelegateTask_Txid:
  "newDelegateTask L env pk fee message proof fs c = (Inr t, c') \<Longrightarrow> Txid (Intent t) = TxID L (ProofTx proof)"
  by (auto simp: newDelegateTask_def build_delegate_task_def split: sum.splits prod.splits if_splits)

section \<open>The delegate address\<close>

lemma scan_contracts_find:
  "list_all (\<lambda>c. Contract_Handler c = None \<and> Contract_KeyRef c = None) cs \<Longrightarrow>
     scan_contracts cs = Inr (map_option Contract_Address (find (\<lambda>c. Contract_KeyIndex c = Inr 0) cs))"
  by (induction cs) (auto split: sum.splits)

lemma getDelegateAddress_cached:
  "getDelegateAddress L env cached = (Inr addr, cached') \<Longrightarrow>
     getDelegateAddress L env' cached' = (Inr addr, cached')"
  by (auto simp: getDelegateAddress_def split: option.splits sum.splits)

end
