(* ===== verification/Scheduler.thy ===== *)
theory Scheduler
  imports Prelude "HOL-Library.Multiset"
begin

text \<open>
  \<open>internal/infrastructure/scheduler/gocron/service.go\<close>: one-shot tasks at a time, tasks at a
  block height, and the single settlement job. A task is a value of type \<open>'a\<close>; an operation that
  starts goroutines returns the list of the tasks it started. The library \<open>gocron\<close> keeps jobs
  and runs each once when it is due; \<open>doErr\<close> is what its \<open>Do\<close> answers. The clock is the
  argument \<open>now\<close>.

  The closure of a settlement job runs in a goroutine of its own: it looks at its context
  (\<open>settle_check\<close>), later takes the lock and clears \<open>s.job\<close> (\<open>settle_run\<close>). Between the two the
  other operations may run.
\<close>

record 'a settlement =
  s_id :: nat \<comment> \<open>the identity of the job and of its context\<close>
  s_at :: go_time
  s_task :: 'a

record 'a sched =
  running :: bool \<comment> \<open>\<open>blockCancel != nil\<close>\<close>
  timed :: "(go_time \<times> 'a) list" \<comment> \<open>one-shot jobs held by gocron\<close>
  job :: "'a settlement option"
  due :: "'a settlement list" \<comment> \<open>settlement closures entered, context not looked at yet\<close>
  passed :: "'a settlement list" \<comment> \<open>settlement closures past their context check\<close>
  stopped :: "nat list" \<comment> \<open>cancelled contexts\<close>
  tasks :: "(u32 \<times> 'a) list"
  fresh :: nat

definition NewScheduler :: "'a sched" where
  "NewScheduler = \<lparr>running = False, timed = [], job = None, due = [], passed = [], stopped = [],
                   tasks = [], fresh = 0\<rparr>"

section \<open>Start, Stop, and the block poller\<close>

definition sched_Start :: "'a sched \<Rightarrow> 'a sched" where
  "sched_Start s = (if running s then s else s\<lparr>running := True\<rparr>)"

definition sched_Stop :: "'a sched \<Rightarrow> 'a sched" where
  "sched_Stop s = s\<lparr>timed := [], job := None, tasks := [], running := False\<rparr>"

text \<open>
  One round of the poller: \<open>h\<close> is the height the explorer answered, an error leaves the tasks.
  The height is an \<open>int64\<close> converted to \<open>uint32\<close>.
\<close>

definition poll_height :: "(string + int) \<Rightarrow> 'a sched \<Rightarrow> 'a list \<times> 'a sched" where
  "poll_height h s =
     (case h of
        Inl _ \<Rightarrow> ([], s)
      | Inr height \<Rightarrow>
          (map snd (filter (\<lambda>(target, fn). target \<le> of_int height) (tasks s)),
           s\<lparr>tasks := filter (\<lambda>(target, fn). \<not> target \<le> of_int height) (tasks s)\<rparr>))"

definition ScheduleTaskAtHeight ::
  "u32 \<Rightarrow> (string + int) \<Rightarrow> 'a \<Rightarrow> 'a sched \<Rightarrow> err \<times> 'a list \<times> 'a sched" where
  "ScheduleTaskAtHeight target h task s =
     (if target = 0 then (Some (''invalid height: '' @ format_uint (unat target)), [], s)
      else
       (case h of
          Inl e \<Rightarrow> (Some (''failed to get current block height: '' @ e), [], s)
        | Inr height \<Rightarrow>
            if target \<le> of_int height then (None, [task], s)
            else (None, [], s\<lparr>tasks := tasks s @ [(target, task)]\<rparr>)))"

section \<open>Tasks at a time\<close>

definition ScheduleTaskAtTime ::
  "go_time \<Rightarrow> err \<Rightarrow> go_time \<Rightarrow> 'a \<Rightarrow> 'a sched \<Rightarrow> err \<times> 'a list \<times> 'a sched" where
  "ScheduleTaskAtTime now doErr at task s =
     (if IsZero at then (Some ''invalid schedule time'', [], s)
      else if at - now \<le> 0 then (None, [task], s)
      else
       (case doErr of
          Some e \<Rightarrow> (Some e, [], s)
        | None \<Rightarrow> (None, [], s\<lparr>timed := timed s @ [(at, task)]\<rparr>)))"

text \<open>gocron, once started: the jobs that are due run, each once.\<close>

definition run_due :: "go_time \<Rightarrow> 'a sched \<Rightarrow> 'a list \<times> 'a sched" where
  "run_due now s =
     (if running s
      then (map snd (filter (\<lambda>(at, task). at \<le> now) (timed s)),
            s\<lparr>timed := filter (\<lambda>(at, task). \<not> at \<le> now) (timed s)\<rparr>)
      else ([], s))"

section \<open>The next settlement\<close>

definition CancelNextSettlement :: "'a sched \<Rightarrow> 'a sched" where
  "CancelNextSettlement s =
     (case job s of None \<Rightarrow> s | Some j \<Rightarrow> s\<lparr>job := None, stopped := s_id j # stopped s\<rparr>)"

definition ScheduleNextSettlement ::
  "go_time \<Rightarrow> err \<Rightarrow> go_time \<Rightarrow> 'a \<Rightarrow> 'a sched \<Rightarrow> err \<times> 'a list \<times> 'a sched" where
  "ScheduleNextSettlement now doErr at settleFunc s =
     (if IsZero at then (Some ''invalid schedule time'', [], s)
      else
       (let s1 = CancelNextSettlement s
        in if at - now \<le> 0 then (None, [settleFunc], s1)
           else
            (case doErr of
               Some e \<Rightarrow> (Some e, [], s1)
             | None \<Rightarrow>
                 (None, [], s1\<lparr>job := Some \<lparr>s_id = fresh s1, s_at = at, s_task = settleFunc\<rparr>,
                               fresh := Suc (fresh s1)\<rparr>))))"

definition WhenNextSettlement :: "'a sched \<Rightarrow> go_time" where
  "WhenNextSettlement s = (case job s of None \<Rightarrow> zero_time | Some j \<Rightarrow> s_at j)"

text \<open>gocron enters the closure of the settlement job; \<open>s.job\<close> is still set.\<close>

definition settle_fire :: "go_time \<Rightarrow> 'a sched \<Rightarrow> 'a sched" where
  "settle_fire now s =
     (case job s of
        None \<Rightarrow> s
      | Some j \<Rightarrow> if running s \<and> s_at j \<le> now \<and> j \<notin> set (due s) \<union> set (passed s)
                  then s\<lparr>due := due s @ [j]\<rparr> else s)"

definition settle_check :: "'a sched \<Rightarrow> 'a sched" where
  "settle_check s =
     (case due s of
        [] \<Rightarrow> s
      | j # js \<Rightarrow> if s_id j \<in> set (stopped s) then s\<lparr>due := js\<rparr>
                  else s\<lparr>due := js, passed := passed s @ [j]\<rparr>)"

definition settle_run :: "'a sched \<Rightarrow> 'a list \<times> 'a sched" where
  "settle_run s =
     (case passed s of
        [] \<Rightarrow> ([], s)
      | j # js \<Rightarrow> ([s_task j], s\<lparr>passed := js, job := None\<rparr>))"

section \<open>Lemmas\<close>

lemma ScheduleTaskAtTime_cases:
  "ScheduleTaskAtTime now doErr at task s = (er, started, s') \<Longrightarrow>
     (er \<noteq> None \<and> started = [] \<and> s' = s)
     \<or> (er = None \<and> at \<le> now \<and> started = [task] \<and> s' = s)
     \<or> (er = None \<and> now < at \<and> started = [] \<and> s' = s\<lparr>timed := timed s @ [(at, task)]\<rparr>)"
  by (auto simp: ScheduleTaskAtTime_def split: if_splits option.splits)

text \<open>
  No task is lost or started twice by a round of the block poller: the tasks it starts and
  those it keeps are the tasks that were registered, with their multiplicities, and exactly
  those whose target the height has reached are started.
\<close>

theorem poll_height_partition:
  "(case poll_height (Inr h) s of (started, s') \<Rightarrow>
      mset started + mset (map snd (tasks s')) = mset (map snd (tasks s))
      \<and> started = map snd (filter (\<lambda>(target, _). target \<le> of_int h) (tasks s))
      \<and> list_all (\<lambda>(target, _). of_int h < target) (tasks s'))"
proof -
  have "mset (map snd (filter P xs)) + mset (map snd (filter (\<lambda>x. \<not> P x) xs)) = mset (map snd xs)"
    for P and xs :: "(u32 \<times> 'a) list"
    by (induction xs) auto
  from this [of "\<lambda>x. fst x \<le> of_int h" "tasks s"] show ?thesis
    by (simp add: poll_height_def list_all_iff case_prod_beta' not_le)
qed

text \<open>
  Between the context check of a settlement job that has fired and its turn at the lock, a
  new settlement may be scheduled. The old closure then clears \<open>s.job\<close>, which is the new job by
  now: the settlement just scheduled, for a time still ahead, is gone.
\<close>

theorem settlement_replaced_while_firing_is_lost:
  "let s0 = NewScheduler\<lparr>running := True\<rparr>;
       s1 = snd (snd (ScheduleNextSettlement 0 None 10 ''first'' s0));
       s2 = settle_check (settle_fire 10 s1);
       (er, started, s3) = ScheduleNextSettlement 10 None 500 ''second'' s2;
       (ran, s4) = settle_run s3
   in er = None \<and> started = [] \<and> WhenNextSettlement s3 = 500
      \<and> ran = [''first''] \<and> job s4 = None \<and> WhenNextSettlement s4 = zero_time"
  by (simp add: NewScheduler_def ScheduleNextSettlement_def CancelNextSettlement_def settle_fire_def
      settle_check_def settle_run_def WhenNextSettlement_def IsZero_def zero_time_def
      time_of_unix_def second_def)

end
