(* ===== verification/DelegateService.thy ===== *)
theory DelegateService
  imports DelegateValidation Scheduler
begin

text \<open>
  The delegate service (\<open>internal/core/application/delegate_service.go\<close>) over any repository:
  its state, its operations, and the relation \<open>delegate_step\<close> of all interleavings.

  The mutex \<open>delegateMtx\<close> is the field \<open>lock\<close>. A locked section is cut at every repository call,
  since \<open>registerDelegate\<close> and \<open>OnBatchFinalized\<close> write to the repository without the mutex. The
  functions named as in the code compose these pieces with no interleaving.
\<close>

section \<open>State\<close>

record registered_intent =
  taskID :: string
  intentID :: string
  ri_inputs :: "outpoint list"

text \<open>The program counter of the goroutine that holds \<open>delegateMtx\<close>.\<close>

datatype locked =
    Unlocked
  | ReplacePhase delegate_task "string list" \<comment> \<open>\<open>Delegate\<close>, about to cancel these tasks\<close>
  | AddPhase delegate_task \<comment> \<open>\<open>Delegate\<close>, about to add the task\<close>
  | MonitorPhase "string list" \<comment> \<open>the monitor, about to cancel these tasks\<close>

record 's dstate =
  repo :: 's
  registeredIntents :: "(string \<times> registered_intent) list" \<comment> \<open>a map, by intent hash\<close>
  sched :: "string sched" \<comment> \<open>a scheduled task is \<open>registerDelegate\<close> of an id\<close>
  started :: "string list" \<comment> \<open>goroutines about to run \<open>registerDelegate\<close>\<close>
  loaded :: "(string \<times> delegate_task) list" \<comment> \<open>\<open>registerDelegate\<close> past its read\<close>
  prepared :: "(delegate_task \<times> bool) list" \<comment> \<open>\<open>Delegate\<close> waiting for the mutex\<close>
  lock :: locked
  spentVtxos :: "outpoint list"
  captured :: "outpoint list"
  batches :: "registered_intent list list" \<comment> \<open>\<open>runDelegateBatch\<close> goroutines\<close>
  cachedDelegateAddress :: "address option"

definition newDelegateService :: "'s \<Rightarrow> 's dstate" where
  "newDelegateService r =
     \<lparr>repo = r, registeredIntents = [], sched = NewScheduler, started = [], loaded = [],
      prepared = [], lock = Unlocked, spentVtxos = [], captured = [], batches = [],
      cachedDelegateAddress = None\<rparr>"

definition intentIDHash :: "(bytes \<Rightarrow> bytes) \<Rightarrow> registered_intent \<Rightarrow> string" where
  "intentIDHash sha i = hex_encode (sha (map of_char (intentID i)))"

section \<open>Delegate\<close>

text \<open>Up to the lock: \<open>Inr None\<close> is a duplicate, which is not an error.\<close>

definition Delegate_prepare ::
  "'s delegate_repo \<Rightarrow> crypto \<Rightarrow> call_env \<Rightarrow> pubkey \<Rightarrow> u64 \<Rightarrow> register_message \<Rightarrow> intent_proof \<Rightarrow>
     psbt list \<Rightarrow> 's dstate \<Rightarrow> (string + delegate_task option) \<times> 's dstate" where
  "Delegate_prepare R L env pk fee message proof forfeitTxs s =
     (case env_unlocked env of
        Some e \<Rightarrow> (Inl e, s)
      | None \<Rightarrow>
         (case newDelegateTask L env pk fee message proof forfeitTxs (cachedDelegateAddress s) of
            (Inl e, addr) \<Rightarrow> (Inl e, s\<lparr>cachedDelegateAddress := addr\<rparr>)
          | (Inr task, addr) \<Rightarrow>
             (case GetPendingTaskByIntentTxID R (repo s) (Txid (Intent task)) of
                Inr _ \<Rightarrow> (Inr None, s\<lparr>cachedDelegateAddress := addr\<rparr>)
              | Inl _ \<Rightarrow> (Inr (Some task), s\<lparr>cachedDelegateAddress := addr\<rparr>))))"

datatype outcome = Returned err | Locked

text \<open>The lock is taken and the overlapping pending tasks are looked up.\<close>

definition Delegate_lock ::
  "'s delegate_repo \<Rightarrow> delegate_task \<Rightarrow> bool \<Rightarrow> 's dstate \<Rightarrow> outcome \<times> 's dstate" where
  "Delegate_lock R task allowReplace s =
     (case GetPendingTaskIDsByInputs R (repo s) (Inputs (Intent task)) of
        Inl e \<Rightarrow> (Returned (Some e), s)
      | Inr pendingTaskIDs \<Rightarrow>
         if pendingTaskIDs = [] then (Locked, s\<lparr>lock := AddPhase task\<rparr>)
         else if \<not> allowReplace
         then (Returned (Some ''there is a pending task with overlapping inputs''), s)
         else (Locked, s\<lparr>lock := ReplacePhase task pendingTaskIDs\<rparr>))"

definition Delegate_cancel ::
  "'s delegate_repo \<Rightarrow> delegate_task \<Rightarrow> string list \<Rightarrow> 's dstate \<Rightarrow> outcome \<times> 's dstate" where
  "Delegate_cancel R task pendingTaskIDs s =
     (case CancelTasks R (repo s) pendingTaskIDs of
        (Some e, r) \<Rightarrow> (Returned (Some (''failed to cancel pending tasks: '' @ e)), s\<lparr>repo := r, lock := Unlocked\<rparr>)
      | (None, r) \<Rightarrow> (Locked, s\<lparr>repo := r, lock := AddPhase task\<rparr>))"

text \<open>\<open>schedule\<close> is a call to \<open>ScheduleTaskAtTime\<close> with \<open>registerDelegate id\<close> as the task.\<close>

definition schedule ::
  "go_time \<Rightarrow> err \<Rightarrow> go_time \<Rightarrow> string \<Rightarrow> 's dstate \<Rightarrow> err \<times> 's dstate" where
  "schedule now doErr at i s =
     (case ScheduleTaskAtTime now doErr at i (sched s) of
        (er, run, sc) \<Rightarrow> (er, s\<lparr>sched := sc, started := started s @ run\<rparr>))"

definition Delegate_add ::
  "'s delegate_repo \<Rightarrow> go_time \<Rightarrow> err \<Rightarrow> delegate_task \<Rightarrow> 's dstate \<Rightarrow> err \<times> 's dstate" where
  "Delegate_add R now doErr task s =
     (case Add R (repo s) task of
        (Some e, r) \<Rightarrow> (Some e, s\<lparr>repo := r, lock := Unlocked\<rparr>)
      | (None, r) \<Rightarrow>
         (case schedule now doErr (ScheduledAt task) (ID task) (s\<lparr>repo := r\<rparr>) of
            (Some e, s1) \<Rightarrow>
              (Some (''failed to schedule delegate task: '' @ e),
               s1\<lparr>repo := snd (FailTasks R (repo s1) e [ID task]), lock := Unlocked\<rparr>)
          | (None, s1) \<Rightarrow> (None, s1\<lparr>lock := Unlocked\<rparr>)))"

definition Delegate ::
  "'s delegate_repo \<Rightarrow> crypto \<Rightarrow> call_env \<Rightarrow> pubkey \<Rightarrow> u64 \<Rightarrow> err \<Rightarrow> register_message \<Rightarrow> intent_proof \<Rightarrow>
     psbt list \<Rightarrow> bool \<Rightarrow> 's dstate \<Rightarrow> err \<times> 's dstate" where
  "Delegate R L env pk fee doErr message proof forfeitTxs allowReplace s =
     (case Delegate_prepare R L env pk fee message proof forfeitTxs s of
        (Inl e, s1) \<Rightarrow> (Some e, s1)
      | (Inr None, s1) \<Rightarrow> (None, s1)
      | (Inr (Some task), s1) \<Rightarrow>
         (case Delegate_lock R task allowReplace s1 of
            (Returned er, s2) \<Rightarrow> (er, s2)
          | (Locked, s2) \<Rightarrow>
             (case lock s2 of
                ReplacePhase t ids \<Rightarrow>
                 (case Delegate_cancel R t ids s2 of
                    (Returned er, s3) \<Rightarrow> (er, s3)
                  | (Locked, s3) \<Rightarrow> Delegate_add R (env_now env) doErr task s3)
              | _ \<Rightarrow> Delegate_add R (env_now env) doErr task s2)))"

section \<open>registerDelegate\<close>

definition registerDelegate_load :: "'s delegate_repo \<Rightarrow> string \<Rightarrow> 's dstate \<Rightarrow> (err + delegate_task) " where
  "registerDelegate_load R i s =
     (case GetByID R (repo s) i of
        Inl e \<Rightarrow> Inl (Some e)
      | Inr task \<Rightarrow> if Status task \<noteq> DelegateTaskStatusPending then Inl None else Inr task)"

text \<open>\<open>reg\<close> is what the server answers to \<open>RegisterIntent\<close>.\<close>

definition registerDelegate_call ::
  "'s delegate_repo \<Rightarrow> (bytes \<Rightarrow> bytes) \<Rightarrow> (string \<Rightarrow> string \<Rightarrow> string + string) \<Rightarrow> string \<Rightarrow> delegate_task \<Rightarrow>
     's dstate \<Rightarrow> err \<times> 's dstate" where
  "registerDelegate_call R sha reg i task s =
     (case reg (Proof (Intent task)) (Message (Intent task)) of
        Inl e \<Rightarrow> (case FailTasks R (repo s) e [i] of (er, r) \<Rightarrow> (er, s\<lparr>repo := r\<rparr>))
      | Inr intentId \<Rightarrow>
         (let ri = \<lparr>taskID = i, intentID = intentId, ri_inputs = Inputs (Intent task)\<rparr>
          in (None, s\<lparr>registeredIntents := AList.update (intentIDHash sha ri) ri (registeredIntents s)\<rparr>)))"

definition registerDelegate ::
  "'s delegate_repo \<Rightarrow> (bytes \<Rightarrow> bytes) \<Rightarrow> (string \<Rightarrow> string \<Rightarrow> string + string) \<Rightarrow> string \<Rightarrow>
     's dstate \<Rightarrow> err \<times> 's dstate" where
  "registerDelegate R sha reg i s =
     (case registerDelegate_load R i s of
        Inl er \<Rightarrow> (er, s)
      | Inr task \<Rightarrow> registerDelegate_call R sha reg i task s)"

section \<open>Start, Stop, restorePendingTasks\<close>

text \<open>\<open>ctxDone i\<close>: the context is cancelled at the \<open>i\<close>-th round of the loop.\<close>

fun restore_loop ::
  "(nat \<Rightarrow> bool) \<Rightarrow> go_time \<Rightarrow> (string \<Rightarrow> err) \<Rightarrow> nat \<Rightarrow> pending_delegate_task list \<Rightarrow> 's dstate \<Rightarrow> 's dstate" where
  "restore_loop ctxDone now doErr i [] s = s"
| "restore_loop ctxDone now doErr i (p # ps) s =
     (if ctxDone i then s
      else restore_loop ctxDone now doErr (Suc i) ps
             (snd (schedule now (doErr (Pending_ID p)) (Pending_ScheduledAt p) (Pending_ID p) s)))"

definition restorePendingTasks ::
  "'s delegate_repo \<Rightarrow> (nat \<Rightarrow> bool) \<Rightarrow> go_time \<Rightarrow> (string \<Rightarrow> err) \<Rightarrow> 's dstate \<Rightarrow> err \<times> 's dstate" where
  "restorePendingTasks R ctxDone now doErr s =
     (case GetAllPending R (repo s) of
        Inl e \<Rightarrow> (Some e, s)
      | Inr pendingTasks \<Rightarrow> (None, restore_loop ctxDone now doErr 0 pendingTasks s))"

definition delegate_Start ::
  "'s delegate_repo \<Rightarrow> go_time \<Rightarrow> (string \<Rightarrow> err) \<Rightarrow> 's dstate \<Rightarrow> 's dstate" where
  "delegate_Start R now doErr s = snd (restorePendingTasks R (\<lambda>_. False) now doErr s)"

definition delegate_Stop :: "'s dstate \<Rightarrow> 's dstate" where
  "delegate_Stop s = s\<lparr>cachedDelegateAddress := None\<rparr>"

section \<open>Batches\<close>

text \<open>\<open>listenBatchStartedEvents\<close>: the registered intents among the hashes of the event.\<close>

definition selectedTasks :: "string list \<Rightarrow> 's dstate \<Rightarrow> registered_intent list" where
  "selectedTasks hashedIntentIds s = List.map_filter (map_of (registeredIntents s)) hashedIntentIds"

definition BatchStarted :: "string list \<Rightarrow> 's dstate \<Rightarrow> 's dstate" where
  "BatchStarted hashedIntentIds s =
     (let sel = selectedTasks hashedIntentIds s
      in if sel = [] then s else s\<lparr>batches := batches s @ [sel]\<rparr>)"

definition OnBatchFinalized ::
  "'s delegate_repo \<Rightarrow> (bytes \<Rightarrow> bytes) \<Rightarrow> string \<Rightarrow> registered_intent list \<Rightarrow> 's dstate \<Rightarrow> err \<times> 's dstate" where
  "OnBatchFinalized R sha txid selected s =
     (case CompleteTasks R (repo s) txid (map taskID selected) of
        (er, r) \<Rightarrow>
          (er, s\<lparr>repo := r,
                registeredIntents := fold (\<lambda>t. AList.delete (intentIDHash sha t)) selected (registeredIntents s)\<rparr>))"

text \<open>\<open>OnBatchFailed\<close> runs \<open>registerDelegate\<close> for each task and always returns an error.\<close>

definition OnBatchFailed ::
  "'s delegate_repo \<Rightarrow> (bytes \<Rightarrow> bytes) \<Rightarrow> (string \<Rightarrow> string \<Rightarrow> string + string) \<Rightarrow> registered_intent list \<Rightarrow>
     's dstate \<Rightarrow> err \<times> 's dstate" where
  "OnBatchFailed R sha reg selected s =
     (Some ''batch failed'', fold (\<lambda>t s. snd (registerDelegate R sha reg (taskID t) s)) selected s)"

section \<open>Spent VTXOs\<close>

record spent_vtxo =
  Spent_Txid :: string
  Spent_VOut :: u32

record transaction_event =
  CommitmentTx :: "spent_vtxo list option"
  ArkTx :: "spent_vtxo list option"

fun vtxo_outpoints :: "(string \<Rightarrow> 256 word option) \<Rightarrow> spent_vtxo list \<Rightarrow> outpoint list" where
  "vtxo_outpoints hp [] = []"
| "vtxo_outpoints hp (v # vs) =
     (case hp (Spent_Txid v) of
        None \<Rightarrow> vtxo_outpoints hp vs
      | Some h \<Rightarrow> \<lparr>op_hash = h, op_index = Spent_VOut v\<rparr> # vtxo_outpoints hp vs)"

definition getSpentVtxosFromTransactionEvent ::
  "(string \<Rightarrow> 256 word option) \<Rightarrow> transaction_event \<Rightarrow> outpoint list" where
  "getSpentVtxosFromTransactionEvent hp event =
     vtxo_outpoints hp
       ((case CommitmentTx event of None \<Rightarrow> [] | Some vs \<Rightarrow> vs) @ (case ArkTx event of None \<Rightarrow> [] | Some vs \<Rightarrow> vs))"

definition monitor_event :: "(string \<Rightarrow> 256 word option) \<Rightarrow> transaction_event \<Rightarrow> 's dstate \<Rightarrow> 's dstate" where
  "monitor_event hp event s = s\<lparr>spentVtxos := spentVtxos s @ getSpentVtxosFromTransactionEvent hp event\<rparr>"

text \<open>A tick of the monitor: take the outpoints collected so far, then lock, look up and cancel.\<close>

definition monitor_capture :: "'s dstate \<Rightarrow> 's dstate" where
  "monitor_capture s = s\<lparr>captured := spentVtxos s, spentVtxos := []\<rparr>"

definition monitor_lock :: "'s delegate_repo \<Rightarrow> 's dstate \<Rightarrow> 's dstate" where
  "monitor_lock R s =
     (case GetPendingTaskIDsByInputs R (repo s) (captured s) of
        Inl _ \<Rightarrow> s
      | Inr ids \<Rightarrow> if ids = [] then s else s\<lparr>lock := MonitorPhase ids\<rparr>)"

definition monitor_cancel :: "'s delegate_repo \<Rightarrow> string list \<Rightarrow> 's dstate \<Rightarrow> err \<times> 's dstate" where
  "monitor_cancel R ids s =
     (case CancelTasks R (repo s) ids of (er, r) \<Rightarrow> (er, s\<lparr>repo := r, lock := Unlocked\<rparr>))"

definition monitor_tick :: "'s delegate_repo \<Rightarrow> 's dstate \<Rightarrow> 's dstate" where
  "monitor_tick R s =
     (let s1 = monitor_lock R (monitor_capture s)
      in case lock s1 of MonitorPhase ids \<Rightarrow> snd (monitor_cancel R ids s1) | _ \<Rightarrow> s1)"

end
