(* ===== verification/BatchHandler.thy ===== *)
theory BatchHandler
  imports DelegateService
begin

text \<open>
  Taking part in a batch: \<open>delegate_batch_handler.go\<close>, the event loop \<open>joinDelegateBatch\<close> of
  \<open>delegate_service.go\<close>, and the helpers of \<open>utils.go\<close> they use. The server's answers, the
  transaction trees and the musig2 session are library code: the functions of \<open>batch_lib\<close>, with
  a tree of type \<open>'t\<close>, its nodes of type \<open>'n\<close> and a session of type \<open>'z\<close>. The calls made to
  the server are returned, in order.
\<close>

section \<open>Helpers\<close>

datatype relative_locktime = LocktimeSecond u32 | LocktimeBlock u32

definition parseLocktime :: "u32 \<Rightarrow> relative_locktime" where
  "parseLocktime locktime = (if 512 \<le> locktime then LocktimeSecond locktime else LocktimeBlock locktime)"

text \<open>The first output that is not the anchor, with its outpoint.\<close>

fun find_connector :: "crypto \<Rightarrow> 256 word \<Rightarrow> nat \<Rightarrow> tx_out list \<Rightarrow> string + tx_out \<times> outpoint" where
  "find_connector L h i [] = Inl ''connector output not found''"
| "find_connector L h i (output # outputs) =
     (if PkScript output = ANCHOR_PKSCRIPT L then find_connector L h (Suc i) outputs
      else Inr (output, \<lparr>op_hash = h, op_index = of_nat i\<rparr>))"

definition extractConnector :: "crypto \<Rightarrow> psbt \<Rightarrow> string + tx_out \<times> outpoint" where
  "extractConnector L connectorTx = find_connector L (TxHash L connectorTx) 0 (TxOut connectorTx)"

fun closureHasPubkey :: "crypto \<Rightarrow> closure \<Rightarrow> bytes \<Rightarrow> bool" where
  "closureHasPubkey L (OtherClosure _) xonly = False"
| "closureHasPubkey L cl xonly = list_ex (\<lambda>key. SerializePubKey L key = xonly) (closure_pubkeys cl)"

section \<open>signForfeitWithDelegateKey\<close>

text \<open>The prevouts of all inputs; an input without its witness output is an error.\<close>

fun collect_prevouts :: "nat \<Rightarrow> psbt_input list \<Rightarrow> tx_in list \<Rightarrow> prevouts \<Rightarrow> string + prevouts" where
  "collect_prevouts i [] txins m = Inr m"
| "collect_prevouts i (inp # inps) [] m = Inl ''runtime error: index out of range''"
| "collect_prevouts i (inp # inps) (txin # txins) m =
     (case WitnessUtxo inp of
        None \<Rightarrow> Inl (''forfeit input '' @ format_uint i @ '': missing prevout'')
      | Some utxo \<Rightarrow> collect_prevouts (Suc i) inps txins (AList.update (PreviousOutPoint txin) utxo m))"

text \<open>
  One signature per leaf that names the delegate's key; the transaction signed is the one given,
  since signatures are not part of what the signature hash commits to.
\<close>

fun sign_leaves ::
  "crypto \<Rightarrow> prvkey \<Rightarrow> prevouts \<Rightarrow> psbt \<Rightarrow> u32 \<Rightarrow> tap_leaf list \<Rightarrow> tap_sig list \<Rightarrow> string + tap_sig list" where
  "sign_leaves L prv prevouts tx sighashType [] sigs = Inr sigs"
| "sign_leaves L prv prevouts tx sighashType (leaf # leaves) sigs =
     (case DecodeClosure L (LeafScript leaf) of
        Inl _ \<Rightarrow> sign_leaves L prv prevouts tx sighashType leaves sigs
      | Inr cl \<Rightarrow>
          if \<not> closureHasPubkey L cl (SerializePubKey L (PubKey L prv))
          then sign_leaves L prv prevouts tx sighashType leaves sigs
          else
           (case CalcSighash L prevouts sighashType tx (LeafScript leaf) of
              Inl e \<Rightarrow> Inl (''failed to compute forfeit sighash: '' @ e)
            | Inr preimage \<Rightarrow>
               (case SchnorrSign L prv preimage of
                  Inl e \<Rightarrow> Inl (''failed to sign forfeit leaf: '' @ e)
                | Inr sig \<Rightarrow>
                    sign_leaves L prv prevouts tx sighashType leaves
                      (sigs @ [\<lparr>XOnlyPubKey = SerializePubKey L (PubKey L prv),
                                LeafHash = TapLeafHash L (LeafVersion leaf) (LeafScript leaf),
                                Signature = sig, SigHash = sighashType\<rparr>]))))"

definition signForfeitWithDelegateKey :: "crypto \<Rightarrow> psbt \<Rightarrow> prvkey option \<Rightarrow> string + psbt" where
  "signForfeitWithDelegateKey L forfeitTx prvkey =
     (case prvkey of
        None \<Rightarrow> Inl ''delegate signer key not loaded''
      | Some prv \<Rightarrow>
         (case PInputs forfeitTx of
            [] \<Rightarrow> Inl ''forfeit tx has no inputs''
          | input # others \<Rightarrow>
             (case collect_prevouts 0 (PInputs forfeitTx) (TxIn forfeitTx) [] of
                Inl e \<Rightarrow> Inl e
              | Inr prevouts \<Rightarrow>
                 (case sign_leaves L prv prevouts forfeitTx (SighashType input) (TaprootLeafScript input) [] of
                    Inl e \<Rightarrow> Inl e
                  | Inr sigs \<Rightarrow>
                     if sigs = [] then Inl ''no tapscript leaf on the forfeit input names the delegate key''
                     else Inr (forfeitTx\<lparr>PInputs :=
                            input\<lparr>TaprootScriptSpendSig := TaprootScriptSpendSig input @ sigs\<rparr> # others\<rparr>)))))"

section \<open>submitForfeitTxs\<close>

text \<open>The forfeits of one task: those of its VTXOs that are not recoverable.\<close>

fun task_forfeits ::
  "crypto \<Rightarrow> (string \<Rightarrow> u32 \<Rightarrow> outpoint option) \<Rightarrow> delegate_task \<Rightarrow> vtxo list \<Rightarrow> string + psbt list" where
  "task_forfeits L parse task [] = Inr []"
| "task_forfeits L parse task (v # vs) =
     (if IsRecoverable v then task_forfeits L parse task vs
      else
       (case parse (Vtxo_Txid v) (Vtxo_VOut v) of
          None \<Rightarrow> task_forfeits L parse task vs
        | Some outpoint \<Rightarrow>
           (case map_of (ForfeitTxs task) outpoint of
              None \<Rightarrow> task_forfeits L parse task vs
            | Some forfeitTxStr \<Rightarrow>
               (case NewFromRawBytes L forfeitTxStr of
                  Inl e \<Rightarrow> Inl (''failed to parse forfeit tx: '' @ e)
                | Inr forfeitPtx \<Rightarrow>
                   (case task_forfeits L parse task vs of Inl e \<Rightarrow> Inl e | Inr fs \<Rightarrow> Inr (forfeitPtx # fs))))))"

fun collect_forfeits ::
  "'s delegate_repo \<Rightarrow> crypto \<Rightarrow> (string \<Rightarrow> u32 \<Rightarrow> outpoint option) \<Rightarrow> (outpoint list \<Rightarrow> string + vtxo list) \<Rightarrow>
     's \<Rightarrow> string list \<Rightarrow> string + psbt list" where
  "collect_forfeits R L parse getVtxos r [] = Inr []"
| "collect_forfeits R L parse getVtxos r (i # is) =
     (case GetByID R r i of
        Inl e \<Rightarrow> Inl (''failed to get delegate '' @ i @ '': '' @ e)
      | Inr task \<Rightarrow>
         (case getVtxos (Inputs (Intent task)) of
            Inl _ \<Rightarrow> collect_forfeits R L parse getVtxos r is
          | Inr vtxos \<Rightarrow>
             (case task_forfeits L parse task vtxos of
                Inl e \<Rightarrow> Inl e
              | Inr fs \<Rightarrow>
                 (case collect_forfeits R L parse getVtxos r is of Inl e \<Rightarrow> Inl e | Inr rest \<Rightarrow> Inr (fs @ rest)))))"

text \<open>The connector is added as a second input, and the first input is signed.\<close>

definition attach_connector :: "psbt \<Rightarrow> tx_out \<times> outpoint \<Rightarrow> psbt" where
  "attach_connector forfeitTx c =
     forfeitTx\<lparr>TxIn := TxIn forfeitTx @ [\<lparr>PreviousOutPoint = snd c, Sequence = MaxTxInSequenceNum\<rparr>],
       PInputs := (case PInputs forfeitTx @ [\<lparr>WitnessUtxo = Some (fst c), SighashType = 0,
                                            TaprootScriptSpendSig = [], TaprootLeafScript = []\<rparr>] of
                     [] \<Rightarrow> [] | inp # inps \<Rightarrow> inp\<lparr>SighashType := SigHashDefault\<rparr> # inps)\<rparr>"

fun sign_forfeits :: "crypto \<Rightarrow> prvkey option \<Rightarrow> psbt list \<Rightarrow> psbt list \<Rightarrow> string + string list" where
  "sign_forfeits L prv [] connectors = Inr []"
| "sign_forfeits L prv (forfeitTx # fs) [] = Inl ''runtime error: index out of range''"
| "sign_forfeits L prv (forfeitTx # fs) (connectorTx # connectors) =
     (case extractConnector L connectorTx of
        Inl e \<Rightarrow> Inl (''connector not found: '' @ e)
      | Inr c \<Rightarrow>
         (case signForfeitWithDelegateKey L (attach_connector forfeitTx c) prv of
            Inl e \<Rightarrow> Inl (''failed to sign forfeit: '' @ e)
          | Inr signedTx \<Rightarrow>
             (case B64Encode L signedTx of
                Inl e \<Rightarrow> Inl (''failed to encode forfeit tx: '' @ e)
              | Inr s \<Rightarrow>
                 (case sign_forfeits L prv fs connectors of Inl e \<Rightarrow> Inl e | Inr rest \<Rightarrow> Inr (s # rest)))))"

datatype client_call =
    ConfirmRegistration string
  | SubmitTreeNonces string string bytes
  | SubmitTreeSignatures string string bytes
  | SubmitSignedForfeitTxs "string list" string

text \<open>\<open>srv\<close> is the server's answer to a call; the result is the calls made and the error.\<close>

definition submitForfeitTxs ::
  "'s delegate_repo \<Rightarrow> crypto \<Rightarrow> (client_call \<Rightarrow> err) \<Rightarrow> (string \<Rightarrow> u32 \<Rightarrow> outpoint option) \<Rightarrow>
     (outpoint list \<Rightarrow> string + vtxo list) \<Rightarrow> prvkey option \<Rightarrow> 's \<Rightarrow> psbt list \<Rightarrow> string list \<Rightarrow>
     client_call list \<times> err" where
  "submitForfeitTxs R L srv parse getVtxos prv r connectorsLeaves selectedTasksIds =
     (if connectorsLeaves = [] then ([], None)
      else if selectedTasksIds = [] then ([], None)
      else
       (case collect_forfeits R L parse getVtxos r selectedTasksIds of
          Inl e \<Rightarrow> ([], Some e)
        | Inr forfeitTxs \<Rightarrow>
            if length connectorsLeaves < length forfeitTxs
            then ([], Some (''insufficient connectors: got '' @ format_uint (length connectorsLeaves)
                            @ '', need '' @ format_uint (length forfeitTxs)))
            else
             (case sign_forfeits L prv forfeitTxs connectorsLeaves of
                Inl e \<Rightarrow> ([], Some e)
              | Inr signedForfeitTxs \<Rightarrow>
                  (let call = SubmitSignedForfeitTxs signedForfeitTxs [] in ([call], srv call)))))"

section \<open>The musig2 handlers\<close>

record ('n, 't, 'z) batch_lib =
  NewTxTree :: "'n list \<Rightarrow> string + 't"
  Leaves :: "'t \<Rightarrow> psbt list"
  ApplySignature :: "string \<Rightarrow> bytes \<Rightarrow> 't \<Rightarrow> string + 't"
  NewTreeSignerSession :: "prvkey option \<Rightarrow> 'z"
  SessGetPublicKey :: "'z \<Rightarrow> string"
  SessInit :: "bytes \<Rightarrow> u64 \<Rightarrow> 't \<Rightarrow> 'z \<Rightarrow> string + 'z"
  SessGetNonces :: "'z \<Rightarrow> (string + bytes) \<times> 'z"
  SessAggregateNonces :: "string \<Rightarrow> bytes \<Rightarrow> 'z \<Rightarrow> (string + bool) \<times> 'z"
  SessSign :: "'z \<Rightarrow> (string + bytes) \<times> 'z"
  SweepClosureScript :: "pubkey \<Rightarrow> relative_locktime \<Rightarrow> string + bytes"

definition signVtxoTree ::
  "crypto \<Rightarrow> ('n, 't, 'z) batch_lib \<Rightarrow> u32 \<Rightarrow> string \<Rightarrow> string \<Rightarrow> 't \<Rightarrow> string + 't" where
  "signVtxoTree L B batchIndex txid signature txTree =
     (if batchIndex \<noteq> 0 then Inl (''batch index '' @ format_uint (unat batchIndex) @ '' is not 0'')
      else
       (case hex_decode signature of
          None \<Rightarrow> Inl ''failed to decode signature''
        | Some decodedSig \<Rightarrow>
           (case ParseSignature L decodedSig of
              Inl e \<Rightarrow> Inl (''failed to parse signature: '' @ e)
            | Inr sig \<Rightarrow> ApplySignature B txid sig txTree)))"

definition OnTreeSigningStarted ::
  "crypto \<Rightarrow> ('n, 't, 'z) batch_lib \<Rightarrow> (client_call \<Rightarrow> err) \<Rightarrow> pubkey \<Rightarrow> relative_locktime \<Rightarrow> string \<Rightarrow>
     string list \<Rightarrow> string \<Rightarrow> 't \<Rightarrow> 'z \<Rightarrow> (string + bool) \<times> client_call list \<times> 'z" where
  "OnTreeSigningStarted L B srv forfeitPubKey batchExpiry eventId cosignersPubkeys unsignedCommitmentTx vtxoTree z =
     (let signerPubKey = SessGetPublicKey B z in
      if signerPubKey \<notin> set cosignersPubkeys then (Inr True, [], z)
      else
       (case SweepClosureScript B forfeitPubKey batchExpiry of
          Inl e \<Rightarrow> (Inl (''failed to get sweep closure script: '' @ e), [], z)
        | Inr scr \<Rightarrow>
           (case NewFromRawBytes L unsignedCommitmentTx of
              Inl e \<Rightarrow> (Inl (''failed to parse commitment tx: '' @ e), [], z)
            | Inr commitmentTx \<Rightarrow>
               (case TxOut commitmentTx of
                  [] \<Rightarrow> (Inr True, [], z)
                | batchOutput # _ \<Rightarrow>
                   (case SessInit B (TapLeafHash L BaseLeafVersion scr) (Value batchOutput) vtxoTree z of
                      Inl e \<Rightarrow> (Inl e, [], z)
                    | Inr z1 \<Rightarrow>
                       (case SessGetNonces B z1 of
                          (Inl e, z2) \<Rightarrow> (Inl e, [], z2)
                        | (Inr nonces, z2) \<Rightarrow>
                           (let call = SubmitTreeNonces eventId (SessGetPublicKey B z2) nonces
                            in (case srv call of Some e \<Rightarrow> (Inl e, [call], z2) | None \<Rightarrow> (Inr False, [call], z2)))))))))"

definition OnTreeNonces ::
  "('n, 't, 'z) batch_lib \<Rightarrow> (client_call \<Rightarrow> err) \<Rightarrow> string \<Rightarrow> string \<Rightarrow> bytes \<Rightarrow> 'z \<Rightarrow>
     (string + bool) \<times> client_call list \<times> 'z" where
  "OnTreeNonces B srv eventId txid nonces z =
     (case SessAggregateNonces B txid nonces z of
        (Inl e, z1) \<Rightarrow> (Inl e, [], z1)
      | (Inr hasAllNonces, z1) \<Rightarrow>
          if \<not> hasAllNonces then (Inr False, [], z1)
          else
           (case SessSign B z1 of
              (Inl e, z2) \<Rightarrow> (Inl e, [], z2)
            | (Inr sigs, z2) \<Rightarrow>
               (let call = SubmitTreeSignatures eventId (SessGetPublicKey B z2) sigs
                in (case srv call of Some e \<Rightarrow> (Inl e, [call], z2) | None \<Rightarrow> (Inr True, [call], z2)))))"

section \<open>joinDelegateBatch\<close>

datatype 'n batch_event =
    BatchFinalizedEvent string
  | BatchFailedEvent
  | TreeTxEvent u32 'n
  | TreeSignatureEvent u32 string string
  | TreeSigningStartedEvent string "string list" string
  | TreeNoncesEvent string string bytes
  | BatchFinalizationEvent
  | OtherEvent

text \<open>What the \<open>select\<close> of the loop receives: the context's end, the channel's end, an event.\<close>

datatype 'n batch_input = CtxDone string | ChannelClosed | Event "'n batch_event"

record ('n, 't, 'z, 's) join_state =
  flatVtxoTree :: "'n list"
  flatConnectorTree :: "'n list"
  vtxoTree :: "'t option"
  session :: 'z
  calls :: "client_call list"
  service :: "'s dstate"

text \<open>What a batch uses of its surroundings.\<close>

record ('n, 't, 'z, 's) join_env =
  je_repo :: "'s delegate_repo"
  je_crypto :: crypto
  je_lib :: "('n, 't, 'z) batch_lib"
  je_srv :: "client_call \<Rightarrow> err"
  je_parse :: "string \<Rightarrow> u32 \<Rightarrow> outpoint option"
  je_vtxos :: "outpoint list \<Rightarrow> string + vtxo list"
  je_sha :: "bytes \<Rightarrow> bytes"
  je_register :: "string \<Rightarrow> string \<Rightarrow> string + string"
  je_prvkey :: "prvkey option"
  je_forfeit_key :: pubkey
  je_expiry :: relative_locktime
  je_selected :: "registered_intent list"

definition OnBatchFinalization ::
  "('n, 't, 'z, 's) join_env \<Rightarrow> 't \<Rightarrow> 's dstate \<Rightarrow> client_call list \<times> err" where
  "OnBatchFinalization E connectorTree s =
     submitForfeitTxs (je_repo E) (je_crypto E) (je_srv E) (je_parse E) (je_vtxos E) (je_prvkey E)
       (repo s) (Leaves (je_lib E) connectorTree) (map taskID (je_selected E))"

text \<open>One event: \<open>Inl\<close> is the return of the loop, \<open>Inr\<close> its next state.\<close>

definition join_event ::
  "('n, 't, 'z, 's) join_env \<Rightarrow> 'n batch_event \<Rightarrow> ('n, 't, 'z, 's) join_state \<Rightarrow>
     (string + string) option \<times> ('n, 't, 'z, 's) join_state" where
  "join_event E event j =
     (case event of
        BatchFinalizedEvent txid \<Rightarrow>
          (case OnBatchFinalized (je_repo E) (je_sha E) txid (je_selected E) (service j) of
             (Some _, s) \<Rightarrow> (None, j\<lparr>service := s\<rparr>)
           | (None, s) \<Rightarrow> (Some (Inr txid), j\<lparr>service := s\<rparr>))
      | BatchFailedEvent \<Rightarrow>
          (case OnBatchFailed (je_repo E) (je_sha E) (je_register E) (je_selected E) (service j) of
             (er, s) \<Rightarrow> (Some (Inl (case er of None \<Rightarrow> [] | Some e \<Rightarrow> e)), j\<lparr>service := s\<rparr>))
      | TreeTxEvent batchIndex node \<Rightarrow>
          (None, if batchIndex = 0 then j\<lparr>flatVtxoTree := flatVtxoTree j @ [node]\<rparr>
                 else j\<lparr>flatConnectorTree := flatConnectorTree j @ [node]\<rparr>)
      | TreeSignatureEvent batchIndex txid signature \<Rightarrow>
          (case vtxoTree j of
             None \<Rightarrow> (Some (Inl ''vtxo tree is nil''), j)
           | Some t \<Rightarrow>
              (case signVtxoTree (je_crypto E) (je_lib E) batchIndex txid signature t of
                 Inl _ \<Rightarrow> (None, j)
               | Inr t' \<Rightarrow> (None, j\<lparr>vtxoTree := Some t'\<rparr>)))
      | TreeSigningStartedEvent eventId cosigners commitmentTx \<Rightarrow>
          (case NewTxTree (je_lib E) (flatVtxoTree j) of
             Inl _ \<Rightarrow> (None, j\<lparr>vtxoTree := None\<rparr>)
           | Inr t \<Rightarrow>
              (case OnTreeSigningStarted (je_crypto E) (je_lib E) (je_srv E) (je_forfeit_key E) (je_expiry E)
                      eventId cosigners commitmentTx t (session j) of
                 (_, cs, z) \<Rightarrow> (None, j\<lparr>vtxoTree := Some t, session := z, calls := calls j @ cs\<rparr>)))
      | TreeNoncesEvent eventId txid nonces \<Rightarrow>
          (case OnTreeNonces (je_lib E) (je_srv E) eventId txid nonces (session j) of
             (_, cs, z) \<Rightarrow> (None, j\<lparr>session := z, calls := calls j @ cs\<rparr>))
      | BatchFinalizationEvent \<Rightarrow>
          (if flatConnectorTree j = [] then (None, j)
           else
            (case NewTxTree (je_lib E) (flatConnectorTree j) of
               Inl _ \<Rightarrow> (None, j)
             | Inr t \<Rightarrow> (case OnBatchFinalization E t (service j) of
                           (cs, _) \<Rightarrow> (None, j\<lparr>calls := calls j @ cs\<rparr>))))
      | OtherEvent \<Rightarrow> (None, j))"

text \<open>The loop over what arrives; \<open>None\<close>: it is still waiting when the inputs are used up.\<close>

fun join_loop ::
  "('n, 't, 'z, 's) join_env \<Rightarrow> 'n batch_input list \<Rightarrow> ('n, 't, 'z, 's) join_state \<Rightarrow>
     (string + string) option \<times> ('n, 't, 'z, 's) join_state" where
  "join_loop E [] j = (None, j)"
| "join_loop E (CtxDone e # ins) j = (Some (Inl e), j)"
| "join_loop E (ChannelClosed # ins) j = (Some (Inl ''event stream closed''), j)"
| "join_loop E (Event event # ins) j =
     (case join_event E event j of
        (Some r, j') \<Rightarrow> (Some r, j')
      | (None, j') \<Rightarrow> join_loop E ins j')"

text \<open>Registrations are confirmed first; a failed confirmation only drops the task's topics.\<close>

fun confirm_tasks :: "(client_call \<Rightarrow> err) \<Rightarrow> (outpoint \<Rightarrow> string) \<Rightarrow> registered_intent list \<Rightarrow> client_call list \<times> string list" where
  "confirm_tasks srv ops [] = ([], [])"
| "confirm_tasks srv ops (t # ts) =
     (case confirm_tasks srv ops ts of
        (cs, topics) \<Rightarrow>
          (ConfirmRegistration (intentID t) # cs,
           (case srv (ConfirmRegistration (intentID t)) of
              Some _ \<Rightarrow> topics
            | None \<Rightarrow> map ops (ri_inputs t) @ topics)))"

text \<open>
  \<open>stream\<close> is the answer to \<open>GetEventStream\<close> for the topics, \<open>cfg\<close> that of \<open>GetConfigData\<close> (the
  forfeit key).
\<close>

definition joinDelegateBatch ::
  "('n, 't, 'z, 's) join_env \<Rightarrow> (outpoint \<Rightarrow> string) \<Rightarrow> string \<Rightarrow> (string list \<Rightarrow> string + 'n batch_input list) \<Rightarrow>
     (string + pubkey) \<Rightarrow> 's dstate \<Rightarrow> (string + string) option \<times> client_call list \<times> 's dstate" where
  "joinDelegateBatch E ops pubkeyTopic stream cfg s =
     (case confirm_tasks (je_srv E) ops (je_selected E) of
        (cs, topics) \<Rightarrow>
         (case stream (pubkeyTopic # topics) of
            Inl e \<Rightarrow>
              (Some (Inl (''failed to establish initial connection to event stream with event stream topics: '' @ e)), cs, s)
          | Inr ins \<Rightarrow>
             (case cfg of
                Inl e \<Rightarrow> (Some (Inl (''failed to get config data: '' @ e)), cs, s)
              | Inr forfeitKey \<Rightarrow>
                 (case join_loop (E\<lparr>je_forfeit_key := forfeitKey\<rparr>) ins
                         \<lparr>flatVtxoTree = [], flatConnectorTree = [], vtxoTree = None,
                          session = NewTreeSignerSession (je_lib E) (je_prvkey E), calls = cs, service = s\<rparr> of
                    (res, j) \<Rightarrow> (res, calls j, service j)))))"

end
