(* ===== verification/SqliteRepo.thy ===== *)
theory SqliteRepo
  imports Domain
begin

text \<open>
  \<open>internal/infrastructure/db/sqlite/delegate_repo.go\<close> over the two tables of the schema and
  the queries of \<open>sqlc/query.sql\<close> (as \<open>sqlc/queries/query.sql.go\<close> runs them). A table is the
  list of its rows; SQLite returns rows in no promised order, and the model's order is that of
  the list, of which no theorem makes use.

  Two arguments stand for code outside the repository: \<open>flt\<close> is the driver's verdict on a
  statement, by its name (\<open>None\<close>: it runs), so every \<open>err != nil\<close> branch is reachable; \<open>ops\<close> and
  \<open>opp\<close> are \<open>wire.OutPoint.String\<close> and \<open>wire.NewOutPointFromString\<close>.
\<close>

section \<open>Tables\<close>

record delegate_task_row =
  r_id :: string
  r_intent_txid :: string
  r_intent_message :: string
  r_intent_proof :: string
  r_fee :: u64 \<comment> \<open>the 64-bit pattern of the \<open>int64\<close> column\<close>
  r_pubkey :: string
  r_scheduled_at :: int
  r_status :: int
  r_fail_reason :: "string option"
  r_commitment_txid :: "string option"

record delegate_task_input_row =
  i_task_id :: string
  i_outpoint :: string
  i_forfeit_tx :: "string option"

record sqldb =
  delegate_task_tbl :: "delegate_task_row list"
  delegate_task_input_tbl :: "delegate_task_input_row list"

type_synonym fault = "string \<Rightarrow> err"

text \<open>A row of the two \<open>LEFT JOIN\<close> queries: the input columns are \<open>NULL\<close> when no input matches.\<close>

type_synonym joined_row = "delegate_task_row \<times> delegate_task_input_row option"

section \<open>Queries\<close>

datatype sql_error = PrimaryKeyConflict | SqlOther string

definition InsertDelegateTask :: "fault \<Rightarrow> delegate_task_row \<Rightarrow> sqldb \<Rightarrow> sql_error + sqldb" where
  "InsertDelegateTask flt r db =
     (case flt ''InsertDelegateTask'' of
        Some e \<Rightarrow> Inl (SqlOther e)
      | None \<Rightarrow>
          if r_status r \<notin> {0, 1, 2, 3} then Inl (SqlOther ''CHECK constraint failed'')
          else if r_id r \<in> set (map r_id (delegate_task_tbl db)) then Inl PrimaryKeyConflict
          else Inr (db\<lparr>delegate_task_tbl := delegate_task_tbl db @ [r]\<rparr>))"

text \<open>\<open>ON CONFLICT(task_id, outpoint) DO UPDATE SET forfeit_tx = excluded.forfeit_tx\<close>.\<close>

fun upsert_input :: "delegate_task_input_row \<Rightarrow> delegate_task_input_row list \<Rightarrow> delegate_task_input_row list" where
  "upsert_input r [] = [r]"
| "upsert_input r (x # xs) =
     (if i_task_id x = i_task_id r \<and> i_outpoint x = i_outpoint r
      then x\<lparr>i_forfeit_tx := i_forfeit_tx r\<rparr> # xs
      else x # upsert_input r xs)"

definition InsertDelegateTaskInput ::
  "fault \<Rightarrow> delegate_task_input_row \<Rightarrow> sqldb \<Rightarrow> string + sqldb" where
  "InsertDelegateTaskInput flt r db =
     (case flt ''InsertDelegateTaskInput'' of
        Some e \<Rightarrow> Inl e
      | None \<Rightarrow> Inr (db\<lparr>delegate_task_input_tbl := upsert_input r (delegate_task_input_tbl db)\<rparr>))"

definition left_join :: "sqldb \<Rightarrow> delegate_task_row \<Rightarrow> joined_row list" where
  "left_join db dt =
     (let ins = filter (\<lambda>i. i_task_id i = r_id dt) (delegate_task_input_tbl db)
      in if ins = [] then [(dt, None)] else map (\<lambda>i. (dt, Some i)) ins)"

definition GetDelegateTask :: "fault \<Rightarrow> string \<Rightarrow> sqldb \<Rightarrow> string + joined_row list" where
  "GetDelegateTask flt i db =
     (case flt ''GetDelegateTask'' of
        Some e \<Rightarrow> Inl e
      | None \<Rightarrow> Inr (concat (map (left_join db) (filter (\<lambda>dt. r_id dt = i) (delegate_task_tbl db)))))"

definition ListDelegateTaskPending :: "fault \<Rightarrow> sqldb \<Rightarrow> string + (string \<times> int) list" where
  "ListDelegateTaskPending flt db =
     (case flt ''ListDelegateTaskPending'' of
        Some e \<Rightarrow> Inl e
      | None \<Rightarrow> Inr (map (\<lambda>dt. (r_id dt, r_scheduled_at dt))
                        (filter (\<lambda>dt. r_status dt = 0) (delegate_task_tbl db))))"

text \<open>\<open>None\<close> in the result is \<open>sql.ErrNoRows\<close>.\<close>

definition QueryPendingTaskByIntentTxID ::
  "fault \<Rightarrow> string \<Rightarrow> sqldb \<Rightarrow> string + (string \<times> int) option" where
  "QueryPendingTaskByIntentTxID flt txid db =
     (case flt ''GetPendingTaskByIntentTxID'' of
        Some e \<Rightarrow> Inl e
      | None \<Rightarrow> Inr (map_option (\<lambda>dt. (r_id dt, r_scheduled_at dt))
                  (find (\<lambda>dt. r_status dt = 0 \<and> r_intent_txid dt = txid) (delegate_task_tbl db))))"

text \<open>\<open>SELECT DISTINCT dt.id \<dots> INNER JOIN \<dots> WHERE dt.status = 0 AND dti.outpoint IN (\<dots>)\<close>.\<close>

definition QueryPendingTaskIDsByInputs ::
  "fault \<Rightarrow> string list \<Rightarrow> sqldb \<Rightarrow> string + string list" where
  "QueryPendingTaskIDsByInputs flt outpoints db =
     (case flt ''GetPendingTaskIDsByInputs'' of
        Some e \<Rightarrow> Inl e
      | None \<Rightarrow>
          Inr (remdups (concat (map
            (\<lambda>dt. map (\<lambda>i. r_id dt)
                    (filter (\<lambda>i. i_task_id i = r_id dt \<and> i_outpoint i \<in> set outpoints)
                      (delegate_task_input_tbl db)))
            (filter (\<lambda>dt. r_status dt = 0) (delegate_task_tbl db))))))"

text \<open>\<open>UPDATE delegate_task SET \<dots> WHERE status = 0 AND id IN (\<dots>)\<close>.\<close>

definition update_pending ::
  "(delegate_task_row \<Rightarrow> delegate_task_row) \<Rightarrow> string list \<Rightarrow> sqldb \<Rightarrow> sqldb" where
  "update_pending f ids db =
     db\<lparr>delegate_task_tbl :=
          map (\<lambda>dt. if r_status dt = 0 \<and> r_id dt \<in> set ids then f dt else dt) (delegate_task_tbl db)\<rparr>"

definition CancelDelegateTasks :: "fault \<Rightarrow> string list \<Rightarrow> sqldb \<Rightarrow> err \<times> sqldb" where
  "CancelDelegateTasks flt ids db =
     (case flt ''CancelDelegateTasks'' of
        Some e \<Rightarrow> (Some e, db)
      | None \<Rightarrow> (None, update_pending (\<lambda>dt. dt\<lparr>r_status := 3\<rparr>) ids db))"

definition SuccessDelegateTasks :: "fault \<Rightarrow> string option \<Rightarrow> string list \<Rightarrow> sqldb \<Rightarrow> err \<times> sqldb" where
  "SuccessDelegateTasks flt c ids db =
     (case flt ''SuccessDelegateTasks'' of
        Some e \<Rightarrow> (Some e, db)
      | None \<Rightarrow> (None, update_pending (\<lambda>dt. dt\<lparr>r_status := 1, r_commitment_txid := c\<rparr>) ids db))"

definition FailDelegateTasks :: "fault \<Rightarrow> string option \<Rightarrow> string list \<Rightarrow> sqldb \<Rightarrow> err \<times> sqldb" where
  "FailDelegateTasks flt r ids db =
     (case flt ''FailDelegateTasks'' of
        Some e \<Rightarrow> (Some e, db)
      | None \<Rightarrow> (None, update_pending (\<lambda>dt. dt\<lparr>r_status := 2, r_fail_reason := r\<rparr>) ids db))"

text \<open>
  \<open>ORDER BY dt.scheduled_at DESC LIMIT ? OFFSET ?\<close> over the joined rows: a negative limit is no
  limit and a negative offset is zero, as SQLite documents.
\<close>

definition limit_offset :: "int \<Rightarrow> int \<Rightarrow> 'a list \<Rightarrow> 'a list" where
  "limit_offset limit offset xs =
     (let ys = drop (nat offset) xs in if limit < 0 then ys else take (nat limit) ys)"

definition ListDelegateTasks ::
  "fault \<Rightarrow> int \<Rightarrow> int \<Rightarrow> int \<Rightarrow> sqldb \<Rightarrow> string + joined_row list" where
  "ListDelegateTasks flt st limit offset db =
     (case flt ''ListDelegateTasks'' of
        Some e \<Rightarrow> Inl e
      | None \<Rightarrow>
          Inr (limit_offset limit offset
                (sort_key (\<lambda>(dt, _). - r_scheduled_at dt)
                  (concat (map (left_join db) (filter (\<lambda>dt. r_status dt = st) (delegate_task_tbl db)))))))"

section \<open>The repository\<close>

text \<open>
  \<open>execTx\<close>: a body that fails, and a commit that fails, roll the transaction back. A failing
  rollback changes only the message.
\<close>

definition rollback_msg :: "fault \<Rightarrow> string \<Rightarrow> string" where
  "rollback_msg flt e =
     (case flt ''Rollback'' of
        None \<Rightarrow> e
      | Some r \<Rightarrow> ''original error: '' @ e @ '', rollback error: '' @ r)"

definition execTx :: "fault \<Rightarrow> ('d \<Rightarrow> string + 'd) \<Rightarrow> 'd \<Rightarrow> err \<times> 'd" where
  "execTx flt txBody db =
     (case flt ''BeginTx'' of
        Some e \<Rightarrow> (Some (''failed to start transaction: '' @ e), db)
      | None \<Rightarrow>
         (case txBody db of
            Inl e \<Rightarrow> (Some (rollback_msg flt (''failed to execute transaction: '' @ e)), db)
          | Inr db' \<Rightarrow>
             (case flt ''Commit'' of
                Some e \<Rightarrow> (Some (rollback_msg flt (''failed to commit transaction: '' @ e)), db)
              | None \<Rightarrow> (None, db'))))"

definition task_row :: "delegate_task \<Rightarrow> delegate_task_row" where
  "task_row task =
     \<lparr>r_id = ID task, r_intent_txid = Txid (Intent task), r_intent_message = Message (Intent task),
      r_intent_proof = Proof (Intent task), r_fee = Fee task, r_pubkey = DelegatePublicKey task,
      r_scheduled_at = unix_of_time (ScheduledAt task), r_status = int_of_status (Status task),
      r_fail_reason = None, r_commitment_txid = None\<rparr>"

definition input_row :: "(outpoint \<Rightarrow> string) \<Rightarrow> delegate_task \<Rightarrow> outpoint \<Rightarrow> delegate_task_input_row" where
  "input_row ops task i =
     \<lparr>i_task_id = ID task, i_outpoint = ops i, i_forfeit_tx = map_of (ForfeitTxs task) i\<rparr>"

fun insert_inputs ::
  "fault \<Rightarrow> (outpoint \<Rightarrow> string) \<Rightarrow> delegate_task \<Rightarrow> outpoint list \<Rightarrow> sqldb \<Rightarrow> string + sqldb" where
  "insert_inputs flt ops task [] db = Inr db"
| "insert_inputs flt ops task (i # is) db =
     (case InsertDelegateTaskInput flt (input_row ops task i) db of
        Inl e \<Rightarrow> Inl (''failed to insert input: '' @ e)
      | Inr db' \<Rightarrow> insert_inputs flt ops task is db')"

definition sqlite_Add ::
  "fault \<Rightarrow> (outpoint \<Rightarrow> string) \<Rightarrow> sqldb \<Rightarrow> delegate_task \<Rightarrow> err \<times> sqldb" where
  "sqlite_Add flt ops db task =
     execTx flt
       (\<lambda>db. case InsertDelegateTask flt (task_row task) db of
           Inl PrimaryKeyConflict \<Rightarrow> Inl (''delegate task already exists with id '' @ ID task)
         | Inl (SqlOther e) \<Rightarrow> Inl (''failed to insert delegate task: '' @ e)
         | Inr db' \<Rightarrow> insert_inputs flt ops task (Inputs (Intent task)) db')
       db"

text \<open>One row of a scan: the outpoint is parsed, a \<open>NULL\<close> or empty forfeit is skipped.\<close>

definition add_joined ::
  "(string \<Rightarrow> outpoint option) \<Rightarrow> delegate_task_input_row option \<Rightarrow>
     outpoint list \<times> (outpoint \<times> string) list \<Rightarrow> string + (outpoint list \<times> (outpoint \<times> string) list)" where
  "add_joined opp dti acc =
     (case dti of
        None \<Rightarrow> Inr acc
      | Some i \<Rightarrow>
         (case opp (i_outpoint i) of
            None \<Rightarrow> Inl ''failed to parse outpoint''
          | Some op \<Rightarrow>
              Inr (fst acc @ [op],
                   (case i_forfeit_tx i of
                      None \<Rightarrow> snd acc
                    | Some f \<Rightarrow> if f = [] then snd acc else AList.update op f (snd acc)))))"

fun scan_inputs ::
  "(string \<Rightarrow> outpoint option) \<Rightarrow> joined_row list \<Rightarrow>
     outpoint list \<times> (outpoint \<times> string) list \<Rightarrow> string + (outpoint list \<times> (outpoint \<times> string) list)" where
  "scan_inputs opp [] acc = Inr acc"
| "scan_inputs opp ((dt, dti) # rows) acc =
     (case add_joined opp dti acc of Inl e \<Rightarrow> Inl e | Inr acc' \<Rightarrow> scan_inputs opp rows acc')"

definition row_task ::
  "delegate_task_row \<Rightarrow> outpoint list \<times> (outpoint \<times> string) list \<Rightarrow> delegate_task" where
  "row_task dt acc =
     \<lparr>ID = r_id dt,
      Intent = \<lparr>Message = r_intent_message dt, Proof = r_intent_proof dt,
                Txid = r_intent_txid dt, Inputs = fst acc\<rparr>,
      ForfeitTxs = snd acc, Fee = r_fee dt, DelegatePublicKey = r_pubkey dt,
      ScheduledAt = time_of_unix (r_scheduled_at dt), Status = status_of_int (r_status dt),
      FailReason = (case r_fail_reason dt of None \<Rightarrow> [] | Some s \<Rightarrow> s),
      CommitmentTxid = (case r_commitment_txid dt of None \<Rightarrow> [] | Some s \<Rightarrow> s)\<rparr>"

definition sqlite_GetByID ::
  "fault \<Rightarrow> (string \<Rightarrow> outpoint option) \<Rightarrow> sqldb \<Rightarrow> string \<Rightarrow> string + delegate_task" where
  "sqlite_GetByID flt opp db i =
     (case GetDelegateTask flt i db of
        Inl e \<Rightarrow> Inl e
      | Inr [] \<Rightarrow> Inl (''delegate task not found for id: '' @ i)
      | Inr ((dt, dti) # rows) \<Rightarrow>
         (case scan_inputs opp ((dt, dti) # rows) ([], []) of
            Inl e \<Rightarrow> Inl e
          | Inr acc \<Rightarrow> Inr (row_task dt acc)))"

definition sqlite_GetAllPending :: "fault \<Rightarrow> sqldb \<Rightarrow> string + pending_delegate_task list" where
  "sqlite_GetAllPending flt db =
     (case ListDelegateTaskPending flt db of
        Inl e \<Rightarrow> Inl e
      | Inr rows \<Rightarrow>
          Inr (map (\<lambda>(i, at). \<lparr>Pending_ID = i, Pending_ScheduledAt = time_of_unix at\<rparr>) rows))"

definition sqlite_GetPendingTaskByIntentTxID ::
  "fault \<Rightarrow> sqldb \<Rightarrow> string \<Rightarrow> string + pending_delegate_task" where
  "sqlite_GetPendingTaskByIntentTxID flt db txid =
     (case QueryPendingTaskByIntentTxID flt txid db of
        Inl e \<Rightarrow> Inl e
      | Inr None \<Rightarrow> Inl (''pending delegate task not found for intent txid: '' @ txid)
      | Inr (Some (i, at)) \<Rightarrow> Inr \<lparr>Pending_ID = i, Pending_ScheduledAt = time_of_unix at\<rparr>)"

definition sqlite_GetPendingTaskIDsByInputs ::
  "fault \<Rightarrow> (outpoint \<Rightarrow> string) \<Rightarrow> sqldb \<Rightarrow> outpoint list \<Rightarrow> string + string list" where
  "sqlite_GetPendingTaskIDsByInputs flt ops db inputs =
     (if inputs = [] then Inr []
      else QueryPendingTaskIDsByInputs flt (map ops inputs) db)"

text \<open>
  \<open>GetAll\<close> folds the joined rows into \<open>taskMap\<close>, the tasks seen so far by id, and \<open>taskOrder\<close>,
  the ids in the order they were first seen: together an association list.
\<close>

definition add_row_to_tasks ::
  "(string \<Rightarrow> outpoint option) \<Rightarrow> joined_row \<Rightarrow> (string \<times> delegate_task) list \<Rightarrow>
     string + (string \<times> delegate_task) list" where
  "add_row_to_tasks opp row tasks =
     (case row of (dt, dti) \<Rightarrow>
       (case map_of tasks (r_id dt) of
          None \<Rightarrow>
           (case add_joined opp dti ([], []) of
              Inl e \<Rightarrow> Inl e
            | Inr acc \<Rightarrow> Inr (tasks @ [(r_id dt, row_task dt acc)]))
        | Some task \<Rightarrow>
           (case add_joined opp dti (Inputs (Intent task), ForfeitTxs task) of
              Inl e \<Rightarrow> Inl e
            | Inr acc \<Rightarrow>
                Inr (AList.update (r_id dt)
                  (task\<lparr>Intent := (Intent task)\<lparr>Inputs := fst acc\<rparr>, ForfeitTxs := snd acc\<rparr>) tasks))))"

fun fold_rows ::
  "(string \<Rightarrow> outpoint option) \<Rightarrow> joined_row list \<Rightarrow> (string \<times> delegate_task) list \<Rightarrow>
     string + (string \<times> delegate_task) list" where
  "fold_rows opp [] tasks = Inr tasks"
| "fold_rows opp (row # rows) tasks =
     (case add_row_to_tasks opp row tasks of Inl e \<Rightarrow> Inl e | Inr tasks' \<Rightarrow> fold_rows opp rows tasks')"

definition sqlite_GetAll ::
  "fault \<Rightarrow> (string \<Rightarrow> outpoint option) \<Rightarrow> sqldb \<Rightarrow> delegate_task_status \<Rightarrow> int \<Rightarrow> int \<Rightarrow>
     string + delegate_task list" where
  "sqlite_GetAll flt opp db st limit offset =
     (case ListDelegateTasks flt (int_of_status st) limit offset db of
        Inl e \<Rightarrow> Inl e
      | Inr rows \<Rightarrow> map_sum id (map snd) (fold_rows opp rows []))"

definition wrap_err :: "string \<Rightarrow> err \<times> 'd \<Rightarrow> err \<times> 'd" where
  "wrap_err msg r = (map_option (\<lambda>e. msg @ e) (fst r), snd r)"

definition sqlite_CancelTasks :: "fault \<Rightarrow> sqldb \<Rightarrow> string list \<Rightarrow> err \<times> sqldb" where
  "sqlite_CancelTasks flt db ids =
     (if ids = [] then (None, db)
      else wrap_err ''failed to cancel delegate tasks: '' (CancelDelegateTasks flt ids db))"

text \<open>An empty string is stored as \<open>NULL\<close>.\<close>

definition null_string :: "string \<Rightarrow> string option" where
  "null_string s = (if s = [] then None else Some s)"

definition sqlite_CompleteTasks :: "fault \<Rightarrow> sqldb \<Rightarrow> string \<Rightarrow> string list \<Rightarrow> err \<times> sqldb" where
  "sqlite_CompleteTasks flt db commitmentTxid ids =
     (if ids = [] then (None, db)
      else wrap_err ''failed to mark delegate tasks as done: ''
             (SuccessDelegateTasks flt (null_string commitmentTxid) ids db))"

definition sqlite_FailTasks :: "fault \<Rightarrow> sqldb \<Rightarrow> string \<Rightarrow> string list \<Rightarrow> err \<times> sqldb" where
  "sqlite_FailTasks flt db reason ids =
     (if ids = [] then (None, db)
      else wrap_err ''failed to mark delegate tasks as failed: ''
             (FailDelegateTasks flt (null_string reason) ids db))"

end
