(* ===== verification/SqliteRefine.thy ===== *)
theory SqliteRefine
  imports SqliteRepo
begin

text \<open>
  The SQLite repository implements the contract of \<open>DelegateRepository\<close>: the abstract view of
  the two tables, the invariant the schema keeps (primary keys, foreign key, parseable
  outpoints), and the laws of the locale for every operation, failing statements included.
\<close>

section \<open>Abstraction and invariant\<close>

definition put_forfeit ::
  "(string \<Rightarrow> outpoint option) \<Rightarrow> delegate_task_input_row \<Rightarrow> (outpoint \<times> string) list \<Rightarrow> (outpoint \<times> string) list" where
  "put_forfeit opp i m =
     (case i_forfeit_tx i of
        None \<Rightarrow> m
      | Some f \<Rightarrow> if f = [] then m else AList.update (the (opp (i_outpoint i))) f m)"

definition parsed_inputs ::
  "(string \<Rightarrow> outpoint option) \<Rightarrow> delegate_task_input_row list \<Rightarrow> outpoint list \<times> (outpoint \<times> string) list" where
  "parsed_inputs opp ins =
     (map (\<lambda>i. the (opp (i_outpoint i))) ins, fold (put_forfeit opp) ins [])"

definition inputs_of :: "delegate_task_input_row list \<Rightarrow> string \<Rightarrow> delegate_task_input_row list" where
  "inputs_of tbl i = filter (\<lambda>r. i_task_id r = i) tbl"

definition row_view ::
  "(string \<Rightarrow> outpoint option) \<Rightarrow> delegate_task_input_row list \<Rightarrow> delegate_task_row \<Rightarrow> task_view" where
  "row_view opp tbl dt = view_of (row_task dt (parsed_inputs opp (inputs_of tbl (r_id dt))))"

definition find_row :: "delegate_task_row list \<Rightarrow> string \<Rightarrow> delegate_task_row option" where
  "find_row tbl i = find (\<lambda>dt. r_id dt = i) tbl"

definition sqlite_view :: "(string \<Rightarrow> outpoint option) \<Rightarrow> sqldb \<Rightarrow> tasks_view" where
  "sqlite_view opp db i =
     map_option (row_view opp (delegate_task_input_tbl db)) (find_row (delegate_task_tbl db) i)"

definition sqlite_inv :: "(outpoint \<Rightarrow> string) \<Rightarrow> sqldb \<Rightarrow> bool" where
  "sqlite_inv ops db =
     (distinct (map r_id (delegate_task_tbl db))
      \<and> (\<forall>i \<in> set (delegate_task_input_tbl db).
            i_task_id i \<in> set (map r_id (delegate_task_tbl db)) \<and> i_outpoint i \<in> range ops))"

section \<open>Lookup by id\<close>

lemma find_row_None: "find_row tbl i = None \<longleftrightarrow> i \<notin> set (map r_id tbl)"
  by (auto simp: find_row_def find_None_iff)

lemma find_row_Some: "find_row tbl i = Some dt \<Longrightarrow> dt \<in> set tbl \<and> r_id dt = i"
  by (auto simp: find_row_def find_Some_iff)

lemma find_row_iff: "distinct (map r_id tbl) \<Longrightarrow> find_row tbl i = Some dt \<longleftrightarrow> dt \<in> set tbl \<and> r_id dt = i"
  by (induction tbl) (auto simp: find_row_def)

lemma find_row_map:
  "(\<And>dt. r_id (f dt) = r_id dt) \<Longrightarrow> find_row (map f tbl) i = map_option f (find_row tbl i)"
  by (induction tbl) (auto simp: find_row_def)

lemma find_row_append: "find_row (tbl @ [r]) i = (case find_row tbl i of None \<Rightarrow> if r_id r = i then Some r else None | Some dt \<Rightarrow> Some dt)"
  by (induction tbl) (auto simp: find_row_def)

lemma filter_id_find_row:
  "distinct (map r_id tbl) \<Longrightarrow> filter (\<lambda>dt. r_id dt = i) tbl = (case find_row tbl i of None \<Rightarrow> [] | Some dt \<Rightarrow> [dt])"
proof (induction tbl)
  case Nil
  then show ?case by (simp add: find_row_def)
next
  case (Cons dt tbl)
  show ?case
  proof (cases "r_id dt = i")
    case True
    with Cons.prems have "filter (\<lambda>dt. r_id dt = i) tbl = []"
      by (auto simp: filter_empty_conv) (metis imageI)
    with True show ?thesis by (simp add: find_row_def)
  next
    case False
    with Cons show ?thesis by (simp add: find_row_def)
  qed
qed

section \<open>Scanning the joined rows\<close>

lemma scan_inputs_parsed:
  "\<forall>i \<in> set ins. opp (i_outpoint i) \<noteq> None \<Longrightarrow>
     scan_inputs opp (map (\<lambda>i. (dt, Some i)) ins) acc
       = Inr (fst acc @ map (\<lambda>i. the (opp (i_outpoint i))) ins, fold (put_forfeit opp) ins (snd acc))"
  by (induction ins arbitrary: acc) (auto simp: add_joined_def put_forfeit_def split: option.splits)

lemma scan_left_join:
  "\<forall>i \<in> set (inputs_of (delegate_task_input_tbl db) (r_id dt)). opp (i_outpoint i) \<noteq> None \<Longrightarrow>
     scan_inputs opp (left_join db dt) ([], [])
       = Inr (parsed_inputs opp (inputs_of (delegate_task_input_tbl db) (r_id dt)))"
  using scan_inputs_parsed [of "inputs_of (delegate_task_input_tbl db) (r_id dt)" opp dt "([], [])"]
  by (simp add: left_join_def parsed_inputs_def add_joined_def Let_def flip: inputs_of_def)

lemma left_join_Cons: "\<exists>dti rows. left_join db dt = (dt, dti) # rows"
  by (cases "filter (\<lambda>i. i_task_id i = r_id dt) (delegate_task_input_tbl db)")
     (auto simp: left_join_def)

lemma fold_put_forfeit:
  assumes "\<forall>i \<in> set ins. i_forfeit_tx i = F (the (opp (i_outpoint i)))" and "\<forall>x. F x \<noteq> Some []"
  shows "map_of (fold (put_forfeit opp) ins m) x =
     (if x \<in> (\<lambda>i. the (opp (i_outpoint i))) ` set ins \<and> F x \<noteq> None then F x else map_of m x)"
  using assms
proof (induction ins arbitrary: m)
  case Nil
  then show ?case by simp
next
  case (Cons i ins)
  then have "i_forfeit_tx i = F (the (opp (i_outpoint i)))" "\<forall>x. F x \<noteq> Some []" by auto
  then have "map_of (put_forfeit opp i m) x =
      (if x = the (opp (i_outpoint i)) \<and> F x \<noteq> None then F x else map_of m x)"
    by (auto simp: put_forfeit_def update_conv split: option.splits)
  with Cons show ?case by auto
qed

section \<open>Insertion\<close>

lemma set_upsert_same:
  "inj ops \<Longrightarrow> set rows \<subseteq> range (input_row ops t) \<Longrightarrow>
     set (upsert_input (input_row ops t i) rows) = insert (input_row ops t i) (set rows)"
  by (induction rows) (auto simp: input_row_def dest: injD)

lemma inputs_of_upsert:
  "inputs_of (upsert_input r tbl) i =
     (if i = i_task_id r then upsert_input r (inputs_of tbl i) else inputs_of tbl i)"
  by (induction tbl) (auto simp: inputs_of_def)

lemma upsert_keys:
  "x \<in> set (upsert_input r tbl) \<Longrightarrow>
     (i_task_id x = i_task_id r \<and> i_outpoint x = i_outpoint r)
     \<or> (\<exists>y \<in> set tbl. i_task_id x = i_task_id y \<and> i_outpoint x = i_outpoint y)"
  by (induction tbl) (auto split: if_splits)

lemma insert_inputs_ok:
  "insert_inputs flt ops t is db = Inr db' \<Longrightarrow>
     delegate_task_tbl db' = delegate_task_tbl db
     \<and> delegate_task_input_tbl db'
         = fold (\<lambda>i. upsert_input (input_row ops t i)) is (delegate_task_input_tbl db)"
  by (induction flt ops t "is" db rule: insert_inputs.induct)
     (auto simp: InsertDelegateTaskInput_def split: option.splits sum.splits)

lemma inputs_of_fold_upsert:
  "inputs_of (fold (\<lambda>i. upsert_input (input_row ops t i)) is tbl) k =
     (if k = ID t then fold (\<lambda>i. upsert_input (input_row ops t i)) is (inputs_of tbl k)
      else inputs_of tbl k)"
  by (induction "is" arbitrary: tbl) (auto simp: inputs_of_upsert input_row_def)

lemma set_fold_upsert:
  "inj ops \<Longrightarrow> set rows \<subseteq> range (input_row ops t) \<Longrightarrow>
     set (fold (\<lambda>i. upsert_input (input_row ops t i)) is rows) = input_row ops t ` set is \<union> set rows"
proof (induction "is" arbitrary: rows)
  case Nil
  then show ?case by simp
next
  case (Cons i "is")
  have "set (upsert_input (input_row ops t i) rows) = insert (input_row ops t i) (set rows)"
    using Cons.prems by (rule set_upsert_same)
  with Cons.prems Cons.IH [of "upsert_input (input_row ops t i) rows"] show ?case by auto
qed

lemma fold_upsert_keys:
  "x \<in> set (fold (\<lambda>i. upsert_input (input_row ops t i)) is tbl) \<Longrightarrow>
     (i_task_id x = ID t \<and> i_outpoint x \<in> range ops)
     \<or> (\<exists>y \<in> set tbl. i_task_id x = i_task_id y \<and> i_outpoint x = i_outpoint y)"
proof (induction "is" arbitrary: tbl)
  case Nil
  then show ?case by auto
next
  case (Cons i "is")
  from Cons.prems Cons.IH [of "upsert_input (input_row ops t i) tbl"]
  consider "i_task_id x = ID t \<and> i_outpoint x \<in> range ops"
    | y where "y \<in> set (upsert_input (input_row ops t i) tbl)" "i_task_id x = i_task_id y" "i_outpoint x = i_outpoint y"
    by auto
  then show ?case
  proof cases
    case 1
    then show ?thesis by simp
  next
    case 2
    then show ?thesis using upsert_keys [of y "input_row ops t i" tbl] by (auto simp: input_row_def)
  qed
qed

lemma execTx_cases:
  "execTx flt body db = (er, db') \<Longrightarrow>
     (er \<noteq> None \<and> db' = db) \<or> (er = None \<and> body db = Inr db')"
  by (auto simp: execTx_def split: option.splits sum.splits)

lemma InsertDelegateTask_ok:
  "InsertDelegateTask flt r db = Inr db' \<Longrightarrow>
     r_id r \<notin> set (map r_id (delegate_task_tbl db))
     \<and> db' = db\<lparr>delegate_task_tbl := delegate_task_tbl db @ [r]\<rparr>"
  by (auto simp: InsertDelegateTask_def split: option.splits if_splits)

lemma sqlite_Add_ok:
  assumes "sqlite_Add flt ops db t = (None, db')"
  shows "ID t \<notin> set (map r_id (delegate_task_tbl db))
     \<and> delegate_task_tbl db' = delegate_task_tbl db @ [task_row t]
     \<and> delegate_task_input_tbl db'
         = fold (\<lambda>i. upsert_input (input_row ops t i)) (Inputs (Intent t)) (delegate_task_input_tbl db)"
proof -
  from assms obtain db1 where "InsertDelegateTask flt (task_row t) db = Inr db1"
    and "insert_inputs flt ops t (Inputs (Intent t)) db1 = Inr db'"
    unfolding sqlite_Add_def
    by (auto dest!: execTx_cases split: sum.splits sql_error.splits)
  then show ?thesis
    by (auto dest!: InsertDelegateTask_ok insert_inputs_ok simp: task_row_def)
qed

lemma sqlite_Add_error: "sqlite_Add flt ops db t = (Some e, db') \<Longrightarrow> db' = db"
  unfolding sqlite_Add_def by (auto dest!: execTx_cases)

lemma sqlite_Add_inv: "sqlite_inv ops db \<Longrightarrow> sqlite_inv ops (snd (sqlite_Add flt ops db t))"
proof (cases "fst (sqlite_Add flt ops db t)")
  case None
  assume inv: "sqlite_inv ops db"
  obtain db' where db': "sqlite_Add flt ops db t = (None, db')"
    using None by (metis prod.collapse)
  note ok = sqlite_Add_ok [OF db']
  show ?thesis
    using inv ok by (auto simp: sqlite_inv_def db' task_row_def dest!: fold_upsert_keys)
next
  case (Some e)
  assume "sqlite_inv ops db"
  then show ?thesis using Some sqlite_Add_error by (metis prod.collapse)
qed

lemma row_view_cong:
  "inputs_of tbl (r_id dt) = inputs_of tbl' (r_id dt) \<Longrightarrow> row_view opp tbl dt = row_view opp tbl' dt"
  by (simp add: row_view_def)

lemma storable_forfeits:
  assumes "storable t"
  shows "map_of (ForfeitTxs t) x \<noteq> Some []"
    and "map_of (ForfeitTxs t) x \<noteq> None \<Longrightarrow> x \<in> set (Inputs (Intent t))"
  using assms by (auto simp: storable_def list_all_iff dest!: map_of_SomeD)

lemma row_view_new:
  assumes codec: "\<And>x. opp (ops x) = Some x" and st: "storable t"
    and ins: "set ins = input_row ops t ` set (Inputs (Intent t))"
  shows "view_of (row_task (task_row t) (parsed_inputs opp ins)) = view_of t"
proof -
  have F: "\<forall>i \<in> set ins. i_forfeit_tx i = map_of (ForfeitTxs t) (the (opp (i_outpoint i)))"
    using ins codec by (auto simp: input_row_def)
  have img: "(\<lambda>i. the (opp (i_outpoint i))) ` set ins = set (Inputs (Intent t))"
    using ins codec by (simp add: image_image input_row_def)
  have "map_of (fold (put_forfeit opp) ins []) = map_of (ForfeitTxs t)"
  proof
    fix x
    show "map_of (fold (put_forfeit opp) ins []) x = map_of (ForfeitTxs t) x"
      using fold_put_forfeit [OF F, of "[]" x] storable_forfeits [OF st] img
      by (cases "map_of (ForfeitTxs t) x") auto
  qed
  then show ?thesis
    using st img by (auto simp: view_of_def row_task_def task_row_def parsed_inputs_def
        storable_def status_of_int_def)
qed

lemma sqlite_Add_view:
  assumes codec: "\<And>x. opp (ops x) = Some x" and inv: "sqlite_inv ops db" and st: "storable t"
    and add: "sqlite_Add flt ops db t = (None, db')"
  shows "sqlite_view opp db (ID t) = None \<and>
     sqlite_view opp db' = (sqlite_view opp db)(ID t \<mapsto> view_of t)"
proof -
  have inj: "inj ops" by (rule injI) (metis codec option.inject)
  note ok = sqlite_Add_ok [OF add]
  then have none: "find_row (delegate_task_tbl db) (ID t) = None"
    by (simp add: find_row_None)
  have "inputs_of (delegate_task_input_tbl db) (ID t) = []"
    using inv ok by (force simp: inputs_of_def sqlite_inv_def filter_empty_conv)
  then have "set (inputs_of (delegate_task_input_tbl db') (ID t)) = input_row ops t ` set (Inputs (Intent t))"
    using ok set_fold_upsert [OF inj, of "[]" t] by (simp add: inputs_of_fold_upsert)
  then have new: "row_view opp (delegate_task_input_tbl db') (task_row t) = view_of t"
    using row_view_new [OF codec st] by (simp add: row_view_def task_row_def)
  have old: "row_view opp (delegate_task_input_tbl db') dt = row_view opp (delegate_task_input_tbl db) dt"
    if "find_row (delegate_task_tbl db) i = Some dt" "i \<noteq> ID t" for i dt
    using that ok by (intro row_view_cong) (auto dest!: find_row_Some simp: inputs_of_fold_upsert)
  have "sqlite_view opp db' = (sqlite_view opp db)(ID t \<mapsto> view_of t)"
  proof
    fix i
    show "sqlite_view opp db' i = ((sqlite_view opp db)(ID t \<mapsto> view_of t)) i"
      using none new old ok
      by (cases "find_row (delegate_task_tbl db) i")
         (auto simp: sqlite_view_def find_row_append task_row_def)
  qed
  with none show ?thesis by (simp add: sqlite_view_def)
qed

section \<open>Queries\<close>

lemma sqlite_inv_parse:
  "(\<And>x. opp (ops x) = Some x) \<Longrightarrow> sqlite_inv ops db \<Longrightarrow>
     \<forall>i \<in> set (inputs_of (delegate_task_input_tbl db) k). opp (i_outpoint i) \<noteq> None"
  by (fastforce simp: sqlite_inv_def inputs_of_def)

lemma sqlite_GetByID_view:
  assumes codec: "\<And>x. opp (ops x) = Some x" and inv: "sqlite_inv ops db"
    and get: "sqlite_GetByID flt opp db i = Inr t"
  shows "sqlite_view opp db i = Some (view_of t) \<and> ID t = i"
proof -
  from inv have dist: "distinct (map r_id (delegate_task_tbl db))" by (simp add: sqlite_inv_def)
  from get have "GetDelegateTask flt i db \<noteq> Inr []"
    by (auto simp: sqlite_GetByID_def)
  with get obtain dt where dt: "find_row (delegate_task_tbl db) i = Some dt"
    and rows: "GetDelegateTask flt i db = Inr (left_join db dt)"
    by (auto simp: sqlite_GetByID_def GetDelegateTask_def filter_id_find_row [OF dist]
        split: option.splits)
  obtain dti rest where lj: "left_join db dt = (dt, dti) # rest"
    using left_join_Cons by blast
  have "scan_inputs opp ((dt, dti) # rest) ([], [])
      = Inr (parsed_inputs opp (inputs_of (delegate_task_input_tbl db) (r_id dt)))"
    using scan_left_join [OF sqlite_inv_parse [OF codec inv]] lj by metis
  with get rows lj have "t = row_task dt (parsed_inputs opp (inputs_of (delegate_task_input_tbl db) (r_id dt)))"
    by (simp add: sqlite_GetByID_def)
  with dt find_row_Some [OF dt] show ?thesis
    by (simp add: sqlite_view_def row_view_def row_task_def)
qed

lemma sqlite_GetByID_total:
  assumes codec: "\<And>x. opp (ops x) = Some x" and inv: "sqlite_inv ops db"
    and dt: "dt \<in> set (delegate_task_tbl db)" and ok: "flt ''GetDelegateTask'' = None"
  shows "\<exists>t. sqlite_GetByID flt opp db (r_id dt) = Inr t"
proof -
  from inv have dist: "distinct (map r_id (delegate_task_tbl db))" by (simp add: sqlite_inv_def)
  have rows: "GetDelegateTask flt (r_id dt) db = Inr (left_join db dt)"
    using dt ok by (simp add: GetDelegateTask_def filter_id_find_row [OF dist] find_row_iff [OF dist, THEN iffD2])
  obtain dti rest where lj: "left_join db dt = (dt, dti) # rest" using left_join_Cons by blast
  have "scan_inputs opp ((dt, dti) # rest) ([], [])
      = Inr (parsed_inputs opp (inputs_of (delegate_task_input_tbl db) (r_id dt)))"
    using scan_left_join [OF sqlite_inv_parse [OF codec inv]] lj by metis
  with rows lj show ?thesis by (simp add: sqlite_GetByID_def)
qed

lemma status_pending_iff [simp]: "status_of_int i = DelegateTaskStatusPending \<longleftrightarrow> i = 0"
  by (simp add: status_of_int_def)

lemma row_view_simps [simp]:
  "tv_status (row_view opp tbl dt) = status_of_int (r_status dt)"
  "tv_txid (row_view opp tbl dt) = r_intent_txid dt"
  "tv_scheduled (row_view opp tbl dt) = r_scheduled_at dt"
  "tv_inputs (row_view opp tbl dt) = (\<lambda>i. the (opp (i_outpoint i))) ` set (inputs_of tbl (r_id dt))"
  "is_pending (row_view opp tbl dt) \<longleftrightarrow> r_status dt = 0"
  by (simp_all add: row_view_def row_task_def view_of_def parsed_inputs_def is_pending_def)

lemma sqlite_view_Some:
  "sqlite_inv ops db \<Longrightarrow> sqlite_view opp db i = Some v \<longleftrightarrow>
     (\<exists>dt \<in> set (delegate_task_tbl db). r_id dt = i \<and> v = row_view opp (delegate_task_input_tbl db) dt)"
  by (auto simp: sqlite_view_def sqlite_inv_def find_row_iff)

lemma sqlite_GetAllPending_view:
  assumes inv: "sqlite_inv ops db" and get: "sqlite_GetAllPending flt db = Inr ps"
  shows "set (map (\<lambda>p. (Pending_ID p, Pending_ScheduledAt p)) ps)
     = {(i, time_of_unix (tv_scheduled v)) |i v. sqlite_view opp db i = Some v \<and> is_pending v}"
proof -
  from get have "ps = map (\<lambda>dt. \<lparr>Pending_ID = r_id dt, Pending_ScheduledAt = time_of_unix (r_scheduled_at dt)\<rparr>)
      (filter (\<lambda>dt. r_status dt = 0) (delegate_task_tbl db))"
    by (auto simp: sqlite_GetAllPending_def ListDelegateTaskPending_def split: option.splits)
  then have "set (map (\<lambda>p. (Pending_ID p, Pending_ScheduledAt p)) ps)
      = {(r_id dt, time_of_unix (r_scheduled_at dt)) |dt. dt \<in> set (delegate_task_tbl db) \<and> r_status dt = 0}"
    by (simp add: o_def) blast
  also have "\<dots> = {(i, time_of_unix (tv_scheduled v)) |i v. sqlite_view opp db i = Some v \<and> is_pending v}"
    (is "?L = ?R")
  proof (rule set_eqI)
    fix x
    have "x \<in> ?R \<longleftrightarrow> (\<exists>dt \<in> set (delegate_task_tbl db). r_status dt = 0
        \<and> x = (r_id dt, time_of_unix (r_scheduled_at dt)))"
      unfolding sqlite_view_Some [OF inv] mem_Collect_eq
      by (auto intro!: exI [of _ "row_view opp (delegate_task_input_tbl db) _"])
    then show "x \<in> ?L \<longleftrightarrow> x \<in> ?R" by blast
  qed
  finally show ?thesis .
qed

lemma sqlite_GetPendingTaskByIntentTxID_view:
  assumes inv: "sqlite_inv ops db" and get: "sqlite_GetPendingTaskByIntentTxID flt db x = Inr p"
  shows "\<exists>v. sqlite_view opp db (Pending_ID p) = Some v \<and> is_pending v \<and> tv_txid v = x"
proof -
  from get obtain dt where
    "find (\<lambda>dt. r_status dt = 0 \<and> r_intent_txid dt = x) (delegate_task_tbl db) = Some dt"
    and "Pending_ID p = r_id dt"
    by (auto simp: sqlite_GetPendingTaskByIntentTxID_def QueryPendingTaskByIntentTxID_def
        split: option.splits)
  then show ?thesis
    by (auto simp: sqlite_view_Some [OF inv] find_Some_iff intro!: bexI [of _ dt])
qed

lemma sqlite_GetPendingTaskIDsByInputs_view:
  assumes codec: "\<And>x. opp (ops x) = Some x" and inv: "sqlite_inv ops db"
    and get: "sqlite_GetPendingTaskIDsByInputs flt ops db inputs = Inr ids"
  shows "set ids = {i. \<exists>v. sqlite_view opp db i = Some v \<and> is_pending v \<and> tv_inputs v \<inter> set inputs \<noteq> {}}"
proof (cases "inputs = []")
  case True
  with get show ?thesis by (simp add: sqlite_GetPendingTaskIDsByInputs_def)
next
  case False
  have hit: "i_outpoint r \<in> ops ` set inputs \<longleftrightarrow> the (opp (i_outpoint r)) \<in> set inputs"
    if "r \<in> set (delegate_task_input_tbl db)" for r
    using that inv codec by (auto simp: sqlite_inv_def image_iff) (metis option.sel)+
  from get False have "set ids = {i. \<exists>dt \<in> set (delegate_task_tbl db). r_id dt = i \<and> r_status dt = 0
      \<and> (\<exists>r \<in> set (delegate_task_input_tbl db). i_task_id r = r_id dt \<and> i_outpoint r \<in> ops ` set inputs)}"
    by (simp add: sqlite_GetPendingTaskIDsByInputs_def QueryPendingTaskIDsByInputs_def
        split: option.splits) (rule set_eqI, fastforce)
  also have "\<dots> = {i. \<exists>dt \<in> set (delegate_task_tbl db). r_id dt = i \<and> r_status dt = 0
      \<and> (\<exists>r \<in> set (inputs_of (delegate_task_input_tbl db) (r_id dt)). the (opp (i_outpoint r)) \<in> set inputs)}"
    using hit by (auto simp: inputs_of_def)
  also have "\<dots> = {i. \<exists>v. sqlite_view opp db i = Some v \<and> is_pending v \<and> tv_inputs v \<inter> set inputs \<noteq> {}}"
    unfolding sqlite_view_Some [OF inv] by (rule set_eqI) (auto, fastforce+)
  finally show ?thesis .
qed

section \<open>Closing tasks\<close>

lemma update_pending_inv:
  assumes "\<And>dt. r_id (f dt) = r_id dt"
  shows "sqlite_inv ops db \<Longrightarrow> sqlite_inv ops (update_pending f ids db)"
proof -
  have "map r_id (delegate_task_tbl (update_pending f ids db)) = map r_id (delegate_task_tbl db)"
    using assms by (simp add: update_pending_def)
  then show "sqlite_inv ops db \<Longrightarrow> sqlite_inv ops (update_pending f ids db)"
    unfolding sqlite_inv_def by (simp only:) (simp add: update_pending_def)
qed

lemma update_pending_view:
  assumes id: "\<And>dt. r_id (f dt) = r_id dt"
    and view: "\<And>dt acc. view_of (row_task (f dt) acc) = g (view_of (row_task dt acc))"
  shows "sqlite_view opp (update_pending f ids db) = close_tasks g (set ids) (sqlite_view opp db)"
proof
  fix i
  let ?h = "\<lambda>dt. if r_status dt = 0 \<and> r_id dt \<in> set ids then f dt else dt"
  have "find_row (map ?h (delegate_task_tbl db)) i = map_option ?h (find_row (delegate_task_tbl db) i)"
    by (rule find_row_map) (simp add: id)
  moreover have "row_view opp tbl (f dt) = g (row_view opp tbl dt)" for tbl dt
    by (simp add: row_view_def id view)
  ultimately show "sqlite_view opp (update_pending f ids db) i = close_tasks g (set ids) (sqlite_view opp db) i"
    by (cases "find_row (delegate_task_tbl db) i")
       (auto simp: sqlite_view_def update_pending_def close_tasks_def dest: find_row_Some)
qed

lemma update_views:
  "view_of (row_task (dt\<lparr>r_status := 3\<rparr>) acc) = cancelled (view_of (row_task dt acc))"
  "view_of (row_task (dt\<lparr>r_status := 1, r_commitment_txid := null_string c\<rparr>) acc)
     = completed c (view_of (row_task dt acc))"
  "view_of (row_task (dt\<lparr>r_status := 2, r_fail_reason := null_string r\<rparr>) acc)
     = failed r (view_of (row_task dt acc))"
  by (simp_all add: view_of_def row_task_def cancelled_def completed_def failed_def
      status_of_int_def null_string_def)

lemma sqlite_closing:
  assumes inv: "sqlite_inv ops db"
    and run: "op = (if ids = [] then (None, db)
        else wrap_err msg (case flt nm of Some e \<Rightarrow> (Some e, db) | None \<Rightarrow> (None, update_pending f ids db)))"
    and id: "\<And>dt. r_id (f dt) = r_id dt"
    and view: "\<And>dt acc. view_of (row_task (f dt) acc) = g (view_of (row_task dt acc))"
    and res: "op = (er, db')"
  shows "sqlite_inv ops db' \<and> (\<exists>A \<subseteq> set ids. (er = None \<longrightarrow> A = set ids)
     \<and> sqlite_view opp db' = close_tasks g A (sqlite_view opp db))"
proof (cases "ids = [] \<or> flt nm \<noteq> None")
  case True
  with run res have "db' = db" and "er = None \<longrightarrow> ids = []"
    by (auto simp: wrap_err_def split: if_splits)
  with inv show ?thesis by (intro conjI exI [of _ "{}"]) auto
next
  case False
  with run res have "db' = update_pending f ids db" and "er = None"
    by (auto simp: wrap_err_def)
  with inv update_pending_inv [OF id] update_pending_view [OF id view, of opp ids db]
  show ?thesis by (intro conjI exI [of _ "set ids"]) auto
qed

definition sqlite_delegate_repo ::
  "fault \<Rightarrow> (outpoint \<Rightarrow> string) \<Rightarrow> (string \<Rightarrow> outpoint option) \<Rightarrow> sqldb delegate_repo" where
  "sqlite_delegate_repo flt ops opp =
     \<lparr>Add = sqlite_Add flt ops, GetByID = sqlite_GetByID flt opp,
      GetAllPending = sqlite_GetAllPending flt,
      GetPendingTaskByIntentTxID = sqlite_GetPendingTaskByIntentTxID flt,
      GetPendingTaskIDsByInputs = sqlite_GetPendingTaskIDsByInputs flt ops,
      CancelTasks = sqlite_CancelTasks flt, CompleteTasks = sqlite_CompleteTasks flt,
      FailTasks = sqlite_FailTasks flt, GetAll = sqlite_GetAll flt opp\<rparr>"

theorem sqlite_implements_repository:
  assumes codec: "\<And>x. opp (ops x) = Some x"
  shows "delegate_repository (sqlite_view opp) (sqlite_inv ops) (sqlite_delegate_repo flt ops opp)"
proof (unfold_locales, unfold sqlite_delegate_repo_def delegate_repo.select_convs, goal_cases)
  case 1 then show ?case by (blast intro: sqlite_Add_inv)
next
  case 2 then show ?case by (rule sqlite_Add_view [OF codec])
next
  case 3 then show ?case using sqlite_Add_error by metis
next
  case 4 then show ?case by (rule sqlite_GetByID_view [OF codec])
next
  case 5 then show ?case by (rule sqlite_GetAllPending_view)
next
  case 6 then show ?case by (rule sqlite_GetPendingTaskByIntentTxID_view)
next
  case 7 then show ?case by (rule sqlite_GetPendingTaskIDsByInputs_view [OF codec])
next
  case (8 s ids er s')
  show ?case
    by (rule sqlite_closing [where msg = "''failed to cancel delegate tasks: ''" and flt = flt and nm = "''CancelDelegateTasks''",
          OF 8(1) _ _ update_views(1) 8(2)])
       (simp_all add: sqlite_CancelTasks_def CancelDelegateTasks_def)
next
  case (9 s c ids er s')
  show ?case
    by (rule sqlite_closing [where msg = "''failed to mark delegate tasks as done: ''" and flt = flt and nm = "''SuccessDelegateTasks''",
          OF 9(1) _ _ update_views(2) 9(2)])
       (simp_all add: sqlite_CompleteTasks_def SuccessDelegateTasks_def)
next
  case (10 s r ids er s')
  show ?case
    by (rule sqlite_closing [where msg = "''failed to mark delegate tasks as failed: ''" and flt = flt and nm = "''FailDelegateTasks''",
          OF 10(1) _ _ update_views(3) 10(2)])
       (simp_all add: sqlite_FailTasks_def FailDelegateTasks_def)
qed

interpretation sqlite_repo: delegate_repository "sqlite_view NewOutPointFromString"
  "sqlite_inv OutPoint_String" "sqlite_delegate_repo flt OutPoint_String NewOutPointFromString" for flt
  by (rule sqlite_implements_repository) simp

end
