(* ===== verification/KvStore.thy ===== *)
theory KvStore
  imports Prelude "HOL-Library.Multiset"
begin

text \<open>
  The interface of \<open>badgerhold.Store\<close>, the embedded store behind every badger repository
  (\<open>internal/infrastructure/db/badger\<close>): the four operations the repositories call, as a
  record a repository takes as an argument, and the documented laws of the store as a locale.
  Reads are reliable; a write may fail at any time and then changes nothing.
\<close>

datatype kv_error = ErrNotFound | ErrKeyExists | KvOther string

fun kv_error_text :: "kv_error \<Rightarrow> string" where
  "kv_error_text ErrNotFound = ''No data found for this key''"
| "kv_error_text ErrKeyExists = ''This Key already exists in this bucket for this type''"
| "kv_error_text (KvOther e) = e"

record ('s, 'v) kv_ops =
  kv_insert :: "'s \<Rightarrow> string \<Rightarrow> 'v \<Rightarrow> kv_error option \<times> 's"
  kv_get :: "'s \<Rightarrow> string \<Rightarrow> kv_error + 'v"
  kv_find :: "'s \<Rightarrow> ('v \<Rightarrow> bool) \<Rightarrow> string + 'v list"
  kv_update :: "'s \<Rightarrow> string \<Rightarrow> 'v \<Rightarrow> kv_error option \<times> 's"
  kv_upsert :: "'s \<Rightarrow> string \<Rightarrow> 'v \<Rightarrow> kv_error option \<times> 's"
  kv_delete :: "'s \<Rightarrow> string \<Rightarrow> kv_error option \<times> 's"

locale kv_store =
  fixes kv_map :: "'s \<Rightarrow> string \<rightharpoonup> 'v" and kv :: "('s, 'v) kv_ops"
  assumes insert_ok: "kv_insert kv s k v = (None, s') \<Longrightarrow>
          kv_map s k = None \<and> kv_map s' = (kv_map s)(k \<mapsto> v)"
    and insert_fail: "kv_insert kv s k v = (Some e, s') \<Longrightarrow> kv_map s' = kv_map s"
    and insert_free: "kv_map s k = None \<Longrightarrow> fst (kv_insert kv s k v) \<noteq> Some ErrKeyExists"
    and get_eq: "kv_get kv s k = (case kv_map s k of None \<Rightarrow> Inl ErrNotFound | Some v \<Rightarrow> Inr v)"
    and find_ok: "kv_find kv s p = Inr vs \<Longrightarrow>
          mset vs = image_mset (\<lambda>k. the (kv_map s k)) (mset_set {k \<in> dom (kv_map s). p (the (kv_map s k))})"
    and update_ok: "kv_update kv s k v = (None, s') \<Longrightarrow>
          kv_map s k \<noteq> None \<and> kv_map s' = (kv_map s)(k \<mapsto> v)"
    and update_fail: "kv_update kv s k v = (Some e, s') \<Longrightarrow> kv_map s' = kv_map s"
    and upsert_ok: "kv_upsert kv s k v = (None, s') \<Longrightarrow> kv_map s' = (kv_map s)(k \<mapsto> v)"
    and upsert_fail: "kv_upsert kv s k v = (Some e, s') \<Longrightarrow> kv_map s' = kv_map s"
    and delete_ok: "kv_delete kv s k = (None, s') \<Longrightarrow>
          kv_map s k \<noteq> None \<and> kv_map s' = (kv_map s)(k := None)"
    and delete_fail: "kv_delete kv s k = (Some e, s') \<Longrightarrow> kv_map s' = kv_map s"
    and delete_notfound: "fst (kv_delete kv s k) = Some ErrNotFound \<Longrightarrow> kv_map s k = None"
    and finite_dom: "finite (dom (kv_map s))"
begin

lemma find_set: "kv_find kv s p = Inr vs \<Longrightarrow> set vs = {v. \<exists>k. kv_map s k = Some v \<and> p v}"
proof -
  assume "kv_find kv s p = Inr vs"
  then have "set_mset (mset vs) = (\<lambda>k. the (kv_map s k)) ` {k \<in> dom (kv_map s). p (the (kv_map s k))}"
    using finite_dom [of s] by (simp add: find_ok)
  then show ?thesis by (force simp: dom_def image_iff)
qed

lemma find_length: "kv_find kv s p = Inr vs \<Longrightarrow>
    length vs = card {k \<in> dom (kv_map s). p (the (kv_map s k))}"
  using arg_cong [of _ _ size, OF find_ok [of s p vs]] by simp

end

section \<open>A store in memory\<close>

text \<open>
  The repositories open badger in memory when no directory is configured. A store in memory
  whose writes fail as an arbitrary verdict \<open>flt\<close> says satisfies the laws; the repositories
  are instantiated at it.
\<close>

type_synonym 'v mem_kv = "(string \<times> 'v) list"

definition mem_write ::
  "(string \<Rightarrow> string option) \<Rightarrow> string \<Rightarrow> 'v mem_kv \<Rightarrow> 'v mem_kv \<Rightarrow> kv_error option \<times> 'v mem_kv" where
  "mem_write flt k s s' = (case flt k of Some e \<Rightarrow> (Some (KvOther e), s) | None \<Rightarrow> (None, s'))"

definition mem_store :: "(string \<Rightarrow> string option) \<Rightarrow> ('v mem_kv, 'v) kv_ops" where
  "mem_store flt =
     \<lparr>kv_insert = \<lambda>s k v.
        (case map_of s k of Some _ \<Rightarrow> (Some ErrKeyExists, s) | None \<Rightarrow> mem_write flt k s (AList.update k v s)),
      kv_get = \<lambda>s k. (case map_of s k of None \<Rightarrow> Inl ErrNotFound | Some v \<Rightarrow> Inr v),
      kv_find = \<lambda>s p. Inr (filter p (map snd (AList.clearjunk s))),
      kv_update = \<lambda>s k v.
        (case map_of s k of None \<Rightarrow> (Some ErrNotFound, s) | Some _ \<Rightarrow> mem_write flt k s (AList.update k v s)),
      kv_upsert = \<lambda>s k v. mem_write flt k s (AList.update k v s),
      kv_delete = \<lambda>s k.
        (case map_of s k of None \<Rightarrow> (Some ErrNotFound, s) | Some _ \<Rightarrow> mem_write flt k s (AList.delete k s))\<rparr>"

lemma mset_filter_values:
  "distinct (map fst xs) \<Longrightarrow>
     mset (filter p (map snd xs))
       = image_mset (\<lambda>k. the (map_of xs k)) (mset_set {k \<in> dom (map_of xs). p (the (map_of xs k))})"
proof (induction xs)
  case Nil
  then show ?case by simp
next
  case (Cons x xs)
  obtain k v where x: "x = (k, v)" by (cases x)
  with Cons.prems have k: "k \<notin> dom (map_of xs)" and d: "distinct (map fst xs)"
    by (auto simp: dom_map_of_conv_image_fst)
  let ?A = "{k \<in> dom (map_of xs). p (the (map_of xs k))}"
  have fin: "finite ?A" by (simp add: finite_dom_map_of)
  have A: "{j \<in> dom (map_of (x # xs)). p (the (map_of (x # xs) j))} = (if p v then insert k ?A else ?A)"
    using k by (auto simp: x split: if_splits)
  have "image_mset (\<lambda>j. the (map_of (x # xs) j)) (mset_set ?A) = image_mset (\<lambda>j. the (map_of xs j)) (mset_set ?A)"
    using k fin by (intro image_mset_cong) (auto simp: x)
  then show ?case
    using Cons.IH [OF d] k fin unfolding A by (auto simp: x)
qed

interpretation mem: kv_store map_of "mem_store flt" for flt
proof (unfold_locales, goal_cases)
  case (5 s p vs)
  have "mset (filter p (map snd (AList.clearjunk s))) =
    image_mset (\<lambda>k. the (map_of (AList.clearjunk s) k))
      (mset_set {k \<in> dom (map_of (AList.clearjunk s)). p (the (map_of (AList.clearjunk s) k))})"
    by (rule mset_filter_values) (rule distinct_clearjunk)
  with 5 show ?case by (simp add: mem_store_def map_of_clearjunk)
qed (auto simp: mem_store_def mem_write_def update_conv' delete_conv' finite_dom_map_of
    split: option.splits if_splits)

end
