(* ===== verification/BadgerRepo.thy ===== *)
theory BadgerRepo
  imports Domain KvStore
begin

text \<open>
  \<open>internal/infrastructure/db/badger/delegate_repo.go\<close>: delegate tasks as JSON documents in a
  badgerhold store, and the proof that the repository implements the contract of
  \<open>DelegateRepository\<close> over every store that meets the laws of \<open>kv_store\<close>.

  A JSON text is represented by what \<open>json.Unmarshal\<close> reads from it: \<open>Inl e\<close> is a text it
  rejects with \<open>e\<close>, \<open>Inr v\<close> a text that decodes to \<open>v\<close>; \<open>json.Marshal v\<close> is then \<open>Inr v\<close>. The
  arguments \<open>hs\<close> and \<open>hp\<close> are \<open>chainhash.Hash.String\<close> and \<open>chainhash.NewHashFromStr\<close>. The
  \<open>ctx.Value("tx")\<close> variants call the same store operations inside a caller's transaction; no
  caller in the repository sets one.
\<close>

type_synonym 'a json = "string + 'a"

record outpointJSON =
  Hash :: string
  Index :: u32

record delegateTaskDTO =
  DTO_ID :: string
  IntentJSON :: "intent json"
  InputJSON :: "outpointJSON list json"
  ForfeitTxsJSON :: "(string \<times> string) list json option" \<comment> \<open>\<open>None\<close>: the empty text\<close>
  DTO_Fee :: u64
  DTO_DelegatePublicKey :: string
  DTO_ScheduledAt :: int
  DTO_Status :: delegate_task_status
  DTO_FailReason :: string
  DTO_CommitmentTxid :: string

section \<open>Keys\<close>

text \<open>\<open>fmt.Sprintf("%s:%d", hash, index)\<close>\<close>

definition outpoint_key :: "string \<Rightarrow> u32 \<Rightarrow> string" where
  "outpoint_key hash index = hash @ CHR '':'' # format_uint (unat index)"

text \<open>The loop \<open>for i := len(key) - 1; i >= 0; i--\<close> that looks for the last colon.\<close>

fun last_colon :: "string \<Rightarrow> nat \<Rightarrow> nat option" where
  "last_colon key 0 = None"
| "last_colon key (Suc i) = (if key ! i = CHR '':'' then Some i else last_colon key i)"

definition parse_key :: "(string \<Rightarrow> 256 word option) \<Rightarrow> string \<Rightarrow> string + outpoint" where
  "parse_key hp key =
     (case last_colon key (length key) of
        None \<Rightarrow> Inl (''failed to parse forfeit tx key '' @ key @ '': no colon found'')
      | Some i \<Rightarrow>
         (case sscanf_u32 (drop (Suc i) key) of
            None \<Rightarrow> Inl (''failed to parse forfeit tx key '' @ key @ '': invalid index'')
          | Some index \<Rightarrow>
             (case hp (take i key) of
                None \<Rightarrow> Inl (''failed to parse hash in forfeit tx key '' @ key)
              | Some hash \<Rightarrow> Inr \<lparr>op_hash = hash, op_index = index\<rparr>)))"

section \<open>Conversions\<close>

fun parse_inputs :: "(string \<Rightarrow> 256 word option) \<Rightarrow> nat \<Rightarrow> outpointJSON list \<Rightarrow> string + outpoint list" where
  "parse_inputs hp i [] = Inr []"
| "parse_inputs hp i (op # ops) =
     (case hp (Hash op) of
        None \<Rightarrow> Inl (''failed to parse hash for input '' @ format_uint i)
      | Some h \<Rightarrow>
         (case parse_inputs hp (Suc i) ops of
            Inl e \<Rightarrow> Inl e
          | Inr rest \<Rightarrow> Inr (\<lparr>op_hash = h, op_index = Index op\<rparr> # rest)))"

fun parse_forfeits ::
  "(string \<Rightarrow> 256 word option) \<Rightarrow> (string \<times> string) list \<Rightarrow> (outpoint \<times> string) list \<Rightarrow>
     string + (outpoint \<times> string) list" where
  "parse_forfeits hp [] m = Inr m"
| "parse_forfeits hp ((key, forfeitTx) # kvs) m =
     (case parse_key hp key of
        Inl e \<Rightarrow> Inl e
      | Inr op \<Rightarrow> parse_forfeits hp kvs (AList.update op forfeitTx m))"

definition toDelegateTask :: "(string \<Rightarrow> 256 word option) \<Rightarrow> delegateTaskDTO \<Rightarrow> string + delegate_task" where
  "toDelegateTask hp d =
     (case IntentJSON d of
        Inl e \<Rightarrow> Inl (''failed to unmarshal intent: '' @ e)
      | Inr intent \<Rightarrow>
         (case InputJSON d of
            Inl e \<Rightarrow> Inl (''failed to unmarshal inputs: '' @ e)
          | Inr opJSONs \<Rightarrow>
             (case parse_inputs hp 0 opJSONs of
                Inl e \<Rightarrow> Inl e
              | Inr inputs \<Rightarrow>
                 (case (case ForfeitTxsJSON d of
                          None \<Rightarrow> Inr []
                        | Some (Inl e) \<Rightarrow> Inl (''failed to unmarshal forfeit txs: '' @ e)
                        | Some (Inr kvs) \<Rightarrow> parse_forfeits hp kvs []) of
                    Inl e \<Rightarrow> Inl e
                  | Inr forfeitTxs \<Rightarrow>
                      Inr \<lparr>ID = DTO_ID d, Intent = intent\<lparr>Inputs := inputs\<rparr>, ForfeitTxs = forfeitTxs,
                           Fee = DTO_Fee d, DelegatePublicKey = DTO_DelegatePublicKey d,
                           ScheduledAt = time_of_unix (DTO_ScheduledAt d), Status = DTO_Status d,
                           FailReason = DTO_FailReason d, CommitmentTxid = DTO_CommitmentTxid d\<rparr>))))"

definition toDelegateTaskData :: "(256 word \<Rightarrow> string) \<Rightarrow> delegate_task \<Rightarrow> delegateTaskDTO" where
  "toDelegateTaskData hs task =
     \<lparr>DTO_ID = ID task,
      IntentJSON = Inr (Intent task),
      InputJSON = Inr (map (\<lambda>input. \<lparr>Hash = hs (op_hash input), Index = op_index input\<rparr>) (Inputs (Intent task))),
      ForfeitTxsJSON = Some (Inr (fold (\<lambda>(op, f). AList.update (outpoint_key (hs (op_hash op)) (op_index op)) f)
                                    (ForfeitTxs task) [])),
      DTO_Fee = Fee task,
      DTO_DelegatePublicKey = DelegatePublicKey task,
      DTO_ScheduledAt = unix_of_time (ScheduledAt task),
      DTO_Status = Status task,
      DTO_FailReason = FailReason task,
      DTO_CommitmentTxid = CommitmentTxid task\<rparr>"

section \<open>The repository\<close>

type_synonym 's dto_store = "('s, delegateTaskDTO) kv_ops"

definition kv_result :: "kv_error option \<times> 's \<Rightarrow> err \<times> 's" where
  "kv_result r = (map_option kv_error_text (fst r), snd r)"

definition badger_Add :: "'s dto_store \<Rightarrow> (256 word \<Rightarrow> string) \<Rightarrow> 's \<Rightarrow> delegate_task \<Rightarrow> err \<times> 's" where
  "badger_Add kv hs s task = kv_result (kv_insert kv s (ID task) (toDelegateTaskData hs task))"

definition badger_GetByID ::
  "'s dto_store \<Rightarrow> (string \<Rightarrow> 256 word option) \<Rightarrow> 's \<Rightarrow> string \<Rightarrow> string + delegate_task" where
  "badger_GetByID kv hp s i =
     (case kv_get kv s i of
        Inl ErrNotFound \<Rightarrow> Inl (''delegate task not found for id: '' @ i)
      | Inl e \<Rightarrow> Inl (kv_error_text e)
      | Inr d \<Rightarrow> toDelegateTask hp d)"

definition find_status :: "'s dto_store \<Rightarrow> 's \<Rightarrow> delegate_task_status \<Rightarrow> string + delegateTaskDTO list" where
  "find_status kv s st = kv_find kv s (\<lambda>d. DTO_Status d = st)"

definition pending_of_dto :: "delegateTaskDTO \<Rightarrow> pending_delegate_task" where
  "pending_of_dto d = \<lparr>Pending_ID = DTO_ID d, Pending_ScheduledAt = time_of_unix (DTO_ScheduledAt d)\<rparr>"

definition badger_GetAllPending :: "'s dto_store \<Rightarrow> 's \<Rightarrow> string + pending_delegate_task list" where
  "badger_GetAllPending kv s =
     map_sum id (map pending_of_dto) (find_status kv s DelegateTaskStatusPending)"

fun dto_with_txid :: "string \<Rightarrow> delegateTaskDTO list \<Rightarrow> delegateTaskDTO option" where
  "dto_with_txid txid [] = None"
| "dto_with_txid txid (d # ds) =
     (case IntentJSON d of
        Inl _ \<Rightarrow> dto_with_txid txid ds
      | Inr intent \<Rightarrow> if Txid intent = txid then Some d else dto_with_txid txid ds)"

definition badger_GetPendingTaskByIntentTxID ::
  "'s dto_store \<Rightarrow> 's \<Rightarrow> string \<Rightarrow> string + pending_delegate_task" where
  "badger_GetPendingTaskByIntentTxID kv s txid =
     (case find_status kv s DelegateTaskStatusPending of
        Inl e \<Rightarrow> Inl e
      | Inr ds \<Rightarrow>
         (case dto_with_txid txid ds of
            None \<Rightarrow> Inl (''pending delegate task not found for intent txid: '' @ txid)
          | Some d \<Rightarrow> Inr (pending_of_dto d)))"

definition hasOverlap :: "string set \<Rightarrow> delegateTaskDTO \<Rightarrow> bool" where
  "hasOverlap inputSet d =
     (case InputJSON d of
        Inl _ \<Rightarrow> False
      | Inr opJSONs \<Rightarrow> list_ex (\<lambda>op. outpoint_key (Hash op) (Index op) \<in> inputSet) opJSONs)"

definition badger_GetPendingTaskIDsByInputs ::
  "'s dto_store \<Rightarrow> (256 word \<Rightarrow> string) \<Rightarrow> 's \<Rightarrow> outpoint list \<Rightarrow> string + string list" where
  "badger_GetPendingTaskIDsByInputs kv hs s inputs =
     (case find_status kv s DelegateTaskStatusPending of
        Inl e \<Rightarrow> Inl e
      | Inr ds \<Rightarrow>
         (let inputSet = set (map (\<lambda>i. outpoint_key (hs (op_hash i)) (op_index i)) inputs)
          in Inr (map DTO_ID (filter (hasOverlap inputSet) ds))))"

fun convert_all :: "(string \<Rightarrow> 256 word option) \<Rightarrow> delegateTaskDTO list \<Rightarrow> string + delegate_task list" where
  "convert_all hp [] = Inr []"
| "convert_all hp (d # ds) =
     (case toDelegateTask hp d of
        Inl e \<Rightarrow> Inl (''failed to convert task '' @ DTO_ID d @ '': '' @ e)
      | Inr t \<Rightarrow> (case convert_all hp ds of Inl e \<Rightarrow> Inl e | Inr ts \<Rightarrow> Inr (t # ts)))"

text \<open>
  \<open>GetAll\<close>: sorted most recent first, then the window \<open>[start, end)\<close>. An index below zero is
  Go's run-time panic.
\<close>

definition badger_GetAll ::
  "'s dto_store \<Rightarrow> (string \<Rightarrow> 256 word option) \<Rightarrow> 's \<Rightarrow> delegate_task_status \<Rightarrow> int \<Rightarrow> int \<Rightarrow>
     string + delegate_task list" where
  "badger_GetAll kv hp s st limit offset =
     (case find_status kv s st of
        Inl e \<Rightarrow> Inl e
      | Inr ds \<Rightarrow>
         (let allTasks = sort_key (\<lambda>d. - DTO_ScheduledAt d) ds;
              start = (if int (length allTasks) < offset then int (length allTasks) else offset);
              end' = (if int (length allTasks) < start + limit then int (length allTasks) else start + limit)
          in if end' \<le> start then Inr []
             else if start < 0 then Inl ''runtime error: index out of range''
             else convert_all hp (take (nat (end' - start)) (drop (nat start) allTasks))))"

text \<open>
  The loop the three closing operations share: a task that cannot be read or is not pending is
  skipped, a failed write stops the loop.
\<close>

fun close_loop ::
  "'s dto_store \<Rightarrow> (256 word \<Rightarrow> string) \<Rightarrow> (string \<Rightarrow> 256 word option) \<Rightarrow>
     (delegate_task \<Rightarrow> delegate_task) \<Rightarrow> (string \<Rightarrow> string \<Rightarrow> string) \<Rightarrow> string list \<Rightarrow> 's \<Rightarrow> err \<times> 's" where
  "close_loop kv hs hp f msg [] s = (None, s)"
| "close_loop kv hs hp f msg (i # is) s =
     (case badger_GetByID kv hp s i of
        Inl _ \<Rightarrow> close_loop kv hs hp f msg is s
      | Inr task \<Rightarrow>
         if Status task \<noteq> DelegateTaskStatusPending then close_loop kv hs hp f msg is s
         else
          (case kv_update kv s i (toDelegateTaskData hs (f task)) of
             (Some e, s') \<Rightarrow> (Some (msg i (kv_error_text e)), s')
           | (None, s') \<Rightarrow> close_loop kv hs hp f msg is s'))"

definition badger_CancelTasks ::
  "'s dto_store \<Rightarrow> (256 word \<Rightarrow> string) \<Rightarrow> (string \<Rightarrow> 256 word option) \<Rightarrow> 's \<Rightarrow> string list \<Rightarrow> err \<times> 's" where
  "badger_CancelTasks kv hs hp s ids =
     (if ids = [] then (None, s)
      else close_loop kv hs hp (\<lambda>task. task\<lparr>Status := DelegateTaskStatusCancelled\<rparr>)
             (\<lambda>i e. ''failed to cancel task '' @ i @ '': '' @ e) ids s)"

definition badger_CompleteTasks ::
  "'s dto_store \<Rightarrow> (256 word \<Rightarrow> string) \<Rightarrow> (string \<Rightarrow> 256 word option) \<Rightarrow> 's \<Rightarrow> string \<Rightarrow> string list \<Rightarrow> err \<times> 's" where
  "badger_CompleteTasks kv hs hp s commitmentTxid ids =
     (if ids = [] then (None, s)
      else close_loop kv hs hp
             (\<lambda>task. task\<lparr>Status := DelegateTaskStatusCompleted, CommitmentTxid := commitmentTxid\<rparr>)
             (\<lambda>i e. ''failed to mark task '' @ i @ '' as done: '' @ e) ids s)"

definition badger_FailTasks ::
  "'s dto_store \<Rightarrow> (256 word \<Rightarrow> string) \<Rightarrow> (string \<Rightarrow> 256 word option) \<Rightarrow> 's \<Rightarrow> string \<Rightarrow> string list \<Rightarrow> err \<times> 's" where
  "badger_FailTasks kv hs hp s reason ids =
     (if ids = [] then (None, s)
      else close_loop kv hs hp (\<lambda>task. task\<lparr>Status := DelegateTaskStatusFailed, FailReason := reason\<rparr>)
             (\<lambda>i e. ''failed to mark task '' @ i @ '' as failed: '' @ e) ids s)"

section \<open>Round trip of the document\<close>

lemma last_colon_skip:
  "n \<le> length ds \<Longrightarrow> CHR '':'' \<notin> set ds \<Longrightarrow>
     last_colon (h @ CHR '':'' # ds) (Suc (length h + n)) = Some (length h)"
proof (induction n)
  case 0
  then show ?case by simp
next
  case (Suc n)
  then have "ds ! n \<noteq> CHR '':''" using nth_mem [of n ds] by force
  with Suc show ?case by (simp add: nth_append)
qed

lemma parse_key_outpoint_key:
  assumes "hp (hs (op_hash op)) = Some (op_hash op)"
  shows "parse_key hp (outpoint_key (hs (op_hash op)) (op_index op)) = Inr op"
proof -
  let ?h = "hs (op_hash op)" and ?d = "format_uint (unat (op_index op))"
  have "last_colon (?h @ CHR '':'' # ?d) (length (?h @ CHR '':'' # ?d)) = Some (length ?h)"
    using last_colon_skip [of "length ?d" ?d ?h] by simp
  with assms show ?thesis by (simp add: parse_key_def outpoint_key_def)
qed

lemma outpoint_key_inj:
  assumes codec: "\<And>h. hp (hs h) = Some h"
  shows "outpoint_key (hs (op_hash x)) (op_index x) = outpoint_key (hs (op_hash y)) (op_index y) \<longleftrightarrow> (x :: outpoint) = y"
  using parse_key_outpoint_key [of hp hs x] parse_key_outpoint_key [of hp hs y] codec
  by (metis Inr_inject)

lemma fold_update_fresh:
  assumes inj: "\<And>x y. key x = key y \<longleftrightarrow> x = y"
  shows "distinct (map fst kvs) \<Longrightarrow> fst ` set kvs \<inter> fst ` set m = {} \<Longrightarrow>
    fold (\<lambda>(x, f). AList.update (key x) f) kvs (map (\<lambda>(x, f). (key x, f)) m) = map (\<lambda>(x, f). (key x, f)) (m @ kvs)"
proof (induction kvs arbitrary: m)
  case Nil
  then show ?case by simp
next
  case (Cons kv kvs)
  obtain x f where kv: "kv = (x, f)" by (cases kv)
  have "key x \<notin> fst ` set (map (\<lambda>(x, f). (key x, f)) m)"
    using Cons.prems inj by (force simp: kv)
  then have "AList.update (key x) f (map (\<lambda>(x, f). (key x, f)) m) = map (\<lambda>(x, f). (key x, f)) (m @ [(x, f)])"
    by (simp add: update_fresh)
  with Cons.prems Cons.IH [of "m @ [(x, f)]"] show ?case by (auto simp: kv)
qed

lemma parse_forfeits_roundtrip:
  assumes codec: "\<And>h. hp (hs h) = Some h"
  shows "distinct (map fst kvs) \<Longrightarrow> fst ` set kvs \<inter> fst ` set m = {} \<Longrightarrow>
    parse_forfeits hp (map (\<lambda>(op, f). (outpoint_key (hs (op_hash op)) (op_index op), f)) kvs) m = Inr (m @ kvs)"
proof (induction kvs arbitrary: m)
  case Nil
  then show ?case by simp
next
  case (Cons kv kvs)
  obtain op f where kv: "kv = (op, f)" by (cases kv)
  have "AList.update op f m = m @ [(op, f)]"
    using Cons.prems by (intro update_fresh) (auto simp: kv)
  with Cons.prems Cons.IH [of "m @ [(op, f)]"] show ?case
    by (auto simp: kv parse_key_outpoint_key [of hp hs, OF codec])
qed

lemma parse_inputs_roundtrip:
  assumes codec: "\<And>h. hp (hs h) = Some h"
  shows "parse_inputs hp i (map (\<lambda>input. \<lparr>Hash = hs (op_hash input), Index = op_index input\<rparr>) ins) = Inr ins"
  by (induction ins arbitrary: i) (auto simp: codec)

lemma toDelegateTask_roundtrip:
  assumes codec: "\<And>h. hp (hs h) = Some h" and dist: "distinct (map fst (ForfeitTxs t))"
  shows "toDelegateTask hp (toDelegateTaskData hs t)
     = Inr (t\<lparr>ScheduledAt := time_of_unix (unix_of_time (ScheduledAt t))\<rparr>)"
proof -
  note inj = outpoint_key_inj [of hp hs, OF codec]
  have "fold (\<lambda>(op, f). AList.update (outpoint_key (hs (op_hash op)) (op_index op)) f) (ForfeitTxs t) []
      = map (\<lambda>(op, f). (outpoint_key (hs (op_hash op)) (op_index op), f)) (ForfeitTxs t)"
    using fold_update_fresh [of "\<lambda>op. outpoint_key (hs (op_hash op)) (op_index op)" "ForfeitTxs t" "[]", OF inj dist]
    by simp
  then show ?thesis
    using parse_forfeits_roundtrip [of hp hs "ForfeitTxs t" "[]", OF codec dist]
    by (simp add: toDelegateTask_def toDelegateTaskData_def parse_inputs_roundtrip [of hp hs, OF codec])
qed

end
