(* ===== verification/BadgerRefine.thy ===== *)
theory BadgerRefine
  imports BadgerRepo
begin

text \<open>
  The badger repository implements the contract of \<open>DelegateRepository\<close> over every store that
  meets the laws of \<^term>\<open>kv_store\<close> (locale \<open>dto_kv\<close>), and so over the store in memory.
\<close>

section \<open>Abstraction and invariant\<close>

definition badger_view ::
  "('s \<Rightarrow> string \<rightharpoonup> delegateTaskDTO) \<Rightarrow> (string \<Rightarrow> 256 word option) \<Rightarrow> 's \<Rightarrow> tasks_view" where
  "badger_view m hp s i =
     (case m s i of
        None \<Rightarrow> None
      | Some d \<Rightarrow> (case toDelegateTask hp d of Inl _ \<Rightarrow> None | Inr t \<Rightarrow> Some (view_of t)))"

definition dto_ok :: "(256 word \<Rightarrow> string) \<Rightarrow> string \<Rightarrow> delegateTaskDTO \<Rightarrow> bool" where
  "dto_ok hs i d \<longleftrightarrow> (\<exists>t. d = toDelegateTaskData hs t \<and> ID t = i \<and> distinct (map fst (ForfeitTxs t)))"

definition badger_inv ::
  "('s \<Rightarrow> string \<rightharpoonup> delegateTaskDTO) \<Rightarrow> (256 word \<Rightarrow> string) \<Rightarrow> 's \<Rightarrow> bool" where
  "badger_inv m hs s \<longleftrightarrow> (\<forall>i d. m s i = Some d \<longrightarrow> dto_ok hs i d)"

definition stored ::
  "('s \<Rightarrow> string \<rightharpoonup> delegateTaskDTO) \<Rightarrow> (256 word \<Rightarrow> string) \<Rightarrow> 's \<Rightarrow> string \<Rightarrow> delegate_task \<Rightarrow> bool" where
  "stored m hs s i t \<longleftrightarrow>
     m s i = Some (toDelegateTaskData hs t) \<and> ID t = i \<and> distinct (map fst (ForfeitTxs t))"

definition truncated :: "delegate_task \<Rightarrow> delegate_task" where
  "truncated t = t\<lparr>ScheduledAt := time_of_unix (unix_of_time (ScheduledAt t))\<rparr>"

lemma truncated_simps [simp]:
  "ID (truncated t) = ID t" "Intent (truncated t) = Intent t" "ForfeitTxs (truncated t) = ForfeitTxs t"
  "Status (truncated t) = Status t" "view_of (truncated t) = view_of t"
  by (simp_all add: truncated_def view_of_def)

lemma dto_fields [simp]:
  "DTO_ID (toDelegateTaskData hs t) = ID t"
  "DTO_Status (toDelegateTaskData hs t) = Status t"
  "DTO_ScheduledAt (toDelegateTaskData hs t) = unix_of_time (ScheduledAt t)"
  "IntentJSON (toDelegateTaskData hs t) = Inr (Intent t)"
  by (simp_all add: toDelegateTaskData_def)

lemma dto_with_txid_Some:
  "dto_with_txid x ds = Some d \<Longrightarrow> d \<in> set ds \<and> (\<exists>intent. IntentJSON d = Inr intent \<and> Txid intent = x)"
  by (induction ds) (auto split: sum.splits if_splits)

locale dto_kv = kv_store kv_map kv
  for kv_map :: "'s \<Rightarrow> string \<rightharpoonup> delegateTaskDTO" and kv :: "'s dto_store" +
  fixes hs :: "256 word \<Rightarrow> string" and hp :: "string \<Rightarrow> 256 word option"
  assumes hash_codec: "hp (hs h) = Some h"
begin

lemma read_back:
  "distinct (map fst (ForfeitTxs t)) \<Longrightarrow> toDelegateTask hp (toDelegateTaskData hs t) = Inr (truncated t)"
  using toDelegateTask_roundtrip [of hp hs t] hash_codec by (simp add: truncated_def)

lemma stored_read:
  "stored kv_map hs s i t \<Longrightarrow> badger_GetByID kv hp s i = Inr (truncated t)"
  by (simp add: stored_def badger_GetByID_def get_eq read_back)

lemma stored_view: "stored kv_map hs s i t \<Longrightarrow> badger_view kv_map hp s i = Some (view_of t)"
  by (simp add: stored_def badger_view_def read_back)

lemma inv_stored: "badger_inv kv_map hs s \<Longrightarrow> kv_map s i = Some d \<Longrightarrow>
    \<exists>t. stored kv_map hs s i t \<and> d = toDelegateTaskData hs t"
  by (auto simp: badger_inv_def dto_ok_def stored_def)

lemma view_Some:
  assumes "badger_inv kv_map hs s"
  shows "badger_view kv_map hp s i = Some v \<longleftrightarrow> (\<exists>t. stored kv_map hs s i t \<and> v = view_of t)"
proof
  assume v: "badger_view kv_map hp s i = Some v"
  then obtain d where "kv_map s i = Some d" by (auto simp: badger_view_def split: option.splits)
  from inv_stored [OF assms this] obtain t where t: "stored kv_map hs s i t" by blast
  with stored_view [OF t] v show "\<exists>t. stored kv_map hs s i t \<and> v = view_of t" by auto
qed (auto dest: stored_view)

lemma GetByID_Inr:
  assumes "badger_inv kv_map hs s" and "badger_GetByID kv hp s i = Inr t"
  shows "badger_view kv_map hp s i = Some (view_of t) \<and> ID t = i \<and> distinct (map fst (ForfeitTxs t))"
proof (cases "kv_map s i")
  case None
  with assms(2) show ?thesis by (simp add: badger_GetByID_def get_eq)
next
  case (Some d)
  with assms(1) obtain u where u: "stored kv_map hs s i u" by (blast dest: inv_stored)
  with assms(2) have "t = truncated u" by (simp add: stored_read)
  with stored_view [OF u] u show ?thesis by (simp add: stored_def)
qed

lemma GetByID_Inl:
  assumes "badger_inv kv_map hs s" and "badger_GetByID kv hp s i = Inl e"
  shows "badger_view kv_map hp s i = None"
proof (cases "kv_map s i")
  case None
  then show ?thesis by (simp add: badger_view_def)
next
  case (Some d)
  with assms(1) obtain u where "stored kv_map hs s i u" by (blast dest: inv_stored)
  with assms(2) show ?thesis by (simp add: stored_read)
qed

text \<open>A write of a task's document under the task's own id is an update of the view.\<close>

lemma write_view:
  assumes "badger_inv kv_map hs s" and "distinct (map fst (ForfeitTxs t))" and "ID t = i"
    and "kv_map s' = (kv_map s)(i \<mapsto> toDelegateTaskData hs t)"
  shows "badger_inv kv_map hs s' \<and> badger_view kv_map hp s' = (badger_view kv_map hp s)(i \<mapsto> view_of t)"
  using assms by (auto simp: badger_inv_def dto_ok_def badger_view_def read_back fun_eq_iff)

lemma same_map:
  "kv_map s' = kv_map s \<Longrightarrow>
     (badger_inv kv_map hs s' \<longleftrightarrow> badger_inv kv_map hs s) \<and> badger_view kv_map hp s' = badger_view kv_map hp s"
  by (simp add: badger_inv_def badger_view_def fun_eq_iff)

lemma Add_ok:
  assumes "badger_inv kv_map hs s" and "storable t" and "badger_Add kv hs s t = (None, s')"
  shows "badger_view kv_map hp s (ID t) = None
    \<and> badger_inv kv_map hs s' \<and> badger_view kv_map hp s' = (badger_view kv_map hp s)(ID t \<mapsto> view_of t)"
proof -
  from assms(3) have "kv_insert kv s (ID t) (toDelegateTaskData hs t) = (None, s')"
    by (cases "kv_insert kv s (ID t) (toDelegateTaskData hs t)") (simp add: badger_Add_def kv_result_def)
  from insert_ok [OF this] write_view [OF assms(1) _ refl] assms(2) show ?thesis
    by (auto simp: storable_def badger_view_def)
qed

lemma Add_error:
  assumes "badger_inv kv_map hs s" and "badger_Add kv hs s t = (Some e, s')"
  shows "badger_inv kv_map hs s' \<and> badger_view kv_map hp s' = badger_view kv_map hp s"
proof -
  from assms(2) obtain e' where "kv_insert kv s (ID t) (toDelegateTaskData hs t) = (Some e', s')"
    by (cases "kv_insert kv s (ID t) (toDelegateTaskData hs t)") (auto simp: badger_Add_def kv_result_def)
  from same_map [OF insert_fail [OF this]] assms(1) show ?thesis by simp
qed

lemma pending_view:
  "badger_inv kv_map hs s \<Longrightarrow> badger_view kv_map hp s i = Some v \<and> is_pending v \<longleftrightarrow>
    (\<exists>t. stored kv_map hs s i t \<and> v = view_of t \<and> Status t = DelegateTaskStatusPending)"
  by (auto simp: view_Some is_pending_def)

lemma find_pending:
  assumes inv: "badger_inv kv_map hs s" and find: "find_status kv s DelegateTaskStatusPending = Inr ds"
  shows "set ds = {toDelegateTaskData hs t |t.
    stored kv_map hs s (ID t) t \<and> Status t = DelegateTaskStatusPending}"
proof -
  have "set ds = {d. \<exists>k. kv_map s k = Some d \<and> DTO_Status d = DelegateTaskStatusPending}"
    using find find_set by (auto simp: find_status_def)
  also have "\<dots> = {toDelegateTaskData hs t |t.
    stored kv_map hs s (ID t) t \<and> Status t = DelegateTaskStatusPending}" (is "?L = ?R")
  proof (intro set_eqI iffI)
    fix d assume "d \<in> ?L"
    then obtain k where k: "kv_map s k = Some d" "DTO_Status d = DelegateTaskStatusPending" by blast
    from inv_stored [OF inv k(1)] k(2) show "d \<in> ?R" by (auto simp: stored_def)
  next
    fix d assume "d \<in> ?R"
    then show "d \<in> ?L" by (auto simp: stored_def)
  qed
  finally show ?thesis .
qed

lemma GetAllPending_view:
  assumes inv: "badger_inv kv_map hs s" and get: "badger_GetAllPending kv s = Inr ps"
  shows "set (map (\<lambda>p. (Pending_ID p, Pending_ScheduledAt p)) ps)
     = {(i, time_of_unix (tv_scheduled v)) |i v. badger_view kv_map hp s i = Some v \<and> is_pending v}"
proof -
  from get obtain ds where ds: "find_status kv s DelegateTaskStatusPending = Inr ds"
    and ps: "ps = map pending_of_dto ds"
    by (cases "find_status kv s DelegateTaskStatusPending") (auto simp: badger_GetAllPending_def)
  have "set (map (\<lambda>p. (Pending_ID p, Pending_ScheduledAt p)) ps)
      = (\<lambda>d. (DTO_ID d, time_of_unix (DTO_ScheduledAt d))) ` set ds"
    by (simp add: ps pending_of_dto_def image_image)
  also have "\<dots> = {(i, time_of_unix (tv_scheduled (view_of t))) |i t.
      stored kv_map hs s i t \<and> Status t = DelegateTaskStatusPending}"
    unfolding find_pending [OF inv ds] by (force simp: stored_def)
  also have "\<dots> = {(i, time_of_unix (tv_scheduled v)) |i v. badger_view kv_map hp s i = Some v \<and> is_pending v}"
    unfolding pending_view [OF inv] by blast
  finally show ?thesis .
qed

lemma GetPendingTaskByIntentTxID_view:
  assumes inv: "badger_inv kv_map hs s" and get: "badger_GetPendingTaskByIntentTxID kv s x = Inr p"
  shows "\<exists>v. badger_view kv_map hp s (Pending_ID p) = Some v \<and> is_pending v \<and> tv_txid v = x"
proof -
  from get obtain ds d where ds: "find_status kv s DelegateTaskStatusPending = Inr ds"
    and d: "dto_with_txid x ds = Some d" and p: "p = pending_of_dto d"
    by (auto simp: badger_GetPendingTaskByIntentTxID_def split: sum.splits option.splits)
  from dto_with_txid_Some [OF d] find_pending [OF inv ds] obtain t where t: "d = toDelegateTaskData hs t"
    "stored kv_map hs s (ID t) t" "Status t = DelegateTaskStatusPending" "Txid (Intent t) = x"
    by auto
  with p stored_view [OF t(2)] show ?thesis by (simp add: pending_of_dto_def is_pending_def)
qed

lemma hasOverlap_iff:
  "hasOverlap (set (map (\<lambda>i. outpoint_key (hs (op_hash i)) (op_index i)) ins)) (toDelegateTaskData hs t)
     \<longleftrightarrow> set (Inputs (Intent t)) \<inter> set ins \<noteq> {}"
proof -
  note inj = outpoint_key_inj [of hp hs, OF hash_codec]
  have "hasOverlap (set (map (\<lambda>i. outpoint_key (hs (op_hash i)) (op_index i)) ins)) (toDelegateTaskData hs t)
     \<longleftrightarrow> (\<exists>x \<in> set (Inputs (Intent t)). \<exists>y \<in> set ins.
           outpoint_key (hs (op_hash x)) (op_index x) = outpoint_key (hs (op_hash y)) (op_index y))"
    by (auto simp: hasOverlap_def toDelegateTaskData_def list_ex_iff)
  then show ?thesis by (auto simp: inj)
qed

lemma GetPendingTaskIDsByInputs_view:
  assumes inv: "badger_inv kv_map hs s" and get: "badger_GetPendingTaskIDsByInputs kv hs s inputs = Inr ids"
  shows "set ids = {i. \<exists>v. badger_view kv_map hp s i = Some v \<and> is_pending v \<and> tv_inputs v \<inter> set inputs \<noteq> {}}"
proof -
  let ?S = "set (map (\<lambda>i. outpoint_key (hs (op_hash i)) (op_index i)) inputs)"
  from get obtain ds where ds: "find_status kv s DelegateTaskStatusPending = Inr ds"
    and ids: "ids = map DTO_ID (filter (hasOverlap ?S) ds)"
    by (auto simp: badger_GetPendingTaskIDsByInputs_def Let_def split: sum.splits)
  have "set ids = {i. \<exists>t. stored kv_map hs s i t \<and> Status t = DelegateTaskStatusPending
      \<and> hasOverlap ?S (toDelegateTaskData hs t)}"
    unfolding ids set_map set_filter find_pending [OF inv ds] by (force simp: stored_def)
  also have "\<dots> = {i. \<exists>v. (badger_view kv_map hp s i = Some v \<and> is_pending v) \<and> tv_inputs v \<inter> set inputs \<noteq> {}}"
    unfolding pending_view [OF inv] hasOverlap_iff by force
  finally show ?thesis by simp
qed

section \<open>Closing tasks\<close>

lemma close_loop_view:
  assumes f: "\<And>t. ID (f t) = ID t" "\<And>t. ForfeitTxs (f t) = ForfeitTxs t"
    and view: "\<And>t. view_of (f t) = g (view_of t)" and closed: "\<And>w. \<not> is_pending (g w)"
  shows "badger_inv kv_map hs s \<Longrightarrow> close_loop kv hs hp f msg ids s = (er, s') \<Longrightarrow>
    badger_inv kv_map hs s' \<and> (\<exists>A \<subseteq> set ids. (er = None \<longrightarrow> A = set ids)
      \<and> badger_view kv_map hp s' = close_tasks g A (badger_view kv_map hp s))"
proof (induction ids arbitrary: s)
  case Nil
  then show ?case by auto
next
  case (Cons i ids)
  show ?case
  proof (cases "\<exists>t. badger_GetByID kv hp s i = Inr t \<and> Status t = DelegateTaskStatusPending")
    case False
    then have "close_loop kv hs hp f msg ids s = (er, s')"
      using Cons.prems(2) by (auto split: sum.splits)
    from Cons.IH [OF Cons.prems(1) this] obtain A where A: "badger_inv kv_map hs s'" "A \<subseteq> set ids"
      "er = None \<longrightarrow> A = set ids" "badger_view kv_map hp s' = close_tasks g A (badger_view kv_map hp s)"
      by blast
    have "\<forall>v. badger_view kv_map hp s i = Some v \<longrightarrow> \<not> is_pending v"
      using False GetByID_Inl [OF Cons.prems(1), of i] GetByID_Inr [OF Cons.prems(1), of i]
      by (cases "badger_GetByID kv hp s i") (auto simp: is_pending_def)
    then have "close_tasks g A (badger_view kv_map hp s) = close_tasks g (insert i A) (badger_view kv_map hp s)"
      by (auto simp: close_tasks_def fun_eq_iff split: option.splits)
    with A show ?thesis by (intro conjI exI [of _ "insert i A"]) auto
  next
    case True
    then obtain t where t: "badger_GetByID kv hp s i = Inr t" "Status t = DelegateTaskStatusPending"
      by blast
    note tv = GetByID_Inr [OF Cons.prems(1) t(1)]
    obtain er1 s1 where up: "kv_update kv s i (toDelegateTaskData hs (f t)) = (er1, s1)"
      by (cases "kv_update kv s i (toDelegateTaskData hs (f t))")
    show ?thesis
    proof (cases er1)
      case (Some e)
      then have "s' = s1" "er \<noteq> None" using Cons.prems(2) t up by auto
      with same_map [OF update_fail [OF up [unfolded Some]]] Cons.prems(1) show ?thesis
        by (intro conjI exI [of _ "{}"]) auto
    next
      case None
      note ok = update_ok [OF up [unfolded None]]
      have "badger_inv kv_map hs s1 \<and> badger_view kv_map hp s1 = (badger_view kv_map hp s)(i \<mapsto> view_of (f t))"
        using tv ok f by (intro write_view [OF Cons.prems(1)]) auto
      then have s1: "badger_inv kv_map hs s1"
        "badger_view kv_map hp s1 = close_tasks g {i} (badger_view kv_map hp s)"
        using tv t(2) by (auto simp: close_tasks_def fun_eq_iff view is_pending_def split: option.splits)
      have "close_loop kv hs hp f msg ids s1 = (er, s')" using Cons.prems(2) t up None by simp
      from Cons.IH [OF s1(1) this] obtain A where A: "badger_inv kv_map hs s'" "A \<subseteq> set ids"
        "er = None \<longrightarrow> A = set ids" "badger_view kv_map hp s' = close_tasks g A (badger_view kv_map hp s1)"
        by blast
      with s1 show ?thesis
        by (intro conjI exI [of _ "insert i A"]) (auto simp: close_tasks_insert closed)
    qed
  qed
qed

lemma closing_view:
  assumes "\<And>t. ID (f t) = ID t" "\<And>t. ForfeitTxs (f t) = ForfeitTxs t"
    and "\<And>t. view_of (f t) = g (view_of t)" and "\<And>w. \<not> is_pending (g w)"
    and "badger_inv kv_map hs s"
    and "(if ids = [] then (None, s) else close_loop kv hs hp f msg ids s) = (er, s')"
  shows "badger_inv kv_map hs s' \<and> (\<exists>A \<subseteq> set ids. (er = None \<longrightarrow> A = set ids)
      \<and> badger_view kv_map hp s' = close_tasks g A (badger_view kv_map hp s))"
proof -
  from assms(6) have "close_loop kv hs hp f msg ids s = (er, s')" by (cases ids) auto
  from close_loop_view [OF assms(1-5) this] show ?thesis .
qed

end

definition badger_delegate_repo ::
  "'s dto_store \<Rightarrow> (256 word \<Rightarrow> string) \<Rightarrow> (string \<Rightarrow> 256 word option) \<Rightarrow> 's delegate_repo" where
  "badger_delegate_repo kv hs hp =
     \<lparr>Add = badger_Add kv hs, GetByID = badger_GetByID kv hp,
      GetAllPending = badger_GetAllPending kv,
      GetPendingTaskByIntentTxID = badger_GetPendingTaskByIntentTxID kv,
      GetPendingTaskIDsByInputs = badger_GetPendingTaskIDsByInputs kv hs,
      CancelTasks = badger_CancelTasks kv hs hp, CompleteTasks = badger_CompleteTasks kv hs hp,
      FailTasks = badger_FailTasks kv hs hp, GetAll = badger_GetAll kv hp\<rparr>"

sublocale dto_kv \<subseteq> badger: delegate_repository "badger_view kv_map hp" "badger_inv kv_map hs"
  "badger_delegate_repo kv hs hp"
proof (unfold_locales, unfold badger_delegate_repo_def delegate_repo.select_convs, goal_cases)
  case (1 s t)
  obtain er s' where "badger_Add kv hs s t = (er, s')" by (cases "badger_Add kv hs s t")
  with 1 show ?case by (cases er) (auto dest: Add_ok Add_error)
next
  case 2 then show ?case using Add_ok by blast
next
  case 3 then show ?case using Add_error by blast
next
  case 4 then show ?case using GetByID_Inr by blast
next
  case 5 then show ?case by (rule GetAllPending_view)
next
  case 6 then show ?case by (rule GetPendingTaskByIntentTxID_view)
next
  case 7 then show ?case by (rule GetPendingTaskIDsByInputs_view)
next
  case (8 s ids er s')
  show ?case
    by (rule closing_view [where f = "\<lambda>t. t\<lparr>Status := DelegateTaskStatusCancelled\<rparr>", OF _ _ _ _ 8(1) 8(2) [unfolded badger_CancelTasks_def]])
       (simp_all add: view_of_def cancelled_def is_pending_def)
next
  case (9 s c ids er s')
  show ?case
    by (rule closing_view [where f = "\<lambda>t. t\<lparr>Status := DelegateTaskStatusCompleted, CommitmentTxid := c\<rparr>", OF _ _ _ _ 9(1) 9(2) [unfolded badger_CompleteTasks_def]])
       (simp_all add: view_of_def completed_def is_pending_def)
next
  case (10 s r ids er s')
  show ?case
    by (rule closing_view [where f = "\<lambda>t. t\<lparr>Status := DelegateTaskStatusFailed, FailReason := r\<rparr>", OF _ _ _ _ 10(1) 10(2) [unfolded badger_FailTasks_def]])
       (simp_all add: view_of_def failed_def is_pending_def)
qed

context dto_kv begin

lemma badger_contract:
  "delegate_repository (badger_view kv_map hp) (badger_inv kv_map hs) (badger_delegate_repo kv hs hp)"
  by (rule badger.delegate_repository_axioms)

end

interpretation badger_repo: dto_kv map_of "mem_store flt" hash_String NewHashFromStr for flt
  by unfold_locales simp

end
