(* ===== verification/DelegateSafety.thy ===== *)
theory DelegateSafety
  imports DelegateService SqliteRefine BadgerRefine
begin

text \<open>
  All interleavings of the delegate service as a step relation, and what holds in every
  reachable state over any repository that meets the contract (locale \<open>delegate_service\<close>): the
  pending tasks have disjoint inputs, a closed task never changes, no task disappears. The
  locale is interpreted on the SQLite and on the badger repository, with failing statements.
\<close>

type_synonym verdict = "string \<Rightarrow> string option"

text \<open>
  \<open>Rs f\<close> is the repository when its statements fail as \<open>f\<close> says: \<open>f\<close> may differ at every step.
  Requests, server answers, clocks and scheduler errors are arbitrary. A locked section starts
  only when the mutex is free.
\<close>

inductive delegate_step ::
  "(verdict \<Rightarrow> 's delegate_repo) \<Rightarrow> crypto \<Rightarrow> (bytes \<Rightarrow> bytes) \<Rightarrow> (string \<Rightarrow> 256 word option) \<Rightarrow> u64 \<Rightarrow>
     's dstate \<Rightarrow> 's dstate \<Rightarrow> bool"
  for Rs :: "verdict \<Rightarrow> 's delegate_repo" and L sha hp fee where
  prepare: "Delegate_prepare (Rs f) L env pk fee message proof forfeitTxs s = (res, s1) \<Longrightarrow>
     s' = (case res of Inr (Some task) \<Rightarrow> s1\<lparr>prepared := prepared s1 @ [(task, allowReplace)]\<rparr> | _ \<Rightarrow> s1) \<Longrightarrow>
     delegate_step Rs L sha hp fee s s'"
| lock: "lock s = Unlocked \<Longrightarrow> (task, allowReplace) \<in> set (prepared s) \<Longrightarrow>
     Delegate_lock (Rs f) task allowReplace s = (out, s1) \<Longrightarrow>
     s' = s1\<lparr>prepared := remove1 (task, allowReplace) (prepared s1)\<rparr> \<Longrightarrow>
     delegate_step Rs L sha hp fee s s'"
| cancel: "lock s = ReplacePhase task ids \<Longrightarrow> Delegate_cancel (Rs f) task ids s = (out, s') \<Longrightarrow>
     delegate_step Rs L sha hp fee s s'"
| add: "lock s = AddPhase task \<Longrightarrow> Delegate_add (Rs f) now doErr task s = (er, s') \<Longrightarrow>
     delegate_step Rs L sha hp fee s s'"
| timer: "run_due now (sched s) = (run, sc) \<Longrightarrow> s' = s\<lparr>sched := sc, started := started s @ run\<rparr> \<Longrightarrow>
     delegate_step Rs L sha hp fee s s'"
| load: "lock s = Unlocked \<Longrightarrow> i \<in> set (started s) \<Longrightarrow> registerDelegate_load (Rs f) i s = res \<Longrightarrow>
     s' = s\<lparr>started := remove1 i (started s),
            loaded := (case res of Inl _ \<Rightarrow> loaded s | Inr task \<Rightarrow> loaded s @ [(i, task)])\<rparr> \<Longrightarrow>
     delegate_step Rs L sha hp fee s s'"
| register: "(i, task) \<in> set (loaded s) \<Longrightarrow> registerDelegate_call (Rs f) sha reg i task s = (er, s1) \<Longrightarrow>
     s' = s1\<lparr>loaded := remove1 (i, task) (loaded s1)\<rparr> \<Longrightarrow>
     delegate_step Rs L sha hp fee s s'"
| batch_started: "delegate_step Rs L sha hp fee s (BatchStarted hashes s)"
| batch_finalized: "selected \<in> set (batches s) \<Longrightarrow> OnBatchFinalized (Rs f) sha txid selected s = (er, s1) \<Longrightarrow>
     s' = (if er = None then s1\<lparr>batches := remove1 selected (batches s1)\<rparr> else s1) \<Longrightarrow>
     delegate_step Rs L sha hp fee s s'"
| batch_failed: "selected \<in> set (batches s) \<Longrightarrow>
     s' = s\<lparr>batches := remove1 selected (batches s), started := started s @ map taskID selected\<rparr> \<Longrightarrow>
     delegate_step Rs L sha hp fee s s'"
| spent: "delegate_step Rs L sha hp fee s (monitor_event hp event s)"
| capture: "lock s = Unlocked \<Longrightarrow> delegate_step Rs L sha hp fee s (monitor_capture s)"
| monitor: "lock s = Unlocked \<Longrightarrow> delegate_step Rs L sha hp fee s (monitor_lock (Rs f) s)"
| monitor_cancel: "lock s = MonitorPhase ids \<Longrightarrow> monitor_cancel (Rs f) ids s = (er, s') \<Longrightarrow>
     delegate_step Rs L sha hp fee s s'"
| start: "delegate_step Rs L sha hp fee s (delegate_Start (Rs f) now doErr s)"
| stop: "delegate_step Rs L sha hp fee s (delegate_Stop s)"

text \<open>A run from an empty service over a repository \<open>r\<close>.\<close>

inductive delegate_reach ::
  "(verdict \<Rightarrow> 's delegate_repo) \<Rightarrow> crypto \<Rightarrow> (bytes \<Rightarrow> bytes) \<Rightarrow> (string \<Rightarrow> 256 word option) \<Rightarrow> u64 \<Rightarrow>
     's \<Rightarrow> 's dstate \<Rightarrow> bool"
  for Rs :: "verdict \<Rightarrow> 's delegate_repo" and L sha hp fee r where
  init: "delegate_reach Rs L sha hp fee r (newDelegateService r)"
| step: "delegate_reach Rs L sha hp fee r s \<Longrightarrow> delegate_step Rs L sha hp fee s s' \<Longrightarrow>
     delegate_reach Rs L sha hp fee r s'"

section \<open>Evolution of the stored tasks\<close>

text \<open>What may happen to a stored task: nothing, or a pending one is closed.\<close>

definition task_le :: "task_view \<Rightarrow> task_view \<Rightarrow> bool" where
  "task_le v w \<longleftrightarrow> w = v \<or> (is_pending v \<and> (w = cancelled v \<or> (\<exists>c. w = completed c v) \<or> (\<exists>r. w = failed r v)))"

definition evolves :: "tasks_view \<Rightarrow> tasks_view \<Rightarrow> bool" where
  "evolves m m' \<longleftrightarrow> (\<forall>i v. m i = Some v \<longrightarrow> (\<exists>w. m' i = Some w \<and> task_le v w))"

definition pending_disjoint :: "tasks_view \<Rightarrow> bool" where
  "pending_disjoint m \<longleftrightarrow>
     (\<forall>i j v w. m i = Some v \<and> m j = Some w \<and> is_pending v \<and> is_pending w \<and> i \<noteq> j \<longrightarrow>
        tv_inputs v \<inter> tv_inputs w = {})"

lemma task_le_refl [simp]: "task_le v v"
  by (simp add: task_le_def)

lemma task_le_closed: "task_le v w \<Longrightarrow> \<not> is_pending v \<Longrightarrow> w = v"
  by (auto simp: task_le_def)

lemma task_le_trans: "task_le u v \<Longrightarrow> task_le v w \<Longrightarrow> task_le u w"
  by (auto simp: task_le_def)

lemma evolves_refl [simp]: "evolves m m"
  by (simp add: evolves_def)

lemma evolves_trans: "evolves m m' \<Longrightarrow> evolves m' m'' \<Longrightarrow> evolves m m''"
  unfolding evolves_def by (meson task_le_trans)

lemma evolves_add: "m i = None \<Longrightarrow> evolves m (m(i \<mapsto> v))"
  by (auto simp: evolves_def)

lemma evolves_close:
  "(\<And>v. is_pending v \<Longrightarrow> task_le v (f v)) \<Longrightarrow> evolves m (close_tasks f A m)"
  by (auto simp: evolves_def close_tasks_def)

lemma task_le_closings [simp]:
  "is_pending v \<Longrightarrow> task_le v (cancelled v)" "is_pending v \<Longrightarrow> task_le v (completed c v)"
  "is_pending v \<Longrightarrow> task_le v (failed r v)"
  by (auto simp: task_le_def)

lemma close_pending:
  "(\<And>w. \<not> is_pending (f w)) \<Longrightarrow>
     close_tasks f A m i = Some v \<and> is_pending v \<longleftrightarrow> m i = Some v \<and> is_pending v \<and> i \<notin> A"
  by (auto simp: close_tasks_def split: option.splits if_splits)

lemma pending_disjoint_sub:
  "pending_disjoint m \<Longrightarrow> (\<And>i v. m' i = Some v \<Longrightarrow> is_pending v \<Longrightarrow> m i = Some v) \<Longrightarrow> pending_disjoint m'"
  unfolding pending_disjoint_def by blast

section \<open>The invariant\<close>

text \<open>No pending task of \<open>m\<close> outside \<open>ids\<close> shares an input with \<open>t\<close>.\<close>

definition clear_but :: "tasks_view \<Rightarrow> string set \<Rightarrow> delegate_task \<Rightarrow> bool" where
  "clear_but m ids t \<longleftrightarrow>
     (\<forall>i v. m i = Some v \<and> is_pending v \<and> tv_inputs v \<inter> set (Inputs (Intent t)) \<noteq> {} \<longrightarrow> i \<in> ids)"

fun lock_ok :: "tasks_view \<Rightarrow> locked \<Rightarrow> bool" where
  "lock_ok m Unlocked \<longleftrightarrow> True"
| "lock_ok m (ReplacePhase t ids) \<longleftrightarrow> storable t \<and> clear_but m (set ids) t"
| "lock_ok m (AddPhase t) \<longleftrightarrow> storable t \<and> clear_but m {} t"
| "lock_ok m (MonitorPhase ids) \<longleftrightarrow> True"

definition dinv :: "('s \<Rightarrow> tasks_view) \<Rightarrow> ('s \<Rightarrow> bool) \<Rightarrow> 's dstate \<Rightarrow> bool" where
  "dinv view invar s \<longleftrightarrow>
     invar (repo s) \<and> pending_disjoint (view (repo s)) \<and> lock_ok (view (repo s)) (lock s)
     \<and> (\<forall>(t, _) \<in> set (prepared s). storable t)"

lemma clear_but_sub:
  "clear_but m ids t \<Longrightarrow> (\<And>i v. m' i = Some v \<Longrightarrow> is_pending v \<Longrightarrow> m i = Some v) \<Longrightarrow> clear_but m' ids t"
  unfolding clear_but_def by blast

lemma lock_ok_sub:
  "lock_ok m l \<Longrightarrow> (\<And>i v. m' i = Some v \<Longrightarrow> is_pending v \<Longrightarrow> m i = Some v) \<Longrightarrow> lock_ok m' l"
  by (cases l) (auto intro: clear_but_sub)

lemma pending_disjoint_add:
  assumes "pending_disjoint m" and "clear_but m {} t"
  shows "pending_disjoint (m(ID t \<mapsto> view_of t))"
proof (unfold pending_disjoint_def, intro allI impI, elim conjE)
  fix i j v w
  assume h: "(m(ID t \<mapsto> view_of t)) i = Some v" "(m(ID t \<mapsto> view_of t)) j = Some w"
    "is_pending v" "is_pending w" "i \<noteq> j"
  have free: "m k = Some u \<Longrightarrow> is_pending u \<Longrightarrow> tv_inputs u \<inter> set (Inputs (Intent t)) = {}" for k u
    using assms(2) by (auto simp: clear_but_def)
  show "tv_inputs v \<inter> tv_inputs w = {}"
    using h free [of i v] free [of j w] assms(1) [unfolded pending_disjoint_def, rule_format, of i v j w]
    by (auto split: if_splits)
qed

text \<open>A write that only closes tasks keeps the invariant and is an evolution.\<close>

lemma dinv_close:
  assumes "dinv view invar s" and "invar r" and "view r = close_tasks f A (view (repo s))"
    and "\<And>w. \<not> is_pending (f w)" and "\<And>v. is_pending v \<Longrightarrow> task_le v (f v)"
    and "repo s' = r" and "lock s' = lock s \<or> lock s' = Unlocked" and "set (prepared s') \<subseteq> set (prepared s)"
  shows "dinv view invar s' \<and> evolves (view (repo s)) (view (repo s'))"
proof -
  have sub: "view r i = Some v \<Longrightarrow> is_pending v \<Longrightarrow> view (repo s) i = Some v" for i v
    using close_tasks_pendingD [of f A "view (repo s)" i v] assms(3,4) by simp
  have "pending_disjoint (view r)" "lock_ok (view r) (lock s)"
    using assms(1) pending_disjoint_sub [OF _ sub] lock_ok_sub [OF _ sub] by (auto simp: dinv_def)
  then have "dinv view invar s'"
    using assms by (auto simp: dinv_def)
  with assms(3,5,6) show ?thesis by (simp add: evolves_close)
qed

lemma dinv_same:
  "dinv view invar s \<Longrightarrow> repo s' = repo s \<Longrightarrow> lock s' = lock s \<Longrightarrow> set (prepared s') \<subseteq> set (prepared s) \<Longrightarrow>
     dinv view invar s' \<and> evolves (view (repo s)) (view (repo s'))"
  by (auto simp: dinv_def)

lemma schedule_repo [simp]:
  "repo (snd (schedule now doErr at i s)) = repo s" "lock (snd (schedule now doErr at i s)) = lock s"
  "prepared (snd (schedule now doErr at i s)) = prepared s"
  "captured (snd (schedule now doErr at i s)) = captured s"
  by (simp_all add: schedule_def split: prod.splits)

lemma restore_loop_repo [simp]:
  "repo (restore_loop d now doErr k ps s) = repo s" "lock (restore_loop d now doErr k ps s) = lock s"
  "prepared (restore_loop d now doErr k ps s) = prepared s"
  by (induction d now doErr k ps s rule: restore_loop.induct) auto

section \<open>The service over any repository that meets the contract\<close>

locale delegate_service =
  fixes view :: "'s \<Rightarrow> tasks_view" and invar :: "'s \<Rightarrow> bool" and Rs :: "verdict \<Rightarrow> 's delegate_repo"
  assumes contract: "delegate_repository view invar (Rs f)"

sublocale delegate_service \<subseteq> R: delegate_repository view invar "Rs f" for f
  by (rule contract)

context delegate_service begin

lemma prepare_inv:
  assumes enc: "\<And>f x. B64Encode L f = Inr x \<Longrightarrow> x \<noteq> []" and inv: "dinv view invar s"
    and p: "Delegate_prepare (Rs f) L env pk fee message proof fs s = (res, s1)"
    and s': "s' = (case res of Inr (Some t) \<Rightarrow> s1\<lparr>prepared := prepared s1 @ [(t, b)]\<rparr> | _ \<Rightarrow> s1)"
  shows "dinv view invar s' \<and> evolves (view (repo s)) (view (repo s'))"
proof -
  from p have same: "repo s1 = repo s" "lock s1 = lock s" "prepared s1 = prepared s"
    and new: "\<And>t. res = Inr (Some t) \<Longrightarrow> \<exists>c c'. newDelegateTask L env pk fee message proof fs c = (Inr t, c')"
    by (auto simp: Delegate_prepare_def split: option.splits prod.splits sum.splits)
  have "storable t" if "res = Inr (Some t)" for t
    using new [OF that] newDelegateTask_valid [of L] enc by (fastforce simp: task_valid_def)
  with inv same show ?thesis
    by (auto simp: s' dinv_def split: sum.splits option.splits)
qed

lemma lock_inv0:
  assumes inv: "dinv view invar s" and st: "storable t"
    and run: "Delegate_lock (Rs f) t b s = (out, s1)"
  shows "dinv view invar s1 \<and> repo s1 = repo s \<and> prepared s1 = prepared s"
proof (cases "GetPendingTaskIDsByInputs (Rs f) (repo s) (Inputs (Intent t))")
  case (Inl e)
  with run inv show ?thesis by (auto simp: Delegate_lock_def)
next
  case (Inr ids)
  have iv: "invar (repo s)" using inv by (simp add: dinv_def)
  note ids = R.pending_by_inputs_view [OF iv Inr]
  have "clear_but (view (repo s)) (set ids) t"
    unfolding clear_but_def ids by blast
  with run Inr inv st show ?thesis
    by (auto simp: Delegate_lock_def dinv_def split: if_splits)
qed

lemma lock_inv:
  assumes inv: "dinv view invar s" and t: "(t, b) \<in> set (prepared s)"
    and run: "Delegate_lock (Rs f) t b s = (out, s1)"
    and s': "s' = s1\<lparr>prepared := remove1 (t, b) (prepared s1)\<rparr>"
  shows "dinv view invar s' \<and> evolves (view (repo s)) (view (repo s'))"
proof -
  have "storable t" using inv t by (auto simp: dinv_def)
  note s1 = lock_inv0 [OF inv this run]
  have "dinv view invar s' \<and> evolves (view (repo s1)) (view (repo s'))"
    using s1 by (intro dinv_same) (auto simp: s' dest: subsetD [OF set_remove1_subset])
  with s1 show ?thesis by simp
qed

lemma cancel_inv:
  assumes inv: "dinv view invar s" and lk: "lock s = ReplacePhase t ids"
    and run: "Delegate_cancel (Rs f) t ids s = (out, s')"
  shows "dinv view invar s' \<and> evolves (view (repo s)) (view (repo s'))"
proof -
  obtain er r where c: "CancelTasks (Rs f) (repo s) ids = (er, r)"
    by (cases "CancelTasks (Rs f) (repo s) ids")
  have iv: "invar (repo s)" using inv by (simp add: dinv_def)
  from R.cancel_view [OF iv c] obtain A where A: "invar r" "er = None \<Longrightarrow> A = set ids"
    "view r = close_tasks cancelled A (view (repo s))"
    by blast
  show ?thesis
  proof (cases er)
    case (Some e)
    with run c have s': "s' = s\<lparr>repo := r, lock := Unlocked\<rparr>" by (simp add: Delegate_cancel_def)
    show ?thesis
      by (rule dinv_close [OF inv A(1) A(3)]) (simp_all add: s')
  next
    case None
    with run c have s': "s' = s\<lparr>repo := r, lock := AddPhase t\<rparr>" by (simp add: Delegate_cancel_def)
    have u: "dinv view invar (s\<lparr>repo := r, lock := Unlocked\<rparr>)
        \<and> evolves (view (repo s)) (view (repo (s\<lparr>repo := r, lock := Unlocked\<rparr>)))"
      by (rule dinv_close [OF inv A(1) A(3)]) simp_all
    have "storable t" "clear_but (view (repo s)) (set ids) t" using inv lk by (auto simp: dinv_def)
    then have "lock_ok (view r) (AddPhase t)"
      unfolding A(3) A(2) [OF None]
      by (auto simp: clear_but_def dest!: close_tasks_pendingD)
    with u show ?thesis by (simp add: dinv_def s')
  qed
qed

lemma add_inv:
  assumes inv: "dinv view invar s" and lk: "lock s = AddPhase t"
    and run: "Delegate_add (Rs f) now doErr t s = (er, s')"
  shows "dinv view invar s' \<and> evolves (view (repo s)) (view (repo s'))"
proof -
  have st: "storable t" and cl: "clear_but (view (repo s)) {} t" and iv: "invar (repo s)"
    using inv lk by (auto simp: dinv_def)
  obtain er1 r where a: "Add (Rs f) (repo s) t = (er1, r)" by (cases "Add (Rs f) (repo s) t")
  have ir: "invar r" using R.add_invar [OF iv st, of f] a by simp
  show ?thesis
  proof (cases er1)
    case (Some e)
    with run a have s': "s' = s\<lparr>repo := r, lock := Unlocked\<rparr>" by (simp add: Delegate_add_def)
    have "view r = view (repo s)" using R.add_error [OF iv st a [unfolded Some]] .
    with inv ir show ?thesis by (simp add: dinv_def s')
  next
    case None
    from R.add_view [OF iv st a [unfolded None]] have vr: "view (repo s) (ID t) = None"
      "view r = (view (repo s))(ID t \<mapsto> view_of t)" by auto
    obtain er2 s1 where sch: "schedule now doErr (ScheduledAt t) (ID t) (s\<lparr>repo := r\<rparr>) = (er2, s1)"
      by (cases "schedule now doErr (ScheduledAt t) (ID t) (s\<lparr>repo := r\<rparr>)")
    have s1: "repo s1 = r" "lock s1 = lock s" "prepared s1 = prepared s"
      using sch schedule_repo [of now doErr "ScheduledAt t" "ID t" "s\<lparr>repo := r\<rparr>"] by auto
    have "pending_disjoint (view r)"
      using inv cl unfolding vr dinv_def by (blast intro: pending_disjoint_add)
    then have d: "dinv view invar (s1\<lparr>lock := Unlocked\<rparr>)"
      using inv ir s1 by (simp add: dinv_def)
    have ev: "evolves (view (repo s)) (view r)" unfolding vr using vr(1) by (rule evolves_add)
    show ?thesis
    proof (cases er2)
      case None
      with run a \<open>er1 = None\<close> sch have "s' = s1\<lparr>lock := Unlocked\<rparr>" by (simp add: Delegate_add_def)
      with d ev s1 show ?thesis by simp
    next
      case (Some e)
      obtain er3 r2 where ft: "FailTasks (Rs f) r e [ID t] = (er3, r2)" by (cases "FailTasks (Rs f) r e [ID t]")
      with run a \<open>er1 = None\<close> sch Some s1 have s': "s' = s1\<lparr>repo := r2, lock := Unlocked\<rparr>"
        by (simp add: Delegate_add_def)
      from R.fail_view [OF ir ft] obtain A where A: "invar r2" "view r2 = close_tasks (failed e) A (view r)"
        by blast
      have "dinv view invar s' \<and> evolves (view (repo (s1\<lparr>lock := Unlocked\<rparr>))) (view (repo s'))"
        by (rule dinv_close [where f = "failed e" and A = A, OF d A(1)]) (simp_all add: s' s1 A(2))
      with ev s1 show ?thesis by (auto intro: evolves_trans)
    qed
  qed
qed

lemma register_inv:
  assumes inv: "dinv view invar s" and run: "registerDelegate_call (Rs f) sha reg i t s = (er, s1)"
    and s': "s' = s1\<lparr>loaded := remove1 (i, t) (loaded s1)\<rparr>"
  shows "dinv view invar s' \<and> evolves (view (repo s)) (view (repo s'))"
proof (cases "reg (Proof (Intent t)) (Message (Intent t))")
  case (Inl e)
  have iv: "invar (repo s)" using inv by (simp add: dinv_def)
  obtain er1 r where ft: "FailTasks (Rs f) (repo s) e [i] = (er1, r)" by (cases "FailTasks (Rs f) (repo s) e [i]")
  with run Inl have s1: "s1 = s\<lparr>repo := r\<rparr>" by (simp add: registerDelegate_call_def)
  from R.fail_view [OF iv ft] obtain A where A: "invar r" "view r = close_tasks (failed e) A (view (repo s))"
    by blast
  show ?thesis by (rule dinv_close [OF inv A]) (simp_all add: s' s1)
next
  case (Inr intentId)
  with run show ?thesis
    by (intro dinv_same [OF inv]) (auto simp: registerDelegate_call_def s' Let_def)
qed

lemma finalized_inv:
  assumes inv: "dinv view invar s" and run: "OnBatchFinalized (Rs f) sha txid selected s = (er, s1)"
    and s': "s' = (if er = None then s1\<lparr>batches := remove1 selected (batches s1)\<rparr> else s1)"
  shows "dinv view invar s' \<and> evolves (view (repo s)) (view (repo s'))"
proof -
  have iv: "invar (repo s)" using inv by (simp add: dinv_def)
  obtain er1 r where ct: "CompleteTasks (Rs f) (repo s) txid (map taskID selected) = (er1, r)"
    by (cases "CompleteTasks (Rs f) (repo s) txid (map taskID selected)")
  from R.complete_view [OF iv ct] obtain A where A: "invar r" "view r = close_tasks (completed txid) A (view (repo s))"
    by blast
  show ?thesis
    by (rule dinv_close [OF inv A]) (use run ct in \<open>auto simp: OnBatchFinalized_def s'\<close>)
qed

lemma monitor_cancel_inv:
  assumes inv: "dinv view invar s" and run: "monitor_cancel (Rs f) ids s = (er, s')"
  shows "dinv view invar s' \<and> evolves (view (repo s)) (view (repo s'))"
proof -
  have iv: "invar (repo s)" using inv by (simp add: dinv_def)
  obtain er1 r where c: "CancelTasks (Rs f) (repo s) ids = (er1, r)" by (cases "CancelTasks (Rs f) (repo s) ids")
  from R.cancel_view [OF iv c] obtain A where A: "invar r" "view r = close_tasks cancelled A (view (repo s))"
    by blast
  show ?thesis
    by (rule dinv_close [OF inv A]) (use run c in \<open>auto simp: monitor_cancel_def\<close>)
qed

lemma monitor_lock_inv:
  "dinv view invar s \<Longrightarrow> lock s = Unlocked \<Longrightarrow>
     dinv view invar (monitor_lock R s) \<and> evolves (view (repo s)) (view (repo (monitor_lock R s)))"
  by (auto simp: monitor_lock_def dinv_def split: sum.splits)

lemma step_inv:
  assumes enc: "\<And>f x. B64Encode L f = Inr x \<Longrightarrow> x \<noteq> []"
    and "delegate_step Rs L sha hp fee s s'" and inv: "dinv view invar s"
  shows "dinv view invar s' \<and> evolves (view (repo s)) (view (repo s'))"
  using assms(2,3)
proof cases
  case prepare
  show ?thesis by (rule prepare_inv [OF _ inv prepare]) (simp add: enc)
next
  case lock
  from lock_inv [OF inv lock(2-4)] show ?thesis .
next
  case cancel
  from cancel_inv [OF inv cancel] show ?thesis .
next
  case add
  from add_inv [OF inv add] show ?thesis .
next
  case timer
  with inv show ?thesis by (intro dinv_same) auto
next
  case load
  with inv show ?thesis by (intro dinv_same) auto
next
  case register
  from register_inv [OF inv register(2,3)] show ?thesis .
next
  case batch_started
  with inv show ?thesis by (intro dinv_same) (auto simp: BatchStarted_def Let_def)
next
  case batch_finalized
  from finalized_inv [OF inv batch_finalized(2,3)] show ?thesis .
next
  case batch_failed
  with inv show ?thesis by (intro dinv_same) auto
next
  case spent
  with inv show ?thesis by (intro dinv_same) (auto simp: monitor_event_def)
next
  case capture
  with inv show ?thesis by (intro dinv_same) (auto simp: monitor_capture_def)
next
  case monitor
  with monitor_lock_inv [OF inv] show ?thesis by simp
next
  case monitor_cancel
  from monitor_cancel_inv [OF inv monitor_cancel(2)] show ?thesis .
next
  case start
  with inv show ?thesis
    by (intro dinv_same) (auto simp: delegate_Start_def restorePendingTasks_def split: sum.splits)
next
  case stop
  with inv show ?thesis by (intro dinv_same) (auto simp: delegate_Stop_def)
qed

lemma reach_inv:
  assumes enc: "\<And>f x. B64Encode L f = Inr x \<Longrightarrow> x \<noteq> []"
    and reach: "delegate_reach Rs L sha hp fee r s" and "invar r" and "pending_disjoint (view r)"
  shows "dinv view invar s \<and> evolves (view r) (view (repo s))"
  using reach
proof induction
  case init
  from assms(3,4) show ?case by (simp add: dinv_def newDelegateService_def)
next
  case (step s s')
  from step_inv [OF _ step(2)] enc step(3) show ?case by (blast intro: evolves_trans)
qed

end

interpretation sqlite_service: delegate_service "sqlite_view NewOutPointFromString"
  "sqlite_inv OutPoint_String" "\<lambda>f. sqlite_delegate_repo f OutPoint_String NewOutPointFromString"
  by unfold_locales

interpretation badger_service: delegate_service "badger_view map_of NewHashFromStr"
  "badger_inv map_of hash_String" "\<lambda>f. badger_delegate_repo (mem_store f) hash_String NewHashFromStr"
  by unfold_locales

section \<open>The sequential functions are runs\<close>

lemma Delegate_is_run:
  assumes reach: "delegate_reach Rs L sha hp fee r s" and free: "lock s = Unlocked" "prepared s = []"
  shows "delegate_reach Rs L sha hp fee r (snd (Delegate (Rs f) L env pk fee doErr message proof fs b s))"
proof -
  obtain res s1 where p: "Delegate_prepare (Rs f) L env pk fee message proof fs s = (res, s1)"
    by (cases "Delegate_prepare (Rs f) L env pk fee message proof fs s")
  then have s1: "lock s1 = Unlocked" "prepared s1 = []"
    using free by (auto simp: Delegate_prepare_def split: option.splits prod.splits sum.splits)
  let ?s1 = "case res of Inr (Some t) \<Rightarrow> s1\<lparr>prepared := prepared s1 @ [(t, b)]\<rparr> | _ \<Rightarrow> s1"
  have r1: "delegate_reach Rs L sha hp fee r ?s1"
    by (rule delegate_reach.step [OF reach], rule delegate_step.prepare [where f = f], rule p) (rule refl)
  show ?thesis
  proof (cases "\<exists>t. res = Inr (Some t)")
    case False
    then have "?s1 = s1" by (auto split: sum.splits option.splits)
    with False r1 show ?thesis
      by (auto simp: Delegate_def p split: sum.splits option.splits)
  next
    case True
    then obtain t where t: "res = Inr (Some t)" by blast
    let ?p = "s1\<lparr>prepared := [(t, b)]\<rparr>"
    have rp: "delegate_reach Rs L sha hp fee r ?p" using r1 t s1 by simp
    obtain out s2 where l: "Delegate_lock (Rs f) t b s1 = (out, s2)" by (cases "Delegate_lock (Rs f) t b s1")
    then have "Delegate_lock (Rs f) t b ?p = (out, s2\<lparr>prepared := [(t, b)]\<rparr>)"
      by (auto simp: Delegate_lock_def split: sum.splits if_splits)
    then have "delegate_step Rs L sha hp fee ?p (s2\<lparr>prepared := []\<rparr>)"
      by (intro delegate_step.lock [where task = t and allowReplace = b and f = f]) (auto simp: s1)
    moreover have "prepared s2 = []" using l s1 by (auto simp: Delegate_lock_def split: sum.splits if_splits)
    ultimately have r2: "delegate_reach Rs L sha hp fee r s2"
      using delegate_reach.step [OF rp] by (metis dstate.surjective dstate.update_convs(6))
    have addr: "delegate_reach Rs L sha hp fee r (snd (Delegate_add (Rs f) now doErr t s3))"
      if "delegate_reach Rs L sha hp fee r s3" "lock s3 = AddPhase t" for s3 now
      by (rule delegate_reach.step [OF that(1)], rule delegate_step.add [where f = f, OF that(2)])
        (rule prod.collapse [symmetric])
    have cancelr: "delegate_reach Rs L sha hp fee r (snd (Delegate_cancel (Rs f) t ids s2))"
      if "lock s2 = ReplacePhase t ids" for ids
      by (rule delegate_reach.step [OF r2], rule delegate_step.cancel [where f = f, OF that])
        (rule prod.collapse [symmetric])
    show ?thesis
    proof (cases out)
      case (Returned er)
      with r2 show ?thesis by (simp add: Delegate_def p t l)
    next
      case Locked
      with l consider "lock s2 = AddPhase t" | ids where "lock s2 = ReplacePhase t ids"
        by (auto simp: Delegate_lock_def split: sum.splits if_splits)
      then show ?thesis
      proof cases
        case 1
        with addr [OF r2] Locked show ?thesis by (simp add: Delegate_def p t l)
      next
        case (2 ids)
        obtain o3 s3 where c: "Delegate_cancel (Rs f) t ids s2 = (o3, s3)" by (cases "Delegate_cancel (Rs f) t ids s2")
        from cancelr [OF 2] c have r3: "delegate_reach Rs L sha hp fee r s3" by simp
        have "o3 = Locked \<Longrightarrow> lock s3 = AddPhase t"
          using c by (auto simp: Delegate_cancel_def split: prod.splits option.splits)
        with addr [OF r3] r3 2 Locked c show ?thesis
          by (cases o3) (simp_all add: Delegate_def p t l)
      qed
    qed
  qed
qed

end
