(* ===== verification/DelegateProps.thy ===== *)
theory DelegateProps
  imports DelegateSafety
begin

text \<open>
  The properties of the delegate service on its two repositories, with a concrete run as the
  witness of each: two clients delegate one input each to a service that asks no fee, on a
  fresh database.
\<close>

section \<open>A concrete run\<close>

definition demo_crypto :: crypto where
  "demo_crypto =
     \<lparr>SerializePubKey = id, SerializeCompressed = id, PubKey = id, ParsePubKey = Inr,
      ParseSignature = Inr, Verify = \<lambda>_ _ _. True, SchnorrSign = \<lambda>_. Inr,
      DecodeBtcAddress = \<lambda>_. Inr [], PayToAddrScript = Inr, TapLeafHash = \<lambda>_. id,
      DecodeClosure = \<lambda>_. Inr (MultisigClosure []), CalcSighash = \<lambda>_ _ _. Inr,
      B64Encode = \<lambda>_. Inr ''p'', NewFromRawBytes = \<lambda>_. Inl ''no tx'', TxID = \<lambda>p. replicate (length (TxOut p)) CHR ''x'', TxHash = \<lambda>_. 7,
      EncodeV0 = \<lambda>_. Inr ''a'', DecodeAddressV0 = \<lambda>_. Inr [1], GetPkScript = Inr,
      ANCHOR_PKSCRIPT = [2]\<rparr>"

definition demo_vtxo :: vtxo where
  "demo_vtxo = \<lparr>Vtxo_Txid = ''0'', Vtxo_VOut = 0, Spent = False, Unrolled = False,
                Swept = False, ExpiresAt = 0, Amount = 1, IsRecoverable = False\<rparr>"

definition demo_env :: "string \<Rightarrow> call_env" where
  "demo_env i =
     \<lparr>env_unlocked = None, env_contracts = Inr [], env_new_address = Inr ''a'',
      env_config = Inr \<lparr>ForfeitAddress = ''f'', Dust = 1\<rparr>, env_vtxos = \<lambda>_. Inr [demo_vtxo],
      env_uuid = i, env_now = 10\<rparr>"

definition demo_message :: register_message where
  "demo_message = \<lparr>ValidAt = 1, EncodedMessage = Inr ''m''\<rparr>"

definition demo_proof :: "u32 \<Rightarrow> intent_proof" where
  "demo_proof n = \<lparr>ProofTx = \<lparr>TxIn = [], TxOut = replicate (unat n) \<lparr>Value = 1, PkScript = []\<rparr>, PInputs = []\<rparr>,
                   ProofOutpoints = [\<lparr>op_hash = 0, op_index = n\<rparr>], EncodedProof = Inr ''q''\<rparr>"

definition no_fault :: verdict where "no_fault = (\<lambda>_. None)"

definition sqlite_at :: "verdict \<Rightarrow> sqldb delegate_repo" where
  "sqlite_at f = sqlite_delegate_repo f OutPoint_String NewOutPointFromString"

definition badger_at :: "verdict \<Rightarrow> delegateTaskDTO mem_kv delegate_repo" where
  "badger_at f = badger_delegate_repo (mem_store f) hash_String NewHashFromStr"

definition empty_sqldb :: sqldb where
  "empty_sqldb = \<lparr>delegate_task_tbl = [], delegate_task_input_tbl = []\<rparr>"

definition demo_delegate :: "'s delegate_repo \<Rightarrow> string \<Rightarrow> u32 \<Rightarrow> 's dstate \<Rightarrow> err \<times> 's dstate" where
  "demo_delegate R i n s =
     Delegate R demo_crypto (demo_env i) [3] 0 None demo_message (demo_proof n) [] False s"

text \<open>The encoding of a \<open>psbt\<close> is never the empty string (it starts with the magic bytes).\<close>

definition B64_nonempty :: "crypto \<Rightarrow> bool" where
  "B64_nonempty L \<longleftrightarrow> (\<forall>p x. B64Encode L p = Inr x \<longrightarrow> x \<noteq> [])"

lemma demo_enc: "B64_nonempty demo_crypto"
  by (auto simp: demo_crypto_def B64_nonempty_def)

lemma sqlite_at_eq: "sqlite_at = (\<lambda>f. sqlite_delegate_repo f OutPoint_String NewOutPointFromString)"
  by (rule ext) (simp add: sqlite_at_def)

lemma badger_at_eq: "badger_at = (\<lambda>f. badger_delegate_repo (mem_store f) hash_String NewHashFromStr)"
  by (rule ext) (simp add: badger_at_def)

abbreviation sq_view :: "sqldb \<Rightarrow> tasks_view" where "sq_view \<equiv> sqlite_view NewOutPointFromString"
abbreviation sq_inv :: "sqldb \<Rightarrow> bool" where "sq_inv \<equiv> sqlite_inv OutPoint_String"
abbreviation bg_view :: "delegateTaskDTO mem_kv \<Rightarrow> tasks_view" where "bg_view \<equiv> badger_view map_of NewHashFromStr"
abbreviation bg_inv :: "delegateTaskDTO mem_kv \<Rightarrow> bool" where "bg_inv \<equiv> badger_inv map_of hash_String"

text \<open>The service after the two delegations, on either repository.\<close>

definition demo_state :: "'s delegate_repo \<Rightarrow> 's \<Rightarrow> 's dstate" where
  "demo_state R r = snd (demo_delegate R ''t2'' 1 (snd (demo_delegate R ''t1'' 0 (newDelegateService r))))"

lemma demo_state_reach:
  assumes "lock (snd (demo_delegate (Rs f) ''t1'' 0 (newDelegateService r))) = Unlocked"
    and "prepared (snd (demo_delegate (Rs f) ''t1'' 0 (newDelegateService r))) = []"
  shows "delegate_reach Rs demo_crypto sha hp 0 r (demo_state (Rs f) r)"
proof -
  have "delegate_reach Rs demo_crypto sha hp 0 r (snd (demo_delegate (Rs f) ''t1'' 0 (newDelegateService r)))"
    unfolding demo_delegate_def by (rule Delegate_is_run [OF delegate_reach.init]) (simp_all add: newDelegateService_def)
  from Delegate_is_run [OF this assms, of f "demo_env ''t2''" "[3]" None demo_message "demo_proof 1" "[]" False]
  show ?thesis unfolding demo_state_def demo_delegate_def .
qed

lemma sqlite_demo_reach: "delegate_reach sqlite_at demo_crypto sha hp 0 empty_sqldb (demo_state (sqlite_at no_fault) empty_sqldb)"
proof (rule demo_state_reach)
  show "lock (snd (demo_delegate (sqlite_at no_fault) ''t1'' 0 (newDelegateService empty_sqldb))) = Unlocked"
    by code_simp
  show "prepared (snd (demo_delegate (sqlite_at no_fault) ''t1'' 0 (newDelegateService empty_sqldb))) = []"
    by code_simp
qed

lemma badger_demo_reach: "delegate_reach badger_at demo_crypto sha hp 0 [] (demo_state (badger_at no_fault) [])"
proof (rule demo_state_reach)
  show "lock (snd (demo_delegate (badger_at no_fault) ''t1'' 0 (newDelegateService []))) = Unlocked"
    by code_simp
  show "prepared (snd (demo_delegate (badger_at no_fault) ''t1'' 0 (newDelegateService []))) = []"
    by code_simp
qed

lemma sqlite_demo_tasks:
  "map r_id (delegate_task_tbl (repo (demo_state (sqlite_at no_fault) empty_sqldb))) = [''t1'', ''t2'']"
  by code_simp

lemma badger_demo_tasks: "map fst (repo (demo_state (badger_at no_fault) [])) = [''t1'', ''t2'']"
  by code_simp

lemma empty_sqldb_ok: "sq_inv empty_sqldb" "pending_disjoint (sq_view empty_sqldb)"
  by (simp_all add: sqlite_inv_def empty_sqldb_def pending_disjoint_def sqlite_view_def find_row_def)

lemma empty_badger_ok: "bg_inv []" "pending_disjoint (bg_view [])"
  by (simp_all add: badger_inv_def pending_disjoint_def badger_view_def)

section \<open>Safety of every interleaving\<close>

text \<open>
  C1: in every state the service can reach over a fresh SQLite database, whatever the
  interleaving of requests, timers, registrations, batches and the spent-VTXO monitor and
  whichever statements fail, two pending tasks never share an input.
\<close>

theorem sqlite_pending_disjoint:
  assumes "B64_nonempty L"
    and "delegate_reach sqlite_at L sha hp fee empty_sqldb s"
  shows "pending_disjoint (sqlite_view NewOutPointFromString (repo s))"
  using sqlite_service.reach_inv [OF _ assms(2) [unfolded sqlite_at_eq] empty_sqldb_ok] assms(1)
  by (auto simp: dinv_def B64_nonempty_def)

theorem sqlite_pending_disjoint_witness:
  "pending_disjoint (sqlite_view NewOutPointFromString (repo (demo_state (sqlite_at no_fault) empty_sqldb)))
   \<and> map r_id (delegate_task_tbl (repo (demo_state (sqlite_at no_fault) empty_sqldb))) = [''t1'', ''t2'']"
  using sqlite_pending_disjoint [OF demo_enc sqlite_demo_reach [of id "\<lambda>_. None"]] sqlite_demo_tasks by simp

text \<open>
  C12: every table the service can leave behind is well formed: ids are unique, every input row
  belongs to a task and holds an outpoint that parses, and every row reads back as a task with its
  id, so no stored task is lost to a row that cannot be decoded.
\<close>

theorem stored_rows_are_tasks:
  assumes "B64_nonempty L" and "delegate_reach sqlite_at L sha hp fee empty_sqldb s"
  shows "distinct (map r_id (delegate_task_tbl (repo s)))
     \<and> list_all (\<lambda>dt. \<exists>t. GetByID (sqlite_at no_fault) (repo s) (r_id dt) = Inr t \<and> ID t = r_id dt) (delegate_task_tbl (repo s))
     \<and> list_all (\<lambda>i. i_task_id i \<in> set (map r_id (delegate_task_tbl (repo s)))
            \<and> NewOutPointFromString (i_outpoint i) \<noteq> None) (delegate_task_input_tbl (repo s))"
proof -
  have inv: "sq_inv (repo s)"
    using sqlite_service.reach_inv [OF _ assms(2) [unfolded sqlite_at_eq] empty_sqldb_ok] assms(1)
    by (auto simp: dinv_def B64_nonempty_def)
  have "\<exists>t. GetByID (sqlite_at no_fault) (repo s) (r_id dt) = Inr t \<and> ID t = r_id dt"
    if dt: "dt \<in> set (delegate_task_tbl (repo s))" for dt
  proof -
    obtain t where t: "sqlite_GetByID no_fault NewOutPointFromString (repo s) (r_id dt) = Inr t"
      using sqlite_GetByID_total [OF NewOutPointFromString_String inv dt, of no_fault] by (auto simp: no_fault_def)
    with sqlite_GetByID_view [OF NewOutPointFromString_String inv t] show ?thesis
      by (auto simp: sqlite_at_def sqlite_delegate_repo_def)
  qed
  with inv show ?thesis by (auto simp: sqlite_inv_def list_all_iff)
qed

theorem stored_rows_are_tasks_witness:
  "list_all (\<lambda>i. NewOutPointFromString (i_outpoint i) \<noteq> None)
     (delegate_task_input_tbl (repo (demo_state (sqlite_at no_fault) empty_sqldb)))
   \<and> length (delegate_task_input_tbl (repo (demo_state (sqlite_at no_fault) empty_sqldb))) = 2"
proof
  show "length (delegate_task_input_tbl (repo (demo_state (sqlite_at no_fault) empty_sqldb))) = 2" by code_simp
  show "list_all (\<lambda>i. NewOutPointFromString (i_outpoint i) \<noteq> None)
     (delegate_task_input_tbl (repo (demo_state (sqlite_at no_fault) empty_sqldb)))"
    using stored_rows_are_tasks [OF demo_enc sqlite_demo_reach [of id "\<lambda>_. None"]] by (simp add: list_all_iff)
qed


lemma badger_demo_dto:
  "map_option (\<lambda>d. (DTO_Status d, DTO_ScheduledAt d)) (map_of (repo (demo_state (badger_at no_fault) [])) ''t1'')
     = Some (DelegateTaskStatusPending, 1)"
  by code_simp

lemma badger_demo_view:
  "\<exists>v. badger_view map_of NewHashFromStr (repo (demo_state (badger_at no_fault) [])) ''t1'' = Some v
     \<and> is_pending v \<and> tv_scheduled v = 1"
proof -
  let ?s = "demo_state (badger_at no_fault) []"
  from badger_demo_dto obtain d where d: "map_of (repo ?s) ''t1'' = Some d" "DTO_Status d = DelegateTaskStatusPending"
    "DTO_ScheduledAt d = 1"
    by auto
  have "dinv bg_view bg_inv ?s"
    using badger_service.reach_inv [OF _ badger_demo_reach [unfolded badger_at_eq] empty_badger_ok] demo_enc
    by (auto simp: badger_at_eq B64_nonempty_def)
  then have "bg_inv (repo ?s)" by (simp add: dinv_def)
  from badger_repo.inv_stored [OF this d(1)] obtain t where
    "stored map_of hash_String (repo ?s) ''t1'' t" "d = toDelegateTaskData hash_String t" by blast
  with d(2,3) badger_repo.stored_view show ?thesis by (fastforce simp: is_pending_def)
qed


section \<open>What the operations achieve\<close>

text \<open>\<open>registerDelegate i\<close> is going to run: it is scheduled, or its goroutine was started.\<close>

definition queued :: "'s dstate \<Rightarrow> go_time \<Rightarrow> string \<Rightarrow> bool" where
  "queued s at i \<longleftrightarrow> i \<in> set (started s) \<or> (at, i) \<in> set (timed (dstate.sched s))"

lemma schedule_queued: "schedule now doErr at i s = (None, s') \<Longrightarrow> queued s' at i"
  by (auto simp: schedule_def queued_def dest!: ScheduleTaskAtTime_cases split: prod.splits)

lemma schedule_keeps: "queued s at' j \<Longrightarrow> queued (snd (schedule now doErr at i s)) at' j"
  by (auto simp: schedule_def queued_def ScheduleTaskAtTime_def split: prod.splits if_splits option.splits)

lemma schedule_ok: "at \<noteq> zero_time \<Longrightarrow> fst (schedule now None at i s) = None"
  by (simp add: schedule_def ScheduleTaskAtTime_def IsZero_def)

lemma restore_keeps: "queued s at j \<Longrightarrow> queued (restore_loop d now doErr k ps s) at j"
  by (induction d now doErr k ps s rule: restore_loop.induct) (auto intro: schedule_keeps)

lemma restore_queues:
  assumes "\<And>k. \<not> d k" and "\<And>i. doErr i = None"
  shows "p \<in> set ps \<Longrightarrow> Pending_ScheduledAt p \<noteq> zero_time \<Longrightarrow>
    queued (restore_loop d now doErr k ps s) (Pending_ScheduledAt p) (Pending_ID p)"
proof (induction ps arbitrary: k s)
  case Nil
  then show ?case by simp
next
  case (Cons q ps)
  let ?s = "snd (schedule now None (Pending_ScheduledAt q) (Pending_ID q) s)"
  show ?case
  proof (cases "p = q")
    case True
    with Cons.prems have "queued ?s (Pending_ScheduledAt p) (Pending_ID p)"
      using schedule_ok [of "Pending_ScheduledAt q" now "Pending_ID q" s]
      by (intro schedule_queued [of now None]) (simp add: prod_eq_iff)
    then show ?thesis by (simp add: assms restore_keeps)
  next
    case False
    with Cons show ?thesis by (simp add: assms)
  qed
qed

context delegate_service begin

lemma Delegate_add_nil:
  assumes inv: "dinv view invar s" and st: "storable t" and run: "Delegate_add (Rs f) now doErr t s = (None, s')"
  shows "view (repo s) (ID t) = None \<and> view (repo s') = (view (repo s))(ID t \<mapsto> view_of t)
    \<and> queued s' (ScheduledAt t) (ID t)"
proof -
  have iv: "invar (repo s)" using inv by (simp add: dinv_def)
  from run obtain r s1 where a: "Add (Rs f) (repo s) t = (None, r)"
    and sch: "schedule now doErr (ScheduledAt t) (ID t) (s\<lparr>repo := r\<rparr>) = (None, s1)"
    and s': "s' = s1\<lparr>lock := Unlocked\<rparr>"
    by (auto simp: Delegate_add_def split: prod.splits option.splits)
  have "repo s1 = r" using schedule_repo(1) [of now doErr "ScheduledAt t" "ID t" "s\<lparr>repo := r\<rparr>"] sch by simp
  with R.add_view [OF iv st a] schedule_queued [OF sch] show ?thesis
    by (auto simp: s' queued_def)
qed

lemma Delegate_reaches_add:
  assumes inv: "dinv view invar s" and st: "storable t"
    and run: "(case Delegate_lock (Rs f) t b s of
            (Returned er, s2) \<Rightarrow> (er, s2)
          | (Locked, s2) \<Rightarrow>
             (case lock s2 of
                ReplacePhase t ids \<Rightarrow>
                 (case Delegate_cancel (Rs f) t ids s2 of
                    (Returned er, s3) \<Rightarrow> (er, s3)
                  | (Locked, s3) \<Rightarrow> Delegate_add (Rs f) now doErr task s3)
              | _ \<Rightarrow> Delegate_add (Rs f) now doErr task s2)) = (None, s')" and "task = t"
  shows "\<exists>s3. dinv view invar s3 \<and> evolves (view (repo s)) (view (repo s3)) \<and> lock s3 = AddPhase t
    \<and> Delegate_add (Rs f) now doErr t s3 = (None, s')"
proof -
  obtain out s2 where l: "Delegate_lock (Rs f) t b s = (out, s2)" by (cases "Delegate_lock (Rs f) t b s")
  note s2 = lock_inv0 [OF inv st l]
  from l run have "out = Locked"
    by (auto simp: Delegate_lock_def split: sum.splits if_splits)
  with l consider "lock s2 = AddPhase t" | ids where "lock s2 = ReplacePhase t ids"
    by (auto simp: Delegate_lock_def split: sum.splits if_splits)
  then show ?thesis
  proof cases
    case 1
    with run l \<open>out = Locked\<close> s2 assms(4) show ?thesis by auto
  next
    case (2 ids)
    obtain o3 s3 where c: "Delegate_cancel (Rs f) t ids s2 = (o3, s3)" by (cases "Delegate_cancel (Rs f) t ids s2")
    have "dinv view invar s3 \<and> evolves (view (repo s2)) (view (repo s3))"
      by (rule cancel_inv [OF _ 2 c]) (simp add: s2)
    moreover have "o3 = Locked" "lock s3 = AddPhase t"
      using run l \<open>out = Locked\<close> 2 c
      by (auto simp: Delegate_cancel_def split: prod.splits option.splits)
    ultimately show ?thesis using run l \<open>out = Locked\<close> 2 c s2 assms(4) by auto
  qed
qed

lemma Delegate_nil:
  assumes enc: "B64_nonempty L" and inv: "dinv view invar s"
    and run: "Delegate (Rs f) L env pk fee doErr message proof fs b s = (None, s')"
  shows "(repo s' = repo s \<and> (\<exists>i v. view (repo s) i = Some v \<and> is_pending v \<and> tv_txid v = TxID L (ProofTx proof)))
    \<or> (\<exists>t. task_valid env fee t \<and> Txid (Intent t) = TxID L (ProofTx proof) \<and> view (repo s) (ID t) = None
         \<and> view (repo s') (ID t) = Some (view_of t) \<and> queued s' (ScheduledAt t) (ID t))"
proof -
  obtain res s1 where p: "Delegate_prepare (Rs f) L env pk fee message proof fs s = (res, s1)"
    by (cases "Delegate_prepare (Rs f) L env pk fee message proof fs s")
  from p have same: "repo s1 = repo s" "lock s1 = lock s" "prepared s1 = prepared s"
    by (auto simp: Delegate_prepare_def split: option.splits prod.splits sum.splits)
  have inv1: "dinv view invar s1" using inv same by (simp add: dinv_def)
  from run p consider "res = Inr None" | t where "res = Inr (Some t)"
    by (cases res; cases "projr res") (auto simp: Delegate_def)
  then show ?thesis
  proof cases
    case 1
    with p obtain t q where q: "GetPendingTaskByIntentTxID (Rs f) (repo s) (Txid (Intent t)) = Inr q"
      and t: "\<exists>c c'. newDelegateTask L env pk fee message proof fs c = (Inr t, c')"
      by (auto simp: Delegate_prepare_def split: option.splits prod.splits sum.splits)
    have "invar (repo s)" using inv by (simp add: dinv_def)
    from R.pending_by_txid_view [OF this q] obtain v where
      "view (repo s) (Pending_ID q) = Some v" "is_pending v" "tv_txid v = Txid (Intent t)" by blast
    moreover have "Txid (Intent t) = TxID L (ProofTx proof)" using t newDelegateTask_Txid by blast
    moreover have "repo s' = repo s" using run p 1 same by (simp add: Delegate_def)
    ultimately show ?thesis by auto
  next
    case (2 t)
    with p have n: "\<exists>c c'. newDelegateTask L env pk fee message proof fs c = (Inr t, c')"
      by (auto simp: Delegate_prepare_def split: option.splits prod.splits sum.splits)
    then have tv: "task_valid env fee t" and tx: "Txid (Intent t) = TxID L (ProofTx proof)"
      using newDelegateTask_valid [of L] newDelegateTask_Txid enc by (fastforce simp: B64_nonempty_def)+
    have st: "storable t" using tv by (simp add: task_valid_def)
    have "\<exists>s3 now. dinv view invar s3 \<and> evolves (view (repo s)) (view (repo s3)) \<and> lock s3 = AddPhase t
        \<and> Delegate_add (Rs f) now doErr t s3 = (None, s')"
      using Delegate_reaches_add [OF inv1 st run [unfolded Delegate_def p 2 prod.case sum.case option.case] refl] same
      by auto
    then obtain s3 now where s3: "dinv view invar s3" "evolves (view (repo s)) (view (repo s3))"
      "Delegate_add (Rs f) now doErr t s3 = (None, s')" by blast
    note ok = Delegate_add_nil [OF s3(1) st s3(3)]
    have "view (repo s) (ID t) = None"
      using s3(2) ok unfolding evolves_def by (metis not_None_eq)
    with ok tv tx show ?thesis by auto
  qed
qed

lemma monitor_tick_view:
  assumes inv: "dinv view invar s" and free: "lock s = Unlocked"
    and q: "\<And>r ins. \<exists>ids. GetPendingTaskIDsByInputs (Rs f) r ins = Inr ids"
    and c: "\<And>r ids. fst (CancelTasks (Rs f) r ids) = None"
  shows "view (repo (monitor_tick (Rs f) s)) =
    close_tasks cancelled
      {i. \<exists>v. view (repo s) i = Some v \<and> is_pending v \<and> tv_inputs v \<inter> set (spentVtxos s) \<noteq> {}} (view (repo s))"
proof -
  have iv: "invar (repo s)" using inv by (simp add: dinv_def)
  obtain ids where ids: "GetPendingTaskIDsByInputs (Rs f) (repo s) (spentVtxos s) = Inr ids" using q by blast
  note hit = R.pending_by_inputs_view [OF iv ids]
  obtain r where r: "CancelTasks (Rs f) (repo s) ids = (None, r)"
    using c [of "repo s" ids] by (cases "CancelTasks (Rs f) (repo s) ids") auto
  from R.cancel_view [OF iv r] have vr: "view r = close_tasks cancelled (set ids) (view (repo s))" by auto
  show ?thesis
    unfolding hit [symmetric]
    by (cases "ids = []") (simp_all add: monitor_tick_def monitor_lock_def monitor_capture_def ids free
        monitor_cancel_def r vr Let_def)
qed

lemma restore_pending:
  assumes iv: "invar (repo s)" and q: "GetAllPending (Rs f) (repo s) = Inr ps"
    and v: "view (repo s) i = Some v" "is_pending v" "time_of_unix (tv_scheduled v) \<noteq> zero_time"
  shows "queued (snd (restorePendingTasks (Rs f) (\<lambda>_. False) now (\<lambda>_. None) s)) (time_of_unix (tv_scheduled v)) i"
proof -
  have "(i, time_of_unix (tv_scheduled v)) \<in> set (map (\<lambda>p. (Pending_ID p, Pending_ScheduledAt p)) ps)"
    unfolding R.get_all_pending_view [OF iv q] using v by blast
  then obtain p where "p \<in> set ps" "Pending_ID p = i" "Pending_ScheduledAt p = time_of_unix (tv_scheduled v)"
    by auto
  with restore_queues [of "\<lambda>_. False" "\<lambda>_. None" p ps now 0 s] v(3) show ?thesis
    by (simp add: restorePendingTasks_def q)
qed

end

lemma sqlite_no_fault:
  "\<exists>ids. GetPendingTaskIDsByInputs (sqlite_delegate_repo no_fault ops opp) r ins = Inr ids"
  "fst (CancelTasks (sqlite_delegate_repo no_fault ops opp) r ids) = None"
  by (auto simp: sqlite_delegate_repo_def sqlite_GetPendingTaskIDsByInputs_def QueryPendingTaskIDsByInputs_def
      no_fault_def sqlite_CancelTasks_def CancelDelegateTasks_def wrap_err_def)

lemma badger_no_fault: "\<exists>ps. GetAllPending (badger_delegate_repo (mem_store f) hs hp) r = Inr ps"
  by (simp add: badger_delegate_repo_def badger_GetAllPending_def find_status_def mem_store_def)

text \<open>
  When \<open>Delegate\<close> returns \<open>nil\<close> over SQLite, either a pending task with the same intent
  transaction was there and nothing was written, or a task that meets every check (fee paid,
  inputs unspent, scheduled inside the window) is stored as pending under a new id and
  \<open>registerDelegate\<close> is queued for it.
\<close>

theorem Delegate_returns_nil:
  assumes "B64_nonempty L" and "delegate_reach sqlite_at L sha hp fee empty_sqldb s"
    and "Delegate (sqlite_at f) L env pk fee doErr message proof forfeitTxs allowReplace s = (None, s')"
  shows "(repo s' = repo s \<and> (\<exists>i v. sqlite_view NewOutPointFromString (repo s) i = Some v \<and> is_pending v
            \<and> tv_txid v = TxID L (ProofTx proof)))
    \<or> (\<exists>t. task_valid env fee t \<and> Txid (Intent t) = TxID L (ProofTx proof)
         \<and> sqlite_view NewOutPointFromString (repo s) (ID t) = None
         \<and> sqlite_view NewOutPointFromString (repo s') (ID t) = Some (view_of t)
         \<and> queued s' (ScheduledAt t) (ID t))"
proof -
  have "dinv sq_view sq_inv s"
    using sqlite_service.reach_inv [OF _ assms(2) [unfolded sqlite_at_eq] empty_sqldb_ok] assms(1)
    by (auto simp: B64_nonempty_def)
  from sqlite_service.Delegate_nil [OF assms(1) this assms(3) [unfolded sqlite_at_eq]] show ?thesis .
qed

lemma demo_delegate_nil:
  "Delegate (sqlite_at no_fault) demo_crypto (demo_env ''t1'') [3] 0 None demo_message (demo_proof 0) [] False
     (newDelegateService empty_sqldb)
   = (None, snd (demo_delegate (sqlite_at no_fault) ''t1'' 0 (newDelegateService empty_sqldb)))"
proof -
  have "fst (demo_delegate (sqlite_at no_fault) ''t1'' 0 (newDelegateService empty_sqldb)) = None" by code_simp
  then show ?thesis unfolding demo_delegate_def by (metis prod.collapse)
qed

theorem Delegate_returns_nil_witness:
  "\<exists>t. task_valid (demo_env ''t1'') 0 t
     \<and> sqlite_view NewOutPointFromString
          (repo (snd (demo_delegate (sqlite_at no_fault) ''t1'' 0 (newDelegateService empty_sqldb)))) (ID t) = Some (view_of t)
     \<and> queued (snd (demo_delegate (sqlite_at no_fault) ''t1'' 0 (newDelegateService empty_sqldb))) (ScheduledAt t) (ID t)"
proof -
  have "sqlite_view NewOutPointFromString (repo (newDelegateService empty_sqldb)) i = None" for i
    by (simp add: newDelegateService_def empty_sqldb_def sqlite_view_def find_row_def)
  with Delegate_returns_nil [OF demo_enc delegate_reach.init demo_delegate_nil] show ?thesis by force
qed

text \<open>
  A tick of the spent-VTXO monitor over SQLite, when its statements succeed, cancels exactly
  the pending tasks that spend one of the outpoints collected since the last tick, and leaves
  every other task as it was.
\<close>

theorem monitor_tick_cancels:
  assumes "B64_nonempty L" and "delegate_reach sqlite_at L sha hp fee empty_sqldb s" and "lock s = Unlocked"
  shows "sqlite_view NewOutPointFromString (repo (monitor_tick (sqlite_at no_fault) s)) =
    close_tasks cancelled
      {i. \<exists>v. sqlite_view NewOutPointFromString (repo s) i = Some v \<and> is_pending v
             \<and> tv_inputs v \<inter> set (spentVtxos s) \<noteq> {}}
      (sqlite_view NewOutPointFromString (repo s))"
proof -
  have "dinv sq_view sq_inv s"
    using sqlite_service.reach_inv [OF _ assms(2) [unfolded sqlite_at_eq] empty_sqldb_ok] assms(1)
    by (auto simp: B64_nonempty_def)
  from sqlite_service.monitor_tick_view [OF this assms(3) sqlite_no_fault] show ?thesis
    unfolding sqlite_at_eq .
qed

definition demo_spent_state :: "sqldb dstate" where
  "demo_spent_state =
     monitor_event NewHashFromStr
       \<lparr>CommitmentTx = None, ArkTx = Some [\<lparr>Spent_Txid = ''0'', Spent_VOut = 1\<rparr>]\<rparr>
       (demo_state (sqlite_at no_fault) empty_sqldb)"

theorem monitor_tick_cancels_witness:
  "sqlite_view NewOutPointFromString (repo (monitor_tick (sqlite_at no_fault) demo_spent_state)) =
    close_tasks cancelled
      {i. \<exists>v. sqlite_view NewOutPointFromString (repo demo_spent_state) i = Some v \<and> is_pending v
             \<and> tv_inputs v \<inter> set (spentVtxos demo_spent_state) \<noteq> {}}
      (sqlite_view NewOutPointFromString (repo demo_spent_state))
   \<and> map r_status (delegate_task_tbl (repo (monitor_tick (sqlite_at no_fault) demo_spent_state))) = [0, 3]"
proof
  have "lock demo_spent_state = Unlocked" by code_simp
  moreover have "delegate_reach sqlite_at demo_crypto id NewHashFromStr 0 empty_sqldb demo_spent_state"
    unfolding demo_spent_state_def by (rule delegate_reach.step [OF sqlite_demo_reach delegate_step.spent])
  ultimately show "sqlite_view NewOutPointFromString (repo (monitor_tick (sqlite_at no_fault) demo_spent_state)) =
    close_tasks cancelled
      {i. \<exists>v. sqlite_view NewOutPointFromString (repo demo_spent_state) i = Some v \<and> is_pending v
             \<and> tv_inputs v \<inter> set (spentVtxos demo_spent_state) \<noteq> {}}
      (sqlite_view NewOutPointFromString (repo demo_spent_state))"
    using monitor_tick_cancels [OF demo_enc] by blast
  show "map r_status (delegate_task_tbl (repo (monitor_tick (sqlite_at no_fault) demo_spent_state))) = [0, 3]"
    by code_simp
qed



text \<open>
  The delegate address does not change once it is resolved: every later call, whatever the
  wallet answers by then, returns the same address until the service is stopped.
\<close>

theorem delegate_address_stable:
  assumes "getDelegateAddress L env cached = (Inr addr, cached')"
  shows "getDelegateAddress L env' cached' = (Inr addr, cached')"
  using assms by (rule getDelegateAddress_cached)

theorem delegate_address_stable_witness:
  "getDelegateAddress demo_crypto (demo_env ''u'') (Some [1]) = (Inr [1], Some [1])"
proof (rule delegate_address_stable)
  show "getDelegateAddress demo_crypto (demo_env ''t'') None = (Inr [1], Some [1])" by code_simp
qed

text \<open>
  Without a contract whose key has index 0 the delegate address is the one a fresh
  derivation returns, whatever default contracts the wallet has: the lowest index is not looked
  for, so a wallet whose default contracts start at index 1 gets a new address on every start.
\<close>

theorem delegate_address_needs_index_zero:
  assumes "list_all (\<lambda>c. Contract_Handler c = None \<and> Contract_KeyRef c = None) cs"
    and "list_all (\<lambda>c. Contract_KeyIndex c \<noteq> Inr 0) cs"
  shows "resolveDelegateAddress (Inr cs) newAddress = newAddress"
proof -
  have "find (\<lambda>c. Contract_KeyIndex c = Inr 0) cs = None"
    using assms(2) by (auto simp: find_None_iff list_all_iff)
  then show ?thesis
    by (simp add: resolveDelegateAddress_def scan_contracts_find [OF assms(1)])
qed

theorem delegate_address_needs_index_zero_witness:
  "resolveDelegateAddress
     (Inr [\<lparr>Contract_Script = ''s'', Contract_Address = ''lowest'', Contract_Handler = None,
            Contract_KeyRef = None, Contract_KeyIndex = Inr 1\<rparr>]) (Inr ''fresh'') = Inr ''fresh''"
  by (rule delegate_address_needs_index_zero) simp_all

end
