(* ===== verification/RepoProps.thy ===== *)
theory RepoProps
  imports SqliteRefine BadgerRefine
begin

text \<open>
  The properties of the two delegate repositories: both meet the contract of
  \<open>DelegateRepository\<close>, the badger document is read back as it was written, and the paging of
  \<open>GetAll\<close> over SQLite counts inputs instead of tasks.
\<close>

text \<open>
  C8: the SQLite repository meets the contract of \<open>DelegateRepository\<close>, whichever statements
  fail: insertion is all or nothing, queries see exactly the pending tasks they should, and the
  closing operations touch pending tasks only.
\<close>

theorem sqlite_repository_contract:
  "delegate_repository (sqlite_view NewOutPointFromString) (sqlite_inv OutPoint_String)
     (sqlite_delegate_repo flt OutPoint_String NewOutPointFromString)"
  by (rule sqlite_implements_repository) simp



text \<open>
  C29: a badger document is read back as the task it was made from, up to the sub-second part of
  the time: the inputs in order, and every forfeit under its outpoint again.
\<close>

theorem badger_document_roundtrip:
  assumes "\<And>h. hp (hs h) = Some h" and "distinct (map fst (ForfeitTxs t))"
  shows "toDelegateTask hp (toDelegateTaskData hs t)
     = Inr (t\<lparr>ScheduledAt := time_of_unix (unix_of_time (ScheduledAt t))\<rparr>)"
  using assms by (rule toDelegateTask_roundtrip)

definition sample_task :: "string \<Rightarrow> nat \<Rightarrow> delegate_task" where
  "sample_task i n =
     \<lparr>ID = i, Intent = \<lparr>Message = ''m'', Proof = ''q'', Txid = ''x'',
        Inputs = map (\<lambda>k. \<lparr>op_hash = 1, op_index = of_nat k\<rparr>) [0..<n]\<rparr>,
      ForfeitTxs = [(\<lparr>op_hash = 1, op_index = 0\<rparr>, ''f'')], Fee = 5, DelegatePublicKey = ''03'',
      ScheduledAt = time_of_unix 7, Status = DelegateTaskStatusPending, FailReason = [], CommitmentTxid = []\<rparr>"

theorem badger_document_roundtrip_witness:
  "toDelegateTask NewHashFromStr (toDelegateTaskData hash_String (sample_task ''t'' 2)) = Inr (sample_task ''t'' 2)"
proof -
  have "toDelegateTask NewHashFromStr (toDelegateTaskData hash_String (sample_task ''t'' 2))
      = Inr ((sample_task ''t'' 2)\<lparr>ScheduledAt := time_of_unix (unix_of_time (ScheduledAt (sample_task ''t'' 2)))\<rparr>)"
    by (rule badger_document_roundtrip) (simp_all add: sample_task_def)
  then show ?thesis by (simp add: sample_task_def)
qed

section \<open>Paging over SQLite\<close>

definition inputs_total :: "(string \<times> delegate_task) list \<Rightarrow> nat" where
  "inputs_total tasks = sum_list (map (\<lambda>(_, t). length (Inputs (Intent t))) tasks)"

lemma inputs_total_update:
  "map_of tasks i = Some t \<Longrightarrow>
     inputs_total (AList.update i t' tasks) + length (Inputs (Intent t)) = inputs_total tasks + length (Inputs (Intent t'))"
  by (induction tasks) (auto simp: inputs_total_def)

lemma add_joined_length: "add_joined opp dti acc = Inr acc' \<Longrightarrow> length (fst acc') \<le> Suc (length (fst acc))"
  by (auto simp: add_joined_def split: option.splits)

lemma add_row_total: "add_row_to_tasks opp row tasks = Inr tasks' \<Longrightarrow> inputs_total tasks' \<le> Suc (inputs_total tasks)"
proof -
  assume a: "add_row_to_tasks opp row tasks = Inr tasks'"
  obtain dt dti where row: "row = (dt, dti)" by (cases row)
  show ?thesis
  proof (cases "map_of tasks (r_id dt)")
    case None
    with a row obtain acc where "add_joined opp dti ([], []) = Inr acc" "tasks' = tasks @ [(r_id dt, row_task dt acc)]"
      by (auto simp: add_row_to_tasks_def split: sum.splits)
    with add_joined_length [OF this(1)] show ?thesis by (simp add: inputs_total_def row_task_def)
  next
    case (Some t)
    with a row obtain acc where acc: "add_joined opp dti (Inputs (Intent t), ForfeitTxs t) = Inr acc"
      "tasks' = AList.update (r_id dt) (t\<lparr>Intent := (Intent t)\<lparr>Inputs := fst acc\<rparr>, ForfeitTxs := snd acc\<rparr>) tasks"
      by (auto simp: add_row_to_tasks_def split: sum.splits)
    let ?t' = "t\<lparr>Intent := (Intent t)\<lparr>Inputs := fst acc\<rparr>, ForfeitTxs := snd acc\<rparr>"
    from inputs_total_update [OF Some, of ?t'] add_joined_length [OF acc(1)] show ?thesis
      by (simp add: acc(2))
  qed
qed

lemma fold_rows_total:
  "fold_rows opp rows tasks = Inr tasks' \<Longrightarrow> inputs_total tasks' \<le> inputs_total tasks + length rows"
proof (induction rows arbitrary: tasks)
  case Nil
  then show ?case by simp
next
  case (Cons row rows)
  then obtain tasks1 where "add_row_to_tasks opp row tasks = Inr tasks1" "fold_rows opp rows tasks1 = Inr tasks'"
    by (auto split: sum.splits)
  with Cons.IH [of tasks1] add_row_total [of opp row tasks tasks1] show ?case by simp
qed

lemma limit_offset_length: "0 \<le> limit \<Longrightarrow> length (limit_offset limit offset xs) \<le> nat limit"
  by (simp add: limit_offset_def Let_def)

text \<open>
  A page of \<open>GetAll\<close> over SQLite holds at most \<open>limit\<close> inputs in all, however many tasks
  match: the limit counts joined rows, so a task with more inputs than that is returned with
  part of them.
\<close>

theorem sqlite_page_counts_inputs:
  assumes "sqlite_GetAll flt opp db st limit offset = Inr tasks" and "0 \<le> limit"
  shows "sum_list (map (\<lambda>t. length (Inputs (Intent t))) tasks) \<le> nat limit"
proof -
  from assms(1) obtain rows where rows: "ListDelegateTasks flt (int_of_status st) limit offset db = Inr rows"
    by (auto simp: sqlite_GetAll_def split: sum.splits)
  with assms(1) obtain m where m: "fold_rows opp rows [] = Inr m" "tasks = map snd m"
    by (cases "fold_rows opp rows []") (auto simp: sqlite_GetAll_def)
  from rows assms(2) have "length rows \<le> nat limit"
    by (auto simp: ListDelegateTasks_def limit_offset_length split: option.splits)
  moreover have "sum_list (map (\<lambda>t. length (Inputs (Intent t))) tasks) = inputs_total m"
    by (simp add: m inputs_total_def case_prod_beta' o_def)
  ultimately show ?thesis using fold_rows_total [OF m(1)] by (simp add: inputs_total_def)
qed

definition three_inputs_db :: sqldb where
  "three_inputs_db = snd (sqlite_Add (\<lambda>_. None) OutPoint_String
     \<lparr>delegate_task_tbl = [], delegate_task_input_tbl = []\<rparr> (sample_task ''t'' 3))"

lemma three_inputs_db_rows:
  "three_inputs_db = \<lparr>delegate_task_tbl = [task_row (sample_task ''t'' 3)],
     delegate_task_input_tbl = map (input_row OutPoint_String (sample_task ''t'' 3))
       [\<lparr>op_hash = 1, op_index = 0\<rparr>, \<lparr>op_hash = 1, op_index = 1\<rparr>, \<lparr>op_hash = 1, op_index = 2\<rparr>]\<rparr>"
  by (simp add: three_inputs_db_def sqlite_Add_def execTx_def InsertDelegateTask_def task_row_def sample_task_def
      InsertDelegateTaskInput_def input_row_def upt_rec)

lemma three_inputs_page:
  "sqlite_GetAll (\<lambda>_. None) NewOutPointFromString three_inputs_db DelegateTaskStatusPending 2 0
     = Inr [sample_task ''t'' 2]"
  by (simp add: sqlite_GetAll_def ListDelegateTasks_def three_inputs_db_rows task_row_def sample_task_def
      left_join_def input_row_def limit_offset_def add_row_to_tasks_def add_joined_def row_task_def
      status_of_int_def upt_rec)

lemma three_inputs_task:
  "sqlite_GetByID (\<lambda>_. None) NewOutPointFromString three_inputs_db ''t'' = Inr (sample_task ''t'' 3)"
  by (simp add: sqlite_GetByID_def GetDelegateTask_def three_inputs_db_rows task_row_def sample_task_def
      left_join_def input_row_def add_joined_def row_task_def status_of_int_def upt_rec)

theorem sqlite_page_counts_inputs_witness:
  "sqlite_GetAll (\<lambda>_. None) NewOutPointFromString three_inputs_db DelegateTaskStatusPending 2 0
     = Inr [sample_task ''t'' 2]
   \<and> sqlite_GetByID (\<lambda>_. None) NewOutPointFromString three_inputs_db ''t'' = Inr (sample_task ''t'' 3)
   \<and> sum_list (map (\<lambda>t. length (Inputs (Intent t))) [sample_task ''t'' 2]) \<le> nat 2"
  using three_inputs_page three_inputs_task sqlite_page_counts_inputs [OF three_inputs_page] by simp

end
