(* ===== verification/BatchProps.thy ===== *)
theory BatchProps
  imports BatchHandler DelegateProps RepoProps
begin

text \<open>
  The properties of a batch: what is submitted, that a forfeit which passed validation can be
  signed, and what holds when the event loop reports success.
\<close>

section \<open>Signing\<close>

text \<open>A signature of the delegate's key for one of the leaves that name it.\<close>

definition delegate_sig :: "crypto \<Rightarrow> prvkey \<Rightarrow> tap_leaf list \<Rightarrow> u32 \<Rightarrow> tap_sig \<Rightarrow> bool" where
  "delegate_sig L prv leaves sighashType sig \<longleftrightarrow>
     XOnlyPubKey sig = SerializePubKey L (PubKey L prv) \<and> SigHash sig = sighashType
     \<and> (\<exists>leaf \<in> set leaves. LeafHash sig = TapLeafHash L (LeafVersion leaf) (LeafScript leaf)
          \<and> (\<exists>cl. DecodeClosure L (LeafScript leaf) = Inr cl
                \<and> closureHasPubkey L cl (SerializePubKey L (PubKey L prv))))"

lemma delegate_sig_mono: "delegate_sig L prv ls st sig \<Longrightarrow> set ls \<subseteq> set ls' \<Longrightarrow> delegate_sig L prv ls' st sig"
  unfolding delegate_sig_def by blast

lemma sign_leaves_sigs:
  "sign_leaves L prv m tx st leaves sigs = Inr sigs' \<Longrightarrow>
     \<exists>new. sigs' = sigs @ new \<and> list_all (delegate_sig L prv leaves st) new"
proof (induction leaves arbitrary: sigs)
  case Nil
  then show ?case by simp
next
  case (Cons leaf leaves)
  have mono: "list_all (delegate_sig L prv leaves st) xs \<Longrightarrow> list_all (delegate_sig L prv (leaf # leaves) st) xs" for xs
    by (auto simp: list_all_iff intro: delegate_sig_mono)
  show ?case
  proof (cases "\<exists>cl. DecodeClosure L (LeafScript leaf) = Inr cl
      \<and> closureHasPubkey L cl (SerializePubKey L (PubKey L prv))")
    case False
    with Cons.prems have "sign_leaves L prv m tx st leaves sigs = Inr sigs'" by (auto split: sum.splits)
    from Cons.IH [OF this] mono show ?thesis by blast
  next
    case True
    with Cons.prems obtain sig where
      "sign_leaves L prv m tx st leaves
         (sigs @ [\<lparr>XOnlyPubKey = SerializePubKey L (PubKey L prv),
                   LeafHash = TapLeafHash L (LeafVersion leaf) (LeafScript leaf),
                   Signature = sig, SigHash = st\<rparr>]) = Inr sigs'" (is "sign_leaves _ _ _ _ _ _ (sigs @ [?s]) = _")
      by (auto split: sum.splits)
    from Cons.IH [OF this] obtain new where new: "sigs' = (sigs @ [?s]) @ new" "list_all (delegate_sig L prv leaves st) new"
      by blast
    moreover have "delegate_sig L prv (leaf # leaves) st ?s" using True by (simp add: delegate_sig_def)
    ultimately show ?thesis using mono by (intro exI [of _ "?s # new"]) simp
  qed
qed

text \<open>
  Signing a forfeit leaves the transaction and the other inputs alone, keeps the client's
  signatures on the first input and appends at least one of the delegate's, each for a leaf
  whose closure names the delegate's key.
\<close>

theorem sign_forfeit_appends:
  assumes "signForfeitWithDelegateKey L f (Some prv) = Inr f'"
  shows "\<exists>input others new. PInputs f = input # others
     \<and> f' = f\<lparr>PInputs := input\<lparr>TaprootScriptSpendSig := TaprootScriptSpendSig input @ new\<rparr> # others\<rparr>
     \<and> new \<noteq> [] \<and> list_all (delegate_sig L prv (TaprootLeafScript input) (SighashType input)) new"
proof -
  from assms obtain input others m sigs where i: "PInputs f = input # others"
    and s: "sign_leaves L prv m f (SighashType input) (TaprootLeafScript input) [] = Inr sigs" "sigs \<noteq> []"
    and f': "f' = f\<lparr>PInputs := input\<lparr>TaprootScriptSpendSig := TaprootScriptSpendSig input @ sigs\<rparr> # others\<rparr>"
    by (auto simp: signForfeitWithDelegateKey_def split: list.splits sum.splits if_splits)
  from sign_leaves_sigs [OF s(1)] i f' s(2) show ?thesis by auto
qed

definition demo_forfeit :: psbt where
  "demo_forfeit =
     \<lparr>TxIn = [\<lparr>PreviousOutPoint = \<lparr>op_hash = 0, op_index = 0\<rparr>, Sequence = 0\<rparr>],
      TxOut = [\<lparr>Value = 3, PkScript = []\<rparr>, \<lparr>Value = 0, PkScript = [2]\<rparr>],
      PInputs = [\<lparr>WitnessUtxo = Some \<lparr>Value = 2, PkScript = []\<rparr>, SighashType = 0x81,
                  TaprootScriptSpendSig = [\<lparr>XOnlyPubKey = [9], LeafHash = [5], Signature = [8], SigHash = 0x81\<rparr>],
                  TaprootLeafScript = [\<lparr>LeafVersion = 0xc0, LeafScript = [5]\<rparr>]\<rparr>]\<rparr>"

definition signing_crypto :: crypto where
  "signing_crypto = demo_crypto\<lparr>DecodeClosure := \<lambda>_. Inr (MultisigClosure [[4]])\<rparr>"

definition demo_signed :: psbt where
  "demo_signed = demo_forfeit\<lparr>PInputs :=
     map (\<lambda>i. i\<lparr>TaprootScriptSpendSig := TaprootScriptSpendSig i
       @ [\<lparr>XOnlyPubKey = [4], LeafHash = [5], Signature = [5], SigHash = 0x81\<rparr>]\<rparr>) (PInputs demo_forfeit)\<rparr>"

lemmas demo_sign_defs = demo_signed_def demo_forfeit_def signing_crypto_def demo_crypto_def

theorem sign_forfeit_appends_witness:
  "\<exists>input others new. PInputs demo_forfeit = input # others
     \<and> demo_signed = demo_forfeit\<lparr>PInputs := input\<lparr>TaprootScriptSpendSig := TaprootScriptSpendSig input @ new\<rparr> # others\<rparr>
     \<and> new \<noteq> [] \<and> list_all (delegate_sig signing_crypto [4] (TaprootLeafScript input) (SighashType input)) new"
  by (rule sign_forfeit_appends) (simp add: signForfeitWithDelegateKey_def demo_sign_defs)

lemma accepted_closureHasPubkey:
  "accepted_closure cl \<Longrightarrow> closureHasPubkey L cl k \<longleftrightarrow> list_ex (\<lambda>key. SerializePubKey L key = k) (closure_pubkeys cl)"
  by (cases cl) auto

text \<open>
  C9: a forfeit that passed validation for the delegate's key is always signed once its
  connector is attached, provided the library computes a signature hash and a signature: the
  leaf that validation asked for is the leaf that signing looks for.
\<close>

theorem validated_forfeit_is_signed:
  assumes "forfeit_valid L (PubKey L prv) dust scr f"
    and "\<And>m tx leaf. CalcSighash L m SigHashDefault tx leaf \<in> range Inr"
    and "\<And>msg. SchnorrSign L prv msg \<in> range Inr"
  shows "\<exists>f'. signForfeitWithDelegateKey L (attach_connector f c) (Some prv) = Inr f'"
proof -
  from assms(1) obtain tin inp utxo leaf cl where f: "TxIn f = [tin]" "PInputs f = [inp]"
    "WitnessUtxo inp = Some utxo" "TaprootLeafScript inp = [leaf]"
    "DecodeClosure L (LeafScript leaf) = Inr cl" "accepted_closure cl"
    "list_ex (\<lambda>k. SerializePubKey L k = SerializePubKey L (PubKey L prv)) (closure_pubkeys cl)"
    unfolding forfeit_valid_def by blast
  let ?g = "attach_connector f c"
  let ?inp = "inp\<lparr>SighashType := SigHashDefault\<rparr>"
  obtain others where g: "PInputs ?g = ?inp # others" "TxIn ?g = [tin] @ [\<lparr>PreviousOutPoint = snd c, Sequence = MaxTxInSequenceNum\<rparr>]"
    and o: "others = [\<lparr>WitnessUtxo = Some (fst c), SighashType = 0, TaprootScriptSpendSig = [], TaprootLeafScript = []\<rparr>]"
    by (simp add: attach_connector_def f)
  obtain m where m: "collect_prevouts 0 (PInputs ?g) (TxIn ?g) [] = Inr m"
    by (simp add: g o f)
  obtain msg sig where "CalcSighash L m SigHashDefault ?g (LeafScript leaf) = Inr msg" "SchnorrSign L prv msg = Inr sig"
    using assms(2) [of m ?g "LeafScript leaf"] assms(3) by blast
  then obtain sigs where "sign_leaves L prv m ?g SigHashDefault [leaf] [] = Inr sigs" "sigs \<noteq> []"
    by (simp add: f accepted_closureHasPubkey)
  then show ?thesis
    using m by (simp add: signForfeitWithDelegateKey_def g f)
qed

theorem validated_forfeit_is_signed_witness:
  "\<exists>f'. signForfeitWithDelegateKey signing_crypto
     (attach_connector demo_forfeit (\<lparr>Value = 1, PkScript = [1]\<rparr>, \<lparr>op_hash = 1, op_index = 0\<rparr>)) (Some [4]) = Inr f'"
proof (rule validated_forfeit_is_signed [where dust = 1 and scr = "[]"])
  show "forfeit_valid signing_crypto (PubKey signing_crypto [4]) 1 [] demo_forfeit"
    by (simp add: forfeit_valid_def demo_sign_defs BaseLeafVersion_def SigHashAll_AnyOneCanPay_def)
qed (simp_all add: demo_sign_defs)

section \<open>Submitting\<close>

lemma sign_forfeits_all:
  "sign_forfeits L prv fs cs = Inr txs \<Longrightarrow>
     length txs = length fs \<and> length fs \<le> length cs
     \<and> list_all2 (\<lambda>(f, c) tx. \<exists>con g. extractConnector L c = Inr con
           \<and> signForfeitWithDelegateKey L (attach_connector f con) prv = Inr g \<and> B64Encode L g = Inr tx)
         (zip fs cs) txs"
proof (induction L prv fs cs arbitrary: txs rule: sign_forfeits.induct)
  case (3 L prv f fs c cs)
  from "3.prems" obtain con g tx rest where ok: "extractConnector L c = Inr con"
    "signForfeitWithDelegateKey L (attach_connector f con) prv = Inr g" "B64Encode L g = Inr tx"
    "sign_forfeits L prv fs cs = Inr rest" "txs = tx # rest"
    by (auto split: sum.splits)
  from "3.IH" [OF ok(1-4)] ok show ?case by (cases con) auto
qed simp_all


definition submit_crypto :: crypto where
  "submit_crypto = signing_crypto\<lparr>NewFromRawBytes := \<lambda>_. Inr demo_forfeit\<rparr>"

definition connector_leaf :: psbt where
  "connector_leaf = \<lparr>TxIn = [], TxOut = [\<lparr>Value = 0, PkScript = [2]\<rparr>, \<lparr>Value = 1, PkScript = [1]\<rparr>], PInputs = []\<rparr>"

lemma demo_submission:
  "submitForfeitTxs (sqlite_delegate_repo (\<lambda>_. None) OutPoint_String NewOutPointFromString) submit_crypto
     (\<lambda>_. None) (\<lambda>_ v. Some \<lparr>op_hash = 1, op_index = v\<rparr>) (\<lambda>_. Inr [demo_vtxo]) (Some [4])
     three_inputs_db [connector_leaf] [''t''] = ([SubmitSignedForfeitTxs [''p''] []], None)"
  by (simp add: submitForfeitTxs_def sqlite_delegate_repo_def three_inputs_task sample_task_def demo_vtxo_def
      submit_crypto_def demo_sign_defs connector_leaf_def extractConnector_def attach_connector_def
      signForfeitWithDelegateKey_def)


section \<open>The event loop\<close>

lemma join_event_success:
  "join_event E ev j = (Some (Inr txid), j') \<Longrightarrow>
     ev = BatchFinalizedEvent txid
     \<and> OnBatchFinalized (je_repo E) (je_sha E) txid (je_selected E) (service j) = (None, service j')"
  by (cases ev) (auto simp: join_event_def split: option.splits sum.splits prod.splits if_splits)

context delegate_repository begin

lemma register_invar: "invar (repo s) \<Longrightarrow> invar (repo (snd (registerDelegate R sha reg i s)))"
proof -
  assume iv: "invar (repo s)"
  have "FailTasks R (repo s) e [i] = (er, r) \<Longrightarrow> invar r" for e er r
    using fail_view [OF iv] by blast
  with iv show ?thesis
    by (auto simp: registerDelegate_def registerDelegate_call_def Let_def split: sum.splits prod.splits)
qed

lemma failed_invar: "invar (repo s) \<Longrightarrow> invar (repo (snd (OnBatchFailed R sha reg sel s)))"
  unfolding OnBatchFailed_def by (induction sel arbitrary: s) (simp_all add: register_invar)

lemma finalized_view:
  assumes "invar (repo s)" and "OnBatchFinalized R sha txid sel s = (er, s')"
  shows "invar (repo s') \<and> (er = None \<longrightarrow>
    view (repo s') = close_tasks (completed txid) (set (map taskID sel)) (view (repo s))
    \<and> registeredIntents s' = fold (\<lambda>t. AList.delete (intentIDHash sha t)) sel (registeredIntents s))"
proof -
  obtain er1 r where c: "CompleteTasks R (repo s) txid (map taskID sel) = (er1, r)"
    by (cases "CompleteTasks R (repo s) txid (map taskID sel)")
  from complete_view [OF assms(1) c] assms(2) c show ?thesis by (auto simp: OnBatchFinalized_def)
qed

lemma join_event_invar:
  assumes "je_repo E = R" and "invar (repo (service j))" and "join_event E ev j = (res, j')"
  shows "invar (repo (service j'))"
proof (cases ev)
  case (BatchFinalizedEvent txid)
  obtain er s where o: "OnBatchFinalized R (je_sha E) txid (je_selected E) (service j) = (er, s)"
    by (cases "OnBatchFinalized R (je_sha E) txid (je_selected E) (service j)")
  from finalized_view [OF assms(2) o] assms(1,3) o BatchFinalizedEvent show ?thesis
    by (cases er) (auto simp: join_event_def)
next
  case BatchFailedEvent
  with failed_invar [OF assms(2)] assms(1,3) show ?thesis
    by (auto simp: join_event_def split: prod.splits) (metis snd_conv)
qed (use assms(2,3) in \<open>auto simp: join_event_def split: option.splits sum.splits prod.splits if_splits\<close>)

lemma join_loop_success:
  "je_repo E = R \<Longrightarrow> invar (repo (service j)) \<Longrightarrow> join_loop E ins j = (Some (Inr txid), j') \<Longrightarrow>
    Event (BatchFinalizedEvent txid) \<in> set ins
    \<and> (\<exists>s. invar (repo s) \<and> OnBatchFinalized R (je_sha E) txid (je_selected E) s = (None, service j'))"
proof (induction E ins j rule: join_loop.induct)
  case (4 E ev ins j)
  obtain res j1 where ev: "join_event E ev j = (res, j1)" by (cases "join_event E ev j")
  note inv1 = join_event_invar [OF "4.prems"(1,2) ev]
  show ?case
  proof (cases res)
    case None
    with "4.prems"(3) ev have "join_loop E ins j1 = (Some (Inr txid), j')" by simp
    from "4.IH" [OF ev [symmetric, unfolded None] _ "4.prems"(1) inv1 this] None show ?thesis by auto
  next
    case (Some r)
    with "4.prems"(3) ev have "join_event E ev j = (Some (Inr txid), j')" by simp
    from join_event_success [OF this] "4.prems"(1,2) show ?thesis by auto
  qed
qed simp_all

end

lemma map_of_fold_delete:
  "map_of (fold (\<lambda>t. AList.delete (k t)) sel m) x = (if x \<in> k ` set sel then None else map_of m x)"
  by (induction sel arbitrary: m) (auto simp: delete_conv')

text \<open>
  C14: when a batch is reported as completed with a transaction id, the server announced that
  transaction, none of the selected tasks is pending any more, and none of their intents is
  still registered.
\<close>

theorem completed_batch_closes_its_tasks:
  fixes E :: "('a, 'b, 'c, sqldb) join_env"
  assumes "je_repo E = sqlite_delegate_repo flt OutPoint_String NewOutPointFromString"
    and "sqlite_inv OutPoint_String (repo s)"
    and "joinDelegateBatch E ops topic stream cfg s = (Some (Inr txid), cs, s')"
  shows "(\<exists>topics ins. stream topics = Inr ins \<and> Event (BatchFinalizedEvent txid) \<in> set ins)
     \<and> list_all (\<lambda>t. (case sqlite_view NewOutPointFromString (repo s') (taskID t) of
                       None \<Rightarrow> True | Some v \<Rightarrow> \<not> is_pending v)
                    \<and> map_of (registeredIntents s') (intentIDHash (je_sha E) t) = None) (je_selected E)"
proof -
  obtain cs0 topics where c: "confirm_tasks (je_srv E) ops (je_selected E) = (cs0, topics)"
    by (cases "confirm_tasks (je_srv E) ops (je_selected E)")
  define j :: "('a, 'b, 'c, sqldb) join_state" where "j = \<lparr>flatVtxoTree = [], flatConnectorTree = [], vtxoTree = None,
    session = NewTreeSignerSession (je_lib E) (je_prvkey E), calls = cs0, service = s\<rparr>"
  from assms(3) c obtain ins key j' where
    ins: "stream (topic # topics) = Inr ins"
    and j: "join_loop (E\<lparr>je_forfeit_key := key\<rparr>) ins j = (Some (Inr txid), j')"
    and s': "service j' = s'"
    by (auto simp: joinDelegateBatch_def j_def split: prod.splits sum.splits)
  have "je_repo (E\<lparr>je_forfeit_key := key\<rparr>) = sqlite_delegate_repo flt OutPoint_String NewOutPointFromString"
    by (simp add: assms(1))
  from sqlite_repo.join_loop_success [OF this _ j] assms(2) s' obtain s1 where
    ev: "Event (BatchFinalizedEvent txid) \<in> set ins" and s1: "sq_inv (repo s1)"
      "OnBatchFinalized (sqlite_delegate_repo flt OutPoint_String NewOutPointFromString) (je_sha E) txid
         (je_selected E) s1 = (None, s')"
    by (auto simp: j_def)
  from sqlite_repo.finalized_view [OF s1] have
    v: "sq_view (repo s') = close_tasks (completed txid) (set (map taskID (je_selected E))) (sq_view (repo s1))"
    and r: "registeredIntents s' = fold (\<lambda>t. AList.delete (intentIDHash (je_sha E) t)) (je_selected E) (registeredIntents s1)"
    by auto
  have "\<not> is_pending u" if "t \<in> set (je_selected E)" "sq_view (repo s') (taskID t) = Some u" for t u
    using that(1) close_tasks_pendingD [OF that(2) [unfolded v]] by force
  then show ?thesis
    using ins ev by (auto simp: list_all_iff r map_of_fold_delete split: option.splits)
qed

definition demo_join :: "(nat, unit, unit, sqldb) join_env" where
  "demo_join =
     \<lparr>je_repo = sqlite_at no_fault, je_crypto = demo_crypto,
      je_lib = \<lparr>NewTxTree = \<lambda>_. Inr (), Leaves = \<lambda>_. [], ApplySignature = \<lambda>_ _. Inr,
        NewTreeSignerSession = \<lambda>_. (), SessGetPublicKey = \<lambda>_. ''k'', SessInit = \<lambda>_ _ _. Inr,
        SessGetNonces = \<lambda>z. (Inr [], z), SessAggregateNonces = \<lambda>_ _ z. (Inr True, z),
        SessSign = \<lambda>z. (Inr [], z), SweepClosureScript = \<lambda>_ _. Inr []\<rparr>,
      je_srv = \<lambda>_. None, je_parse = \<lambda>_ _. None, je_vtxos = \<lambda>_. Inr [], je_sha = id,
      je_register = \<lambda>_ _. Inr ''i'', je_prvkey = Some [4], je_forfeit_key = [], je_expiry = LocktimeBlock 1,
      je_selected = [\<lparr>taskID = ''t1'', intentID = ''i'', ri_inputs = [\<lparr>op_hash = 0, op_index = 0\<rparr>]\<rparr>]\<rparr>"

definition demo_join_run :: "(string + string) option \<times> client_call list \<times> sqldb dstate" where
  "demo_join_run =
     joinDelegateBatch demo_join (\<lambda>_. ''o'') ''k'' (\<lambda>_. Inr [Event OtherEvent, Event (BatchFinalizedEvent ''c'')])
       (Inr [6]) (demo_state (sqlite_at no_fault) empty_sqldb)"

lemma demo_join_run_eq:
  "demo_join_run = (Some (Inr ''c''), fst (snd demo_join_run), snd (snd demo_join_run))"
proof -
  have "fst demo_join_run = Some (Inr ''c'')" by code_simp
  then show ?thesis by (metis prod.collapse)
qed

theorem completed_batch_closes_its_tasks_witness:
  "case sqlite_view NewOutPointFromString (repo (snd (snd demo_join_run))) ''t1'' of
     None \<Rightarrow> True | Some v \<Rightarrow> \<not> is_pending v"
proof -
  have "dinv sq_view sq_inv (demo_state (sqlite_at no_fault) empty_sqldb)"
    using sqlite_service.reach_inv [OF _ sqlite_demo_reach [unfolded sqlite_at_eq] empty_sqldb_ok] demo_enc
    by (auto simp: sqlite_at_eq B64_nonempty_def)
  then have inv: "sq_inv (repo (demo_state (sqlite_at no_fault) empty_sqldb))" by (simp add: dinv_def)
  have "je_repo demo_join = sqlite_delegate_repo no_fault OutPoint_String NewOutPointFromString"
    by (simp add: demo_join_def sqlite_at_def)
  from completed_batch_closes_its_tasks [OF this inv demo_join_run_eq [unfolded demo_join_run_def]]
  show ?thesis by (simp add: demo_join_run_def demo_join_def)
qed

end
