(* ===== verification/ScriptsRepo.thy ===== *)
theory ScriptsRepo
  imports SqliteRepo KvStore
begin

text \<open>
  The repositories of subscribed scripts (\<open>subscribed_script_repo.go\<close> of the SQLite and of the
  badger package), their contract as the locale \<open>scripts_store\<close>, and its interpretation on both.
\<close>

record 's scripts_repo =
  Scripts_Get :: "'s \<Rightarrow> string + string list"
  Scripts_Add :: "'s \<Rightarrow> string list \<Rightarrow> (string + nat) \<times> 's"
  Scripts_Delete :: "'s \<Rightarrow> string list \<Rightarrow> (string + nat) \<times> 's"

text \<open>
  A failed write may have stored or removed part of the scripts (badger). The count tells
  whether anything was new; a count of deletions may be too high when a lookup failed (SQLite).
\<close>

locale scripts_store =
  fixes view :: "'s \<Rightarrow> string set" and invar :: "'s \<Rightarrow> bool" and R :: "'s scripts_repo"
  assumes get_view: "invar s \<Longrightarrow> Scripts_Get R s = Inr xs \<Longrightarrow> set xs = view s"
    and add_view: "invar s \<Longrightarrow> Scripts_Add R s xs = (Inr n, s') \<Longrightarrow>
          invar s' \<and> view s' = view s \<union> set xs \<and> (n = 0 \<longleftrightarrow> set xs \<subseteq> view s)"
    and add_error: "invar s \<Longrightarrow> Scripts_Add R s xs = (Inl e, s') \<Longrightarrow>
          invar s' \<and> view s \<subseteq> view s' \<and> view s' \<subseteq> view s \<union> set xs"
    and delete_view: "invar s \<Longrightarrow> Scripts_Delete R s xs = (Inr n, s') \<Longrightarrow>
          invar s' \<and> view s' = view s - set xs \<and> (n = 0 \<longrightarrow> view s' = view s)"
    and delete_error: "invar s \<Longrightarrow> Scripts_Delete R s xs = (Inl e, s') \<Longrightarrow>
          invar s' \<and> view s - set xs \<subseteq> view s' \<and> view s' \<subseteq> view s"

section \<open>SQLite\<close>

definition InsertSubscribedScript :: "fault \<Rightarrow> string \<Rightarrow> string list \<Rightarrow> string + string list" where
  "InsertSubscribedScript flt scr tbl =
     (case flt ''InsertSubscribedScript'' of
        Some e \<Rightarrow> Inl e
      | None \<Rightarrow> if scr \<in> set tbl then Inl ''UNIQUE constraint failed: subscribed_script.script''
                else Inr (tbl @ [scr]))"

text \<open>\<open>Inr False\<close> is \<open>sql.ErrNoRows\<close>.\<close>

definition GetSubscribedScript :: "fault \<Rightarrow> string \<Rightarrow> string list \<Rightarrow> string + bool" where
  "GetSubscribedScript flt scr tbl =
     (case flt ''GetSubscribedScript'' of Some e \<Rightarrow> Inl e | None \<Rightarrow> Inr (scr \<in> set tbl))"

definition DeleteSubscribedScript :: "fault \<Rightarrow> string \<Rightarrow> string list \<Rightarrow> string + string list" where
  "DeleteSubscribedScript flt scr tbl =
     (case flt ''DeleteSubscribedScript'' of Some e \<Rightarrow> Inl e | None \<Rightarrow> Inr (filter (\<lambda>x. x \<noteq> scr) tbl))"

definition ListSubscribedScript :: "fault \<Rightarrow> string list \<Rightarrow> string + string list" where
  "ListSubscribedScript flt tbl = (case flt ''ListSubscribedScript'' of Some e \<Rightarrow> Inl e | None \<Rightarrow> Inr tbl)"

fun add_scripts :: "fault \<Rightarrow> string list \<Rightarrow> nat \<times> string list \<Rightarrow> string + nat \<times> string list" where
  "add_scripts flt [] st = Inr st"
| "add_scripts flt (scr # scripts) (cnt, tbl) =
     (case InsertSubscribedScript flt scr tbl of
        Inl e \<Rightarrow> if go_contains e ''UNIQUE constraint failed'' then add_scripts flt scripts (cnt, tbl)
                 else Inl (''failed to insert script '' @ scr @ '': '' @ e)
      | Inr tbl' \<Rightarrow> add_scripts flt scripts (Suc cnt, tbl'))"

fun delete_scripts :: "fault \<Rightarrow> string list \<Rightarrow> nat \<times> string list \<Rightarrow> string + nat \<times> string list" where
  "delete_scripts flt [] st = Inr st"
| "delete_scripts flt (scr # scripts) (cnt, tbl) =
     (if GetSubscribedScript flt scr tbl = Inr False then delete_scripts flt scripts (cnt, tbl)
      else
       (case DeleteSubscribedScript flt scr tbl of
          Inl e \<Rightarrow> Inl (''failed to delete script '' @ scr @ '': '' @ e)
        | Inr tbl' \<Rightarrow> delete_scripts flt scripts (Suc cnt, tbl')))"

definition run_counted ::
  "fault \<Rightarrow> (nat \<times> string list \<Rightarrow> string + nat \<times> string list) \<Rightarrow> string list \<Rightarrow> (string + nat) \<times> string list" where
  "run_counted flt body tbl =
     (case execTx flt body (0, tbl) of
        (Some e, _) \<Rightarrow> (Inl (''failed to execute transaction: '' @ e), tbl)
      | (None, cnt, tbl') \<Rightarrow> (Inr cnt, tbl'))"

definition sqlite_scripts_Add :: "fault \<Rightarrow> string list \<Rightarrow> string list \<Rightarrow> (string + nat) \<times> string list" where
  "sqlite_scripts_Add flt tbl scripts = run_counted flt (add_scripts flt scripts) tbl"

definition sqlite_scripts_Get :: "fault \<Rightarrow> string list \<Rightarrow> string + string list" where
  "sqlite_scripts_Get flt tbl = ListSubscribedScript flt tbl"

definition sqlite_scripts_Delete :: "fault \<Rightarrow> string list \<Rightarrow> string list \<Rightarrow> (string + nat) \<times> string list" where
  "sqlite_scripts_Delete flt tbl scripts = run_counted flt (delete_scripts flt scripts) tbl"

definition sqlite_scripts_repo :: "fault \<Rightarrow> string list scripts_repo" where
  "sqlite_scripts_repo flt =
     \<lparr>Scripts_Get = sqlite_scripts_Get flt, Scripts_Add = sqlite_scripts_Add flt,
      Scripts_Delete = sqlite_scripts_Delete flt\<rparr>"

lemma add_scripts_Inr:
  assumes "\<And>e. flt ''InsertSubscribedScript'' = Some e \<Longrightarrow> \<not> go_contains e ''UNIQUE constraint failed''"
  shows "add_scripts flt scripts (c, tbl) = Inr (c', tbl') \<Longrightarrow>
    set tbl' = set tbl \<union> set scripts \<and> c \<le> c' \<and> (c' = c \<longleftrightarrow> set scripts \<subseteq> set tbl)"
proof (induction scripts arbitrary: c tbl)
  case Nil
  then show ?case by simp
next
  case (Cons scr scripts)
  have u: "go_contains ''UNIQUE constraint failed: subscribed_script.script'' ''UNIQUE constraint failed''"
    by code_simp
  show ?case
  proof (cases "scr \<in> set tbl")
    case True
    with Cons.prems u assms have "add_scripts flt scripts (c, tbl) = Inr (c', tbl')"
      by (auto simp: InsertSubscribedScript_def split: option.splits if_splits)
    from Cons.IH [OF this] True show ?thesis by auto
  next
    case False
    with Cons.prems assms have "add_scripts flt scripts (Suc c, tbl @ [scr]) = Inr (c', tbl')"
      by (auto simp: InsertSubscribedScript_def split: option.splits if_splits)
    from Cons.IH [OF this] False show ?thesis by auto
  qed
qed

lemma delete_scripts_Inr:
  "delete_scripts flt scripts (c, tbl) = Inr (c', tbl') \<Longrightarrow>
     set tbl' = set tbl - set scripts \<and> c \<le> c' \<and> (c' = c \<longrightarrow> set tbl' = set tbl)"
proof (induction scripts arbitrary: c tbl)
  case Nil
  then show ?case by simp
next
  case (Cons scr scripts)
  show ?case
  proof (cases "GetSubscribedScript flt scr tbl = Inr False")
    case True
    then have "scr \<notin> set tbl" by (auto simp: GetSubscribedScript_def split: option.splits)
    moreover from True Cons.prems have "delete_scripts flt scripts (c, tbl) = Inr (c', tbl')" by simp
    note Cons.IH [OF this]
    ultimately show ?thesis by auto
  next
    case False
    with Cons.prems have "delete_scripts flt scripts (Suc c, filter (\<lambda>x. x \<noteq> scr) tbl) = Inr (c', tbl')"
      by (auto simp: DeleteSubscribedScript_def split: option.splits)
    from Cons.IH [OF this] show ?thesis by auto
  qed
qed

lemma run_counted_Inr: "run_counted flt body tbl = (Inr n, tbl') \<Longrightarrow> body (0, tbl) = Inr (n, tbl')"
  by (auto simp: run_counted_def execTx_def split: option.splits sum.splits prod.splits)

lemma run_counted_Inl: "run_counted flt body tbl = (Inl e, tbl') \<Longrightarrow> tbl' = tbl"
  by (auto simp: run_counted_def split: option.splits prod.splits)

text \<open>Statements fail as \<open>flt\<close> says, but no failure reads as a violated \<open>UNIQUE\<close> constraint.\<close>

definition clean_fault :: "fault \<Rightarrow> fault" where
  "clean_fault flt n = map_option (\<lambda>_. ''disk I/O error'') (flt n)"

lemma clean_fault_text: "clean_fault flt n = Some e \<Longrightarrow> \<not> go_contains e ''UNIQUE constraint failed''"
proof -
  have "\<not> go_contains ''disk I/O error'' ''UNIQUE constraint failed''" by code_simp
  then show "clean_fault flt n = Some e \<Longrightarrow> \<not> go_contains e ''UNIQUE constraint failed''"
    by (auto simp: clean_fault_def)
qed

interpretation sqlite_scripts: scripts_store set "\<lambda>_. True" "sqlite_scripts_repo (clean_fault flt)" for flt
proof (unfold_locales, unfold sqlite_scripts_repo_def scripts_repo.select_convs, goal_cases)
  case 1
  then show ?case by (auto simp: sqlite_scripts_Get_def ListSubscribedScript_def split: option.splits)
next
  case (2 s xs n s')
  from add_scripts_Inr [OF clean_fault_text run_counted_Inr [OF 2(2) [unfolded sqlite_scripts_Add_def]]] show ?case
    by simp
next
  case 3
  from run_counted_Inl [OF 3(2) [unfolded sqlite_scripts_Add_def]] show ?case by simp
next
  case 4
  from delete_scripts_Inr [OF run_counted_Inr [OF 4(2) [unfolded sqlite_scripts_Delete_def]]] show ?case by blast
next
  case 5
  from run_counted_Inl [OF 5(2) [unfolded sqlite_scripts_Delete_def]] show ?case by auto
qed

section \<open>badger\<close>

fun badger_scripts_Add_loop ::
  "('s, string) kv_ops \<Rightarrow> string list \<Rightarrow> nat \<Rightarrow> 's \<Rightarrow> (string + nat) \<times> 's" where
  "badger_scripts_Add_loop kv [] cnt s = (Inr cnt, s)"
| "badger_scripts_Add_loop kv (scr # scripts) cnt s =
     (case kv_insert kv s scr scr of
        (Some ErrKeyExists, s') \<Rightarrow> badger_scripts_Add_loop kv scripts cnt s'
      | (Some e, s') \<Rightarrow> (Inl (''failed to insert script '' @ scr @ '': '' @ kv_error_text e), s')
      | (None, s') \<Rightarrow> badger_scripts_Add_loop kv scripts (Suc cnt) s')"

definition badger_scripts_Add :: "('s, string) kv_ops \<Rightarrow> 's \<Rightarrow> string list \<Rightarrow> (string + nat) \<times> 's" where
  "badger_scripts_Add kv s scripts = badger_scripts_Add_loop kv scripts 0 s"

definition badger_scripts_Get :: "('s, string) kv_ops \<Rightarrow> 's \<Rightarrow> string + string list" where
  "badger_scripts_Get kv s =
     (case kv_find kv s (\<lambda>_. True) of
        Inl e \<Rightarrow> Inl (''failed to get all subscribed scripts: '' @ e)
      | Inr currentScripts \<Rightarrow> Inr currentScripts)"

fun badger_scripts_Delete_loop ::
  "('s, string) kv_ops \<Rightarrow> string list \<Rightarrow> nat \<Rightarrow> 's \<Rightarrow> (string + nat) \<times> 's" where
  "badger_scripts_Delete_loop kv [] cnt s = (Inr cnt, s)"
| "badger_scripts_Delete_loop kv (scr # scripts) cnt s =
     (case kv_delete kv s scr of
        (Some ErrNotFound, s') \<Rightarrow> badger_scripts_Delete_loop kv scripts cnt s'
      | (Some e, s') \<Rightarrow> (Inl (''failed to delete script '' @ scr @ '': '' @ kv_error_text e), s')
      | (None, s') \<Rightarrow> badger_scripts_Delete_loop kv scripts (Suc cnt) s')"

definition badger_scripts_Delete :: "('s, string) kv_ops \<Rightarrow> 's \<Rightarrow> string list \<Rightarrow> (string + nat) \<times> 's" where
  "badger_scripts_Delete kv s scripts = badger_scripts_Delete_loop kv scripts 0 s"

definition badger_scripts_repo :: "('s, string) kv_ops \<Rightarrow> 's scripts_repo" where
  "badger_scripts_repo kv =
     \<lparr>Scripts_Get = badger_scripts_Get kv, Scripts_Add = badger_scripts_Add kv,
      Scripts_Delete = badger_scripts_Delete kv\<rparr>"

text \<open>A script is stored under itself, so the stored scripts are the keys of the store.\<close>

definition own_keys :: "('s \<Rightarrow> string \<rightharpoonup> string) \<Rightarrow> 's \<Rightarrow> bool" where
  "own_keys m s \<longleftrightarrow> (\<forall>k v. m s k = Some v \<longrightarrow> v = k)"

locale script_kv = kv_store kv_map kv
  for kv_map :: "'s \<Rightarrow> string \<rightharpoonup> string" and kv :: "('s, string) kv_ops"
begin

lemma Add_loop:
  "own_keys kv_map s \<Longrightarrow> badger_scripts_Add_loop kv xs c s = (res, s') \<Longrightarrow>
     own_keys kv_map s' \<and> dom (kv_map s) \<subseteq> dom (kv_map s') \<and> dom (kv_map s') \<subseteq> dom (kv_map s) \<union> set xs
     \<and> (\<forall>n. res = Inr n \<longrightarrow> dom (kv_map s') = dom (kv_map s) \<union> set xs \<and> c \<le> n
            \<and> (n = c \<longleftrightarrow> set xs \<subseteq> dom (kv_map s)))"
proof (induction xs arbitrary: c s)
  case Nil
  then show ?case by auto
next
  case (Cons x xs)
  obtain er s1 where i: "kv_insert kv s x x = (er, s1)" by (cases "kv_insert kv s x x")
  consider "er = None" | "er = Some ErrKeyExists" | e where "er = Some e" "e \<noteq> ErrKeyExists"
    by (cases er) auto
  then show ?case
  proof cases
    case 1
    note ok = insert_ok [OF i [unfolded 1]]
    from ok Cons.prems(1) have "own_keys kv_map s1" by (auto simp: own_keys_def)
    moreover from Cons.prems i 1 have "badger_scripts_Add_loop kv xs (Suc c) s1 = (res, s')" by simp
    ultimately have "own_keys kv_map s1" "badger_scripts_Add_loop kv xs (Suc c) s1 = (res, s')" by simp_all
    note ih = Cons.IH [OF this]
    have "dom (kv_map s1) = insert x (dom (kv_map s))" "x \<notin> dom (kv_map s)" using ok by auto
    then show ?thesis using ih unfolding \<open>dom (kv_map s1) = _\<close> by (auto simp del: domIff simp: subset_iff)
  next
    case 2
    have "kv_map s1 = kv_map s" "kv_map s x \<noteq> None"
      using insert_fail [OF i [unfolded 2]] insert_free [of s x x] i 2 by auto
    moreover from this Cons.prems i 2 have "own_keys kv_map s1" "badger_scripts_Add_loop kv xs c s1 = (res, s')"
      by (simp_all add: own_keys_def)
    note Cons.IH [OF this]
    ultimately show ?thesis by auto
  next
    case (3 e)
    with Cons.prems i have "s' = s1" "\<exists>m. res = Inl m" by (auto split: kv_error.splits)
    with insert_fail [OF i [unfolded 3(1)]] Cons.prems(1) show ?thesis by (auto simp: own_keys_def)
  qed
qed

lemma Delete_loop:
  "own_keys kv_map s \<Longrightarrow> badger_scripts_Delete_loop kv xs c s = (res, s') \<Longrightarrow>
     own_keys kv_map s' \<and> dom (kv_map s) - set xs \<subseteq> dom (kv_map s') \<and> dom (kv_map s') \<subseteq> dom (kv_map s)
     \<and> (\<forall>n. res = Inr n \<longrightarrow> dom (kv_map s') = dom (kv_map s) - set xs \<and> c \<le> n
            \<and> (n = c \<longrightarrow> dom (kv_map s') = dom (kv_map s)))"
proof (induction xs arbitrary: c s)
  case Nil
  then show ?case by auto
next
  case (Cons x xs)
  obtain er s1 where d: "kv_delete kv s x = (er, s1)" by (cases "kv_delete kv s x")
  consider "er = None" | "er = Some ErrNotFound" | e where "er = Some e" "e \<noteq> ErrNotFound"
    by (cases er) auto
  then show ?case
  proof cases
    case 1
    note ok = delete_ok [OF d [unfolded 1]]
    from ok Cons.prems(1) have "own_keys kv_map s1" by (auto simp: own_keys_def split: if_splits)
    moreover from Cons.prems d 1 have "badger_scripts_Delete_loop kv xs (Suc c) s1 = (res, s')" by simp
    ultimately have "own_keys kv_map s1" "badger_scripts_Delete_loop kv xs (Suc c) s1 = (res, s')" by simp_all
    note ih = Cons.IH [OF this]
    have D: "dom (kv_map s1) = dom (kv_map s) - {x}" "x \<in> dom (kv_map s)" using ok by auto
    show ?thesis
    proof (intro conjI allI impI)
      show "own_keys kv_map s'" using ih by blast
      show "dom (kv_map s) - set (x # xs) \<subseteq> dom (kv_map s')" "dom (kv_map s') \<subseteq> dom (kv_map s)"
        using ih unfolding D(1) list.set by blast+
      fix n assume n: "res = Inr n"
      then show "dom (kv_map s') = dom (kv_map s) - set (x # xs)" using ih unfolding D(1) list.set by blast
      from n ih have "Suc c \<le> n" by blast
      then show "c \<le> n" "n = c \<Longrightarrow> dom (kv_map s') = dom (kv_map s)" by simp_all
    qed
  next
    case 2
    have "kv_map s1 = kv_map s" "kv_map s x = None"
      using delete_fail [OF d [unfolded 2]] delete_notfound [of s x] d 2 by auto
    then have "own_keys kv_map s1" "badger_scripts_Delete_loop kv xs c s1 = (res, s')"
      using Cons.prems d 2 by (simp_all add: own_keys_def)
    note ih = Cons.IH [OF this]
    have D: "dom (kv_map s1) = dom (kv_map s)" "x \<notin> dom (kv_map s)"
      using \<open>kv_map s1 = kv_map s\<close> \<open>kv_map s x = None\<close> by auto
    then have X: "dom (kv_map s) - set (x # xs) = dom (kv_map s) - set xs" by auto
    show ?thesis using ih unfolding D(1) X by blast
  next
    case (3 e)
    with Cons.prems d have "s' = s1" "\<exists>m. res = Inl m" by (auto split: kv_error.splits)
    with delete_fail [OF d [unfolded 3(1)]] Cons.prems(1) show ?thesis by (auto simp: own_keys_def)
  qed
qed

end

sublocale script_kv \<subseteq> badger_scripts: scripts_store "\<lambda>s. dom (kv_map s)" "own_keys kv_map" "badger_scripts_repo kv"
proof (unfold_locales, unfold badger_scripts_repo_def scripts_repo.select_convs, goal_cases)
  case (1 s xs)
  then have "kv_find kv s (\<lambda>_. True) = Inr xs" by (auto simp: badger_scripts_Get_def split: sum.splits)
  from find_set [OF this] 1(1) show ?case by (auto simp: own_keys_def dom_def)
next
  case 2
  from Add_loop [OF 2(1) 2(2) [unfolded badger_scripts_Add_def]] show ?case by auto
next
  case 3
  from Add_loop [OF 3(1) 3(2) [unfolded badger_scripts_Add_def]] show ?case by auto
next
  case 4
  from Delete_loop [OF 4(1) 4(2) [unfolded badger_scripts_Delete_def]] show ?case by blast
next
  case 5
  from Delete_loop [OF 5(1) 5(2) [unfolded badger_scripts_Delete_def]] show ?case by auto
qed

interpretation badger_scripts_mem: script_kv map_of "mem_store flt" for flt
  by unfold_locales

end
