(* ===== verification/Subscription.thy ===== *)
theory Subscription
  imports ScriptsRepo Bitcoin
begin

text \<open>
  The handler of address subscriptions (\<open>internal/core/application/subscription.go\<close>), its event
  loop and \<open>handleAddressEventChannel\<close> of \<open>service.go\<close>. The indexer's answers are arguments:
  \<open>newSub\<close> to \<open>NewSubscription\<close>, \<open>upd\<close> to \<open>UpdateSubscription\<close>.

  The field \<open>covered\<close> is not in the code: it records which scripts the current subscription was
  asked to watch by the calls that succeeded.
\<close>

record subscriptionHandler =
  sub_closeFn :: bool
  sub_cancelRetry :: bool
  sub_id :: string
  covered :: "string set"

definition no_subscription :: subscriptionHandler where
  "no_subscription = \<lparr>sub_closeFn = False, sub_cancelRetry = False, sub_id = [], covered = {}\<rparr>"

definition sub_start ::
  "(string list \<Rightarrow> string + string) \<Rightarrow> string list \<Rightarrow> subscriptionHandler \<Rightarrow> err \<times> subscriptionHandler" where
  "sub_start newSub scripts h =
     (case newSub scripts of
        Inl e \<Rightarrow> (Some e, h)
      | Inr i \<Rightarrow> (None, \<lparr>sub_closeFn = True, sub_cancelRetry = True, sub_id = i, covered = set scripts\<rparr>))"

definition newSubscriptionHandler ::
  "'s scripts_repo \<Rightarrow> (string list \<Rightarrow> string + string) \<Rightarrow> 's \<Rightarrow> string + subscriptionHandler" where
  "newSubscriptionHandler R newSub store =
     (case Scripts_Get R store of
        Inl e \<Rightarrow> Inl e
      | Inr scripts \<Rightarrow>
          if scripts = [] then Inr no_subscription
          else (case sub_start newSub scripts no_subscription of (Some e, _) \<Rightarrow> Inl e | (None, h) \<Rightarrow> Inr h))"

definition subscribe ::
  "'s scripts_repo \<Rightarrow> (string list \<Rightarrow> string + string) \<Rightarrow> (string \<Rightarrow> string list \<Rightarrow> string list \<Rightarrow> err) \<Rightarrow>
     string list \<Rightarrow> subscriptionHandler \<times> 's \<Rightarrow> err \<times> subscriptionHandler \<times> 's" where
  "subscribe R newSub upd scripts st =
     (case st of (h, store) \<Rightarrow>
       (case Scripts_Add R store scripts of
          (Inl e, store') \<Rightarrow> (Some (''failed to add scripts: '' @ e), h, store')
        | (Inr n, store') \<Rightarrow>
            if n = 0 then (None, h, store')
            else if sub_id h = [] then (case sub_start newSub scripts h of (er, h') \<Rightarrow> (er, h', store'))
            else
             (case upd (sub_id h) scripts [] of
                Some e \<Rightarrow> (Some e, h, store')
              | None \<Rightarrow> (None, h\<lparr>covered := covered h \<union> set scripts\<rparr>, store'))))"

definition unsubscribe ::
  "'s scripts_repo \<Rightarrow> (string \<Rightarrow> string list \<Rightarrow> string list \<Rightarrow> err) \<Rightarrow>
     string list \<Rightarrow> subscriptionHandler \<times> 's \<Rightarrow> err \<times> subscriptionHandler \<times> 's" where
  "unsubscribe R upd scripts st =
     (case st of (h, store) \<Rightarrow>
       (case Scripts_Delete R store scripts of
          (Inl e, store') \<Rightarrow> (Some (''failed to remove scripts: '' @ e), h, store')
        | (Inr n, store') \<Rightarrow>
            if n = 0 then (None, h, store')
            else if sub_id h = [] then (None, h, store')
            else
             (case upd (sub_id h) [] scripts of
                Some e \<Rightarrow> (Some e, h, store')
              | None \<Rightarrow> (None, h\<lparr>covered := covered h - set scripts\<rparr>, store'))))"

definition sub_stop :: "subscriptionHandler \<Rightarrow> subscriptionHandler" where
  "sub_stop h = no_subscription"

section \<open>Events\<close>

datatype connection_state = Disconnected | Reconnected | Ready

record 'v script_event =
  ev_connection :: "connection_state option"
  ev_err :: err
  ev_scripts :: "string list"
  ev_new_vtxos :: "'v list"
  ev_spent_vtxos :: "'v list"
  ev_txid :: string
  ev_tx :: string
  ev_checkpoints :: "(string \<times> string \<times> string) list" \<comment> \<open>by key, the transaction and its id\<close>

text \<open>The loop of \<open>start\<close>: connection events are consumed, the others are handed to \<open>onEvent\<close>.\<close>

fun sub_loop :: "bool \<Rightarrow> 'v script_event list \<Rightarrow> bool \<times> 'v script_event list" where
  "sub_loop waitForReconnection [] = (waitForReconnection, [])"
| "sub_loop waitForReconnection (ev # evs) =
     (case ev_connection ev of
        Some Disconnected \<Rightarrow> sub_loop True evs
      | Some Reconnected \<Rightarrow> sub_loop waitForReconnection evs
      | Some Ready \<Rightarrow> sub_loop False evs
      | None \<Rightarrow> (case sub_loop waitForReconnection evs of (w, out) \<Rightarrow> (w, ev # out)))"

record 'v notification =
  Addrs :: "string list"
  NewVtxos :: "'v list"
  SpentVtxos :: "'v list"
  Checkpoints :: "(string \<times> string \<times> string) list"
  TxData :: "string \<times> string"

datatype 'a handled = Ignored | Panicked | Forward 'a

text \<open>
  The scripts of the event as addresses; the ones that do not decode are left out. A decoded
  script of fewer than two bytes makes \<open>decodedPubKey[2:]\<close> panic (\<open>None\<close>). \<open>enc\<close> is
  \<open>arklib.Address.EncodeV0\<close> for the configured signer and network.
\<close>

fun event_addresses :: "crypto \<Rightarrow> (pubkey \<Rightarrow> string + string) \<Rightarrow> string list \<Rightarrow> string list option" where
  "event_addresses L enc [] = Some []"
| "event_addresses L enc (scr # scripts) =
     (case hex_decode scr of
        None \<Rightarrow> event_addresses L enc scripts
      | Some decodedPubKey \<Rightarrow>
          if length decodedPubKey < 2 then None
          else
           (case ParsePubKey L (drop 2 decodedPubKey) of
              Inl _ \<Rightarrow> event_addresses L enc scripts
            | Inr vtxoTapPubkey \<Rightarrow>
               (case enc vtxoTapPubkey of
                  Inl _ \<Rightarrow> event_addresses L enc scripts
                | Inr a \<Rightarrow> map_option (\<lambda>as. a # as) (event_addresses L enc scripts))))"

text \<open>\<open>Forward n\<close> is offered to the notifications channel, which drops it when nobody receives.\<close>

definition handleAddressEventChannel ::
  "crypto \<Rightarrow> (pubkey \<Rightarrow> string + string) \<Rightarrow> 'v script_event \<Rightarrow> 'v notification handled" where
  "handleAddressEventChannel L enc event =
     (if ev_connection event \<noteq> None then Ignored
      else if ev_err event \<noteq> None then Ignored
      else if ev_spent_vtxos event = [] \<and> ev_new_vtxos event = [] then Ignored
      else
       (case event_addresses L enc (ev_scripts event) of
          None \<Rightarrow> Panicked
        | Some addresses \<Rightarrow>
            Forward \<lparr>Addrs = addresses, NewVtxos = ev_new_vtxos event, SpentVtxos = ev_spent_vtxos event,
                     Checkpoints = ev_checkpoints event, TxData = (ev_tx event, ev_txid event)\<rparr>))"

section \<open>The subscription follows the store\<close>

text \<open>
  What every operation should keep: with a subscription, it covers exactly the stored scripts;
  without one, nothing is stored.
\<close>

definition in_step :: "('s \<Rightarrow> string set) \<Rightarrow> subscriptionHandler \<times> 's \<Rightarrow> bool" where
  "in_step view st \<longleftrightarrow>
     (case st of (h, store) \<Rightarrow> if sub_id h = [] then view store = {} else covered h = view store)"

context scripts_store begin

lemma new_in_step:
  assumes "invar store" and "\<And>xs i. newSub xs = Inr i \<Longrightarrow> i \<noteq> []"
    and "newSubscriptionHandler R newSub store = Inr h"
  shows "in_step view (h, store)"
  using assms get_view [OF assms(1)]
  by (auto simp: newSubscriptionHandler_def in_step_def no_subscription_def sub_start_def split: sum.splits if_splits)

lemma subscribe_in_step:
  assumes inv: "invar store" and ids: "\<And>xs i. newSub xs = Inr i \<Longrightarrow> i \<noteq> []" and "in_step view (h, store)"
    and run: "subscribe R newSub upd xs (h, store) = (None, h', store')"
  shows "invar store' \<and> in_step view (h', store') \<and> view store' = view store \<union> set xs"
proof -
  obtain res store1 where a: "Scripts_Add R store xs = (res, store1)" by (cases "Scripts_Add R store xs")
  from run a obtain n where res: "res = Inr n" by (auto simp: subscribe_def split: sum.splits)
  note v = add_view [OF inv a [unfolded res]]
  show ?thesis
  proof (cases "n = 0")
    case True
    with run a res have "h' = h" "store' = store1" by (auto simp: subscribe_def)
    with v True assms(3) show ?thesis by (auto simp: in_step_def)
  next
    case False
    show ?thesis
    proof (cases "sub_id h = []")
      case True
      with run a res False obtain i where i: "newSub xs = Inr i" "store' = store1"
        "h' = \<lparr>sub_closeFn = True, sub_cancelRetry = True, sub_id = i, covered = set xs\<rparr>"
        by (auto simp: subscribe_def sub_start_def split: sum.splits)
      with ids [OF i(1)] v True assms(3) show ?thesis by (auto simp: in_step_def)
    next
      case nonempty: False
      with run a res False have "store' = store1" "h' = h\<lparr>covered := covered h \<union> set xs\<rparr>"
        by (auto simp: subscribe_def split: option.splits)
      with v nonempty assms(3) show ?thesis by (auto simp: in_step_def)
    qed
  qed
qed

lemma unsubscribe_in_step:
  assumes inv: "invar store" and "in_step view (h, store)"
    and run: "unsubscribe R upd xs (h, store) = (None, h', store')"
  shows "invar store' \<and> in_step view (h', store') \<and> view store' = view store - set xs"
proof -
  obtain res store1 where a: "Scripts_Delete R store xs = (res, store1)" by (cases "Scripts_Delete R store xs")
  from run a obtain n where res: "res = Inr n" by (auto simp: unsubscribe_def split: sum.splits)
  note v = delete_view [OF inv a [unfolded res]]
  show ?thesis
  proof (cases "n = 0 \<or> sub_id h = []")
    case True
    with run a res have "h' = h" "store' = store1" by (auto simp: unsubscribe_def split: if_splits)
    with v True assms(2) show ?thesis by (auto simp: in_step_def split: if_splits)
  next
    case False
    with run a res have "store' = store1" "h' = h\<lparr>covered := covered h - set xs\<rparr>"
      by (auto simp: unsubscribe_def split: option.splits)
    with v False assms(2) show ?thesis by (auto simp: in_step_def)
  qed
qed

end



lemma add_scripts_known: "set ys \<subseteq> set tbl \<Longrightarrow> add_scripts (\<lambda>_. None) ys (c, tbl) = Inr (c, tbl)"
proof (induction ys)
  case (Cons y ys)
  have "go_contains ''UNIQUE constraint failed: subscribed_script.script'' ''UNIQUE constraint failed''"
    by code_simp
  with Cons show ?case by (simp add: InsertSubscribedScript_def)
qed simp

text \<open>
  When the indexer refuses a subscription after the scripts were stored, calling \<open>subscribe\<close>
  again with the same scripts returns \<open>nil\<close> without asking the indexer for anything: the caller
  is told it is subscribed, and no subscription covers the scripts.
\<close>

theorem subscribe_retry_is_lost:
  assumes "subscribe (sqlite_scripts_repo (\<lambda>_. None)) newSub upd xs (h, store) = (Some e, h', store')"
  shows "subscribe (sqlite_scripts_repo (\<lambda>_. None)) newSub' upd' xs (h', store') = (None, h', store')
     \<and> h' = h \<and> set xs \<subseteq> set store'"
proof -
  have cf: "clean_fault (\<lambda>_. None) = (\<lambda>_. None)" by (rule ext) (simp add: clean_fault_def)
  let ?R = "sqlite_scripts_repo (\<lambda>_. None)"
  obtain res store1 where a: "Scripts_Add ?R store xs = (res, store1)" by (cases "Scripts_Add ?R store xs")
  have "\<exists>n. res = Inr n"
  proof (cases res)
    case (Inl m)
    have "add_scripts (\<lambda>_. None) ys (c, tbl) \<noteq> Inl m'" for ys c tbl m'
    proof (induction ys arbitrary: c tbl)
      case (Cons y ys)
      have "go_contains ''UNIQUE constraint failed: subscribed_script.script'' ''UNIQUE constraint failed''"
        by code_simp
      with Cons show ?case by (simp add: InsertSubscribedScript_def)
    qed simp
    with a Inl show ?thesis
      by (auto simp: sqlite_scripts_repo_def sqlite_scripts_Add_def run_counted_def execTx_def split: sum.splits)
  qed simp
  then obtain n where res: "res = Inr n" by blast
  have v: "set store1 = set store \<union> set xs"
    using sqlite_scripts.add_view [where flt = "\<lambda>_. None", unfolded cf, OF TrueI a [unfolded res]] by blast
  from assms a res have h': "h' = h" "store' = store1"
    by (auto simp: subscribe_def sub_start_def split: if_splits sum.splits option.splits)
  have "Scripts_Add ?R store1 xs = (Inr 0, store1)"
    using v by (simp add: sqlite_scripts_repo_def sqlite_scripts_Add_def run_counted_def execTx_def add_scripts_known)
  with h' v show ?thesis by (simp add: subscribe_def)
qed

theorem subscribe_retry_is_lost_witness:
  "subscribe (sqlite_scripts_repo (\<lambda>_. None)) (\<lambda>_. Inr ''id'') (\<lambda>_ _ _. None) [''a''] (no_subscription, [''a''])
     = (None, no_subscription, [''a''])
   \<and> no_subscription = no_subscription \<and> set [''a''] \<subseteq> set [''a'']"
  by (rule subscribe_retry_is_lost [where newSub = "\<lambda>_. Inl ''unreachable''" and upd = "\<lambda>_ _ _. None"
        and store = "[]" and e = "''unreachable''"])
     (simp add: no_subscription_def subscribe_def sqlite_scripts_repo_def sqlite_scripts_Add_def
       run_counted_def execTx_def InsertSubscribedScript_def sub_start_def)

end
