(* ===== verification/Lifecycle.thy ===== *)
theory Lifecycle
  imports Subscription
begin

text \<open>
  The wallet lifecycle of \<open>application/service.go\<close>: \<open>Setup\<close>, \<open>LockNode\<close>, \<open>UnlockNode\<close> with the two
  goroutines it leaves behind, \<open>unwindFailedUnlock\<close>, \<open>ResetWallet\<close>, and the gate
  \<open>isInitializedAndUnlocked\<close> every wallet operation passes.

  An unlock that succeeds appends a record to \<open>runs\<close>: where its sync goroutine and its post-sync
  goroutine are. The steps of the goroutines interleave with the calls in any order; a call is one
  step. What the SDK answers is an argument of the step. The SDK's wallet is read through
  \<open>IsLocked\<close>: a successful \<open>Unlock\<close> clears the flag, a successful \<open>Lock\<close> sets it.

  \<open>vtxoListenerCancel\<close> is never assigned, so its branches are not part of the model.
\<close>

section \<open>State\<close>

record sync_event =
  Synced :: bool
  SyncErr :: err

datatype sync_pc =
    WantLock \<comment> \<open>before \<open>syncLock.Lock()\<close>\<close>
  | AwaitSync \<comment> \<open>receiving from \<open>IsSynced\<close>\<close>
  | Sending sync_event \<comment> \<open>\<open>syncEvent\<close> is set, about to evaluate \<open>s.syncCh\<close> and send\<close>
  | SendOnNil \<comment> \<open>the channel was nil: the send blocks for ever\<close>
  | SyncDone

datatype post_pc = AwaitWg | LoadKeys | RunOnUnlock | RunMigrate | OpenGate | PostDone

record unlock_run =
  sync_at :: sync_pc
  post_at :: post_pc

record node =
  isInitialized :: bool
  walletReady :: bool
  syncEvent :: "sync_event option"
  syncCh :: "sync_event list option" \<comment> \<open>nil, or the buffer of a channel of capacity one\<close>
  publicKey :: "pubkey option"
  privateKey :: "prvkey option"
  externalSubscription :: "subscriptionHandler option"
  delegateEnabled :: bool \<comment> \<open>\<open>onUnlock\<close> and \<open>onLock\<close> are set exactly then\<close>
  delegateRunning :: bool
  schedulerRunning :: bool
  walletLocked :: bool \<comment> \<open>\<open>Wallet.IsLocked\<close>\<close>
  syncLock :: "nat option" \<comment> \<open>the run that holds the mutex\<close>
  runs :: "unlock_run list"
  walletUpdates :: "(string \<times> string) list"
  node_esploraUrl :: string

section \<open>The gate\<close>

definition isInitializedAndUnlocked :: "node \<Rightarrow> err" where
  "isInitializedAndUnlocked n =
     (if \<not> isInitialized n then Some ''service not initialized''
      else if walletLocked n then Some ''service is locked''
      else if syncEvent n = None then Some ''service is syncing''
      else if \<not> walletReady n then Some ''wallet is finalizing unlock''
      else None)"

definition IsSynced :: "node \<Rightarrow> bool \<times> err" where
  "IsSynced n = (case syncEvent n of None \<Rightarrow> (False, None) | Some ev \<Rightarrow> (Synced ev, SyncErr ev))"

text \<open>A fresh channel holding the event, or the channel of the pending sync.\<close>

definition GetSyncedUpdate :: "node \<Rightarrow> sync_event list option" where
  "GetSyncedUpdate n = (case syncEvent n of Some ev \<Rightarrow> Some [ev] | None \<Rightarrow> syncCh n)"

section \<open>Calls\<close>

definition clearSignerKey :: "node \<Rightarrow> node" where
  "clearSignerKey n = n\<lparr>privateKey := None, publicKey := None\<rparr>"

definition onLock :: "node \<Rightarrow> node" where
  "onLock n = (if delegateEnabled n then n\<lparr>delegateRunning := False\<rparr> else n)"

definition stop_subscription :: "node \<Rightarrow> node" where
  "stop_subscription n = n\<lparr>externalSubscription := map_option sub_stop (externalSubscription n)\<rparr>"

definition close_sync :: "node \<Rightarrow> node" where
  "close_sync n = n\<lparr>walletReady := False, syncEvent := None, syncCh := None\<rparr>"

definition notify :: "string \<Rightarrow> string \<Rightarrow> node \<Rightarrow> node" where
  "notify ty password n = n\<lparr>walletUpdates := walletUpdates n @ [(ty, password)]\<rparr>"

definition Setup ::
  "(string \<Rightarrow> err) \<Rightarrow> (string \<Rightarrow> string + string) \<Rightarrow> err \<Rightarrow> bool \<Rightarrow> string + string \<Rightarrow>
     string \<Rightarrow> string \<Rightarrow> string \<Rightarrow> node \<Rightarrow> err \<times> node" where
  "Setup validMnemonic validateURL initErr lockedAfter config serverUrl password mnemonic n =
     (if isInitialized n then (Some ''wallet already initialized'', n)
      else case validMnemonic mnemonic of Some e \<Rightarrow> (Some e, n) | None \<Rightarrow>
     (case validateURL serverUrl of
        Inl e \<Rightarrow> (Some (''invalid server URL: '' @ e), n)
      | Inr _ \<Rightarrow>
          (case initErr of
             Some e \<Rightarrow> (Some e, n)
           | None \<Rightarrow>
               (let n = n\<lparr>walletLocked := lockedAfter\<rparr> in
                case config of
                  Inl e \<Rightarrow> (Some e, n)
                | Inr explorerURL \<Rightarrow>
                    (None, notify ''init'' password (n\<lparr>node_esploraUrl := explorerURL, isInitialized := True\<rparr>))))))"

definition LockNode :: "err \<Rightarrow> node \<Rightarrow> err \<times> node" where
  "LockNode lockErr n =
     (case isInitializedAndUnlocked n of
        Some e \<Rightarrow> (Some e, n)
      | None \<Rightarrow>
          (case lockErr of
             Some e \<Rightarrow> (Some e, n)
           | None \<Rightarrow>
               (let n = n\<lparr>walletLocked := True\<rparr>;
                    n = clearSignerKey (onLock n);
                    n = stop_subscription (n\<lparr>schedulerRunning := False\<rparr>)
                in (None, notify ''lock'' [] (close_sync n)))))"

definition unwindFailedUnlock :: "err \<Rightarrow> node \<Rightarrow> node" where
  "unwindFailedUnlock lockErr n =
     (let n = stop_subscription (n\<lparr>schedulerRunning := False\<rparr>);
          n = close_sync (clearSignerKey (onLock n))
      in case lockErr of None \<Rightarrow> n\<lparr>walletLocked := True\<rparr> | Some _ \<Rightarrow> n)"

text \<open>\<open>unlockErr\<close>, \<open>configErr\<close> and \<open>subs\<close> are what \<open>Unlock\<close>, \<open>GetConfigData\<close> and
  \<open>newSubscriptionHandler\<close> answer.\<close>

definition UnlockNode :: "err \<Rightarrow> err \<Rightarrow> string + subscriptionHandler \<Rightarrow> string \<Rightarrow> node \<Rightarrow> err \<times> node" where
  "UnlockNode unlockErr configErr subs password n =
     (if \<not> isInitialized n then (Some ''service not initialized'', n)
      else if \<not> walletLocked n then (None, n)
      else
       (let n = n\<lparr>walletReady := False\<rparr> in
        case unlockErr of
          Some e \<Rightarrow> (Some e, n)
        | None \<Rightarrow>
            (let n = n\<lparr>walletLocked := False, schedulerRunning := True\<rparr> in
             case configErr of
               Some e \<Rightarrow> (Some e, n)
             | None \<Rightarrow>
                 (case subs of
                    Inl e \<Rightarrow> (Some e, n)
                  | Inr h \<Rightarrow>
                      (None, notify ''unlock'' password
                         (n\<lparr>externalSubscription := Some h, syncCh := Some [],
                            runs := runs n @ [\<lparr>sync_at = WantLock, post_at = AwaitWg\<rparr>]\<rparr>))))))"

definition ResetWallet :: "bool \<Rightarrow> node \<Rightarrow> node" where
  "ResetWallet lockedAfter n =
     (let n = clearSignerKey (onLock (n\<lparr>walletLocked := lockedAfter\<rparr>));
          n = stop_subscription (n\<lparr>schedulerRunning := False\<rparr>)
      in notify ''reset'' [] (close_sync (n\<lparr>isInitialized := False\<rparr>)))"

section \<open>The goroutines of an unlock\<close>

definition set_run :: "nat \<Rightarrow> unlock_run \<Rightarrow> node \<Rightarrow> node" where
  "set_run i r n = n\<lparr>runs := (runs n)[i := r]\<rparr>"

definition sync_acquire :: "nat \<Rightarrow> node \<Rightarrow> node option" where
  "sync_acquire i n =
     (if i < length (runs n) \<and> sync_at (runs n ! i) = WantLock \<and> syncLock n = None
      then Some (set_run i ((runs n ! i)\<lparr>sync_at := AwaitSync\<rparr>) (n\<lparr>syncLock := Some i\<rparr>))
      else None)"

definition sync_receive :: "sync_event \<Rightarrow> nat \<Rightarrow> node \<Rightarrow> node option" where
  "sync_receive ev i n =
     (if i < length (runs n) \<and> sync_at (runs n ! i) = AwaitSync
      then Some (set_run i ((runs n ! i)\<lparr>sync_at := Sending ev\<rparr>) (n\<lparr>syncEvent := Some ev\<rparr>))
      else None)"

text \<open>The send: for ever on a nil channel, later on a full one, else it completes and the deferred
  \<open>Unlock\<close> and \<open>wg.Done\<close> run.\<close>

definition sync_send :: "nat \<Rightarrow> node \<Rightarrow> node option" where
  "sync_send i n =
     (if i < length (runs n)
      then
       (case sync_at (runs n ! i) of
          Sending ev \<Rightarrow>
            (case syncCh n of
               None \<Rightarrow> Some (set_run i ((runs n ! i)\<lparr>sync_at := SendOnNil\<rparr>) n)
             | Some [] \<Rightarrow>
                 Some (set_run i ((runs n ! i)\<lparr>sync_at := SyncDone\<rparr>) (n\<lparr>syncCh := Some [ev], syncLock := None\<rparr>))
             | Some _ \<Rightarrow> None)
        | _ \<Rightarrow> None)
      else None)"

text \<open>One step of the post-sync goroutine. \<open>key\<close> is what \<open>Dump\<close> and \<open>PrivateKeyFromMnemonic\<close> give,
  \<open>lockErr\<close> what the \<open>Lock\<close> of an unwind answers.\<close>

definition post_step :: "crypto \<Rightarrow> string + prvkey \<Rightarrow> err \<Rightarrow> nat \<Rightarrow> node \<Rightarrow> node option" where
  "post_step L key lockErr i n =
     (if \<not> i < length (runs n) then None
      else
       (let r = runs n ! i in
        case post_at r of
          AwaitWg \<Rightarrow>
            if sync_at r \<noteq> SyncDone then None
            else if syncEvent n = None then Some (set_run i (r\<lparr>post_at := PostDone\<rparr>) n)
            else Some (set_run i (r\<lparr>post_at := (if delegateEnabled n then LoadKeys else RunOnUnlock)\<rparr>) n)
        | LoadKeys \<Rightarrow>
            (case key of
               Inl _ \<Rightarrow> Some (unwindFailedUnlock lockErr (set_run i (r\<lparr>post_at := PostDone\<rparr>) n))
             | Inr k \<Rightarrow>
                 Some (set_run i (r\<lparr>post_at := RunOnUnlock\<rparr>) (n\<lparr>publicKey := Some (PubKey L k), privateKey := Some k\<rparr>)))
        | RunOnUnlock \<Rightarrow>
            Some (set_run i (r\<lparr>post_at := RunMigrate\<rparr>)
                   (if delegateEnabled n then n\<lparr>delegateRunning := True\<rparr> else n))
        | RunMigrate \<Rightarrow> Some (set_run i (r\<lparr>post_at := OpenGate\<rparr>) n)
        | OpenGate \<Rightarrow> Some (set_run i (r\<lparr>post_at := PostDone\<rparr>) (n\<lparr>walletReady := True\<rparr>))
        | PostDone \<Rightarrow> None))"

text \<open>
  The steps of the goroutines, and all steps; \<open>subscribed\<close> is what \<open>SubscribeForAddresses\<close> and
  \<open>UnsubscribeForAddresses\<close> do to the node. \<open>may_reset\<close> restricts when \<open>ResetWallet\<close> is called.
\<close>

inductive goroutine_step :: "crypto \<Rightarrow> node \<Rightarrow> node \<Rightarrow> bool" for L :: crypto where
  acquire: "sync_acquire i n = Some n' \<Longrightarrow> goroutine_step L n n'"
| receive: "sync_receive ev i n = Some n' \<Longrightarrow> goroutine_step L n n'"
| send: "sync_send i n = Some n' \<Longrightarrow> goroutine_step L n n'"
| post: "post_step L key lockErr i n = Some n' \<Longrightarrow> goroutine_step L n n'"

inductive node_step :: "crypto \<Rightarrow> (node \<Rightarrow> bool) \<Rightarrow> node \<Rightarrow> node \<Rightarrow> bool"
  for L :: crypto and may_reset :: "node \<Rightarrow> bool" where
  set_up: "Setup vm vu ie la cfg url pw mn n = (er, n') \<Longrightarrow> node_step L may_reset n n'"
| lock: "LockNode lockErr n = (er, n') \<Longrightarrow> node_step L may_reset n n'"
| unlock: "UnlockNode ue ce subs pw n = (er, n') \<Longrightarrow> node_step L may_reset n n'"
| reset: "may_reset n \<Longrightarrow> node_step L may_reset n (ResetWallet la n)"
| goroutine: "goroutine_step L n n' \<Longrightarrow> node_step L may_reset n n'"
| consume: "syncCh n = Some [ev] \<Longrightarrow> node_step L may_reset n (n\<lparr>syncCh := Some []\<rparr>)"
| subscribed: "isInitializedAndUnlocked n = None \<Longrightarrow> externalSubscription n = Some h \<Longrightarrow>
    node_step L may_reset n (n\<lparr>externalSubscription := Some h'\<rparr>)"

inductive_cases goroutine_stepE: "goroutine_step L n n'"
inductive_cases node_stepE: "node_step L may_reset n n'"

definition newService_node :: "bool \<Rightarrow> bool \<Rightarrow> string \<Rightarrow> node" where
  "newService_node initialized enabled esplora =
     \<lparr>isInitialized = initialized, walletReady = False, syncEvent = None, syncCh = None,
      publicKey = None, privateKey = None, externalSubscription = None, delegateEnabled = enabled,
      delegateRunning = False, schedulerRunning = False, walletLocked = True, syncLock = None, runs = [],
      walletUpdates = [], node_esploraUrl = esplora\<rparr>"

definition finished :: "unlock_run \<Rightarrow> bool" where
  "finished r \<longleftrightarrow> sync_at r = SyncDone \<and> post_at r = PostDone"

definition idle :: "node \<Rightarrow> bool" where
  "idle n \<longleftrightarrow> list_all finished (runs n)"

end
