(* ===== verification/LifecycleProps.thy ===== *)
theory LifecycleProps
  imports Lifecycle
begin

text \<open>
  What holds of the wallet lifecycle: the invariant of the runs in which \<open>ResetWallet\<close> is not
  called during an unlock, and what it gives for the gate, the signer key and the goroutines; and
  the states out of which the calls do not lead.
\<close>

section \<open>The invariant\<close>

definition serving :: "crypto \<Rightarrow> node \<Rightarrow> bool" where
  "serving L n \<longleftrightarrow>
     schedulerRunning n \<and> externalSubscription n \<noteq> None \<and>
     (delegateEnabled n \<longrightarrow>
        delegateRunning n \<and> (\<exists>k. privateKey n = Some k \<and> publicKey n = Some (PubKey L k)))"

definition no_signer :: "node \<Rightarrow> bool" where
  "no_signer n \<longleftrightarrow> privateKey n = None \<and> publicKey n = None \<and> \<not> delegateRunning n"

definition has_key :: "crypto \<Rightarrow> node \<Rightarrow> bool" where
  "has_key L n \<longleftrightarrow> (delegateEnabled n \<longrightarrow> (\<exists>k. privateKey n = Some k \<and> publicKey n = Some (PubKey L k)))"

fun sync_inv :: "node \<Rightarrow> nat \<Rightarrow> sync_pc \<Rightarrow> bool" where
  "sync_inv n i WantLock = (syncLock n = None \<and> syncCh n = Some [])"
| "sync_inv n i AwaitSync = (syncLock n = Some i \<and> syncCh n = Some [])"
| "sync_inv n i (Sending ev) = (syncLock n = Some i \<and> syncCh n = Some [] \<and> syncEvent n \<noteq> None)"
| "sync_inv n i SendOnNil = False"
| "sync_inv n i SyncDone = (syncLock n = None \<and> syncEvent n \<noteq> None)"

fun post_inv :: "crypto \<Rightarrow> node \<Rightarrow> post_pc \<Rightarrow> bool" where
  "post_inv L n AwaitWg = True"
| "post_inv L n LoadKeys = delegateEnabled n"
| "post_inv L n RunOnUnlock = has_key L n"
| "post_inv L n RunMigrate = (has_key L n \<and> (delegateEnabled n \<longrightarrow> delegateRunning n))"
| "post_inv L n OpenGate = (has_key L n \<and> (delegateEnabled n \<longrightarrow> delegateRunning n))"
| "post_inv L n PostDone = False"

text \<open>The one unlock in progress, at position \<open>i\<close>.\<close>

definition active_inv :: "crypto \<Rightarrow> node \<Rightarrow> nat \<Rightarrow> unlock_run \<Rightarrow> bool" where
  "active_inv L n i r \<longleftrightarrow>
     isInitialized n \<and> \<not> walletLocked n \<and> \<not> walletReady n \<and> schedulerRunning n \<and>
     externalSubscription n \<noteq> None \<and> sync_inv n i (sync_at r) \<and> post_inv L n (post_at r) \<and>
     (sync_at r \<noteq> SyncDone \<longrightarrow> post_at r = AwaitWg)"

definition at_rest :: "crypto \<Rightarrow> node \<Rightarrow> bool" where
  "at_rest L n \<longleftrightarrow>
     syncLock n = None \<and>
     (walletReady n \<longrightarrow> isInitialized n \<and> \<not> walletLocked n \<and> syncEvent n \<noteq> None \<and> serving L n) \<and>
     (walletLocked n \<or> \<not> isInitialized n \<longrightarrow> no_signer n)"

definition node_inv :: "crypto \<Rightarrow> node \<Rightarrow> bool" where
  "node_inv L n \<longleftrightarrow>
     (\<not> delegateEnabled n \<longrightarrow> no_signer n) \<and>
     (idle n \<and> at_rest L n \<or>
      (\<exists>old r. runs n = old @ [r] \<and> list_all finished old \<and> active_inv L n (length old) r))"

lemmas inv_defs = node_inv_def idle_def at_rest_def active_inv_def serving_def no_signer_def has_key_def

lemmas call_defs = clearSignerKey_def onLock_def stop_subscription_def close_sync_def notify_def Let_def

lemma node_inv_rest: "idle n \<Longrightarrow> at_rest L n \<Longrightarrow> (\<not> delegateEnabled n \<longrightarrow> no_signer n) \<Longrightarrow> node_inv L n"
  by (simp add: node_inv_def)

lemma node_inv_rest_or_active:
  assumes "node_inv L n"
  obtains (rest) "idle n" "at_rest L n" "\<not> delegateEnabled n \<longrightarrow> no_signer n"
  | (active) old r where "runs n = old @ [r]" "list_all finished old" "active_inv L n (length old) r"
      "\<not> delegateEnabled n \<longrightarrow> no_signer n"
  using assms unfolding node_inv_def by blast

lemma node_inv_init: "node_inv L (newService_node b enabled url)"
  by (simp add: inv_defs newService_node_def)

section \<open>The calls keep it\<close>

lemma gate_open: "isInitializedAndUnlocked n = None \<longleftrightarrow>
    isInitialized n \<and> \<not> walletLocked n \<and> syncEvent n \<noteq> None \<and> walletReady n"
  by (simp add: isInitializedAndUnlocked_def)

text \<open>What the helpers of the calls leave in each field.\<close>

lemma call_simps:
  "runs (clearSignerKey n) = runs n" "runs (onLock n) = runs n" "runs (stop_subscription n) = runs n"
  "runs (close_sync n) = runs n" "runs (notify t p n) = runs n"
  "syncLock (clearSignerKey n) = syncLock n" "syncLock (onLock n) = syncLock n" "syncLock (stop_subscription n) = syncLock n"
  "syncLock (close_sync n) = syncLock n" "syncLock (notify t p n) = syncLock n"
  "isInitialized (clearSignerKey n) = isInitialized n" "isInitialized (onLock n) = isInitialized n"
  "isInitialized (stop_subscription n) = isInitialized n"
  "isInitialized (close_sync n) = isInitialized n" "isInitialized (notify t p n) = isInitialized n"
  "walletLocked (clearSignerKey n) = walletLocked n" "walletLocked (onLock n) = walletLocked n"
  "walletLocked (stop_subscription n) = walletLocked n"
  "walletLocked (close_sync n) = walletLocked n" "walletLocked (notify t p n) = walletLocked n"
  "walletReady (close_sync n) = False" "walletReady (notify t p n) = walletReady n"
  "syncEvent (close_sync n) = None" "syncEvent (notify t p n) = syncEvent n"
  "syncCh (close_sync n) = None" "syncCh (notify t p n) = syncCh n"
  "delegateEnabled (clearSignerKey n) = delegateEnabled n" "delegateEnabled (onLock n) = delegateEnabled n"
  "delegateEnabled (stop_subscription n) = delegateEnabled n"
  "delegateEnabled (close_sync n) = delegateEnabled n" "delegateEnabled (notify t p n) = delegateEnabled n"
  "privateKey (clearSignerKey n) = None" "privateKey (stop_subscription n) = privateKey n"
  "privateKey (close_sync n) = privateKey n" "privateKey (notify t p n) = privateKey n"
  "publicKey (clearSignerKey n) = None" "publicKey (stop_subscription n) = publicKey n"
  "publicKey (close_sync n) = publicKey n" "publicKey (notify t p n) = publicKey n"
  "delegateRunning (clearSignerKey n) = delegateRunning n"
  "delegateRunning (onLock n) = (delegateRunning n \<and> \<not> delegateEnabled n)"
  "delegateRunning (stop_subscription n) = delegateRunning n"
  "delegateRunning (close_sync n) = delegateRunning n" "delegateRunning (notify t p n) = delegateRunning n"
  by (simp_all add: call_defs)

text \<open>Outside an unlock in progress: the wallet is locked, or not initialized, or the gate is open.\<close>

lemma node_inv_restD:
  assumes "node_inv L n" "walletLocked n \<or> \<not> isInitialized n \<or> walletReady n"
  shows "idle n \<and> at_rest L n \<and> (\<not> delegateEnabled n \<longrightarrow> no_signer n)"
  using assms(1)
proof (cases rule: node_inv_rest_or_active)
  case active
  with assms(2) show ?thesis by (auto simp: active_inv_def)
qed simp

lemma Setup_inv:
  assumes "node_inv L n" "Setup vm vu ie la cfg url pw mn n = (er, n')"
  shows "node_inv L n'"
proof (cases "isInitialized n")
  case True
  with assms show ?thesis by (simp add: Setup_def)
next
  case False
  with node_inv_restD [OF assms(1)] assms(2) show ?thesis
    by (intro node_inv_rest)
       (auto simp: Setup_def notify_def inv_defs Let_def split: option.splits sum.splits)
qed

lemma LockNode_inv:
  assumes "node_inv L n" "LockNode lockErr n = (er, n')"
  shows "node_inv L n'"
proof (cases "isInitializedAndUnlocked n")
  case (Some e)
  with assms show ?thesis by (simp add: LockNode_def)
next
  case None
  with node_inv_restD [OF assms(1)] have rest: "idle n" "at_rest L n" "\<not> delegateEnabled n \<longrightarrow> no_signer n"
    by (auto simp: gate_open)
  have "n' = n \<or> n' = notify ''lock'' [] (close_sync (stop_subscription
      ((clearSignerKey (onLock (n\<lparr>walletLocked := True\<rparr>)))\<lparr>schedulerRunning := False\<rparr>)))"
    using None assms(2) by (auto simp: LockNode_def Let_def split: option.splits)
  then show ?thesis
  proof
    assume n': "n' = notify ''lock'' [] (close_sync (stop_subscription
      ((clearSignerKey (onLock (n\<lparr>walletLocked := True\<rparr>)))\<lparr>schedulerRunning := False\<rparr>)))"
    show ?thesis
      by (rule node_inv_rest) (use rest in \<open>auto simp: n' call_simps idle_def at_rest_def no_signer_def\<close>)
  qed (use assms in simp)
qed

lemma UnlockNode_inv:
  assumes "node_inv L n" "UnlockNode ue ce subs pw n = (er, n')"
  shows "node_inv L n'"
proof (cases "isInitialized n \<and> walletLocked n")
  case False
  with assms show ?thesis by (auto simp: UnlockNode_def split: if_splits)
next
  case True
  with node_inv_restD [OF assms(1)] have rest: "idle n" "at_rest L n" "\<not> delegateEnabled n \<longrightarrow> no_signer n" by auto
  show ?thesis
  proof (cases "runs n' = runs n")
    case same: True
    with rest True assms(2) show ?thesis
      by (intro node_inv_rest) (auto simp: UnlockNode_def inv_defs notify_def Let_def split: option.splits sum.splits)
  next
    case False
    with rest True assms(2) show ?thesis
      by (auto simp: UnlockNode_def inv_defs notify_def Let_def split: option.splits sum.splits)
  qed
qed

lemma ResetWallet_inv:
  assumes "node_inv L n" "idle n"
  shows "node_inv L (ResetWallet la n)"
  using assms(1)
proof (cases rule: node_inv_rest_or_active)
  case rest
  show ?thesis
    by (rule node_inv_rest)
       (use rest in \<open>auto simp: ResetWallet_def Let_def call_simps idle_def at_rest_def no_signer_def\<close>)
next
  case (active old r)
  with assms(2) have "finished r" by (simp add: idle_def)
  with active(3) show ?thesis by (simp add: active_inv_def finished_def)
qed

lemma sync_inv_buffer: "sync_inv n i pc \<Longrightarrow> syncCh n = Some [ev] \<Longrightarrow> pc = SyncDone"
  by (cases pc) auto

lemma consume_inv:
  assumes "node_inv L n" "syncCh n = Some [ev]"
  shows "node_inv L (n\<lparr>syncCh := Some []\<rparr>)"
  using assms(1)
proof (cases rule: node_inv_rest_or_active)
  case rest
  then show ?thesis by (intro node_inv_rest) (auto simp: inv_defs)
next
  case (active old r)
  from active(3) have "sync_at r = SyncDone"
    using sync_inv_buffer assms(2) by (auto simp: active_inv_def)
  with active show ?thesis by (cases "post_at r") (auto simp: inv_defs)
qed

section \<open>The goroutines keep it\<close>

lemma finished_run_is_still:
  assumes "i < length (runs n)" "finished (runs n ! i)"
  shows "sync_acquire i n = None" "sync_receive ev i n = None" "sync_send i n = None"
    "post_step L key lockErr i n = None"
  using assms by (auto simp: finished_def sync_acquire_def sync_receive_def sync_send_def post_step_def Let_def)

text \<open>Only the last run moves.\<close>

lemma moving_run:
  assumes "runs n = old @ [r]" "list_all finished old"
    and "sync_acquire i n \<noteq> None \<or> sync_receive ev i n \<noteq> None \<or> sync_send i n \<noteq> None \<or> post_step L key lockErr i n \<noteq> None"
  shows "i = length old"
proof (rule ccontr)
  assume "i \<noteq> length old"
  show False
  proof (cases "i < length old")
    case True
    with assms(1,2) have "i < length (runs n)" "finished (runs n ! i)" by (auto simp: list_all_length nth_append)
    with finished_run_is_still assms(3) show False by simp
  next
    case False
    with \<open>i \<noteq> length old\<close> assms(1) have "\<not> i < length (runs n)" by simp
    then show False using assms(3) by (simp add: sync_acquire_def sync_receive_def sync_send_def post_step_def)
  qed
qed

lemma no_such_run:
  assumes "\<not> i < length (runs n)"
  shows "sync_acquire i n = None" "sync_receive ev i n = None" "sync_send i n = None"
    "post_step L key lockErr i n = None"
  using assms by (simp_all add: sync_acquire_def sync_receive_def sync_send_def post_step_def)

lemma idle_is_still:
  assumes "idle n"
  shows "sync_acquire i n = None" "sync_receive ev i n = None" "sync_send i n = None"
    "post_step L key lockErr i n = None"
proof -
  have "i < length (runs n) \<Longrightarrow> finished (runs n ! i)"
    using assms by (simp add: idle_def list_all_length)
  then show "sync_acquire i n = None" "sync_receive ev i n = None" "sync_send i n = None"
    "post_step L key lockErr i n = None"
    by (metis finished_run_is_still(1) no_such_run(1), metis finished_run_is_still(2) no_such_run(2),
        metis finished_run_is_still(3) no_such_run(3), metis finished_run_is_still(4) no_such_run(4))
qed

lemma node_inv_active:
  "runs n = old @ [r] \<Longrightarrow> list_all finished old \<Longrightarrow> active_inv L n (length old) r \<Longrightarrow>
     (\<not> delegateEnabled n \<longrightarrow> no_signer n) \<Longrightarrow> node_inv L n"
  by (auto simp: node_inv_def)

lemma set_last_run: "runs n = old @ [r] \<Longrightarrow> set_run (length old) r' n = n\<lparr>runs := old @ [r']\<rparr>"
  by (simp add: set_run_def list_update_append)

lemma acquire_inv:
  assumes "runs n = old @ [r]" "list_all finished old" "active_inv L n (length old) r"
    "\<not> delegateEnabled n \<longrightarrow> no_signer n" "sync_acquire (length old) n = Some n'"
  shows "node_inv L n'"
proof -
  from assms(1,5) have "sync_at r = WantLock" and
    n': "n' = n\<lparr>syncLock := Some (length old), runs := old @ [r\<lparr>sync_at := AwaitSync\<rparr>]\<rparr>"
    by (auto simp: sync_acquire_def set_run_def split: if_splits)
  then have "active_inv L n' (length old) (r\<lparr>sync_at := AwaitSync\<rparr>)"
    using assms(3) by (auto simp: active_inv_def)
  then show ?thesis using n' assms(2,4) by (intro node_inv_active) (auto simp: no_signer_def)
qed

lemma receive_inv:
  assumes "runs n = old @ [r]" "list_all finished old" "active_inv L n (length old) r"
    "\<not> delegateEnabled n \<longrightarrow> no_signer n" "sync_receive ev (length old) n = Some n'"
  shows "node_inv L n'"
proof -
  from assms(1,5) have "sync_at r = AwaitSync" and
    n': "n' = n\<lparr>syncEvent := Some ev, runs := old @ [r\<lparr>sync_at := Sending ev\<rparr>]\<rparr>"
    by (auto simp: sync_receive_def set_run_def split: if_splits)
  then have "active_inv L n' (length old) (r\<lparr>sync_at := Sending ev\<rparr>)"
    using assms(3) by (auto simp: active_inv_def)
  then show ?thesis using n' assms(2,4) by (intro node_inv_active) (auto simp: no_signer_def)
qed

lemma send_inv:
  assumes "runs n = old @ [r]" "list_all finished old" "active_inv L n (length old) r"
    "\<not> delegateEnabled n \<longrightarrow> no_signer n" "sync_send (length old) n = Some n'"
  shows "node_inv L n'"
proof -
  from assms(1,5) obtain ev where ev: "sync_at r = Sending ev"
    by (auto simp: sync_send_def split: sync_pc.splits)
  with assms(3) have "syncCh n = Some []" by (simp add: active_inv_def)
  with assms(1,5) ev have
    n': "n' = n\<lparr>syncCh := Some [ev], syncLock := None, runs := old @ [r\<lparr>sync_at := SyncDone\<rparr>]\<rparr>"
    by (auto simp: sync_send_def set_run_def split: if_splits)
  with assms(3) ev have "active_inv L n' (length old) (r\<lparr>sync_at := SyncDone\<rparr>)"
    by (auto simp: active_inv_def)
  then show ?thesis using n' assms(2,4) by (intro node_inv_active) (auto simp: no_signer_def)
qed

text \<open>The post-sync goroutine moves to another point of an unlock, or ends it.\<close>

lemma active_moves:
  assumes "runs n = old @ [r]" "list_all finished old" "active_inv L n (length old) r"
    and "runs n' = old @ [r\<lparr>post_at := pc\<rparr>]" "sync_at r = SyncDone" "post_inv L n' pc"
    and "\<not> delegateEnabled n' \<longrightarrow> no_signer n'"
    and "isInitialized n' = isInitialized n" "walletLocked n' = walletLocked n" "walletReady n' = walletReady n"
      "schedulerRunning n' = schedulerRunning n" "externalSubscription n' = externalSubscription n"
      "syncLock n' = syncLock n" "syncEvent n' = syncEvent n"
  shows "node_inv L n'"
proof -
  from assms(3,5,6,8-14) have "active_inv L n' (length old) (r\<lparr>post_at := pc\<rparr>)" by (simp add: active_inv_def)
  with assms(2,4,7) show ?thesis by (intro node_inv_active)
qed

lemma post_inv_step:
  assumes a: "runs n = old @ [r]" "list_all finished old" "active_inv L n (length old) r"
    and d: "\<not> delegateEnabled n \<longrightarrow> no_signer n"
    and s: "post_step L key lockErr (length old) n = Some n'"
  shows "node_inv L n'"
proof -
  note move = active_moves [OF a, where n' = n']
  have done_old: "list_all finished (old @ [r\<lparr>post_at := PostDone\<rparr>])" if "sync_at r = SyncDone"
    using a(2) that by (simp add: finished_def)
  show ?thesis
  proof (cases "post_at r")
    case AwaitWg
    with s a(1,3) show ?thesis
      by (intro move [of "if delegateEnabled n then LoadKeys else RunOnUnlock"])
         (auto simp: post_step_def active_inv_def set_last_run has_key_def no_signer_def d [unfolded no_signer_def] split: if_splits)
  next
    case LoadKeys
    with a(3) have sd: "sync_at r = SyncDone" by (auto simp: active_inv_def)
    show ?thesis
    proof (cases key)
      case (Inl e)
      with s a(1) LoadKeys have n': "n' = unwindFailedUnlock lockErr (n\<lparr>runs := old @ [r\<lparr>post_at := PostDone\<rparr>]\<rparr>)"
        by (simp add: post_step_def set_last_run)
      show ?thesis
        by (rule node_inv_rest)
           (use done_old sd d a(3) in \<open>auto simp: n' unwindFailedUnlock_def Let_def call_simps idle_def at_rest_def
              no_signer_def active_inv_def split: option.splits\<close>)
    next
      case (Inr k)
      with s a(1,3) LoadKeys sd show ?thesis
        by (intro move [of RunOnUnlock])
           (auto simp: post_step_def active_inv_def set_last_run has_key_def set_run_def)
    qed
  next
    case RunOnUnlock
    with s a(1,3) d show ?thesis
      by (intro move [of RunMigrate])
         (auto simp: post_step_def active_inv_def set_run_def has_key_def no_signer_def split: if_splits)
  next
    case RunMigrate
    with s a(1,3) d show ?thesis
      by (intro move [of OpenGate]) (auto simp: post_step_def active_inv_def set_run_def has_key_def no_signer_def)
  next
    case OpenGate
    with a(3) have sd: "sync_at r = SyncDone" by (auto simp: active_inv_def)
    from s a(1) OpenGate have n': "n' = n\<lparr>walletReady := True, runs := old @ [r\<lparr>post_at := PostDone\<rparr>]\<rparr>"
      by (simp add: post_step_def set_run_def)
    show ?thesis
      by (rule node_inv_rest)
         (use done_old sd d a(3) OpenGate in \<open>auto simp: n' idle_def at_rest_def no_signer_def serving_def has_key_def active_inv_def\<close>)
  next
    case PostDone
    with s a(1) show ?thesis by (simp add: post_step_def)
  qed
qed

lemma goroutine_inv:
  assumes "node_inv L n" "goroutine_step L n n'"
  shows "node_inv L n'"
  using assms(1)
proof (cases rule: node_inv_rest_or_active)
  case rest
  with assms(2) show ?thesis by (auto elim!: goroutine_stepE simp: idle_is_still)
next
  case (active old r)
  note a = active
  from assms(2) show ?thesis
  proof cases
    case (acquire i)
    with moving_run [OF a(1,2)] acquire_inv [OF a] show ?thesis by blast
  next
    case (receive ev i)
    with moving_run [OF a(1,2)] receive_inv [OF a] show ?thesis by blast
  next
    case (send i)
    with moving_run [OF a(1,2)] send_inv [OF a] show ?thesis by blast
  next
    case (post key lockErr i)
    with moving_run [OF a(1,2)] post_inv_step [OF a] show ?thesis by blast
  qed
qed

lemma subscribed_inv:
  assumes "node_inv L n" "isInitializedAndUnlocked n = None" "externalSubscription n = Some h"
  shows "node_inv L (n\<lparr>externalSubscription := Some h'\<rparr>)"
  using node_inv_restD [OF assms(1)] assms(2,3)
  by (auto simp: gate_open node_inv_def at_rest_def serving_def no_signer_def idle_def)

lemma node_step_inv: "node_step L idle n n' \<Longrightarrow> node_inv L n \<Longrightarrow> node_inv L n'"
  by (erule node_stepE)
     (blast intro: Setup_inv LockNode_inv UnlockNode_inv ResetWallet_inv goroutine_inv consume_inv subscribed_inv)+

text \<open>The states of a daemon that was started, with no reset during an unlock.\<close>

inductive node_reach :: "crypto \<Rightarrow> (node \<Rightarrow> bool) \<Rightarrow> node \<Rightarrow> bool" for L :: crypto and may_reset :: "node \<Rightarrow> bool" where
  started: "node_reach L may_reset (newService_node b enabled url)"
| next_step: "node_reach L may_reset n \<Longrightarrow> node_step L may_reset n n' \<Longrightarrow> node_reach L may_reset n'"

lemma node_reach_inv: "node_reach L idle n \<Longrightarrow> node_inv L n"
  by (induction rule: node_reach.induct) (auto intro: node_inv_init node_step_inv)

section \<open>Properties of the runs\<close>

definition demo_keys :: crypto where
  "demo_keys =
     \<lparr>SerializePubKey = id, SerializeCompressed = id, PubKey = id,
      ParsePubKey = Inr, ParseSignature = Inr, Verify = (\<lambda>_ _ _. True), SchnorrSign = (\<lambda>_ _. Inr []),
      DecodeBtcAddress = (\<lambda>_. Inl []), PayToAddrScript = Inr, TapLeafHash = (\<lambda>_ s. s),
      DecodeClosure = (\<lambda>_. Inl []), CalcSighash = (\<lambda>_ _ _ _. Inr []), B64Encode = (\<lambda>_. Inl []),
      NewFromRawBytes = (\<lambda>_. Inl []), TxID = (\<lambda>_. []), TxHash = (\<lambda>_. 0), EncodeV0 = (\<lambda>_. Inl []),
      DecodeAddressV0 = (\<lambda>_. Inl []), GetPkScript = Inr, ANCHOR_PKSCRIPT = []\<rparr>"

definition demo_start :: node where "demo_start = newService_node True True []"

definition demo_unlock :: node where
  "demo_unlock = snd (UnlockNode None None (Inr no_subscription) ''pw'' demo_start)"

lemma demo_unlock_reached: "node_reach L ok demo_unlock"
proof -
  obtain er n' where u: "UnlockNode None None (Inr no_subscription) ''pw'' demo_start = (er, n')" by force
  then have "n' = demo_unlock" by (simp add: demo_unlock_def)
  moreover have "node_reach L ok demo_start" unfolding demo_start_def by (rule node_reach.started)
  ultimately show ?thesis using node_reach.next_step node_step.unlock [OF u] by blast
qed

lemma node_reach_goroutines:
  "(goroutine_step L)\<^sup>*\<^sup>* n n' \<Longrightarrow> node_reach L ok n \<Longrightarrow> node_reach L ok n'"
  by (induction rule: rtranclp_induct) (blast intro: node_reach.next_step node_step.goroutine)+

lemma node_reach_ops:
  "node_reach L ok n \<Longrightarrow> sync_acquire i n = Some n' \<Longrightarrow> node_reach L ok n'"
  "node_reach L ok n \<Longrightarrow> sync_receive ev i n = Some n' \<Longrightarrow> node_reach L ok n'"
  "node_reach L ok n \<Longrightarrow> sync_send i n = Some n' \<Longrightarrow> node_reach L ok n'"
  "node_reach L ok n \<Longrightarrow> post_step L key lockErr i n = Some n' \<Longrightarrow> node_reach L ok n'"
  by (blast intro: node_reach.next_step node_step.goroutine goroutine_step.intros)+

definition demo_await :: node where "demo_await = the (sync_acquire 0 demo_unlock)"

definition demo_failed_sync :: sync_event where
  "demo_failed_sync = \<lparr>Synced = False, SyncErr = Some ''restore failed''\<rparr>"

definition demo_synced :: node where
  "demo_synced = the (sync_send 0 (the (sync_receive demo_failed_sync 0 demo_await)))"

definition demo_loading :: node where "demo_loading = the (post_step demo_keys (Inl []) None 0 demo_synced)"

lemma demo_await_reached: "node_reach demo_keys ok demo_await"
proof -
  have "sync_acquire 0 demo_unlock = Some demo_await" unfolding demo_await_def by code_simp
  then show ?thesis using node_reach_ops(1) demo_unlock_reached by blast
qed

lemma demo_loading_reached: "node_reach demo_keys ok demo_loading"
proof -
  have s: "sync_receive demo_failed_sync 0 demo_await = Some (the (sync_receive demo_failed_sync 0 demo_await))"
    "sync_send 0 (the (sync_receive demo_failed_sync 0 demo_await)) = Some demo_synced"
    "post_step demo_keys (Inl []) None 0 demo_synced = Some demo_loading"
    unfolding demo_synced_def demo_loading_def by code_simp+
  show ?thesis
    by (rule node_reach_ops(4) [OF node_reach_ops(3) [OF node_reach_ops(2) [OF demo_await_reached s(1)] s(2)] s(3)])
qed

definition demo_post :: "node \<Rightarrow> node" where
  "demo_post n = the (post_step demo_keys (Inr []) None 0 n)"

definition demo_open :: node where "demo_open = demo_post (demo_post (demo_post (demo_post demo_loading)))"

lemma demo_open_reached: "node_reach demo_keys ok demo_open"
proof -
  have s: "post_step demo_keys (Inr []) None 0 demo_loading = Some (demo_post demo_loading)"
    "post_step demo_keys (Inr []) None 0 (demo_post demo_loading) = Some (demo_post (demo_post demo_loading))"
    "post_step demo_keys (Inr []) None 0 (demo_post (demo_post demo_loading)) = Some (demo_post (demo_post (demo_post demo_loading)))"
    "post_step demo_keys (Inr []) None 0 (demo_post (demo_post (demo_post demo_loading))) = Some demo_open"
    unfolding demo_open_def by code_simp+
  show ?thesis
    by (rule node_reach_ops(4) [OF node_reach_ops(4) [OF node_reach_ops(4) [OF node_reach_ops(4)
          [OF demo_loading_reached s(1)] s(2)] s(3)] s(4)])
qed

lemma demo_open_gate: "isInitializedAndUnlocked demo_open = None"
  by code_simp





text \<open>How many steps the post-sync goroutine has ahead of it.\<close>

fun post_rank :: "post_pc \<Rightarrow> nat" where
  "post_rank AwaitWg = 4"
| "post_rank LoadKeys = 3"
| "post_rank RunOnUnlock = 2"
| "post_rank RunMigrate = 1"
| "post_rank OpenGate = 0"
| "post_rank PostDone = 0"

text \<open>Without a fault of the key derivation, the goroutines of an unlock reach the open gate.\<close>

lemma unlock_finishes_post:
  assumes "runs n = old @ [r]" "list_all finished old" "active_inv L n (length old) r" "sync_at r = SyncDone"
  shows "\<exists>n'. (goroutine_step L)\<^sup>*\<^sup>* n n' \<and> isInitializedAndUnlocked n' = None \<and> syncEvent n' = syncEvent n"
  using assms
proof (induction "post_rank (post_at r)"
    arbitrary: n r rule: less_induct)
  case less
  let ?i = "length old"
  let ?n' = "the (post_step L (Inr []) None ?i n)"
  obtain pc where pc: "post_step L (Inr []) None ?i n = Some ?n'" "runs ?n' = old @ [r\<lparr>post_at := pc\<rparr>]"
    "syncEvent ?n' = syncEvent n" "post_at r = OpenGate \<and> pc = PostDone \<and> walletReady ?n' \<and> isInitialized ?n' \<and> \<not> walletLocked ?n'
      \<or> post_at r \<noteq> OpenGate \<and> active_inv L ?n' ?i (r\<lparr>post_at := pc\<rparr>) \<and>
        post_rank pc <
        post_rank (post_at r)"
    using less.prems
    by (cases "post_at r")
       (force simp: post_step_def set_run_def active_inv_def has_key_def split: if_splits)+
  have step: "goroutine_step L n ?n'" using pc(1) by (rule goroutine_step.post)
  from pc(4) show ?case
  proof (elim disjE conjE)
    assume "walletReady ?n'" "isInitialized ?n'" "\<not> walletLocked ?n'"
    moreover have "syncEvent ?n' \<noteq> None" using less.prems(3,4) pc(3) by (simp add: active_inv_def)
    ultimately show ?thesis using step pc(3) by (auto simp: gate_open)
  next
    assume a: "active_inv L ?n' ?i (r\<lparr>post_at := pc\<rparr>)"
      and m: "post_rank pc <
        post_rank (post_at r)"
    from less.hyps [of "r\<lparr>post_at := pc\<rparr>" ?n'] m pc(2) less.prems(2,4) a obtain n' where
      "(goroutine_step L)\<^sup>*\<^sup>* ?n' n'" "isInitializedAndUnlocked n' = None" "syncEvent n' = syncEvent ?n'" by auto
    with step pc(3) show ?thesis by (metis converse_rtranclp_into_rtranclp)
  qed
qed

lemma unlock_finishes_send:
  assumes "runs n = old @ [r]" "list_all finished old" "active_inv L n (length old) r" "sync_at r = Sending ev"
  shows "\<exists>n'. (goroutine_step L)\<^sup>*\<^sup>* n n' \<and> isInitializedAndUnlocked n' = None \<and> syncEvent n' = syncEvent n"
proof -
  let ?r = "r\<lparr>sync_at := SyncDone\<rparr>"
  let ?n = "n\<lparr>syncCh := Some [ev], syncLock := None, runs := old @ [?r]\<rparr>"
  have "sync_send (length old) n = Some ?n"
    using assms by (simp add: sync_send_def active_inv_def set_run_def)
  then have step: "goroutine_step L n ?n" by (rule goroutine_step.send)
  have "active_inv L ?n (length old) ?r" using assms(3,4) by (simp add: active_inv_def)
  from unlock_finishes_post [OF _ assms(2) this] obtain n' where
    "(goroutine_step L)\<^sup>*\<^sup>* ?n n'" "isInitializedAndUnlocked n' = None" "syncEvent n' = syncEvent n" by auto
  with step show ?thesis by (metis converse_rtranclp_into_rtranclp)
qed

lemma unlock_finishes_await:
  assumes "runs n = old @ [r]" "list_all finished old" "active_inv L n (length old) r" "sync_at r = AwaitSync"
  shows "\<exists>n'. (goroutine_step L)\<^sup>*\<^sup>* n n' \<and> isInitializedAndUnlocked n' = None \<and> syncEvent n' = Some ev"
proof -
  let ?r = "r\<lparr>sync_at := Sending ev\<rparr>"
  let ?n = "n\<lparr>syncEvent := Some ev, runs := old @ [?r]\<rparr>"
  have "sync_receive ev (length old) n = Some ?n"
    using assms by (simp add: sync_receive_def set_run_def)
  then have step: "goroutine_step L n ?n" by (rule goroutine_step.receive)
  have "active_inv L ?n (length old) ?r" using assms(3,4) by (simp add: active_inv_def)
  from unlock_finishes_send [OF _ assms(2) this, of ev] obtain n' where
    "(goroutine_step L)\<^sup>*\<^sup>* ?n n'" "isInitializedAndUnlocked n' = None" "syncEvent n' = Some ev" by auto
  with step show ?thesis by (metis converse_rtranclp_into_rtranclp)
qed

lemma unlock_finishes_want:
  assumes "runs n = old @ [r]" "list_all finished old" "active_inv L n (length old) r" "sync_at r = WantLock"
  shows "\<exists>n'. (goroutine_step L)\<^sup>*\<^sup>* n n' \<and> isInitializedAndUnlocked n' = None \<and> syncEvent n' = Some ev"
proof -
  let ?r = "r\<lparr>sync_at := AwaitSync\<rparr>"
  let ?n = "n\<lparr>syncLock := Some (length old), runs := old @ [?r]\<rparr>"
  have "sync_acquire (length old) n = Some ?n"
    using assms by (simp add: sync_acquire_def active_inv_def set_run_def)
  then have step: "goroutine_step L n ?n" by (rule goroutine_step.acquire)
  have "active_inv L ?n (length old) ?r" using assms(3,4) by (simp add: active_inv_def)
  from unlock_finishes_await [OF _ assms(2) this, of ev] obtain n' where
    "(goroutine_step L)\<^sup>*\<^sup>* ?n n'" "isInitializedAndUnlocked n' = None" "syncEvent n' = Some ev" by auto
  with step show ?thesis by (metis converse_rtranclp_into_rtranclp)
qed



text \<open>
  C28: an unlock whose signer key cannot be derived unwinds, when the wallet locks again, to a
  state with no signer key, no pending goroutine and a closed gate, in which a new unlock starts.
\<close>
theorem failed_key_unwinds_to_locked:
  assumes "node_reach L idle n" "i < length (runs n)" "post_at (runs n ! i) = LoadKeys"
    and "post_step L (Inl e) None i n = Some n'"
  shows "idle n' \<and> walletLocked n' \<and> no_signer n' \<and> \<not> schedulerRunning n' \<and> syncCh n' = None
    \<and> isInitializedAndUnlocked n' \<noteq> None
    \<and> (\<exists>n''. UnlockNode None None (Inr h) pw n' = (None, n'') \<and> \<not> idle n'')"
  using node_reach_inv [OF assms(1)]
proof (cases rule: node_inv_rest_or_active)
  case rest
  with assms(4) show ?thesis by (simp add: idle_is_still)
next
  case (active old r)
  with moving_run [OF active(1,2), of i] assms(4) have i: "i = length old" by blast
  with active(1) assms(3) have pc: "post_at r = LoadKeys" by simp
  with active(3) have sd: "sync_at r = SyncDone" "isInitialized n" "delegateEnabled n" by (auto simp: active_inv_def)
  from assms(4) i active(1) pc have
    n': "n' = unwindFailedUnlock None (n\<lparr>runs := old @ [r\<lparr>post_at := PostDone\<rparr>]\<rparr>)"
    by (simp add: post_step_def set_last_run)
  have fields: "idle n'" "walletLocked n'" "no_signer n'" "isInitialized n'" "\<not> schedulerRunning n'" "syncCh n' = None"
    using active(2) sd
    by (simp_all add: n' unwindFailedUnlock_def call_defs idle_def finished_def no_signer_def)
  have "\<exists>n''. UnlockNode None None (Inr h) pw n' = (None, n'') \<and> \<not> idle n''"
    using fields by (simp add: UnlockNode_def Let_def idle_def notify_def finished_def)
  with fields show ?thesis by (simp add: isInitializedAndUnlocked_def)
qed

theorem failed_key_unwinds_to_locked_witness:
  "\<exists>n'. post_step demo_keys (Inl ''no mnemonic'') None 0 demo_loading = Some n' \<and> idle n' \<and> no_signer n'"
proof -
  have "0 < length (runs demo_loading)" "post_at (runs demo_loading ! 0) = LoadKeys"
    "post_step demo_keys (Inl ''no mnemonic'') None 0 demo_loading =
       Some (the (post_step demo_keys (Inl ''no mnemonic'') None 0 demo_loading))" by code_simp+
  from failed_key_unwinds_to_locked [OF demo_loading_reached this] this(3) show ?thesis by blast
qed

section \<open>States the calls do not lead out of\<close>

definition stuck :: "node \<Rightarrow> bool" where
  "stuck n \<longleftrightarrow> isInitialized n \<and> \<not> walletLocked n \<and> \<not> walletReady n \<and> idle n"

lemma stuck_step: "node_step L (\<lambda>_. False) n n' \<Longrightarrow> stuck n \<Longrightarrow> stuck n'"
  by (erule node_stepE)
     (auto simp: stuck_def Setup_def LockNode_def UnlockNode_def isInitializedAndUnlocked_def idle_is_still
        split: option.splits if_splits elim!: goroutine_stepE; simp add: idle_def)+

lemma stuck_run: "(node_step L (\<lambda>_. False))\<^sup>*\<^sup>* n n' \<Longrightarrow> stuck n \<Longrightarrow> stuck n'"
  by (induction rule: rtranclp_induct) (auto intro: stuck_step)

text \<open>
  C32: an \<open>UnlockNode\<close> that fails after the SDK unlocked the wallet (reading the configuration or
  opening the subscription) leaves it neither locked nor usable: no sequence of lock and unlock
  calls opens the gate again, \<open>UnlockNode\<close> answering success without doing anything and
  \<open>LockNode\<close> refusing.
\<close>
theorem failed_unlock_is_stuck:
  assumes "node_reach L idle n" "isInitialized n" "walletLocked n"
    and "UnlockNode None ce subs pw n = (Some e, n1)"
    and "(node_step L (\<lambda>_. False))\<^sup>*\<^sup>* n1 n2"
  shows "isInitializedAndUnlocked n2 \<noteq> None \<and> \<not> walletLocked n2
    \<and> UnlockNode ue ce' subs' pw' n2 = (None, n2) \<and> fst (LockNode le n2) \<noteq> None"
proof -
  have "idle n" using node_inv_restD [OF node_reach_inv [OF assms(1)]] assms(3) by blast
  with assms(2-4) have "stuck n1"
    by (auto simp: UnlockNode_def stuck_def idle_def Let_def split: option.splits sum.splits)
  with stuck_run assms(5) have s: "stuck n2" by blast
  then have "isInitializedAndUnlocked n2 \<noteq> None" by (simp add: stuck_def gate_open)
  with s show ?thesis by (auto simp: stuck_def UnlockNode_def LockNode_def)
qed

theorem failed_unlock_is_stuck_witness:
  "\<exists>n1. UnlockNode None (Some ''config'') (Inl []) ''pw'' demo_start = (Some ''config'', n1)
     \<and> isInitializedAndUnlocked n1 \<noteq> None \<and> UnlockNode None None (Inl []) ''pw'' n1 = (None, n1)"
proof -
  have "fst (UnlockNode None (Some ''config'') (Inl []) ''pw'' demo_start) = Some ''config''" by code_simp
  then obtain n1 where n1: "UnlockNode None (Some ''config'') (Inl []) ''pw'' demo_start = (Some ''config'', n1)"
    by (metis prod.collapse)
  have "isInitialized demo_start" "walletLocked demo_start" "node_reach demo_keys idle demo_start"
    unfolding demo_start_def by (simp add: newService_node_def, simp add: newService_node_def, rule node_reach.started)
  from failed_unlock_is_stuck [OF this(3,1,2) n1 rtranclp.rtrancl_refl] n1 show ?thesis by blast
qed

definition wedged :: "node \<Rightarrow> bool" where
  "wedged n \<longleftrightarrow>
     \<not> walletReady n \<and>
     (\<exists>i < length (runs n). syncLock n = Some i \<and> sync_at (runs n ! i) = SendOnNil) \<and>
     (\<forall>r \<in> set (runs n). finished r \<or> (sync_at r = WantLock \<or> sync_at r = SendOnNil) \<and> post_at r = AwaitWg)"

lemma wedged_is_still:
  assumes "wedged n"
  shows "sync_acquire i n = None" "sync_receive ev i n = None" "sync_send i n = None"
    "post_step L key lockErr i n = None"
proof -
  have l: "syncLock n \<noteq> None" using assms by (auto simp: wedged_def)
  have r: "finished (runs n ! i) \<or>
      (sync_at (runs n ! i) = WantLock \<or> sync_at (runs n ! i) = SendOnNil) \<and> post_at (runs n ! i) = AwaitWg"
    if "i < length (runs n)" using assms that by (auto simp: wedged_def)
  show "sync_acquire i n = None" using l by (auto simp: sync_acquire_def)
  show "sync_receive ev i n = None" using r by (auto simp: sync_receive_def finished_def)
  show "sync_send i n = None" using r by (auto simp: sync_send_def finished_def split: sync_pc.splits)
  show "post_step L key lockErr i n = None" using r by (auto simp: post_step_def Let_def finished_def)
qed

lemma wedged_same:
  "wedged n \<Longrightarrow> runs n' = runs n \<Longrightarrow> syncLock n' = syncLock n \<Longrightarrow> \<not> walletReady n' \<Longrightarrow> wedged n'"
  by (simp add: wedged_def)

lemma wedged_new_run:
  assumes "wedged n" "runs n' = runs n @ [\<lparr>sync_at = WantLock, post_at = AwaitWg\<rparr>]" "syncLock n' = syncLock n" "\<not> walletReady n'"
  shows "wedged n'"
proof -
  from assms(1) obtain i where "i < length (runs n)" "syncLock n = Some i" "sync_at (runs n ! i) = SendOnNil"
    by (auto simp: wedged_def)
  then have "i < length (runs n')" "syncLock n' = Some i" "sync_at (runs n' ! i) = SendOnNil"
    using assms(2,3) by (simp_all add: nth_append)
  then show ?thesis using assms(1,2,4) by (auto simp: wedged_def)
qed

lemma wedged_step:
  assumes "node_step L (\<lambda>_. True) n n'" "wedged n"
  shows "wedged n'"
  using assms(1)
proof cases
  case (set_up vm vu ie la cfg url pw mn er)
  with assms(2) show ?thesis
    by (intro wedged_same [OF assms(2)])
       (auto simp: Setup_def notify_def Let_def wedged_def split: option.splits sum.splits if_splits)
next
  case (lock lockErr er)
  have "isInitializedAndUnlocked n \<noteq> None" using assms(2) by (simp add: wedged_def gate_open)
  with lock assms(2) show ?thesis by (auto simp: LockNode_def)
next
  case (unlock ue ce subs pw er)
  show ?thesis
  proof (cases "runs n' = runs n")
    case True
    with unlock assms(2) show ?thesis
      by (intro wedged_same [OF assms(2)])
         (auto simp: UnlockNode_def notify_def Let_def wedged_def split: option.splits sum.splits if_splits)
  next
    case False
    with unlock assms(2) show ?thesis
      by (intro wedged_new_run [OF assms(2)])
         (auto simp: UnlockNode_def notify_def Let_def wedged_def split: option.splits sum.splits if_splits)
  qed
next
  case (reset la)
  then show ?thesis
    by (intro wedged_same [OF assms(2)]) (simp_all add: ResetWallet_def Let_def call_simps)
next
  case goroutine
  then show ?thesis using wedged_is_still [OF assms(2)] by (auto elim!: goroutine_stepE)
next
  case (consume ev)
  with assms(2) show ?thesis by (intro wedged_same [OF assms(2)]) (simp_all add: wedged_def)
next
  case (subscribed h h')
  with assms(2) show ?thesis by (simp add: wedged_def gate_open)
qed

lemma wedged_run: "(node_step L (\<lambda>_. True))\<^sup>*\<^sup>* n n' \<Longrightarrow> wedged n \<Longrightarrow> wedged n'"
  by (induction rule: rtranclp_induct) (auto intro: wedged_step)

text \<open>
  C31: a \<open>ResetWallet\<close> while an unlock waits for its sync event, the event arriving before the next
  unlock, wedges the daemon: the sync goroutine sends on a nil channel for ever while it holds
  \<open>syncLock\<close>, so no later sequence of calls, resets, setups and unlocks included, opens the gate.
\<close>
theorem reset_during_sync_wedges:
  assumes "node_reach L idle n" "i < length (runs n)" "sync_at (runs n ! i) = AwaitSync"
    and "sync_receive ev i (ResetWallet la n) = Some n1" "sync_send i n1 = Some n2"
    and "(node_step L (\<lambda>_. True))\<^sup>*\<^sup>* n2 n3"
  shows "isInitializedAndUnlocked n3 \<noteq> None"
  using node_reach_inv [OF assms(1)]
proof (cases rule: node_inv_rest_or_active)
  case rest
  with assms(2,3) have "finished (runs n ! i)" by (simp add: idle_def list_all_length)
  with assms(3) show ?thesis by (simp add: finished_def)
next
  case (active old r)
  have i: "i = length old"
  proof (rule ccontr)
    assume "i \<noteq> length old"
    with assms(2) active(1) have "i < length old" by simp
    with active(1,2) have "finished (runs n ! i)" by (simp add: list_all_length nth_append)
    with assms(3) show False by (simp add: finished_def)
  qed
  with assms(3) active(1) have r: "sync_at r = AwaitSync" by simp
  with active(3) have lk: "syncLock n = Some i" "post_at r = AwaitWg" using i by (auto simp: active_inv_def)
  let ?n0 = "ResetWallet la n"
  have n0: "runs ?n0 = old @ [r]" "syncLock ?n0 = Some i" "syncCh ?n0 = None" "\<not> walletReady ?n0"
    using active(1) lk by (simp_all add: ResetWallet_def Let_def call_simps)
  from assms(4) n0 i have n1: "n1 = ?n0\<lparr>syncEvent := Some ev, runs := old @ [r\<lparr>sync_at := Sending ev\<rparr>]\<rparr>"
    by (simp add: sync_receive_def set_run_def split: if_splits)
  from assms(5) n1 n0(3) i have n2: "n2 = n1\<lparr>runs := old @ [r\<lparr>sync_at := SendOnNil\<rparr>]\<rparr>"
    by (simp add: sync_send_def set_run_def)
  have "wedged n2"
    using n0(2,4) active(2) lk(2) i by (auto simp: wedged_def n2 n1 list_all_iff)
  with wedged_run [OF assms(6)] have "wedged n3" by blast
  then show ?thesis by (simp add: wedged_def gate_open)
qed

theorem reset_during_sync_wedges_witness:
  "\<exists>n1 n2. sync_receive demo_failed_sync 0 (ResetWallet True demo_await) = Some n1 \<and> sync_send 0 n1 = Some n2
     \<and> (let n3 = snd (UnlockNode None None (Inr no_subscription) ''pw''
                    (snd (Setup (\<lambda>_. None) Inr None True (Inr []) ''http://a'' ''pw'' [] n2)))
        in length (runs n3) = 2 \<and> isInitializedAndUnlocked n3 \<noteq> None)"
proof -
  let ?n1 = "the (sync_receive demo_failed_sync 0 (ResetWallet True demo_await))"
  let ?n2 = "the (sync_send 0 ?n1)"
  let ?s = "Setup (\<lambda>_. None) Inr None True (Inr []) ''http://a'' ''pw'' [] ?n2"
  let ?u = "UnlockNode None None (Inr no_subscription) ''pw'' (snd ?s)"
  have c: "0 < length (runs demo_await)" "sync_at (runs demo_await ! 0) = AwaitSync"
    "sync_receive demo_failed_sync 0 (ResetWallet True demo_await) = Some ?n1" "sync_send 0 ?n1 = Some ?n2"
    "length (runs (snd ?u)) = 2"
    by code_simp+
  have "node_step demo_keys (\<lambda>_. True) ?n2 (snd ?s)" "node_step demo_keys (\<lambda>_. True) (snd ?s) (snd ?u)"
    by (rule node_step.set_up, rule prod.collapse [symmetric], rule node_step.unlock, rule prod.collapse [symmetric])
  then have "(node_step demo_keys (\<lambda>_. True))\<^sup>*\<^sup>* ?n2 (snd ?u)"
    by (meson converse_rtranclp_into_rtranclp rtranclp.rtrancl_refl)
  from reset_during_sync_wedges [OF demo_await_reached c(1-4) this] c show ?thesis by (auto simp: Let_def)
qed

end
