(* ===== verification/VhtlcRepo.thy ===== *)
theory VhtlcRepo
  imports Domain SqliteRepo KvStore
begin

text \<open>
  The VHTLC repositories (\<open>vhtlc_repo.go\<close> of the SQLite and of the badger package), the contract
  of \<open>VHTLCRepository\<close> as the locale \<open>vhtlc_repository\<close>, and its interpretation on both.
\<close>

record legacy_vhtlc =
  PreimageHash :: string
  Sender :: string
  Receiver :: string
  Server :: string
  RefundLocktime :: u64
  UnilateralClaimDelayType :: u64
  UnilateralClaimDelayValue :: u64
  UnilateralRefundDelayType :: u64
  UnilateralRefundDelayValue :: u64
  UnilateralRefundWithoutReceiverDelayType :: u64
  UnilateralRefundWithoutReceiverDelayValue :: u64

record 's vhtlc_repo =
  V_GetAll :: "'s \<Rightarrow> string + vhtlc list"
  V_Get :: "'s \<Rightarrow> string \<Rightarrow> string + vhtlc"
  V_GetByIds :: "'s \<Rightarrow> string list \<Rightarrow> string + vhtlc list"
  V_Add :: "'s \<Rightarrow> vhtlc \<Rightarrow> err \<times> 's"
  HasLegacy :: "'s \<Rightarrow> string + bool"
  GetLegacy :: "'s \<Rightarrow> string + legacy_vhtlc list"
  DropLegacy :: "'s \<Rightarrow> err \<times> 's"

text \<open>
  The view is the map from ids to scripts; \<open>legacy\<close> is the legacy table, \<open>None\<close> when there is
  none. Every operation may fail; a failed one changes nothing.
\<close>

locale vhtlc_repository =
  fixes view :: "'s \<Rightarrow> string \<rightharpoonup> string" and legacy :: "'s \<Rightarrow> legacy_vhtlc list option"
    and invar :: "'s \<Rightarrow> bool" and R :: "'s vhtlc_repo"
  assumes get_all: "invar s \<Longrightarrow> V_GetAll R s = Inr vs \<Longrightarrow>
          v \<in> set vs \<longleftrightarrow> view s (Vhtlc_Id v) = Some (Vhtlc_Script v)"
    and get: "invar s \<Longrightarrow> V_Get R s i = Inr v \<Longrightarrow> view s i = Some (Vhtlc_Script v) \<and> Vhtlc_Id v = i"
    and get_by_ids: "invar s \<Longrightarrow> V_GetByIds R s ids = Inr vs \<Longrightarrow>
          v \<in> set vs \<longleftrightarrow> Vhtlc_Id v \<in> set ids \<and> view s (Vhtlc_Id v) = Some (Vhtlc_Script v)"
    and add_ok: "invar s \<Longrightarrow> V_Add R s v = (None, s') \<Longrightarrow>
          invar s' \<and> view s (Vhtlc_Id v) = None \<and> view s' = (view s)(Vhtlc_Id v \<mapsto> Vhtlc_Script v)
          \<and> legacy s' = legacy s"
    and add_error: "invar s \<Longrightarrow> V_Add R s v = (Some e, s') \<Longrightarrow> invar s' \<and> view s' = view s \<and> legacy s' = legacy s"
    and has_legacy: "invar s \<Longrightarrow> HasLegacy R s = Inr b \<Longrightarrow> b = (legacy s \<noteq> None)"
    and get_legacy: "invar s \<Longrightarrow> legacy s = Some rows \<Longrightarrow> GetLegacy R s = Inr rs \<Longrightarrow> rs = rows"
    and drop_legacy: "invar s \<Longrightarrow> DropLegacy R s = (er, s') \<Longrightarrow>
          invar s' \<and> view s' = view s \<and> legacy s' = (if er = None then None else legacy s)"

section \<open>SQLite\<close>

record vhtlc_db =
  vhtlc_tbl :: "vhtlc list"
  legacy_tbl :: "legacy_vhtlc list option"

definition InsertVHTLC :: "fault \<Rightarrow> vhtlc \<Rightarrow> vhtlc_db \<Rightarrow> sql_error + vhtlc_db" where
  "InsertVHTLC flt v db =
     (case flt ''InsertVHTLC'' of
        Some e \<Rightarrow> Inl (SqlOther e)
      | None \<Rightarrow> if Vhtlc_Id v \<in> set (map Vhtlc_Id (vhtlc_tbl db)) then Inl PrimaryKeyConflict
                else Inr (db\<lparr>vhtlc_tbl := vhtlc_tbl db @ [v]\<rparr>))"

definition sqlite_vhtlc_Add :: "fault \<Rightarrow> vhtlc_db \<Rightarrow> vhtlc \<Rightarrow> err \<times> vhtlc_db" where
  "sqlite_vhtlc_Add flt db v =
     (case InsertVHTLC flt v db of
        Inl PrimaryKeyConflict \<Rightarrow> (Some (''vHTLC with ID '' @ Vhtlc_Id v @ '' already exists''), db)
      | Inl (SqlOther e) \<Rightarrow> (Some e, db)
      | Inr db' \<Rightarrow> (None, db'))"

text \<open>\<open>Inr None\<close> is \<open>sql.ErrNoRows\<close>.\<close>

definition GetVHTLC :: "fault \<Rightarrow> string \<Rightarrow> vhtlc_db \<Rightarrow> string + vhtlc option" where
  "GetVHTLC flt i db =
     (case flt ''GetVHTLC'' of
        Some e \<Rightarrow> Inl e
      | None \<Rightarrow> Inr (find (\<lambda>v. Vhtlc_Id v = i) (vhtlc_tbl db)))"

definition ListVHTLCsByID :: "fault \<Rightarrow> string list \<Rightarrow> vhtlc_db \<Rightarrow> string + vhtlc list" where
  "ListVHTLCsByID flt ids db =
     (case flt ''ListVHTLCsByID'' of
        Some e \<Rightarrow> Inl e
      | None \<Rightarrow> Inr (filter (\<lambda>v. Vhtlc_Id v \<in> set ids) (vhtlc_tbl db)))"

definition ListVHTLC :: "fault \<Rightarrow> vhtlc_db \<Rightarrow> string + vhtlc list" where
  "ListVHTLC flt db = (case flt ''ListVHTLC'' of Some e \<Rightarrow> Inl e | None \<Rightarrow> Inr (vhtlc_tbl db))"

definition sqlite_vhtlc_Get :: "fault \<Rightarrow> vhtlc_db \<Rightarrow> string \<Rightarrow> string + vhtlc" where
  "sqlite_vhtlc_Get flt db i =
     (case GetVHTLC flt i db of
        Inl e \<Rightarrow> Inl e
      | Inr None \<Rightarrow> Inl (''vHTLC with id '' @ i @ '' not found'')
      | Inr (Some v) \<Rightarrow> Inr v)"

definition sqlite_vhtlc_GetByIds :: "fault \<Rightarrow> vhtlc_db \<Rightarrow> string list \<Rightarrow> string + vhtlc list" where
  "sqlite_vhtlc_GetByIds flt db ids = ListVHTLCsByID flt ids db"

definition sqlite_vhtlc_GetAll :: "fault \<Rightarrow> vhtlc_db \<Rightarrow> string + vhtlc list" where
  "sqlite_vhtlc_GetAll flt db = ListVHTLC flt db"

definition sqlite_HasLegacy :: "fault \<Rightarrow> vhtlc_db \<Rightarrow> string + bool" where
  "sqlite_HasLegacy flt db =
     (case flt ''HasLegacy'' of Some e \<Rightarrow> Inl e | None \<Rightarrow> Inr (legacy_tbl db \<noteq> None))"

definition sqlite_GetLegacy :: "fault \<Rightarrow> vhtlc_db \<Rightarrow> string + legacy_vhtlc list" where
  "sqlite_GetLegacy flt db =
     (case flt ''GetLegacy'' of
        Some e \<Rightarrow> Inl e
      | None \<Rightarrow> (case legacy_tbl db of None \<Rightarrow> Inl ''no such table: vhtlc_legacy'' | Some rows \<Rightarrow> Inr rows))"

definition sqlite_DropLegacy :: "fault \<Rightarrow> vhtlc_db \<Rightarrow> err \<times> vhtlc_db" where
  "sqlite_DropLegacy flt db =
     (case flt ''DropLegacy'' of Some e \<Rightarrow> (Some e, db) | None \<Rightarrow> (None, db\<lparr>legacy_tbl := None\<rparr>))"

definition sqlite_vhtlc_repo :: "fault \<Rightarrow> vhtlc_db vhtlc_repo" where
  "sqlite_vhtlc_repo flt =
     \<lparr>V_GetAll = sqlite_vhtlc_GetAll flt, V_Get = sqlite_vhtlc_Get flt, V_GetByIds = sqlite_vhtlc_GetByIds flt,
      V_Add = sqlite_vhtlc_Add flt, HasLegacy = sqlite_HasLegacy flt, GetLegacy = sqlite_GetLegacy flt,
      DropLegacy = sqlite_DropLegacy flt\<rparr>"

definition vhtlc_map :: "vhtlc list \<Rightarrow> string \<rightharpoonup> string" where
  "vhtlc_map vs = map_of (map (\<lambda>v. (Vhtlc_Id v, Vhtlc_Script v)) vs)"

definition sqlite_vhtlc_inv :: "vhtlc_db \<Rightarrow> bool" where
  "sqlite_vhtlc_inv db = distinct (map Vhtlc_Id (vhtlc_tbl db))"

lemma vhtlc_eq_iff: "v = w \<longleftrightarrow> Vhtlc_Id v = Vhtlc_Id w \<and> Vhtlc_Script v = Vhtlc_Script (w :: vhtlc)"
  by (cases v; cases w) simp

lemma vhtlc_map_Some:
  assumes "distinct (map Vhtlc_Id vs)"
  shows "vhtlc_map vs (Vhtlc_Id v) = Some (Vhtlc_Script v) \<longleftrightarrow> v \<in> set vs"
proof -
  from assms have "distinct (map fst (map (\<lambda>v. (Vhtlc_Id v, Vhtlc_Script v)) vs))" by (simp add: o_def)
  from map_of_eq_Some_iff [OF this] have
    "vhtlc_map vs (Vhtlc_Id v) = Some (Vhtlc_Script v) \<longleftrightarrow>
       (Vhtlc_Id v, Vhtlc_Script v) \<in> (\<lambda>v. (Vhtlc_Id v, Vhtlc_Script v)) ` set vs"
    by (simp add: vhtlc_map_def)
  also have "\<dots> \<longleftrightarrow> v \<in> set vs" by (simp add: image_iff vhtlc_eq_iff [symmetric])
  finally show ?thesis .
qed

lemma vhtlc_map_None: "vhtlc_map vs i = None \<longleftrightarrow> i \<notin> set (map Vhtlc_Id vs)"
  by (simp add: vhtlc_map_def map_of_eq_None_iff image_image)

lemma vhtlc_map_append:
  "Vhtlc_Id v \<notin> set (map Vhtlc_Id vs) \<Longrightarrow> vhtlc_map (vs @ [v]) = (vhtlc_map vs)(Vhtlc_Id v \<mapsto> Vhtlc_Script v)"
  by (rule ext, induction vs) (auto simp: vhtlc_map_def)

interpretation sqlite_vhtlc: vhtlc_repository "\<lambda>db. vhtlc_map (vhtlc_tbl db)" legacy_tbl sqlite_vhtlc_inv
  "sqlite_vhtlc_repo flt" for flt
proof (unfold_locales, unfold sqlite_vhtlc_repo_def vhtlc_repo.select_convs, goal_cases)
  case 1
  then show ?case
    by (auto simp: sqlite_vhtlc_inv_def sqlite_vhtlc_GetAll_def ListVHTLC_def vhtlc_map_Some split: option.splits)
next
  case (2 s i v)
  then have "v \<in> set (vhtlc_tbl s)" and i: "Vhtlc_Id v = i"
    by (auto simp: sqlite_vhtlc_Get_def GetVHTLC_def find_Some_iff split: option.splits)
  with 2(1) show ?case by (simp add: sqlite_vhtlc_inv_def vhtlc_map_Some flip: i)
next
  case 3
  then show ?case
    by (auto simp: sqlite_vhtlc_inv_def sqlite_vhtlc_GetByIds_def ListVHTLCsByID_def vhtlc_map_Some split: option.splits)
next
  case (4 s v s')
  then have "Vhtlc_Id v \<notin> set (map Vhtlc_Id (vhtlc_tbl s))" "s' = s\<lparr>vhtlc_tbl := vhtlc_tbl s @ [v]\<rparr>"
    by (auto simp: sqlite_vhtlc_Add_def InsertVHTLC_def split: option.splits if_splits)
  with 4(1) show ?case by (simp add: sqlite_vhtlc_inv_def vhtlc_map_append vhtlc_map_None)
next
  case 5
  then show ?case
    by (auto simp: sqlite_vhtlc_Add_def split: sum.splits sql_error.splits)
next
  case 6
  then show ?case by (auto simp: sqlite_HasLegacy_def split: option.splits)
next
  case 7
  then show ?case by (auto simp: sqlite_GetLegacy_def split: option.splits)
next
  case 8
  then show ?case by (auto simp: sqlite_DropLegacy_def sqlite_vhtlc_inv_def split: option.splits)
qed

section \<open>badger\<close>

definition badger_vhtlc_GetAll :: "('s, vhtlc) kv_ops \<Rightarrow> 's \<Rightarrow> string + vhtlc list" where
  "badger_vhtlc_GetAll kv s =
     (case kv_find kv s (\<lambda>_. True) of
        Inl e \<Rightarrow> Inl (''failed to get all vHTLC options: '' @ e)
      | Inr vhtlcList \<Rightarrow> Inr vhtlcList)"

definition badger_vhtlc_GetByIds :: "('s, vhtlc) kv_ops \<Rightarrow> 's \<Rightarrow> string list \<Rightarrow> string + vhtlc list" where
  "badger_vhtlc_GetByIds kv s ids =
     (if ids = [] then Inr []
      else
       (case kv_find kv s (\<lambda>v. Vhtlc_Id v \<in> set ids) of
          Inl e \<Rightarrow> Inl (''failed to get vHTLCs by ids: '' @ e)
        | Inr out \<Rightarrow> Inr out))"

definition badger_vhtlc_Get :: "('s, vhtlc) kv_ops \<Rightarrow> 's \<Rightarrow> string \<Rightarrow> string + vhtlc" where
  "badger_vhtlc_Get kv s i =
     (case kv_get kv s i of
        Inl ErrNotFound \<Rightarrow> Inl (''vHTLC with id '' @ i @ '' not found'')
      | Inl e \<Rightarrow> Inl (''failed to get vHTLC option: '' @ kv_error_text e)
      | Inr v \<Rightarrow> Inr v)"

definition badger_vhtlc_Add :: "('s, vhtlc) kv_ops \<Rightarrow> 's \<Rightarrow> vhtlc \<Rightarrow> err \<times> 's" where
  "badger_vhtlc_Add kv s v =
     (case kv_insert kv s (Vhtlc_Id v) v of
        (Some ErrKeyExists, s') \<Rightarrow> (Some (''vHTLC with id '' @ Vhtlc_Id v @ '' already exists''), s')
      | (Some e, s') \<Rightarrow> (Some (kv_error_text e), s')
      | (None, s') \<Rightarrow> (None, s'))"

definition badger_vhtlc_repo :: "('s, vhtlc) kv_ops \<Rightarrow> 's vhtlc_repo" where
  "badger_vhtlc_repo kv =
     \<lparr>V_GetAll = badger_vhtlc_GetAll kv, V_Get = badger_vhtlc_Get kv, V_GetByIds = badger_vhtlc_GetByIds kv,
      V_Add = badger_vhtlc_Add kv, HasLegacy = \<lambda>_. Inr False, GetLegacy = \<lambda>_. Inr [],
      DropLegacy = \<lambda>s. (None, s)\<rparr>"

definition id_keys :: "('s \<Rightarrow> string \<rightharpoonup> vhtlc) \<Rightarrow> 's \<Rightarrow> bool" where
  "id_keys m s \<longleftrightarrow> (\<forall>k v. m s k = Some v \<longrightarrow> Vhtlc_Id v = k)"

lemma id_keys_view:
  "id_keys m s \<Longrightarrow>
     (\<exists>z. m s (Vhtlc_Id v) = Some z \<and> Vhtlc_Script z = Vhtlc_Script v) \<longleftrightarrow> (\<exists>k. m s k = Some v)"
  unfolding id_keys_def by (metis vhtlc_eq_iff)

locale vhtlc_kv = kv_store kv_map kv
  for kv_map :: "'s \<Rightarrow> string \<rightharpoonup> vhtlc" and kv :: "('s, vhtlc) kv_ops"

sublocale vhtlc_kv \<subseteq> badger_vhtlc: vhtlc_repository "\<lambda>s i. map_option Vhtlc_Script (kv_map s i)" "\<lambda>_. None"
  "id_keys kv_map" "badger_vhtlc_repo kv"
proof (unfold_locales, unfold badger_vhtlc_repo_def vhtlc_repo.select_convs, goal_cases)
  case (1 s vs v)
  then have f: "kv_find kv s (\<lambda>_. True) = Inr vs" by (auto simp: badger_vhtlc_GetAll_def split: sum.splits)
  from 1(1) show ?case by (simp add: find_set [OF f] id_keys_view)
next
  case 2
  then show ?case
    by (auto simp: badger_vhtlc_Get_def get_eq id_keys_def split: option.splits kv_error.splits)
next
  case (3 s ids vs v)
  show ?case
  proof (cases "ids = []")
    case True
    with 3(2) show ?thesis by (simp add: badger_vhtlc_GetByIds_def)
  next
    case False
    with 3(2) have f: "kv_find kv s (\<lambda>v. Vhtlc_Id v \<in> set ids) = Inr vs"
      by (auto simp: badger_vhtlc_GetByIds_def split: sum.splits)
    from 3(1) show ?thesis by (auto simp: find_set [OF f] id_keys_view)
  qed
next
  case (4 s v s')
  then have "kv_insert kv s (Vhtlc_Id v) v = (None, s')"
    by (auto simp: badger_vhtlc_Add_def split: prod.splits option.splits kv_error.splits)
  from insert_ok [OF this] 4(1) show ?case by (auto simp: id_keys_def fun_eq_iff)
next
  case (5 s v e s')
  then obtain e' where "kv_insert kv s (Vhtlc_Id v) v = (Some e', s')"
    by (auto simp: badger_vhtlc_Add_def split: prod.splits option.splits kv_error.splits)
  from insert_fail [OF this] 5(1) show ?case by (simp add: id_keys_def)
qed auto

interpretation badger_vhtlc_mem: vhtlc_kv map_of "mem_store flt" for flt
  by unfold_locales

end
