(* ===== verification/VhtlcMigration.thy ===== *)
theory VhtlcMigration
  imports VhtlcRepo Bitcoin
begin

text \<open>
  The upgrade of the VHTLCs of a single-key wallet
  (\<open>internal/core/application/vhtlc_migration.go\<close>): a row of the legacy table is turned into the
  arguments of the SDK's contract handler, the contract is imported, and its id and script are
  recorded in the new table. The legacy table is dropped only when no row was skipped.

  The conversions to the lock-time types of ark-lib, the contract handler (\<open>build\<close>) and the
  contract manager (\<open>importer\<close>) are arguments: they are not part of the repository.
\<close>

record key_ref =
  Key_Id :: string
  Key_PubKey :: pubkey

record locktime_types =
  AbsoluteLocktime :: "u64 \<Rightarrow> u64"
  RelativeLocktimeType :: "u64 \<Rightarrow> u64"

record arg_locktime =
  Locktime_Type :: u64
  Locktime_Value :: u32

record contract_args =
  Args_Sender :: pubkey
  Args_Receiver :: pubkey
  Args_Signer :: pubkey
  Args_PreimageHash :: bytes
  Args_RefundLocktime :: u64
  Args_UnilateralClaimDelay :: arg_locktime
  Args_UnilateralRefundDelay :: arg_locktime
  Args_UnilateralRefundWithoutReceiverDelay :: arg_locktime
  SenderKeyId :: string
  ReceiverKeyId :: string

record contract =
  Contract_Script :: string
  Contract_Params :: "(string \<times> string) list"

record 'm contract_manager =
  GetContracts :: "'m \<Rightarrow> string list \<Rightarrow> string + contract list"
  ImportContract :: "'m \<Rightarrow> contract \<Rightarrow> err \<times> 'm"

section \<open>One row\<close>

definition decode_hex :: "string \<Rightarrow> string \<Rightarrow> string + bytes" where
  "decode_hex what s = (case hex_decode s of None \<Rightarrow> Inl (''bad '' @ what) | Some b \<Rightarrow> Inr b)"

definition parse_pubkey :: "crypto \<Rightarrow> string \<Rightarrow> bytes \<Rightarrow> string + pubkey" where
  "parse_pubkey L what b =
     (case ParsePubKey L b of Inl e \<Rightarrow> Inl (''bad '' @ what @ '' pubkey: '' @ e) | Inr k \<Rightarrow> Inr k)"

definition bind_sum :: "'e + 'a \<Rightarrow> ('a \<Rightarrow> 'e + 'b) \<Rightarrow> 'e + 'b" where
  "bind_sum x f = (case x of Inl e \<Rightarrow> Inl e | Inr a \<Rightarrow> f a)"

lemma bind_sum_Inr: "bind_sum x f = Inr b \<longleftrightarrow> (\<exists>a. x = Inr a \<and> f a = Inr b)"
  by (cases x) (auto simp: bind_sum_def)

definition legacy_args ::
  "locktime_types \<Rightarrow> legacy_vhtlc \<Rightarrow> bytes \<Rightarrow> pubkey \<Rightarrow> pubkey \<Rightarrow> pubkey \<Rightarrow> contract_args" where
  "legacy_args T row preimage sender receiver server =
     \<lparr>Args_Sender = sender, Args_Receiver = receiver, Args_Signer = server, Args_PreimageHash = preimage,
      Args_RefundLocktime = AbsoluteLocktime T (RefundLocktime row),
      Args_UnilateralClaimDelay =
        \<lparr>Locktime_Type = RelativeLocktimeType T (UnilateralClaimDelayType row),
         Locktime_Value = ucast (UnilateralClaimDelayValue row)\<rparr>,
      Args_UnilateralRefundDelay =
        \<lparr>Locktime_Type = RelativeLocktimeType T (UnilateralRefundDelayType row),
         Locktime_Value = ucast (UnilateralRefundDelayValue row)\<rparr>,
      Args_UnilateralRefundWithoutReceiverDelay =
        \<lparr>Locktime_Type = RelativeLocktimeType T (UnilateralRefundWithoutReceiverDelayType row),
         Locktime_Value = ucast (UnilateralRefundWithoutReceiverDelayValue row)\<rparr>,
      SenderKeyId = [], ReceiverKeyId = []\<rparr>"

definition own_side :: "crypto \<Rightarrow> key_ref \<Rightarrow> contract_args \<Rightarrow> string + contract_args" where
  "own_side L key args =
     (let ourCompressed = SerializeCompressed L (Key_PubKey key) in
      if SerializeCompressed L (Args_Receiver args) = ourCompressed then Inr (args\<lparr>ReceiverKeyId := Key_Id key\<rparr>)
      else if SerializeCompressed L (Args_Sender args) = ourCompressed then Inr (args\<lparr>SenderKeyId := Key_Id key\<rparr>)
      else Inl ''vhtlc not owned by wallet key'')"

definition buildVhtlcContractArgs ::
  "crypto \<Rightarrow> (bytes \<Rightarrow> bytes) \<Rightarrow> locktime_types \<Rightarrow> legacy_vhtlc \<Rightarrow> key_ref \<Rightarrow> string + contract_args \<times> string" where
  "buildVhtlcContractArgs L sha T row key =
     bind_sum (decode_hex ''preimage hash'' (PreimageHash row)) (\<lambda>preimage.
     bind_sum (decode_hex ''sender'' (Sender row)) (\<lambda>senderBytes.
     bind_sum (decode_hex ''receiver'' (Receiver row)) (\<lambda>receiverBytes.
     bind_sum (parse_pubkey L ''sender'' senderBytes) (\<lambda>sender.
     bind_sum (parse_pubkey L ''receiver'' receiverBytes) (\<lambda>receiver.
     bind_sum (decode_hex ''server'' (Server row)) (\<lambda>serverBytes.
     bind_sum (parse_pubkey L ''server'' serverBytes) (\<lambda>server.
     bind_sum (own_side L key (legacy_args T row preimage sender receiver server)) (\<lambda>args.
     Inr (args, GetVhtlcId sha preimage (SerializeCompressed L sender) (SerializeCompressed L receiver))))))))))"

section \<open>The pass\<close>

text \<open>
  The state of a pass: the store, the contract manager and the two counters.
  \<open>buildArgs\<close> is \<open>buildVhtlcContractArgs\<close> at the wallet's key, \<open>build\<close> the handler's
  \<open>NewContract\<close>.
\<close>

record ('s, 'm) pass =
  P_store :: 's
  P_manager :: 'm
  migrated :: nat
  skipped :: nat

definition skip_row :: "('s, 'm) pass \<Rightarrow> ('s, 'm) pass" where
  "skip_row p = p\<lparr>skipped := Suc (skipped p)\<rparr>"

definition persist_row :: "'s vhtlc_repo \<Rightarrow> string \<Rightarrow> contract \<Rightarrow> ('s, 'm) pass \<Rightarrow> ('s, 'm) pass" where
  "persist_row R i c p =
     (case V_Add R (P_store p) (NewVhtlc i (Contract_Script c)) of
        (Some e, s') \<Rightarrow> skip_row (p\<lparr>P_store := s'\<rparr>)
      | (None, s') \<Rightarrow> p\<lparr>P_store := s', migrated := Suc (migrated p)\<rparr>)"

definition import_row ::
  "'s vhtlc_repo \<Rightarrow> 'm contract_manager \<Rightarrow> string \<Rightarrow> contract \<Rightarrow> ('s, 'm) pass \<Rightarrow> ('s, 'm) pass" where
  "import_row R M i c p =
     (case GetContracts M (P_manager p) [Contract_Script c] of
        Inl e \<Rightarrow> skip_row p
      | Inr tracked \<Rightarrow>
          if tracked = []
          then (case ImportContract M (P_manager p) c of
                  (Some e, m') \<Rightarrow> skip_row (p\<lparr>P_manager := m'\<rparr>)
                | (None, m') \<Rightarrow> persist_row R i c (p\<lparr>P_manager := m'\<rparr>))
          else persist_row R i c p)"

definition migrate_row ::
  "'s vhtlc_repo \<Rightarrow> 'm contract_manager \<Rightarrow> (legacy_vhtlc \<Rightarrow> string + contract_args \<times> string) \<Rightarrow>
     (contract_args \<Rightarrow> string + contract) \<Rightarrow> legacy_vhtlc \<Rightarrow> ('s, 'm) pass \<Rightarrow> ('s, 'm) pass" where
  "migrate_row R M buildArgs build row p =
     (case buildArgs row of
        Inl e \<Rightarrow> skip_row p
      | Inr (args, i) \<Rightarrow>
          (case V_Get R (P_store p) i of
             Inr _ \<Rightarrow> p
           | Inl _ \<Rightarrow>
               (case build args of
                  Inl e \<Rightarrow> skip_row p
                | Inr c \<Rightarrow> import_row R M i c p)))"

definition migrateVhtlcs ::
  "'s vhtlc_repo \<Rightarrow> 'm contract_manager \<Rightarrow> (legacy_vhtlc \<Rightarrow> string + contract_args \<times> string) \<Rightarrow>
     (contract_args \<Rightarrow> string + contract) \<Rightarrow> 's \<Rightarrow> 'm \<Rightarrow> err \<times> ('s, 'm) pass" where
  "migrateVhtlcs R M buildArgs build s m =
     (let p0 = \<lparr>P_store = s, P_manager = m, migrated = 0, skipped = 0\<rparr> in
      case HasLegacy R s of
        Inl e \<Rightarrow> (Some e, p0)
      | Inr has \<Rightarrow>
          if \<not> has then (None, p0)
          else
           (case GetLegacy R s of
              Inl e \<Rightarrow> (Some e, p0)
            | Inr rows \<Rightarrow>
                (let p = fold (migrate_row R M buildArgs build) rows p0 in
                 if skipped p = 0
                 then (case DropLegacy R (P_store p) of
                         (Some e, s') \<Rightarrow> (Some (''failed to drop vhtlc_legacy: '' @ e), p\<lparr>P_store := s'\<rparr>)
                       | (None, s') \<Rightarrow> (None, p\<lparr>P_store := s'\<rparr>))
                 else (None, p))))"

definition dropEmptyLegacyVhtlcs :: "'s vhtlc_repo \<Rightarrow> 's \<Rightarrow> 's" where
  "dropEmptyLegacyVhtlcs R s =
     (case HasLegacy R s of
        Inl e \<Rightarrow> s
      | Inr has \<Rightarrow>
          if \<not> has then s
          else
           (case GetLegacy R s of
              Inl e \<Rightarrow> s
            | Inr rows \<Rightarrow> if rows \<noteq> [] then s else snd (DropLegacy R s)))"

text \<open>
  \<open>Service.migrateVhtlcs\<close>: \<open>isHD\<close> says that the identity is a hierarchical one, \<open>getKey\<close> is
  \<open>identitySvc.GetKey\<close> with the empty id, \<open>handler\<close> what the registry answers for the VHTLC type.
  Errors are logged.
\<close>

definition Service_migrateVhtlcs ::
  "crypto \<Rightarrow> (bytes \<Rightarrow> bytes) \<Rightarrow> locktime_types \<Rightarrow> 's vhtlc_repo \<Rightarrow> 'm contract_manager \<Rightarrow> bool \<Rightarrow>
     string + key_ref \<Rightarrow> string + (contract_args \<Rightarrow> string + contract) \<Rightarrow> 's \<Rightarrow> 'm \<Rightarrow> 's \<times> 'm" where
  "Service_migrateVhtlcs L sha T R M isHD getKey handler s m =
     (if isHD then (dropEmptyLegacyVhtlcs R s, m)
      else
       (case getKey of
          Inl e \<Rightarrow> (s, m)
        | Inr keyRef \<Rightarrow>
            (case handler of
               Inl e \<Rightarrow> (s, m)
             | Inr build \<Rightarrow>
                 (case migrateVhtlcs R M (\<lambda>row. buildVhtlcContractArgs L sha T row keyRef) build s m of
                    (_, p) \<Rightarrow> (P_store p, P_manager p)))))"

section \<open>No row is lost\<close>

text \<open>
  What the code relies on of the contract manager: a lookup by script answers only contracts it
  tracks, and an import that succeeds makes it track the contract, in both cases without
  forgetting one.
\<close>

definition manager_ok :: "('m \<Rightarrow> string set) \<Rightarrow> 'm contract_manager \<Rightarrow> bool" where
  "manager_ok tracked M \<longleftrightarrow>
     (\<forall>m x cs. GetContracts M m [x] = Inr cs \<and> cs \<noteq> [] \<longrightarrow> x \<in> tracked m) \<and>
     (\<forall>m c m'. ImportContract M m c = (None, m') \<longrightarrow> tracked m \<union> {Contract_Script c} \<subseteq> tracked m') \<and>
     (\<forall>m c e m'. ImportContract M m c = (Some e, m') \<longrightarrow> tracked m \<subseteq> tracked m')"

lemma manager_ok_get:
  "manager_ok tracked M \<Longrightarrow> GetContracts M m [x] = Inr cs \<Longrightarrow> cs \<noteq> [] \<Longrightarrow> x \<in> tracked m"
  by (simp add: manager_ok_def)

lemma manager_ok_import:
  "manager_ok tracked M \<Longrightarrow> ImportContract M m c = (None, m') \<Longrightarrow>
     tracked m \<subseteq> tracked m' \<and> Contract_Script c \<in> tracked m'"
  unfolding manager_ok_def by (drule conjunct2, drule conjunct1) simp

lemma manager_ok_import_fails:
  "manager_ok tracked M \<Longrightarrow> ImportContract M m c = (Some e, m') \<Longrightarrow> tracked m \<subseteq> tracked m'"
  unfolding manager_ok_def by (drule conjunct2, drule conjunct2) simp

text \<open>A legacy row is kept when the map has the id the row builds to.\<close>

definition row_kept ::
  "(legacy_vhtlc \<Rightarrow> string + contract_args \<times> string) \<Rightarrow> (string \<rightharpoonup> string) \<Rightarrow> legacy_vhtlc \<Rightarrow> bool" where
  "row_kept buildArgs v row = (case buildArgs row of Inl _ \<Rightarrow> False | Inr (_, i) \<Rightarrow> v i \<noteq> None)"

lemma row_kept_mono: "row_kept B v row \<Longrightarrow> v \<subseteq>\<^sub>m w \<Longrightarrow> row_kept B w row"
  by (auto simp: row_kept_def map_le_def dom_def split: sum.splits)

context vhtlc_repository
begin

text \<open>The invariant of the loop, after the rows \<open>done\<close>.\<close>

definition pass_inv ::
  "(legacy_vhtlc \<Rightarrow> string + contract_args \<times> string) \<Rightarrow> ('m \<Rightarrow> string set) \<Rightarrow> 's \<Rightarrow> 'm \<Rightarrow>
     legacy_vhtlc list \<Rightarrow> ('s, 'm) pass \<Rightarrow> bool" where
  "pass_inv buildArgs tracked s0 m0 rows p \<longleftrightarrow>
     invar (P_store p) \<and> legacy (P_store p) = legacy s0 \<and> view s0 \<subseteq>\<^sub>m view (P_store p) \<and>
     tracked m0 \<subseteq> tracked (P_manager p) \<and>
     (\<forall>i x. view (P_store p) i = Some x \<and> view s0 i = None \<longrightarrow> x \<in> tracked (P_manager p)) \<and>
     (skipped p = 0 \<longrightarrow>
        (\<forall>row \<in> set rows. row_kept buildArgs (view (P_store p)) row))"

lemma pass_inv_skip: "pass_inv B tr s0 m0 rows p \<Longrightarrow> pass_inv B tr s0 m0 (rows @ [row]) (skip_row p)"
  by (simp add: pass_inv_def skip_row_def)

lemma pass_inv_manager:
  "pass_inv B tr s0 m0 rows p \<Longrightarrow> tr (P_manager p) \<subseteq> tr m' \<Longrightarrow> pass_inv B tr s0 m0 rows (p\<lparr>P_manager := m'\<rparr>)"
  by (auto simp: pass_inv_def)

lemma pass_inv_known:
  assumes "pass_inv B tr s0 m0 rows p" "B row = Inr (args, i)" "view (P_store p) i \<noteq> None"
  shows "pass_inv B tr s0 m0 (rows @ [row]) p"
  using assms by (auto simp: pass_inv_def row_kept_def)

lemma pass_inv_persist:
  assumes p: "pass_inv B tr s0 m0 rows p" and B: "B row = Inr (args, i)"
    and t: "Contract_Script c \<in> tr (P_manager p)"
  shows "pass_inv B tr s0 m0 (rows @ [row]) (persist_row R i c p)"
proof (cases "V_Add R (P_store p) (NewVhtlc i (Contract_Script c))")
  case (Pair er s')
  have inv: "invar (P_store p)" using p by (simp add: pass_inv_def)
  show ?thesis
  proof (cases er)
    case None
    from add_ok [OF inv Pair [unfolded None]] have
      *: "invar s'" "view (P_store p) i = None" "view s' = (view (P_store p))(i \<mapsto> Contract_Script c)"
        "legacy s' = legacy (P_store p)"
      by (auto simp: NewVhtlc_def)
    from p have le: "view s0 \<subseteq>\<^sub>m view (P_store p)" by (simp add: pass_inv_def)
    then have "view s0 i = None" using *(2) by (metis map_le_def domIff)
    with le have s': "view s0 \<subseteq>\<^sub>m view s'" using *(3) by (auto simp: map_le_def dom_def)
    have "view (P_store p) \<subseteq>\<^sub>m view s'" using *(2,3) by (auto simp: map_le_def)
    then have "row_kept B (view (P_store p)) r \<longrightarrow> row_kept B (view s') r" for r using row_kept_mono by blast
    moreover have "row_kept B (view s') row" using B *(3) by (simp add: row_kept_def)
    ultimately show ?thesis using p * t s' None Pair by (auto simp: pass_inv_def persist_row_def)
  next
    case (Some e)
    from add_error [OF inv Pair [unfolded this]] have
      *: "invar s'" "view s' = view (P_store p)" "legacy s' = legacy (P_store p)" by auto
    then show ?thesis using p Pair Some by (simp add: pass_inv_def persist_row_def skip_row_def)
  qed
qed

lemma pass_inv_row:
  assumes p: "pass_inv B tr s0 m0 rows p" and M: "manager_ok tr M"
  shows "pass_inv B tr s0 m0 (rows @ [row]) (migrate_row R M B build row p)"
proof (cases "B row")
  case (Inl e)
  then show ?thesis using pass_inv_skip [OF p] by (simp add: migrate_row_def)
next
  case (Inr ai)
  obtain args i where ai: "ai = (args, i)" by force
  have import_ok: "pass_inv B tr s0 m0 (rows @ [row]) (import_row R M i c p)" for c
  proof (cases "GetContracts M (P_manager p) [Contract_Script c]")
    case (Inl e)
    then show ?thesis using pass_inv_skip [OF p] by (simp add: import_row_def)
  next
    case G: (Inr tracked)
    have I: "pass_inv B tr s0 m0 (rows @ [row]) (persist_row R i c q)"
      if "pass_inv B tr s0 m0 rows q" "Contract_Script c \<in> tr (P_manager q)" for q
      by (rule pass_inv_persist [OF that(1) _ that(2), where args = args]) (use Inr ai in simp)
    show ?thesis
    proof (cases tracked)
      case Nil
      show ?thesis
      proof (cases "ImportContract M (P_manager p) c")
        case (Pair er m')
        show ?thesis
        proof (cases er)
          case None
          with manager_ok_import [OF M] Pair have "tr (P_manager p) \<subseteq> tr m'" "Contract_Script c \<in> tr m'" by auto
          then show ?thesis
            using I [OF pass_inv_manager [OF p]] G Nil Pair None by (simp add: import_row_def)
        next
          case (Some e)
          with manager_ok_import_fails [OF M] Pair have "tr (P_manager p) \<subseteq> tr m'" by auto
          from pass_inv_skip [OF pass_inv_manager [OF p this]] show ?thesis
            using G Nil Pair Some by (simp add: import_row_def)
        qed
      qed
    next
      case (Cons c' cs)
      then show ?thesis using I [OF p manager_ok_get [OF M G]] G by (simp add: import_row_def)
    qed
  qed
  show ?thesis
  proof (cases "V_Get R (P_store p) i")
    case (Inr v)
    moreover have "view (P_store p) i \<noteq> None"
      using get [of "P_store p" i v] Inr p by (simp add: pass_inv_def)
    ultimately show ?thesis
      using pass_inv_known [OF p] \<open>B row = Inr ai\<close> ai by (simp add: migrate_row_def)
  next
    case (Inl e)
    then show ?thesis
      using import_ok pass_inv_skip [OF p] \<open>B row = Inr ai\<close> ai by (simp add: migrate_row_def split: sum.split)
  qed
qed

lemma pass_inv_fold:
  "pass_inv B tr s0 m0 done p \<Longrightarrow> manager_ok tr M \<Longrightarrow>
     pass_inv B tr s0 m0 (done @ rows) (fold (migrate_row R M B build) rows p)"
proof (induction rows arbitrary: "done" p)
  case (Cons row rows)
  from Cons.IH [OF pass_inv_row [OF Cons.prems] Cons.prems(2)] show ?case by simp
qed simp

text \<open>What the store promises once the rows \<open>rows\<close> have been through the loop.\<close>

definition migration_sound ::
  "(legacy_vhtlc \<Rightarrow> string + contract_args \<times> string) \<Rightarrow> ('m \<Rightarrow> string set) \<Rightarrow> 's \<Rightarrow> err \<Rightarrow> ('s, 'm) pass \<Rightarrow> bool" where
  "migration_sound buildArgs tracked s er p \<longleftrightarrow>
     invar (P_store p) \<and> view s \<subseteq>\<^sub>m view (P_store p) \<and>
     (\<forall>i x. view (P_store p) i = Some x \<and> view s i = None \<longrightarrow> x \<in> tracked (P_manager p)) \<and>
     (legacy (P_store p) = legacy s \<or> legacy (P_store p) = None) \<and>
     (\<forall>rows. legacy s = Some rows \<and> legacy (P_store p) = None \<longrightarrow>
        er = None \<and> skipped p = 0 \<and>
        (\<forall>row \<in> set rows. row_kept buildArgs (view (P_store p)) row))"

lemma migration_sound_same: "invar s \<Longrightarrow> P_store p = s \<Longrightarrow> migration_sound B tr s er p"
  by (auto simp: migration_sound_def)

lemma migration_sound_skipped:
  "pass_inv B tr s m rows q \<Longrightarrow> legacy s = Some rows \<Longrightarrow> migration_sound B tr s er q"
  by (auto simp: migration_sound_def pass_inv_def)

lemma migration_sound_drop:
  assumes q: "pass_inv B tr s m rows q" and "skipped q = 0" and l: "legacy s = Some rows"
    and d: "DropLegacy R (P_store q) = (er, s')"
  shows "migration_sound B tr s (map_option f er) (q\<lparr>P_store := s'\<rparr>)"
proof -
  have inv: "invar (P_store q)" using q by (simp add: pass_inv_def)
  from drop_legacy [OF inv d] q assms(2) l show ?thesis
    by (cases er) (auto simp: migration_sound_def pass_inv_def)
qed

lemma migrate_sound:
  assumes inv: "invar s" and M: "manager_ok tr M" and run: "migrateVhtlcs R M B build s m = (er, p)"
  shows "migration_sound B tr s er p"
proof (cases "\<exists>rows. HasLegacy R s = Inr True \<and> GetLegacy R s = Inr rows")
  case False
  with run have "P_store p = s" by (auto simp: migrateVhtlcs_def Let_def split: sum.splits if_splits)
  then show ?thesis by (rule migration_sound_same [OF inv])
next
  case True
  then obtain rows where H: "HasLegacy R s = Inr True" and G: "GetLegacy R s = Inr rows" by blast
  from has_legacy [OF inv H] get_legacy [OF inv _ G] have l: "legacy s = Some rows" by force
  define q where
    "q = fold (migrate_row R M B build) rows \<lparr>P_store = s, P_manager = m, migrated = 0, skipped = 0\<rparr>"
  have "pass_inv B tr s m ([] @ rows) q"
    unfolding q_def using inv by (intro pass_inv_fold M) (auto simp: pass_inv_def)
  then have Q: "pass_inv B tr s m rows q" by simp
  show ?thesis
  proof (cases "skipped q = 0")
    case False
    with run H G have "p = q" by (simp add: migrateVhtlcs_def q_def [symmetric])
    then show ?thesis using migration_sound_skipped [OF Q l] by simp
  next
    case True
    obtain e s' where d: "DropLegacy R (P_store q) = (e, s')" by force
    with run H G True have
      "er = map_option (\<lambda>x. ''failed to drop vhtlc_legacy: '' @ x) e" "p = q\<lparr>P_store := s'\<rparr>"
      by (auto simp: migrateVhtlcs_def q_def [symmetric] split: option.splits)
    then show ?thesis using migration_sound_drop [OF Q True l d] by simp
  qed
qed

lemma drop_empty_sound:
  assumes "invar s" "dropEmptyLegacyVhtlcs R s = s'"
  shows "invar s' \<and> view s' = view s \<and>
    (legacy s' = legacy s \<or> legacy s = Some [] \<and> legacy s' = None)"
proof (cases "HasLegacy R s = Inr True \<and> GetLegacy R s = Inr []")
  case True
  obtain er s'' where d: "DropLegacy R s = (er, s'')" by force
  from True d assms(2) have "s'' = s'" by (simp add: dropEmptyLegacyVhtlcs_def)
  moreover have "legacy s = Some []"
    using True has_legacy [OF assms(1)] get_legacy [OF assms(1)] by force
  ultimately show ?thesis using drop_legacy [OF assms(1) d] by auto
next
  case False
  with assms(2) have "s' = s" by (auto simp: dropEmptyLegacyVhtlcs_def split: sum.splits if_splits)
  with assms(1) show ?thesis by simp
qed

end

section \<open>Properties\<close>

text \<open>
  C7: a migration pass over the SQLite store, whatever fails in it, keeps every VHTLC already
  recorded and adds only VHTLCs whose contract the manager tracks; it drops the legacy table only
  when it skipped nothing and the id of every legacy row is in the new table.
\<close>
theorem migration_loses_no_vhtlc:
  assumes "sqlite_vhtlc_inv db" "legacy_tbl db = Some rows" "manager_ok tracked M"
    and "migrateVhtlcs (sqlite_vhtlc_repo flt) M (\<lambda>row. buildVhtlcContractArgs L sha T row key) build db m = (er, p)"
  shows "sqlite_vhtlc_inv (P_store p)
    \<and> vhtlc_map (vhtlc_tbl db) \<subseteq>\<^sub>m vhtlc_map (vhtlc_tbl (P_store p))
    \<and> (\<forall>i x. vhtlc_map (vhtlc_tbl (P_store p)) i = Some x \<and> vhtlc_map (vhtlc_tbl db) i = None
          \<longrightarrow> x \<in> tracked (P_manager p))
    \<and> (legacy_tbl (P_store p) = Some rows \<or>
       legacy_tbl (P_store p) = None \<and> er = None \<and> skipped p = 0 \<and>
       (\<forall>row \<in> set rows.
          row_kept (\<lambda>row. buildVhtlcContractArgs L sha T row key) (vhtlc_map (vhtlc_tbl (P_store p))) row))"
  using sqlite_vhtlc.migrate_sound [OF assms(1,3,4)] assms(2)
  by (auto simp: sqlite_vhtlc.migration_sound_def)

definition demo_migration_lib :: crypto where
  "demo_migration_lib =
     \<lparr>SerializePubKey = drop 1, SerializeCompressed = id, PubKey = id,
      ParsePubKey = Inr, ParseSignature = Inr, Verify = (\<lambda>_ _ _. True), SchnorrSign = (\<lambda>_ _. Inr []),
      DecodeBtcAddress = (\<lambda>_. Inl []), PayToAddrScript = Inr, TapLeafHash = (\<lambda>_ s. s),
      DecodeClosure = (\<lambda>_. Inl []), CalcSighash = (\<lambda>_ _ _ _. Inr []), B64Encode = (\<lambda>_. Inl []),
      NewFromRawBytes = (\<lambda>_. Inl []), TxID = (\<lambda>_. []), TxHash = (\<lambda>_. 0), EncodeV0 = (\<lambda>_. Inl []),
      DecodeAddressV0 = (\<lambda>_. Inl []), GetPkScript = Inr, ANCHOR_PKSCRIPT = []\<rparr>"

definition demo_row :: legacy_vhtlc where
  "demo_row =
     \<lparr>PreimageHash = ''aa'', Sender = ''01'', Receiver = ''02'', Server = ''03'', RefundLocktime = 7,
      UnilateralClaimDelayType = 0, UnilateralClaimDelayValue = 512,
      UnilateralRefundDelayType = 0, UnilateralRefundDelayValue = 1024,
      UnilateralRefundWithoutReceiverDelayType = 0, UnilateralRefundWithoutReceiverDelayValue = 2048\<rparr>"

definition demo_manager :: "string list contract_manager" where
  "demo_manager =
     \<lparr>GetContracts = (\<lambda>m xs. Inr (map (\<lambda>x. \<lparr>Contract_Script = x, Contract_Params = []\<rparr>) (filter (\<lambda>x. x \<in> set m) xs))),
      ImportContract = (\<lambda>m c. (None, Contract_Script c # m))\<rparr>"

lemma demo_manager_ok: "manager_ok set demo_manager"
  by (auto simp: manager_ok_def demo_manager_def filter_empty_conv split: if_splits)

definition demo_build :: "pubkey \<Rightarrow> legacy_vhtlc \<Rightarrow> string + contract_args \<times> string" where
  "demo_build k row =
     buildVhtlcContractArgs demo_migration_lib id \<lparr>AbsoluteLocktime = id, RelativeLocktimeType = id\<rparr> row
       \<lparr>Key_Id = ''k'', Key_PubKey = k\<rparr>"

definition demo_migrate :: "err \<times> (vhtlc_db, string list) pass" where
  "demo_migrate =
     migrateVhtlcs (sqlite_vhtlc_repo (\<lambda>_. None)) demo_manager (demo_build [2])
       (\<lambda>args. Inr \<lparr>Contract_Script = ReceiverKeyId args, Contract_Params = []\<rparr>)
       \<lparr>vhtlc_tbl = [], legacy_tbl = Some [demo_row]\<rparr> []"

theorem migration_loses_no_vhtlc_witness:
  "legacy_tbl (P_store (snd demo_migrate)) = None \<and> migrated (snd demo_migrate) = 1
   \<and> row_kept (demo_build [2]) (vhtlc_map (vhtlc_tbl (P_store (snd demo_migrate)))) demo_row"
proof -
  have run: "migrated (snd demo_migrate) = 1" "legacy_tbl (P_store (snd demo_migrate)) = None" by code_simp+
  obtain er p where d: "demo_migrate = (er, p)" by force
  note m = d [unfolded demo_migrate_def demo_build_def [abs_def]]
  have "legacy_tbl (P_store p) = Some [demo_row] \<or>
      (\<forall>row \<in> set [demo_row]. row_kept (demo_build [2]) (vhtlc_map (vhtlc_tbl (P_store p))) row)"
    using migration_loses_no_vhtlc [OF _ _ demo_manager_ok m, where rows = "[demo_row]"]
    unfolding demo_build_def [abs_def] by (auto simp: sqlite_vhtlc_inv_def)
  with run [unfolded d] show ?thesis unfolding d by auto
qed

text \<open>
  C25: once every legacy row is recorded, a further pass over the SQLite store (without faults)
  imports nothing, adds nothing, and drops the legacy table: a pass whose drop failed is retried
  safely.
\<close>
theorem migration_is_idempotent:
  assumes "legacy_tbl db = Some rows"
    and "\<forall>row \<in> set rows. row_kept B (vhtlc_map (vhtlc_tbl db)) row"
  shows "migrateVhtlcs (sqlite_vhtlc_repo (\<lambda>_. None)) M B build db m =
    (None, \<lparr>P_store = db\<lparr>legacy_tbl := None\<rparr>, P_manager = m, migrated = 0, skipped = 0\<rparr>)"
proof -
  let ?R = "sqlite_vhtlc_repo (\<lambda>_. None)"
  let ?p0 = "\<lparr>P_store = db, P_manager = m, migrated = 0, skipped = 0\<rparr>"
  have known: "\<exists>v. V_Get ?R db i = Inr v" if "vhtlc_map (vhtlc_tbl db) i \<noteq> None" for i
  proof -
    from that have "i \<in> set (map Vhtlc_Id (vhtlc_tbl db))" by (metis vhtlc_map_None)
    then have "find (\<lambda>v. Vhtlc_Id v = i) (vhtlc_tbl db) \<noteq> None" by (auto simp: find_None_iff)
    then show ?thesis by (auto simp: sqlite_vhtlc_repo_def sqlite_vhtlc_Get_def GetVHTLC_def)
  qed
  have row: "migrate_row ?R M B build row ?p0 = ?p0" if "row \<in> set rows" for row
  proof -
    from assms(2) that have "row_kept B (vhtlc_map (vhtlc_tbl db)) row" by blast
    then obtain args i where "B row = Inr (args, i)" "vhtlc_map (vhtlc_tbl db) i \<noteq> None"
      by (cases "B row") (auto simp: row_kept_def)
    then show ?thesis using known [of i] by (auto simp: migrate_row_def)
  qed
  have "fold (migrate_row ?R M B build) rows ?p0 = ?p0"
    using row by (induction rows) auto
  then show ?thesis
    using assms(1)
    by (simp add: migrateVhtlcs_def sqlite_vhtlc_repo_def sqlite_HasLegacy_def sqlite_GetLegacy_def sqlite_DropLegacy_def)
qed

theorem migration_is_idempotent_witness:
  "migrateVhtlcs (sqlite_vhtlc_repo (\<lambda>_. None)) demo_manager (\<lambda>_. Inr (undefined, ''i''))
     (\<lambda>_. Inl []) \<lparr>vhtlc_tbl = [\<lparr>Vhtlc_Id = ''i'', Vhtlc_Script = ''s''\<rparr>], legacy_tbl = Some [demo_row]\<rparr> [] =
   (None, \<lparr>P_store = \<lparr>vhtlc_tbl = [\<lparr>Vhtlc_Id = ''i'', Vhtlc_Script = ''s''\<rparr>], legacy_tbl = None\<rparr>,
           P_manager = [], migrated = 0, skipped = 0\<rparr>)"
  by (subst migration_is_idempotent [where rows = "[demo_row]"])
     (simp_all add: row_kept_def vhtlc_map_def)

text \<open>
  On a hierarchical wallet the upgrade never touches the recorded VHTLCs nor the contract
  manager, and drops the legacy table only when it is empty.
\<close>
theorem hd_upgrade_keeps_legacy_rows:
  assumes "sqlite_vhtlc_inv db"
    and "Service_migrateVhtlcs L sha T (sqlite_vhtlc_repo flt) M True getKey handler db m = (db', m')"
  shows "m' = m \<and> vhtlc_map (vhtlc_tbl db') = vhtlc_map (vhtlc_tbl db)
    \<and> (legacy_tbl db' = legacy_tbl db \<or> legacy_tbl db = Some [] \<and> legacy_tbl db' = None)"
  using sqlite_vhtlc.drop_empty_sound [OF assms(1)] assms(2) by (auto simp: Service_migrateVhtlcs_def)

theorem hd_upgrade_keeps_legacy_rows_witness:
  "case Service_migrateVhtlcs demo_migration_lib id \<lparr>AbsoluteLocktime = id, RelativeLocktimeType = id\<rparr>
      (sqlite_vhtlc_repo (\<lambda>_. None)) demo_manager True (Inl []) (Inl [])
      \<lparr>vhtlc_tbl = [], legacy_tbl = Some [demo_row]\<rparr> ([] :: string list) of
     (db', m') \<Rightarrow> m' = [] \<and> legacy_tbl db' = Some [demo_row]"
proof -
  let ?db = "\<lparr>vhtlc_tbl = [], legacy_tbl = Some [demo_row]\<rparr>"
  let ?r = "Service_migrateVhtlcs demo_migration_lib id \<lparr>AbsoluteLocktime = id, RelativeLocktimeType = id\<rparr>
      (sqlite_vhtlc_repo (\<lambda>_. None)) demo_manager True (Inl []) (Inl []) ?db ([] :: string list)"
  have "?r = (fst ?r, snd ?r)" by simp
  from hd_upgrade_keeps_legacy_rows [OF _ this] show ?thesis
    by (auto simp: sqlite_vhtlc_inv_def split: prod.split)
qed

lemma build_args_steps:
  assumes "buildVhtlcContractArgs L sha T row key = Inr (args, i)"
  shows "\<exists>pre sender receiver server. hex_decode (PreimageHash row) = Some pre \<and>
    own_side L key (legacy_args T row pre sender receiver server) = Inr args \<and>
    i = GetVhtlcId sha pre (SerializeCompressed L sender) (SerializeCompressed L receiver)"
proof -
  from assms obtain pre sender receiver server args' where
    d: "decode_hex ''preimage hash'' (PreimageHash row) = Inr pre"
    and o: "own_side L key (legacy_args T row pre sender receiver server) = Inr args'"
    and a: "(args', GetVhtlcId sha pre (SerializeCompressed L sender) (SerializeCompressed L receiver)) = (args, i)"
    unfolding buildVhtlcContractArgs_def bind_sum_Inr sum.inject by blast
  from d have "hex_decode (PreimageHash row) = Some pre" by (simp add: decode_hex_def split: option.splits)
  with o a show ?thesis by blast
qed

lemma own_side_Inr:
  "own_side L key args = Inr args' \<Longrightarrow>
     args' = (if SerializeCompressed L (Args_Receiver args) = SerializeCompressed L (Key_PubKey key)
              then args\<lparr>ReceiverKeyId := Key_Id key\<rparr> else args\<lparr>SenderKeyId := Key_Id key\<rparr>)
     \<and> (SerializeCompressed L (Args_Receiver args) = SerializeCompressed L (Key_PubKey key) \<or>
        SerializeCompressed L (Args_Sender args) = SerializeCompressed L (Key_PubKey key))"
  by (auto simp: own_side_def Let_def split: if_splits)

text \<open>
  The arguments rebuilt from a legacy row name the wallet's key on exactly one side, the
  receiver's when both keys are the wallet's, keep the row's preimage hash, and go with the id of
  that preimage hash and the compressed keys.
\<close>
theorem legacy_args_name_the_owner:
  assumes "buildVhtlcContractArgs L sha T row key = Inr (args, i)"
  shows "i = GetVhtlcId sha (Args_PreimageHash args) (SerializeCompressed L (Args_Sender args))
              (SerializeCompressed L (Args_Receiver args))
    \<and> hex_decode (PreimageHash row) = Some (Args_PreimageHash args)
    \<and> (if SerializeCompressed L (Args_Receiver args) = SerializeCompressed L (Key_PubKey key)
       then ReceiverKeyId args = Key_Id key \<and> SenderKeyId args = []
       else SerializeCompressed L (Args_Sender args) = SerializeCompressed L (Key_PubKey key)
            \<and> SenderKeyId args = Key_Id key \<and> ReceiverKeyId args = [])"
proof -
  from build_args_steps [OF assms] obtain pre sender receiver server where
    h: "hex_decode (PreimageHash row) = Some pre"
    and o: "own_side L key (legacy_args T row pre sender receiver server) = Inr args"
    and i: "i = GetVhtlcId sha pre (SerializeCompressed L sender) (SerializeCompressed L receiver)" by blast
  from own_side_Inr [OF o] h i show ?thesis by (auto simp: legacy_args_def)
qed

theorem legacy_args_name_the_owner_witness:
  "case demo_build [1] demo_row of
     Inl _ \<Rightarrow> False
   | Inr (args, i) \<Rightarrow> SenderKeyId args = ''k'' \<and> ReceiverKeyId args = []"
proof -
  have ok: "case demo_build [1] demo_row of Inl _ \<Rightarrow> False | Inr ai \<Rightarrow> Args_Receiver (fst ai) = [2]" by code_simp
  show ?thesis
  proof (cases "demo_build [1] demo_row")
    case (Inr ai)
    obtain args i where ai: "ai = (args, i)" by (cases ai) blast
    note own = legacy_args_name_the_owner [OF Inr [unfolded ai demo_build_def], THEN conjunct2, THEN conjunct2]
    have "SerializeCompressed demo_migration_lib k = k" for k by (simp add: demo_migration_lib_def)
    moreover have "Args_Receiver args = [2]" using ok unfolding Inr ai by simp
    ultimately have "SenderKeyId args = ''k'' \<and> ReceiverKeyId args = []"
      using own by (simp split: if_splits)
    then show ?thesis by (simp add: Inr ai)
  qed (use ok in simp)
qed

end
