(* ===== verification/SqliteMigration.thy ===== *)
theory SqliteMigration
  imports VhtlcRepo
begin

text \<open>
  The schema step that gives the VHTLC table of a SQLite database its id column
  (\<open>sqlite/vhtlc_migration.go\<close>) and the opening of the database (\<open>db/service.go\<close>), which runs
  it between two groups of migrations. The migration library is a pair of arguments.

  A statement that fails leaves its transaction uncommitted, so the tables are the ones before it;
  \<open>backfillVhtlc\<close> rolls back only when the failing statement was assigned to the outer \<open>err\<close>, which
  makes no difference to what is stored.
\<close>

record swap_row =
  Swap_Id :: string
  Swap_Amount :: u64
  Swap_Timestamp :: u64
  Swap_To :: string
  Swap_From :: string
  Swap_Status :: u64
  Swap_Invoice :: string
  Swap_FundingTxId :: string
  Swap_RedeemTxId :: string
  Swap_VhtlcId :: string

text \<open>The table \<open>vhtlc\<close> without and with the column \<open>id\<close>.\<close>

datatype vhtlc_table = Without_id "legacy_vhtlc list" | With_id "(string \<times> legacy_vhtlc) list"

record mig_db =
  t_vhtlc :: vhtlc_table
  t_vhtlc_new :: "(string \<times> legacy_vhtlc) list option"
  t_swap :: "swap_row list"

fun vhtlc_rows :: "vhtlc_table \<Rightarrow> legacy_vhtlc list" where
  "vhtlc_rows (Without_id rs) = rs"
| "vhtlc_rows (With_id rs) = map snd rs"

fun has_id :: "vhtlc_table \<Rightarrow> bool" where
  "has_id (Without_id _) = False"
| "has_id (With_id _) = True"

section \<open>The steps\<close>

definition ensureVhtlcNew :: "fault \<Rightarrow> mig_db \<Rightarrow> err \<times> mig_db" where
  "ensureVhtlcNew flt db =
     (case flt ''create vhtlc_new'' of
        Some e \<Rightarrow> (Some (''create vhtlc_new: '' @ e), db)
      | None \<Rightarrow> (None, db\<lparr>t_vhtlc_new := Some (case t_vhtlc_new db of None \<Rightarrow> [] | Some rs \<Rightarrow> rs)\<rparr>))"

definition row_id :: "(bytes \<Rightarrow> bytes) \<Rightarrow> legacy_vhtlc \<Rightarrow> string option" where
  "row_id sha row =
     (case (hex_decode (PreimageHash row), hex_decode (Sender row), hex_decode (Receiver row)) of
        (Some p, Some s, Some r) \<Rightarrow> Some (GetVhtlcId sha p s r)
      | _ \<Rightarrow> None)"

fun backfill_rows ::
  "(bytes \<Rightarrow> bytes) \<Rightarrow> fault \<Rightarrow> legacy_vhtlc list \<Rightarrow> (string \<times> legacy_vhtlc) list \<Rightarrow>
     string + (string \<times> legacy_vhtlc) list" where
  "backfill_rows sha flt [] new = Inr new"
| "backfill_rows sha flt (row # rows) new =
     (case row_id sha row of
        None \<Rightarrow> Inl ''encoding/hex: invalid byte''
      | Some i \<Rightarrow>
          (case flt (''insert '' @ i) of
             Some e \<Rightarrow> Inl e
           | None \<Rightarrow>
               if i \<in> set (map fst new) then Inl ''UNIQUE constraint failed: vhtlc_new.id''
               else backfill_rows sha flt rows (new @ [(i, row)])))"

definition backfillVhtlc :: "(bytes \<Rightarrow> bytes) \<Rightarrow> fault \<Rightarrow> mig_db \<Rightarrow> err \<times> mig_db" where
  "backfillVhtlc sha flt db =
     (case flt ''begin'' of Some e \<Rightarrow> (Some e, db) | None \<Rightarrow>
     (case flt ''ListVHTLC'' of Some e \<Rightarrow> (Some e, db) | None \<Rightarrow>
     (case t_vhtlc_new db of
        None \<Rightarrow> (Some ''no such table: vhtlc_new'', db)
      | Some new \<Rightarrow>
          (case backfill_rows sha flt (vhtlc_rows (t_vhtlc db)) new of
             Inl e \<Rightarrow> (Some e, db)
           | Inr new' \<Rightarrow>
               (case flt ''commit backfill'' of
                  Some e \<Rightarrow> (Some e, db)
                | None \<Rightarrow> (None, db\<lparr>t_vhtlc_new := Some new'\<rparr>))))))"

definition swapVhtlcTables :: "fault \<Rightarrow> mig_db \<Rightarrow> err \<times> mig_db" where
  "swapVhtlcTables flt db =
     (case flt ''swap tables'' of
        Some e \<Rightarrow> (Some e, db)
      | None \<Rightarrow>
          (case t_vhtlc_new db of
             None \<Rightarrow> (Some ''no such table: vhtlc_new'', db)
           | Some new \<Rightarrow>
               if length (vhtlc_rows (t_vhtlc db)) \<noteq> length new
               then (Some (''backfill mismatch: vhtlc='' @ format_uint (length (vhtlc_rows (t_vhtlc db)))
                       @ '' vhtlc_new='' @ format_uint (length new)), db)
               else
                (case flt ''commit swap'' of
                   Some e \<Rightarrow> (Some e, db)
                 | None \<Rightarrow> (None, db\<lparr>t_vhtlc := With_id new, t_vhtlc_new := None\<rparr>))))"

text \<open>The join of \<open>fixSwapTableFK\<close>: the id of the VHTLC replaces its preimage hash.\<close>

definition swap_join :: "(string \<times> legacy_vhtlc) list \<Rightarrow> swap_row list \<Rightarrow> swap_row list" where
  "swap_join vs ss =
     concat (map (\<lambda>s. map (\<lambda>(i, _). s\<lparr>Swap_VhtlcId := i\<rparr>)
                         (filter (\<lambda>(_, v). PreimageHash v = Swap_VhtlcId s) vs)) ss)"

definition fixSwapTableFK :: "fault \<Rightarrow> mig_db \<Rightarrow> err \<times> mig_db" where
  "fixSwapTableFK flt db =
     (case flt ''fix swap'' of
        Some e \<Rightarrow> (Some e, db)
      | None \<Rightarrow>
          (case t_vhtlc db of
             Without_id _ \<Rightarrow> (Some ''copy data: no such column: v.id'', db)
           | With_id vs \<Rightarrow>
               (let ss = swap_join vs (t_swap db) in
                if \<not> distinct (map Swap_Id ss) then (Some ''copy data: UNIQUE constraint failed: swap_new.id'', db)
                else
                 (case flt ''commit fix'' of
                    Some e \<Rightarrow> (Some (''commit: '' @ e), db)
                  | None \<Rightarrow> (None, db\<lparr>t_swap := ss\<rparr>)))))"

definition BackfillVhtlc :: "(bytes \<Rightarrow> bytes) \<Rightarrow> fault \<Rightarrow> mig_db \<Rightarrow> err \<times> mig_db" where
  "BackfillVhtlc sha flt db =
     (case flt ''exists'' of
        Some e \<Rightarrow> (Some (''failed to verify updated vhtlc existence: '' @ e), db)
      | None \<Rightarrow>
          if has_id (t_vhtlc db) then (None, db)
          else
           (case ensureVhtlcNew flt db of
              (Some e, db1) \<Rightarrow> (Some (''failed to ensure vhtlc_new table: '' @ e), db1)
            | (None, db1) \<Rightarrow>
           (case backfillVhtlc sha flt db1 of
              (Some e, db2) \<Rightarrow> (Some (''failed to backfill vhtlc: '' @ e), db2)
            | (None, db2) \<Rightarrow>
           (case swapVhtlcTables flt db2 of
              (Some e, db3) \<Rightarrow> (Some (''failed to swap vhtlc tables: '' @ e), db3)
            | (None, db3) \<Rightarrow>
           (case fixSwapTableFK flt db3 of
              (Some e, db4) \<Rightarrow> (Some (''failed to fix swap table foreign keys: '' @ e), db4)
            | (None, db4) \<Rightarrow> (None, db4))))))"

section \<open>Opening the database\<close>

datatype mig_error = ErrNoChange | MigError string

record mig_state =
  mig_version :: nat
  mig_dirty :: bool
  tables :: mig_db

record migrator =
  m_Version :: "mig_state \<Rightarrow> string + nat option" \<comment> \<open>\<open>None\<close>: \<open>ErrNilVersion\<close>\<close>
  m_Migrate :: "nat \<Rightarrow> mig_state \<Rightarrow> mig_error option \<times> mig_state"
  m_Up :: "mig_state \<Rightarrow> mig_error option \<times> mig_state"

definition vhtlcMigrationBegin :: nat where "vhtlcMigrationBegin = 20250622101533"

definition run_up :: "migrator \<Rightarrow> mig_state \<Rightarrow> err \<times> mig_state" where
  "run_up M st =
     (case m_Up M st of
        (Some (MigError e), st') \<Rightarrow> (Some (''failed to run remaining migrations: '' @ e), st')
      | (_, st') \<Rightarrow> (None, st'))"

definition stepwise_migration ::
  "(bytes \<Rightarrow> bytes) \<Rightarrow> fault \<Rightarrow> migrator \<Rightarrow> mig_state \<Rightarrow> err \<times> mig_state" where
  "stepwise_migration sha flt M st =
     (case m_Version M st of
        Inl e \<Rightarrow> (Some (''failed to read migration version: '' @ e), st)
      | Inr v \<Rightarrow>
          if mig_dirty st
          then (Some ''database is in a dirty migration state; manual intervention required'', st)
          else if (case v of None \<Rightarrow> 0 | Some n \<Rightarrow> n) < vhtlcMigrationBegin
          then
           (case m_Migrate M vhtlcMigrationBegin st of
              (Some (MigError e), st') \<Rightarrow> (Some (''failed to run migrations: '' @ e), st')
            | (_, st') \<Rightarrow>
                (case BackfillVhtlc sha flt (tables st') of
                   (Some e, db) \<Rightarrow> (Some e, st'\<lparr>tables := db\<rparr>)
                 | (None, db) \<Rightarrow> run_up M (st'\<lparr>tables := db\<rparr>)))
          else run_up M st)"

text \<open>
  The elements of \<open>ServiceConfig.DbConfig\<close>; \<open>opened\<close> says which of the constructors of the
  repositories fail (by name). The sqlite branch answers the state the migrations leave.
\<close>

datatype db_arg = DirArg string | LoggerArg | NilArg | OtherArg

datatype db_service = BadgerService | SqliteService mig_state

definition open_repos :: "fault \<Rightarrow> 'a \<Rightarrow> string + 'a" where
  "open_repos flt r =
     (case flt ''open vhtlc'' of Some e \<Rightarrow> Inl (''failed to open vhtlc db: '' @ e) | None \<Rightarrow>
     (case flt ''open delegate'' of Some e \<Rightarrow> Inl (''failed to open delegate db: '' @ e) | None \<Rightarrow>
     (case flt ''open subscribed script'' of
        Some e \<Rightarrow> Inl (''failed to open subscribed script db: '' @ e)
      | None \<Rightarrow> Inr r)))"

definition open_badger :: "fault \<Rightarrow> db_arg list \<Rightarrow> string + db_service" where
  "open_badger flt cfg =
     (case cfg of
        [dir, logger] \<Rightarrow>
          (case dir of
             DirArg _ \<Rightarrow>
               if logger = LoggerArg \<or> logger = NilArg then open_repos flt BadgerService else Inl ''invalid logger''
           | _ \<Rightarrow> Inl ''invalid base directory'')
      | _ \<Rightarrow> Inl (''badger db config must have 2 elements, got '' @ format_uint (length cfg)))"

definition open_sqlite ::
  "(bytes \<Rightarrow> bytes) \<Rightarrow> fault \<Rightarrow> migrator \<Rightarrow> mig_state \<Rightarrow> db_arg list \<Rightarrow> (string + db_service) \<times> mig_state" where
  "open_sqlite sha flt M st cfg =
     (case cfg of
        [DirArg _] \<Rightarrow>
          (case flt ''open sqlite'' of
             Some e \<Rightarrow> (Inl (''failed to open sqlite db: '' @ e), st)
           | None \<Rightarrow>
               (case stepwise_migration sha flt M st of
                  (Some e, st') \<Rightarrow> (Inl e, st')
                | (None, st') \<Rightarrow> (open_repos flt (SqliteService st'), st')))
      | [_] \<Rightarrow> (Inl ''invalid base directory'', st)
      | _ \<Rightarrow> (Inl (''sqlite db config must have 1 element, got '' @ format_uint (length cfg)), st))"

definition db_NewService ::
  "(bytes \<Rightarrow> bytes) \<Rightarrow> fault \<Rightarrow> migrator \<Rightarrow> mig_state \<Rightarrow> string \<Rightarrow> db_arg list \<Rightarrow>
     (string + db_service) \<times> mig_state" where
  "db_NewService sha flt M st dbType cfg =
     (if dbType = ''badger'' then (open_badger flt cfg, st)
      else if dbType = ''sqlite'' then open_sqlite sha flt M st cfg
      else (Inl (''unsopported db type '' @ dbType @ '', please select one of badger,sqlite''), st))"

text \<open>The call of \<open>main\<close>.\<close>

definition main_db_config :: "string \<Rightarrow> db_arg list" where
  "main_db_config datadir = [DirArg datadir]"

section \<open>What a backfill does\<close>

lemma backfill_rows_Inr:
  "backfill_rows sha flt rows new = Inr new' \<Longrightarrow> distinct (map fst new) \<Longrightarrow>
     \<exists>vs. new' = new @ vs \<and> map snd vs = rows \<and> (\<forall>(i, r) \<in> set vs. row_id sha r = Some i) \<and> distinct (map fst new')"
proof (induction rows arbitrary: new)
  case (Cons row rows)
  then obtain i where i: "row_id sha row = Some i" "i \<notin> set (map fst new)"
    and rest: "backfill_rows sha flt rows (new @ [(i, row)]) = Inr new'"
    by (auto split: option.splits if_splits)
  from Cons.IH [OF rest] i Cons.prems(2) obtain vs where
    "new' = (new @ [(i, row)]) @ vs" "map snd vs = rows" "\<forall>(i, r) \<in> set vs. row_id sha r = Some i"
    "distinct (map fst new')" by auto
  then show ?case using i by (intro exI [of _ "(i, row) # vs"]) auto
qed simp

lemma backfillVhtlc_ok:
  assumes "backfillVhtlc sha flt db = (None, db')" "t_vhtlc_new db = Some []"
  obtains vs where "db' = db\<lparr>t_vhtlc_new := Some vs\<rparr>" "map snd vs = vhtlc_rows (t_vhtlc db)"
    "\<forall>(i, r) \<in> set vs. row_id sha r = Some i" "distinct (map fst vs)"
proof -
  from assms obtain vs where "backfill_rows sha flt (vhtlc_rows (t_vhtlc db)) [] = Inr vs"
    and db: "db' = db\<lparr>t_vhtlc_new := Some vs\<rparr>"
    by (auto simp: backfillVhtlc_def split: option.splits sum.splits)
  from backfill_rows_Inr [OF this(1)] db that show thesis by auto
qed

lemma swapVhtlcTables_ok:
  "swapVhtlcTables flt db = (None, db') \<Longrightarrow> t_vhtlc_new db = Some vs \<Longrightarrow>
     db' = db\<lparr>t_vhtlc := With_id vs, t_vhtlc_new := None\<rparr>"
  by (auto simp: swapVhtlcTables_def split: option.splits if_splits)

lemma fixSwapTableFK_ok:
  "fixSwapTableFK flt db = (None, db') \<Longrightarrow> t_vhtlc db = With_id vs \<Longrightarrow>
     db' = db\<lparr>t_swap := swap_join vs (t_swap db)\<rparr>"
  by (auto simp: fixSwapTableFK_def Let_def split: option.splits if_splits)

lemma BackfillVhtlc_ok:
  assumes "BackfillVhtlc sha flt db = (None, db')" "\<not> has_id (t_vhtlc db)"
    "t_vhtlc_new db = None \<or> t_vhtlc_new db = Some []"
  obtains vs where "t_vhtlc db' = With_id vs" "t_vhtlc_new db' = None" "t_swap db' = swap_join vs (t_swap db)"
    "map snd vs = vhtlc_rows (t_vhtlc db)" "\<forall>(i, r) \<in> set vs. row_id sha r = Some i" "distinct (map fst vs)"
proof -
  from assms obtain db1 db2 db3 where
    e: "ensureVhtlcNew flt db = (None, db1)" and b: "backfillVhtlc sha flt db1 = (None, db2)"
    and s: "swapVhtlcTables flt db2 = (None, db3)" and f: "fixSwapTableFK flt db3 = (None, db')"
    by (auto simp: BackfillVhtlc_def split: option.splits prod.splits)
  from e assms(3) have db1: "db1 = db\<lparr>t_vhtlc_new := Some []\<rparr>"
    by (auto simp: ensureVhtlcNew_def split: option.splits)
  then have "t_vhtlc_new db1 = Some []" by simp
  from backfillVhtlc_ok [OF b this] obtain vs where
    vs: "db2 = db1\<lparr>t_vhtlc_new := Some vs\<rparr>" "map snd vs = vhtlc_rows (t_vhtlc db1)"
      "\<forall>(i, r) \<in> set vs. row_id sha r = Some i" "distinct (map fst vs)" .
  from swapVhtlcTables_ok [OF s] vs(1) have "db3 = db2\<lparr>t_vhtlc := With_id vs, t_vhtlc_new := None\<rparr>" by simp
  with fixSwapTableFK_ok [OF f] vs db1 that show thesis by simp
qed

text \<open>With unique preimage hashes, each swap joins with the VHTLC it refers to and no other.\<close>

lemma swap_join_one:
  assumes "distinct (map (PreimageHash \<circ> snd) vs)" "(i, v) \<in> set vs"
  shows "filter (\<lambda>(_, w). PreimageHash w = PreimageHash v) vs = [(i, v)]"
  using assms
proof (induction vs)
  case (Cons x vs)
  show ?case
  proof (cases "x = (i, v)")
    case True
    with Cons.prems(1) have "filter (\<lambda>(_, w). PreimageHash w = PreimageHash v) vs = []"
      by (force simp: filter_empty_conv)
    then show ?thesis using True by simp
  next
    case False
    with Cons.prems have "PreimageHash (snd x) \<noteq> PreimageHash v" by force
    then show ?thesis using Cons False by (auto split: prod.splits)
  qed
qed simp

lemma swap_join_total:
  assumes "distinct (map (PreimageHash \<circ> snd) vs)" "\<forall>s \<in> set ss. Swap_VhtlcId s \<in> (PreimageHash \<circ> snd) ` set vs"
  shows "list_all2 (\<lambda>s s'. \<exists>(i, v) \<in> set vs. PreimageHash v = Swap_VhtlcId s \<and> s' = s\<lparr>Swap_VhtlcId := i\<rparr>)
           ss (swap_join vs ss)"
  using assms(2)
proof (induction ss)
  case (Cons s ss)
  then obtain i v where v: "(i, v) \<in> set vs" "PreimageHash v = Swap_VhtlcId s" by force
  from swap_join_one [OF assms(1) v(1)] v have
    "swap_join vs (s # ss) = s\<lparr>Swap_VhtlcId := i\<rparr> # swap_join vs ss" by (simp add: swap_join_def)
  then show ?case using Cons v by auto
qed (simp add: swap_join_def)

text \<open>
  C20: a backfill that succeeds keeps every VHTLC row, in order, under the id of its preimage hash
  and keys, and keeps every swap, in order, now referring to the id of the VHTLC it referred to by
  preimage hash; the ids are unique and the intermediate table is gone.
\<close>
theorem backfill_keeps_vhtlcs_and_swaps:
  assumes "t_vhtlc db = Without_id rows" "t_vhtlc_new db = None \<or> t_vhtlc_new db = Some []"
    and "distinct (map PreimageHash rows)" "\<forall>s \<in> set (t_swap db). Swap_VhtlcId s \<in> PreimageHash ` set rows"
    and "BackfillVhtlc sha flt db = (None, db')"
  shows "\<exists>vs. t_vhtlc db' = With_id vs \<and> t_vhtlc_new db' = None \<and> map snd vs = rows \<and> distinct (map fst vs) \<and>
    (\<forall>(i, r) \<in> set vs. row_id sha r = Some i) \<and>
    list_all2 (\<lambda>s s'. \<exists>(i, v) \<in> set vs. PreimageHash v = Swap_VhtlcId s \<and> s' = s\<lparr>Swap_VhtlcId := i\<rparr>)
      (t_swap db) (t_swap db')"
proof -
  have "\<not> has_id (t_vhtlc db)" using assms(1) by simp
  from BackfillVhtlc_ok [OF assms(5) this assms(2)] obtain vs where
    vs: "t_vhtlc db' = With_id vs" "t_vhtlc_new db' = None" "t_swap db' = swap_join vs (t_swap db)"
      "map snd vs = rows" "\<forall>(i, r) \<in> set vs. row_id sha r = Some i" "distinct (map fst vs)"
    using assms(1) by auto
  have "distinct (map (PreimageHash \<circ> snd) vs)" "(PreimageHash \<circ> snd) ` set vs = PreimageHash ` set rows"
    using assms(3) by (simp_all add: image_image image_comp flip: vs(4))
  from swap_join_total [OF this(1)] this(2) assms(4) have
    "list_all2 (\<lambda>s s'. \<exists>(i, v) \<in> set vs. PreimageHash v = Swap_VhtlcId s \<and> s' = s\<lparr>Swap_VhtlcId := i\<rparr>)
       (t_swap db) (t_swap db')" by (simp add: vs(3))
  with vs show ?thesis by (intro exI [of _ vs] conjI)
qed

definition demo_legacy :: "string \<Rightarrow> legacy_vhtlc" where
  "demo_legacy p =
     \<lparr>PreimageHash = p, Sender = ''01'', Receiver = ''02'', Server = ''03'', RefundLocktime = 7,
      UnilateralClaimDelayType = 0, UnilateralClaimDelayValue = 512,
      UnilateralRefundDelayType = 0, UnilateralRefundDelayValue = 1024,
      UnilateralRefundWithoutReceiverDelayType = 0, UnilateralRefundWithoutReceiverDelayValue = 2048\<rparr>"

definition demo_swap :: "string \<Rightarrow> string \<Rightarrow> swap_row" where
  "demo_swap i v =
     \<lparr>Swap_Id = i, Swap_Amount = 1, Swap_Timestamp = 2, Swap_To = ''a'', Swap_From = ''b'', Swap_Status = 0,
      Swap_Invoice = ''c'', Swap_FundingTxId = ''d'', Swap_RedeemTxId = ''e'', Swap_VhtlcId = v\<rparr>"

definition demo_mig :: mig_db where
  "demo_mig =
     \<lparr>t_vhtlc = Without_id [demo_legacy ''aa'', demo_legacy ''bb''], t_vhtlc_new = None,
      t_swap = [demo_swap ''s'' ''bb'']\<rparr>"

theorem backfill_keeps_vhtlcs_and_swaps_witness:
  "\<exists>db'. BackfillVhtlc id (\<lambda>_. None) demo_mig = (None, db') \<and>
     (\<exists>vs. t_vhtlc db' = With_id vs \<and> map snd vs = [demo_legacy ''aa'', demo_legacy ''bb''])"
proof -
  have "fst (BackfillVhtlc id (\<lambda>_. None) demo_mig) = None" by code_simp
  then obtain db' where b: "BackfillVhtlc id (\<lambda>_. None) demo_mig = (None, db')" by (metis prod.collapse)
  have "\<exists>vs. t_vhtlc db' = With_id vs \<and> t_vhtlc_new db' = None \<and>
      map snd vs = [demo_legacy ''aa'', demo_legacy ''bb''] \<and> distinct (map fst vs) \<and>
      (\<forall>(i, r) \<in> set vs. row_id id r = Some i) \<and>
      list_all2 (\<lambda>s s'. \<exists>(i, v) \<in> set vs. PreimageHash v = Swap_VhtlcId s \<and> s' = s\<lparr>Swap_VhtlcId := i\<rparr>)
        (t_swap demo_mig) (t_swap db')"
    by (rule backfill_keeps_vhtlcs_and_swaps [OF _ _ _ _ b])
       (simp_all add: demo_mig_def demo_legacy_def demo_swap_def)
  with b show ?thesis by (intro exI [of _ db'] conjI; elim exE conjE) (assumption | rule exI conjI)+
qed

text \<open>
  An upgrade that stops between the swap of the VHTLC tables and the rewriting of the swaps is
  never completed: the swaps still hold preimage hashes, and every later \<open>BackfillVhtlc\<close> answers
  success at once because the id column is there.
\<close>
theorem interrupted_backfill_is_not_resumed:
  assumes "\<not> has_id (t_vhtlc db)" "BackfillVhtlc sha flt db = (Some e, db')" "has_id (t_vhtlc db')"
    and "flt' ''exists'' = None"
  shows "t_swap db' = t_swap db \<and> BackfillVhtlc sha flt' db' = (None, db')"
proof -
  have "t_swap db' = t_swap db"
    using assms(2) by (auto simp: BackfillVhtlc_def ensureVhtlcNew_def backfillVhtlc_def swapVhtlcTables_def
        fixSwapTableFK_def Let_def split: option.splits sum.splits if_splits vhtlc_table.splits)
  then show ?thesis using assms(3,4) by (simp add: BackfillVhtlc_def)
qed

theorem interrupted_backfill_is_not_resumed_witness:
  "let r = BackfillVhtlc id (\<lambda>s. if s = ''fix swap'' then Some ''disk full'' else None) demo_mig in
   fst r \<noteq> None \<and> map Swap_VhtlcId (t_swap (snd r)) = [''bb''] \<and>
   BackfillVhtlc id (\<lambda>_. None) (snd r) = (None, snd r)"
proof -
  let ?flt = "\<lambda>s. if s = ''fix swap'' then Some ''disk full'' else None"
  have run: "fst (BackfillVhtlc id ?flt demo_mig) \<noteq> None" "has_id (t_vhtlc (snd (BackfillVhtlc id ?flt demo_mig)))"
    by code_simp+
  then obtain e db' where b: "BackfillVhtlc id ?flt demo_mig = (Some e, db')"
    by (cases "BackfillVhtlc id ?flt demo_mig") auto
  have "t_swap db' = t_swap demo_mig \<and> BackfillVhtlc id (\<lambda>_. None) db' = (None, db')"
    using run b by (intro interrupted_backfill_is_not_resumed [OF _ b]) (simp_all add: demo_mig_def)
  moreover have "map Swap_VhtlcId (t_swap demo_mig) = [''bb'']" by (simp add: demo_mig_def demo_swap_def)
  ultimately show ?thesis unfolding b by simp
qed

text \<open>
  A start whose backfill fails leaves the migration version past the point where the backfill
  is attempted, so the next start runs the remaining migrations without it.
\<close>
theorem failed_backfill_is_skipped_on_restart:
  assumes "m_Version M st = Inr v" "\<not> mig_dirty st" "(case v of None \<Rightarrow> 0 | Some n \<Rightarrow> n) < vhtlcMigrationBegin"
    and "m_Migrate M vhtlcMigrationBegin st = (None, st1)"
    and "BackfillVhtlc sha flt (tables st1) = (Some e, db)"
    and "m_Version M (st1\<lparr>tables := db\<rparr>) = Inr (Some n)" "vhtlcMigrationBegin \<le> n" "\<not> mig_dirty st1"
  shows "stepwise_migration sha flt M st = (Some e, st1\<lparr>tables := db\<rparr>)
    \<and> stepwise_migration sha flt' M (st1\<lparr>tables := db\<rparr>) = run_up M (st1\<lparr>tables := db\<rparr>)"
  using assms by (simp add: stepwise_migration_def)

definition demo_migrator :: migrator where
  "demo_migrator =
     \<lparr>m_Version = (\<lambda>st. Inr (if mig_version st = 0 then None else Some (mig_version st))),
      m_Migrate = (\<lambda>n st. (None, st\<lparr>mig_version := n\<rparr>)),
      m_Up = (\<lambda>st. (None, st\<lparr>mig_version := 20260720000000\<rparr>))\<rparr>"

theorem failed_backfill_is_skipped_on_restart_witness:
  "\<exists>st1. stepwise_migration id (\<lambda>s. if s = ''ListVHTLC'' then Some ''locked'' else None) demo_migrator
       \<lparr>mig_version = 0, mig_dirty = False, tables = demo_mig\<rparr> =
         (Some ''failed to backfill vhtlc: locked'', st1) \<and>
     (\<exists>st2. stepwise_migration id (\<lambda>_. None) demo_migrator st1 = (None, st2) \<and> \<not> has_id (t_vhtlc (tables st2)))"
proof -
  let ?flt = "\<lambda>s. if s = ''ListVHTLC'' then Some ''locked'' else None"
  let ?st = "\<lparr>mig_version = 0, mig_dirty = False, tables = demo_mig\<rparr>"
  let ?db = "demo_mig\<lparr>t_vhtlc_new := Some []\<rparr>"
  have b: "BackfillVhtlc id ?flt demo_mig = (Some ''failed to backfill vhtlc: locked'', ?db)"
    by (simp add: BackfillVhtlc_def demo_mig_def ensureVhtlcNew_def backfillVhtlc_def)
  have r: "stepwise_migration id ?flt demo_migrator ?st =
      (Some ''failed to backfill vhtlc: locked'', ?st\<lparr>mig_version := vhtlcMigrationBegin, tables := ?db\<rparr>)
    \<and> stepwise_migration id (\<lambda>_. None) demo_migrator (?st\<lparr>mig_version := vhtlcMigrationBegin, tables := ?db\<rparr>) =
      run_up demo_migrator (?st\<lparr>mig_version := vhtlcMigrationBegin, tables := ?db\<rparr>)"
    using failed_backfill_is_skipped_on_restart
      [of demo_migrator ?st None "?st\<lparr>mig_version := vhtlcMigrationBegin\<rparr>" id ?flt
        "''failed to backfill vhtlc: locked''" ?db vhtlcMigrationBegin "\<lambda>_. None"] b
    by (simp add: demo_migrator_def vhtlcMigrationBegin_def)
  then show ?thesis
    by (auto simp: run_up_def demo_migrator_def demo_mig_def)
qed

text \<open>
  Whatever the directory, the configuration \<open>main\<close> passes is refused by the badger branch, so
  the database type \<open>badger\<close>, which \<open>LoadConfig\<close> accepts, never opens.
\<close>
lemma badger_type_never_opens:
  "fst (db_NewService sha flt M st ''badger'' (main_db_config datadir)) =
     Inl ''badger db config must have 2 elements, got 1''"
proof -
  have "format_uint 1 = ''1''" by code_simp
  then show ?thesis by (simp add: db_NewService_def open_badger_def main_db_config_def)
qed

end
