(* ===== verification/Utils.thy ===== *)
theory Utils
  imports Prelude
begin

text \<open>
  \<open>utils/\<close>: the BIP21 helpers, URL validation, mnemonics and the retry loop; and the address line
  \<open>Service.NewAddress\<close> prints. The regular expressions are written out as what they match; the
  float conversions (\<open>strconv.ParseFloat\<close>, \<open>btcutil.NewAmount\<close>, \<open>Sprintf("%.8f")\<close>), \<open>url.Parse\<close>, BIP39
  and BIP32 are arguments.
\<close>

section \<open>Addresses\<close>

definition alnum_between :: "nat \<Rightarrow> nat \<Rightarrow> string \<Rightarrow> bool" where
  "alnum_between lo hi s = (lo \<le> length s \<and> length s \<le> hi \<and> list_all is_alnum s)"

definition match_after :: "string \<Rightarrow> nat \<Rightarrow> nat \<Rightarrow> string \<Rightarrow> bool" where
  "match_after p lo hi s = (has_prefix p s \<and> alnum_between lo hi (drop (length p) s))"

definition IsValidOffchainAddress :: "string \<Rightarrow> bool" where
  "IsValidOffchainAddress s = (match_after ''tark'' 110 118 s \<or> match_after ''ark'' 110 118 s)"

definition IsValidBtcAddress :: "string \<Rightarrow> bool" where
  "IsValidBtcAddress s =
     (match_after ''bc'' 25 62 s \<or> match_after ''tb'' 25 62 s \<or> match_after ''1'' 25 62 s \<or> match_after ''3'' 25 62 s)"

section \<open>BIP21\<close>

definition startsWithBitcoinPrefix :: "string \<Rightarrow> bool" where
  "startsWithBitcoinPrefix s = (8 \<le> length s \<and> take 8 s = ''bitcoin:'')"

fun find_param :: "string \<Rightarrow> (string \<Rightarrow> 'a option) \<Rightarrow> string list \<Rightarrow> 'a option" where
  "find_param key f [] = None"
| "find_param key f (param # params) =
     (case go_split2 CHR ''='' param of
        [k, v] \<Rightarrow>
          if k = key then (case f v of Some r \<Rightarrow> Some r | None \<Rightarrow> find_param key f params)
          else find_param key f params
      | _ \<Rightarrow> find_param key f params)"

definition bip21_params :: "string \<Rightarrow> string list" where
  "bip21_params bip21 =
     (case go_split CHR ''?'' bip21 of _ # q # _ \<Rightarrow> go_split CHR ''&'' q | _ \<Rightarrow> [])"

definition GetOffchainAddress :: "string \<Rightarrow> string" where
  "GetOffchainAddress bip21 =
     (case find_param ''ark'' (\<lambda>v. if IsValidOffchainAddress v then Some v else None) (bip21_params bip21) of
        Some a \<Rightarrow> a | None \<Rightarrow> [])"

definition GetBtcAddress :: "string \<Rightarrow> string" where
  "GetBtcAddress bip21 =
     (let aux = hd (go_split CHR ''?'' bip21) in
      if startsWithBitcoinPrefix aux
      then (case go_split CHR '':'' aux of
              _ # a # _ \<Rightarrow> if IsValidBtcAddress a then a else []
            | _ \<Rightarrow> [])
      else [])"

definition IsBip21 :: "string \<Rightarrow> bool" where
  "IsBip21 text =
     (startsWithBitcoinPrefix text \<and> 0 < length (GetBtcAddress text) + length (GetOffchainAddress text))"

text \<open>The first \<open>amount\<close> decides: an amount that does not parse or is not positive gives 0.\<close>

definition SatsFromBip21 ::
  "(string \<Rightarrow> 'f option) \<Rightarrow> ('f \<Rightarrow> int option) \<Rightarrow> string \<Rightarrow> u64" where
  "SatsFromBip21 ParseFloat NewAmount bip21 =
     (if \<not> IsBip21 bip21 then 0
      else
       (case find_param ''amount'' Some (bip21_params bip21) of
          None \<Rightarrow> 0
        | Some v \<Rightarrow>
            (case ParseFloat v of
               None \<Rightarrow> 0
             | Some btc \<Rightarrow>
                 (case NewAmount btc of
                    None \<Rightarrow> 0
                  | Some sats \<Rightarrow> if sats \<le> 0 then 0 else of_int sats))))"

text \<open>The address line of \<open>NewAddress\<close>; \<open>fmtBtc\<close> is \<open>Sprintf("%.8f", float64(sats) / 1e8)\<close>.\<close>

definition bip21_of :: "(u64 \<Rightarrow> string) \<Rightarrow> string \<Rightarrow> string \<Rightarrow> u64 \<Rightarrow> string" where
  "bip21_of fmtBtc boardingAddr offchainAddr sats =
     (let addr = ''bitcoin:'' @ boardingAddr @ ''?ark='' @ offchainAddr in
      if sats = 0 then addr else addr @ ''&amount='' @ fmtBtc sats)"

section \<open>URLs, mnemonics, derivation path\<close>

record url =
  Scheme :: string
  Host :: string
  Port :: string

definition IsValidURL :: "(string \<Rightarrow> string + url) \<Rightarrow> string \<Rightarrow> bool" where
  "IsValidURL parse s = (case parse s of Inl _ \<Rightarrow> False | Inr _ \<Rightarrow> True)"

definition ValidateURL :: "(string \<Rightarrow> string + url) \<Rightarrow> string \<Rightarrow> string + string" where
  "ValidateURL parse s0 =
     (let s = trim_space s0 in
      if s = [] then Inl ''url is empty''
      else
       (let s = (if go_contains s ''://'' then s else ''http://'' @ s) in
        case parse s of
          Inl e \<Rightarrow> Inl (''invalid url: '' @ e)
        | Inr u \<Rightarrow>
            if Scheme u \<noteq> ''http'' \<and> Scheme u \<noteq> ''https''
            then Inl (''unsupported scheme '' @ [CHR 0x22] @ Scheme u @ [CHR 0x22] @ ''; only http and https are allowed'')
            else if Host u = [] then Inl ''url missing host''
            else if Port u \<noteq> [] then Inr (Host u)
            else Inr s))"

text \<open>\<open>words\<close> is \<open>strings.Fields\<close>, \<open>checksum\<close> \<open>bip39.IsMnemonicValid\<close>.\<close>

definition IsValidMnemonic :: "(string \<Rightarrow> string list) \<Rightarrow> (string \<Rightarrow> bool) \<Rightarrow> string \<Rightarrow> err" where
  "IsValidMnemonic words checksum mnemonic =
     (if length (words mnemonic) \<noteq> 12 then Some ''must have 12 words''
      else if \<not> checksum mnemonic then Some ''invalid mnemonic''
      else None)"

definition HardenedKeyStart :: u32 where "HardenedKeyStart = 0x80000000"

definition getBIP86DerivationPath :: "string \<Rightarrow> u32 list" where
  "getBIP86DerivationPath network =
     (let coinType = (if network = ''bitcoin'' \<or> network = ''mainnet'' then 0 else 1) in
      [HardenedKeyStart + 86, HardenedKeyStart + coinType, HardenedKeyStart, 0, 0])"

fun derive :: "('k \<Rightarrow> u32 \<Rightarrow> string + 'k) \<Rightarrow> 'k \<Rightarrow> u32 list \<Rightarrow> string + 'k" where
  "derive child key [] = Inr key"
| "derive child key (i # is) = (case child key i of Inl e \<Rightarrow> Inl e | Inr k \<Rightarrow> derive child k is)"

definition PrivateKeyFromMnemonic ::
  "(string \<Rightarrow> bytes) \<Rightarrow> (bytes \<Rightarrow> string + 'k) \<Rightarrow> ('k \<Rightarrow> u32 \<Rightarrow> string + 'k) \<Rightarrow> ('k \<Rightarrow> bytes) \<Rightarrow>
     string \<Rightarrow> string \<Rightarrow> string + bytes" where
  "PrivateKeyFromMnemonic seed master child keyBytes mnemonic network =
     (case master (seed mnemonic) of
        Inl e \<Rightarrow> Inl e
      | Inr key \<Rightarrow>
          (case derive child key (getBIP86DerivationPath network) of Inl e \<Rightarrow> Inl e | Inr k \<Rightarrow> Inr (keyBytes k)))"

section \<open>Retry\<close>

text \<open>
  One round: what the context says and, if it is alive, what \<open>fn\<close> answers. The loop may run for
  ever, so the rounds are a function of their number and the result is partial.
\<close>

datatype ctx_state = Alive | DeadlineExceeded | Canceled

partial_function (option) retry_from ::
  "(nat \<Rightarrow> ctx_state) \<Rightarrow> (nat \<Rightarrow> string + bool) \<Rightarrow> nat \<Rightarrow> err option" where
  "retry_from ctx f n =
     (case ctx n of
        DeadlineExceeded \<Rightarrow> Some (Some ''timed out'')
      | Canceled \<Rightarrow> Some (Some ''context canceled'')
      | Alive \<Rightarrow>
          (case f n of
             Inl e \<Rightarrow> Some (Some e)
           | Inr decided \<Rightarrow> if decided then Some None else retry_from ctx f (Suc n)))"

definition Retry :: "(nat \<Rightarrow> ctx_state) \<Rightarrow> (nat \<Rightarrow> string + bool) \<Rightarrow> err option" where
  "Retry ctx f = retry_from ctx f 0"

text \<open>What one round answers; \<open>None\<close> when it says neither stop nor done.\<close>

definition round_answer :: "ctx_state \<Rightarrow> string + bool \<Rightarrow> err option" where
  "round_answer c r =
     (case c of
        DeadlineExceeded \<Rightarrow> Some (Some ''timed out'')
      | Canceled \<Rightarrow> Some (Some ''context canceled'')
      | Alive \<Rightarrow> (case r of Inl e \<Rightarrow> Some (Some e) | Inr decided \<Rightarrow> if decided then Some None else None))"

lemma retry_from_unfold:
  "retry_from ctx f n =
     (case round_answer (ctx n) (f n) of Some r \<Rightarrow> Some r | None \<Rightarrow> retry_from ctx f (Suc n))"
  by (subst retry_from.simps) (auto simp: round_answer_def split: ctx_state.splits sum.splits)

lemma retry_from_skip:
  "\<forall>k. n \<le> k \<and> k < m \<longrightarrow> round_answer (ctx k) (f k) = None \<Longrightarrow> n \<le> m \<Longrightarrow>
     retry_from ctx f n = retry_from ctx f m"
proof (induction "m - n" arbitrary: n)
  case 0
  then show ?case by simp
next
  case (Suc d)
  then have "n < m" "round_answer (ctx n) (f n) = None" by auto
  moreover have "retry_from ctx f (Suc n) = retry_from ctx f m" using Suc by auto
  ultimately show ?case by (subst retry_from_unfold) simp
qed

lemma retry_from_SomeD:
  assumes run: "retry_from ctx f n = Some r"
  shows "\<exists>m\<ge>n. round_answer (ctx m) (f m) = Some r \<and> (\<forall>k. n \<le> k \<and> k < m \<longrightarrow> round_answer (ctx k) (f k) = None)"
  using run
proof (rule retry_from.raw_induct [rotated, where P = "\<lambda>ctx f n r.
    \<exists>m\<ge>n. round_answer (ctx m) (f m) = Some r \<and> (\<forall>k. n \<le> k \<and> k < m \<longrightarrow> round_answer (ctx k) (f k) = None)"], goal_cases)
  case (1 rf ctx f n r)
  show ?case
  proof (cases "round_answer (ctx n) (f n)")
    case None
    then have "rf ctx f (Suc n) = Some r"
      using 1(2) by (auto simp: round_answer_def split: ctx_state.splits sum.splits if_splits)
    then obtain m where "Suc n \<le> m" "round_answer (ctx m) (f m) = Some r"
      "\<forall>k. Suc n \<le> k \<and> k < m \<longrightarrow> round_answer (ctx k) (f k) = None"
      using 1(1) by blast
    with None show ?thesis by (metis Suc_leD Suc_leI le_neq_implies_less)
  next
    case (Some a)
    then have "a = r"
      using 1(2) by (auto simp: round_answer_def split: ctx_state.splits sum.splits if_splits)
    with Some show ?thesis by (intro exI [of _ n]) auto
  qed
qed

text \<open>
  \<open>Retry\<close> returns exactly when some round decides, and then it gives the answer of the first
  round that does: an ended context, an error of \<open>fn\<close> or its success. With a context that never
  ends and a function that never succeeds it does not return.
\<close>

theorem retry_returns_first_decision:
  "Retry ctx f = Some r \<longleftrightarrow>
     (\<exists>n. round_answer (ctx n) (f n) = Some r \<and>
          list_all (\<lambda>k. round_answer (ctx k) (f k) = None) [0..<n])"
proof
  assume "Retry ctx f = Some r"
  then show "\<exists>n. round_answer (ctx n) (f n) = Some r \<and> list_all (\<lambda>k. round_answer (ctx k) (f k) = None) [0..<n]"
    using retry_from_SomeD [of ctx f 0 r] by (auto simp: Retry_def list_all_iff)
next
  assume "\<exists>n. round_answer (ctx n) (f n) = Some r \<and> list_all (\<lambda>k. round_answer (ctx k) (f k) = None) [0..<n]"
  then obtain n where n: "round_answer (ctx n) (f n) = Some r" "\<forall>k. 0 \<le> k \<and> k < n \<longrightarrow> round_answer (ctx k) (f k) = None"
    by (auto simp: list_all_iff)
  then have "retry_from ctx f 0 = retry_from ctx f n" using retry_from_skip [of 0 n] by simp
  then show "Retry ctx f = Some r" using n(1) by (simp add: Retry_def retry_from_unfold [of ctx f n])
qed

section \<open>What NewAddress prints, the BIP21 helpers read\<close>

lemma alnum_no_punct:
  "is_alnum c \<Longrightarrow> c \<noteq> CHR ''?'' \<and> c \<noteq> CHR '':'' \<and> c \<noteq> CHR ''&'' \<and> c \<noteq> CHR ''=''"
  by (auto simp: is_alnum_def)

lemma match_after_alnum:
  "match_after p lo hi s \<Longrightarrow> list_all is_alnum p \<Longrightarrow> list_all is_alnum s"
  unfolding match_after_def has_prefix_def alnum_between_def
  by (metis append_take_drop_id list_all_append)

lemma btc_alnum: "IsValidBtcAddress s \<Longrightarrow> list_all is_alnum s"
  unfolding IsValidBtcAddress_def by (auto elim!: match_after_alnum simp: is_alnum_def)

lemma ark_alnum: "IsValidOffchainAddress s \<Longrightarrow> list_all is_alnum s"
  unfolding IsValidOffchainAddress_def by (auto elim!: match_after_alnum simp: is_alnum_def)

lemma valid_nonempty:
  "IsValidOffchainAddress s \<Longrightarrow> s \<noteq> []" "IsValidBtcAddress s \<Longrightarrow> s \<noteq> []"
  by (auto simp: IsValidOffchainAddress_def IsValidBtcAddress_def match_after_def has_prefix_def)

lemma alnum_no_sep:
  assumes "list_all is_alnum s"
  shows "CHR ''?'' \<notin> set s" "CHR '':'' \<notin> set s" "CHR ''&'' \<notin> set s" "CHR ''='' \<notin> set s"
  using assms alnum_no_punct by (fastforce simp: list_all_iff)+

lemma go_split2_append: "c \<notin> set s \<Longrightarrow> go_split2 c (s @ c # t) = [s, t]"
  by (induction s) (auto simp: go_split2_def)

lemma bip21_shape:
  assumes btc: "IsValidBtcAddress b" and q: "CHR ''?'' \<notin> set q"
  shows "GetBtcAddress (''bitcoin:'' @ b @ CHR ''?'' # q) = b"
    and "bip21_params (''bitcoin:'' @ b @ CHR ''?'' # q) = go_split CHR ''&'' q"
proof -
  note b = alnum_no_sep [OF btc_alnum [OF btc]]
  have head: "go_split CHR ''?'' ((''bitcoin:'' @ b) @ CHR ''?'' # q) = [''bitcoin:'' @ b, q]"
    using b q by (subst go_split_append) (simp_all add: go_split_no_sep)
  have colon: "go_split CHR '':'' (''bitcoin'' @ CHR '':'' # b) = [''bitcoin'', b]"
    using b by (subst go_split_append) (simp_all add: go_split_no_sep)
  show "GetBtcAddress (''bitcoin:'' @ b @ CHR ''?'' # q) = b"
    using head colon btc by (simp add: GetBtcAddress_def startsWithBitcoinPrefix_def)
  show "bip21_params (''bitcoin:'' @ b @ CHR ''?'' # q) = go_split CHR ''&'' q"
    using head by (simp add: bip21_params_def)
qed

lemma find_param_hit:
  "CHR ''='' \<notin> set k \<Longrightarrow> f v = Some r \<Longrightarrow> find_param k f ((k @ CHR ''='' # v) # ps) = Some r"
  by (simp add: go_split2_append)

lemma find_param_other:
  "CHR ''='' \<notin> set k' \<Longrightarrow> k' \<noteq> k \<Longrightarrow>
     find_param k f ((k' @ CHR ''='' # v) # ps) = find_param k f ps"
  by (simp add: go_split2_append)

definition amount_text :: "string \<Rightarrow> bool" where
  "amount_text s = (list_all (\<lambda>c. is_alnum c \<or> c = CHR ''.'') s)"

lemma amount_no_sep:
  "amount_text s \<Longrightarrow> CHR ''?'' \<notin> set s \<and> CHR ''&'' \<notin> set s"
  by (auto simp: amount_text_def list_all_iff is_alnum_def)

definition bip21_query :: "(u64 \<Rightarrow> string) \<Rightarrow> string \<Rightarrow> u64 \<Rightarrow> string" where
  "bip21_query fmtBtc ark sats = ''ark='' @ ark @ (if sats = 0 then [] else ''&amount='' @ fmtBtc sats)"

lemma bip21_of_query: "bip21_of fmtBtc b ark sats = ''bitcoin:'' @ b @ CHR ''?'' # bip21_query fmtBtc ark sats"
  by (simp add: bip21_of_def bip21_query_def)

lemma bip21_query_params:
  assumes ark: "IsValidOffchainAddress ark" and amt: "sats \<noteq> 0 \<Longrightarrow> amount_text (fmtBtc sats)"
  shows "CHR ''?'' \<notin> set (bip21_query fmtBtc ark sats)"
    and "go_split CHR ''&'' (bip21_query fmtBtc ark sats) =
           (''ark'' @ CHR ''='' # ark) # (if sats = 0 then [] else [''amount'' @ CHR ''='' # fmtBtc sats])"
proof -
  note a = alnum_no_sep [OF ark_alnum [OF ark]]
  show "CHR ''?'' \<notin> set (bip21_query fmtBtc ark sats)"
    using a amount_no_sep [OF amt] by (auto simp: bip21_query_def)
  show "go_split CHR ''&'' (bip21_query fmtBtc ark sats) =
           (''ark'' @ CHR ''='' # ark) # (if sats = 0 then [] else [''amount'' @ CHR ''='' # fmtBtc sats])"
  proof (cases "sats = 0")
    case True
    then show ?thesis using a by (simp add: bip21_query_def go_split_no_sep)
  next
    case False
    then have "go_split CHR ''&'' ((''ark='' @ ark) @ CHR ''&'' # (''amount='' @ fmtBtc sats)) =
        [''ark='' @ ark, ''amount='' @ fmtBtc sats]"
      using a amount_no_sep [OF amt] by (subst go_split_append) (simp_all add: go_split_no_sep)
    then show ?thesis using False by (simp add: bip21_query_def)
  qed
qed

text \<open>
  C38: the BIP21 line \<open>NewAddress\<close> prints is recognised by \<open>IsBip21\<close> and read back by the form's
  helpers: the boarding address, the offchain address and, when the printed amount is read back as
  it was written, the amount; an amount of 0 is left out and read as 0.
\<close>

theorem bip21_roundtrip:
  assumes "IsValidBtcAddress b" and "IsValidOffchainAddress ark"
    and "sats \<noteq> 0 \<Longrightarrow> amount_text (fmtBtc sats)"
    and "sats \<noteq> 0 \<Longrightarrow> ParseFloat (fmtBtc sats) = Some btc \<and> NewAmount btc = Some (uint sats)"
  shows "IsBip21 (bip21_of fmtBtc b ark sats) \<and>
         GetBtcAddress (bip21_of fmtBtc b ark sats) = b \<and>
         GetOffchainAddress (bip21_of fmtBtc b ark sats) = ark \<and>
         SatsFromBip21 ParseFloat NewAmount (bip21_of fmtBtc b ark sats) = sats"
proof -
  let ?q = "bip21_query fmtBtc ark sats"
  note q = bip21_query_params [where fmtBtc = fmtBtc and sats = sats, OF assms(2,3)]
  note shape = bip21_shape [OF assms(1) q(1)]
  have 1: "GetBtcAddress (bip21_of fmtBtc b ark sats) = b"
    unfolding bip21_of_query by (rule shape(1))
  have params: "bip21_params (bip21_of fmtBtc b ark sats) =
      (''ark'' @ CHR ''='' # ark) # (if sats = 0 then [] else [''amount'' @ CHR ''='' # fmtBtc sats])"
    unfolding bip21_of_query by (rule trans [OF shape(2) q(2)])
  have 2: "GetOffchainAddress (bip21_of fmtBtc b ark sats) = ark"
    unfolding GetOffchainAddress_def params by (subst find_param_hit) (simp_all add: assms(2))
  have 3: "IsBip21 (bip21_of fmtBtc b ark sats)"
    using valid_nonempty(1) [OF assms(2)]
    by (simp add: IsBip21_def 1 2) (simp add: bip21_of_query startsWithBitcoinPrefix_def)
  have amount: "find_param ''amount'' Some (bip21_params (bip21_of fmtBtc b ark sats)) =
      (if sats = 0 then None else Some (fmtBtc sats))"
    unfolding params by (subst find_param_other) (simp_all add: go_split2_append [of "CHR ''=''" "''amount''", simplified])
  have "\<not> uint sats \<le> 0" if "sats \<noteq> 0" using that by (simp add: word_neq_0_conv word_less_def)
  then have 4: "SatsFromBip21 ParseFloat NewAmount (bip21_of fmtBtc b ark sats) = sats"
    using assms(4) 3 unfolding SatsFromBip21_def amount by (cases "sats = 0") simp_all
  with 1 2 3 4 show ?thesis by blast
qed

lemma bip21_roundtrip_witness:
  "SatsFromBip21 (\<lambda>s. if s = ''0.00001000'' then Some (1000 :: int) else None) Some
     (bip21_of (\<lambda>_. ''0.00001000'') (''bcrt1q'' @ replicate 38 CHR ''x'') (''tark1'' @ replicate 112 CHR ''z'') 1000) = 1000"
proof -
  have "IsValidBtcAddress (''bcrt1q'' @ replicate 38 CHR ''x'')" by code_simp
  moreover have "IsValidOffchainAddress (''tark1'' @ replicate 112 CHR ''z'')" by code_simp
  moreover have "amount_text ''0.00001000''" by code_simp
  ultimately show ?thesis
    using bip21_roundtrip [of "''bcrt1q'' @ replicate 38 CHR ''x''" "''tark1'' @ replicate 112 CHR ''z''" 1000
        "\<lambda>_. ''0.00001000''" "\<lambda>s. if s = ''0.00001000'' then Some (1000 :: int) else None" 1000 Some]
    by simp
qed

end
