(* ===== verification/WalletOps.thy ===== *)
theory WalletOps
  imports Lifecycle VhtlcRepo BatchHandler Utils
begin

text \<open>
  The wallet operations of \<open>application/service.go\<close> behind the gate \<open>isInitializedAndUnlocked\<close>:
  keys and addresses, balances, VTXO listings, VHTLCs, subscriptions, the configuration refresh and
  the clean-up of stale boarding outputs. What the SDK, its indexer and its explorer answer are
  arguments; the VHTLC and script repositories are the records of \<open>VhtlcRepo\<close> and \<open>ScriptsRepo\<close>.

  \<open>Crash\<close> is a panic (a nil pointer is followed), \<open>Error\<close> a returned error.
\<close>

datatype 'a result = Crash | Error string | Ok 'a

definition of_sum :: "string + 'a \<Rightarrow> 'a result" where
  "of_sum x = (case x of Inl e \<Rightarrow> Error e | Inr a \<Rightarrow> Ok a)"

definition bind_result :: "'a result \<Rightarrow> ('a \<Rightarrow> 'b result) \<Rightarrow> 'b result" where
  "bind_result x f = (case x of Crash \<Rightarrow> Crash | Error e \<Rightarrow> Error e | Ok a \<Rightarrow> f a)"

lemma bind_result_simps [simp]:
  "bind_result Crash f = Crash" "bind_result (Error e) f = Error e" "bind_result (Ok a) f = f a"
  by (simp_all add: bind_result_def)

lemma bind_result_Ok: "bind_result x f = Ok b \<longleftrightarrow> (\<exists>a. x = Ok a \<and> f a = Ok b)"
  by (cases x) simp_all

lemma of_sum_Ok [simp]: "of_sum x = Ok a \<longleftrightarrow> x = Inr a"
  by (simp add: of_sum_def split: sum.splits)

text \<open>The first lines of every operation.\<close>

definition gate :: "node \<Rightarrow> unit result" where
  "gate n = (case isInitializedAndUnlocked n of Some e \<Rightarrow> Error e | None \<Rightarrow> Ok ())"

definition init_gate :: "node \<Rightarrow> unit result" where
  "init_gate n = (if isInitialized n then Ok () else Error ''service not initialized'')"

lemma gate_Error [simp]: "isInitializedAndUnlocked n = Some e \<Longrightarrow> gate n = Error e"
  by (simp add: gate_def)

lemma gate_Ok [simp]: "isInitializedAndUnlocked n = None \<Longrightarrow> gate n = Ok ()"
  by (simp add: gate_def)

section \<open>Keys, addresses, balance, transactions\<close>

definition GetPubkey :: "crypto \<Rightarrow> (string \<Rightarrow> string + pubkey) \<Rightarrow> string \<Rightarrow> node \<Rightarrow> string result" where
  "GetPubkey L getKey keyIndex n =
     bind_result (gate n) (\<lambda>_.
     bind_result (of_sum (getKey keyIndex)) (\<lambda>key. Ok (hex_encode (SerializeCompressed L key))))"

text \<open>The BIP21 line, the offchain and the boarding address.\<close>

definition NewAddress ::
  "(u64 \<Rightarrow> string) \<Rightarrow> string + string \<Rightarrow> string + string \<Rightarrow> u64 \<Rightarrow> node \<Rightarrow> (string \<times> string \<times> string) result" where
  "NewAddress fmtBtc newBoarding newOffchain sats n =
     bind_result (gate n) (\<lambda>_.
     bind_result (of_sum newBoarding) (\<lambda>boardingAddr.
     bind_result (of_sum newOffchain) (\<lambda>offchainAddr.
     Ok (bip21_of fmtBtc boardingAddr offchainAddr sats, offchainAddr, boardingAddr))))"

definition GetTotalBalance :: "string + u64 \<Rightarrow> node \<Rightarrow> u64 result" where
  "GetTotalBalance balance n = bind_result (gate n) (\<lambda>_. of_sum balance)"

definition GetRound :: "(string \<Rightarrow> string + 'c) \<Rightarrow> string \<Rightarrow> node \<Rightarrow> 'c result" where
  "GetRound getCommitmentTx roundId n = bind_result (init_gate n) (\<lambda>_. of_sum (getCommitmentTx roundId))"

definition GetVirtualTxs :: "(string list \<Rightarrow> string + string list) \<Rightarrow> string list \<Rightarrow> node \<Rightarrow> string list result" where
  "GetVirtualTxs virtualTxs txids n = bind_result (init_gate n) (\<lambda>_. of_sum (virtualTxs txids))"

definition Settle :: "string + string \<Rightarrow> node \<Rightarrow> string result" where
  "Settle settle n = bind_result (gate n) (\<lambda>_. of_sum settle)"

definition SendOnChain :: "(string \<Rightarrow> u64 \<Rightarrow> string + string) \<Rightarrow> string \<Rightarrow> u64 \<Rightarrow> node \<Rightarrow> string result" where
  "SendOnChain collaborativeExit addr amount n = bind_result (gate n) (\<lambda>_. of_sum (collaborativeExit addr amount))"

section \<open>VTXO listings\<close>

text \<open>A VTXO of the wallet: the fields read besides those of the delegate service.\<close>

record wallet_vtxo = vtxo +
  Vtxo_Script :: string
  CreatedAt :: go_time
  SpentBy :: string
  SettledBy :: string
  ArkTxid :: string
  CommitmentTxids :: "string list"
  Preconfirmed :: bool

definition keep_of :: "string \<Rightarrow> (wallet_vtxo \<Rightarrow> bool) option" where
  "keep_of filterType =
     (if filterType = ''spendable'' then Some (\<lambda>v. \<not> Spent v \<and> \<not> IsRecoverable v \<and> \<not> Unrolled v)
      else if filterType = ''spent'' then Some (\<lambda>v. Spent v \<or> Swept v \<or> Unrolled v)
      else if filterType = ''recoverable'' then Some (\<lambda>v. IsRecoverable v \<and> \<not> Unrolled v)
      else if filterType = ''all'' then Some (\<lambda>_. True)
      else None)"

text \<open>
  \<open>page None\<close> is \<open>ListVtxos\<close> without a cursor, \<open>page (Some c)\<close> with one. The loop ends when a page
  brings an empty cursor; an indexer that always brings another one keeps it going for ever.
\<close>

partial_function (option) more_pages ::
  "(string option \<Rightarrow> string + wallet_vtxo list \<times> string) \<Rightarrow> string \<Rightarrow> wallet_vtxo list \<Rightarrow>
     (string + wallet_vtxo list) option" where
  "more_pages page cursor allVtxos =
     (if cursor = [] then Some (Inr allVtxos)
      else (case page (Some cursor) of
              Inl e \<Rightarrow> Some (Inl e)
            | Inr pg \<Rightarrow> more_pages page (snd pg) (allVtxos @ fst pg)))"

definition newest_first :: "wallet_vtxo list \<Rightarrow> wallet_vtxo list" where
  "newest_first = sort_key (\<lambda>v. - CreatedAt v)"

definition GetVtxos ::
  "(string option \<Rightarrow> string + wallet_vtxo list \<times> string) \<Rightarrow> string \<Rightarrow> node \<Rightarrow> wallet_vtxo list result option" where
  "GetVtxos page filterType n =
     (case isInitializedAndUnlocked n of
        Some e \<Rightarrow> Some (Error e)
      | None \<Rightarrow>
          (case keep_of filterType of
             None \<Rightarrow> Some (Error (''invalid filter type: '' @ filterType))
           | Some keep \<Rightarrow>
               (case page None of
                  Inl e \<Rightarrow> Some (Error e)
                | Inr pg \<Rightarrow>
                    map_option
                      (\<lambda>r. bind_result (of_sum r) (\<lambda>allVtxos. Ok (newest_first (filter keep allVtxos))))
                      (more_pages page (snd pg) (fst pg)))))"

section \<open>VHTLCs\<close>

record vhtlc_args =
  VSender :: "pubkey option"
  VReceiver :: "pubkey option"
  VPreimageHash :: bytes
  VRefundLocktime :: u32
  VUnilateralClaimDelay :: relative_locktime
  VUnilateralRefundDelay :: relative_locktime
  VUnilateralRefundWithoutReceiverDelay :: relative_locktime
  NonInteractiveReceiver :: bytes
  NonInteractiveEmulator :: "pubkey option"

text \<open>The script the SDK builds: its keys, what its methods answer, and its closures as their scripts
  and lock times.\<close>

record vhtlc_script =
  S_Sender :: pubkey
  S_Receiver :: pubkey
  S_Server :: pubkey
  S_Address :: "string \<Rightarrow> string + string"
  S_PkScript :: "string + bytes"
  S_Claim :: "string + bytes"
  S_Refund :: "string + bytes"
  S_RefundWithoutReceiver :: "string + bytes"
  S_UnilateralClaim :: "string + bytes"
  S_UnilateralRefund :: "string + bytes"
  S_UnilateralRefundWithoutReceiver :: "string + bytes"
  S_NonInteractiveClaim :: "(string + bytes) option"
  S_RefundLocktime :: u32
  S_UnilateralClaimDelay :: u32
  S_UnilateralRefundDelay :: u32
  S_UnilateralRefundWithoutReceiverDelay :: u32

text \<open>What \<open>CreateVHTLC\<close> and \<open>getVHTLCKeyIndex\<close> ask of the SDK; \<open>'m\<close> is the SDK's own state.\<close>

record ('m, 'c, 'h) vhtlc_sdk =
  SDK_CreateVHTLC :: "'m \<Rightarrow> vhtlc_args \<Rightarrow> (string + vhtlc_script) \<times> 'm"
  SDK_GetContracts :: "'m \<Rightarrow> string list \<Rightarrow> string + 'c list"
  SDK_GetHandler :: "'m \<Rightarrow> 'c \<Rightarrow> string + 'h"
  SDK_GetKeyRef :: "'h \<Rightarrow> 'c \<Rightarrow> string + string"
  SDK_GetKeyIndex :: "string \<Rightarrow> string + u32"

definition getVHTLCKeyIndex :: "('m, 'c, 'h) vhtlc_sdk \<Rightarrow> 'm \<Rightarrow> string \<Rightarrow> u64 result" where
  "getVHTLCKeyIndex W m scr =
     bind_result (of_sum (SDK_GetContracts W m [scr])) (\<lambda>contracts.
     case contracts of
       [c] \<Rightarrow>
         (case SDK_GetHandler W m c of
            Inl e \<Rightarrow> Error (''failed to get contract handler for vhtlc '' @ e @ '': %!w(MISSING)'')
          | Inr h \<Rightarrow>
             (case SDK_GetKeyRef W h c of
                Inl e \<Rightarrow> Error (''failed to get key ref for vhtlc '' @ e @ '': %!w(MISSING)'')
              | Inr keyId \<Rightarrow>
                 (case SDK_GetKeyIndex W keyId of
                    Inl e \<Rightarrow> Error (''failed to get key index for vhtlc '' @ e @ '': %!w(MISSING)'')
                  | Inr keyIndex \<Rightarrow> Ok (ucast keyIndex))))
     | _ \<Rightarrow> Error (''unexpected number of contracts: '' @ format_uint (length contracts)))"

record nic_address =
  HRP :: string
  Nic_PkScript :: "string + bytes"

record vhtlc_request =
  R_Receiver :: "pubkey option"
  R_Sender :: "pubkey option"
  R_PreimageHash :: bytes
  R_RefundLocktime :: "u32 option"
  R_UnilateralClaimDelay :: "relative_locktime option"
  R_UnilateralRefundDelay :: "relative_locktime option"
  R_UnilateralRefundWithoutReceiverDelay :: "relative_locktime option"
  R_NonInteractive :: "nic_address option"

definition or_default :: "'a \<Rightarrow> 'a option \<Rightarrow> 'a" where
  "or_default d x = (case x of None \<Rightarrow> d | Some a \<Rightarrow> a)"

text \<open>The defaults; \<open>time.Now().Add(24h).Unix()\<close> is kept to 32 bits by \<open>AbsoluteLocktime\<close>.\<close>

definition vhtlc_defaults :: "go_time \<Rightarrow> vhtlc_request \<Rightarrow> bytes \<Rightarrow> pubkey option \<Rightarrow> vhtlc_args" where
  "vhtlc_defaults now r nicReceiver nicEmulator =
     \<lparr>VSender = R_Sender r, VReceiver = R_Receiver r, VPreimageHash = R_PreimageHash r,
      VRefundLocktime = or_default (of_int (unix_of_time (now + 24 * hour))) (R_RefundLocktime r),
      VUnilateralClaimDelay = or_default (LocktimeSecond 512) (R_UnilateralClaimDelay r),
      VUnilateralRefundDelay = or_default (LocktimeSecond 1024) (R_UnilateralRefundDelay r),
      VUnilateralRefundWithoutReceiverDelay = or_default (LocktimeBlock 2048) (R_UnilateralRefundWithoutReceiverDelay r),
      NonInteractiveReceiver = nicReceiver, NonInteractiveEmulator = nicEmulator\<rparr>"

text \<open>\<open>cfgAddr\<close> is \<open>cfg.Network.Addr\<close>, \<open>None\<close> when \<open>GetConfigData\<close> fails: its error is dropped and
  the nil \<open>cfg\<close> is followed where the network prefix is needed.\<close>

definition nic_option ::
  "pubkey option \<Rightarrow> string option \<Rightarrow> nic_address option \<Rightarrow> (bytes \<times> pubkey option) result" where
  "nic_option emulatorPubKey cfgAddr nic =
     (case nic of
        None \<Rightarrow> Ok ([], None)
      | Some a \<Rightarrow>
          (case emulatorPubKey of
             None \<Rightarrow> Error ''non-interactive claims are disabled: missing EMULATOR_PUBKEY''
           | Some k \<Rightarrow>
               (case cfgAddr of
                  None \<Rightarrow> Crash
                | Some net \<Rightarrow>
                    if HRP a \<noteq> net then Error ''non-interactive claim address has wrong network''
                    else (case Nic_PkScript a of
                            Inl _ \<Rightarrow> Error ''invalid non-interactive claim address''
                          | Inr s \<Rightarrow> Ok (s, Some k)))))"

text \<open>What is answered of the script the SDK built, before the record is added.\<close>

definition vhtlc_answer ::
  "crypto \<Rightarrow> (bytes \<Rightarrow> bytes) \<Rightarrow> ('m, 'c, 'h) vhtlc_sdk \<Rightarrow> string option \<Rightarrow> vhtlc_request \<Rightarrow> 'm \<Rightarrow> vhtlc_script \<Rightarrow>
     (string \<times> string \<times> string \<times> u64) result" where
  "vhtlc_answer L sha W cfgAddr r m vs =
     (case cfgAddr of
        None \<Rightarrow> Crash
      | Some net \<Rightarrow>
          bind_result (of_sum (S_Address vs net)) (\<lambda>encodedAddr.
          bind_result (of_sum (S_PkScript vs)) (\<lambda>pkScript.
          bind_result (getVHTLCKeyIndex W m (hex_encode pkScript)) (\<lambda>keyIndex.
          Ok (encodedAddr,
              GetVhtlcId sha (R_PreimageHash r) (SerializeCompressed L (S_Sender vs)) (SerializeCompressed L (S_Receiver vs)),
              hex_encode pkScript, keyIndex)))))"

definition CreateVHTLC ::
  "crypto \<Rightarrow> (bytes \<Rightarrow> bytes) \<Rightarrow> ('m, 'c, 'h) vhtlc_sdk \<Rightarrow> 's vhtlc_repo \<Rightarrow> pubkey option \<Rightarrow> string option \<Rightarrow>
     go_time \<Rightarrow> vhtlc_request \<Rightarrow> node \<Rightarrow> 'm \<times> 's \<Rightarrow> (string \<times> string \<times> vhtlc_script \<times> u64) result \<times> 'm \<times> 's" where
  "CreateVHTLC L sha W R emulatorPubKey cfgAddr now r n st =
     (case st of (m, s) \<Rightarrow>
       (case bind_result (gate n) (\<lambda>_. nic_option emulatorPubKey cfgAddr (R_NonInteractive r)) of
          Crash \<Rightarrow> (Crash, m, s)
        | Error e \<Rightarrow> (Error e, m, s)
        | Ok (nicReceiver, nicEmulator) \<Rightarrow>
            (case SDK_CreateVHTLC W m (vhtlc_defaults now r nicReceiver nicEmulator) of
               (Inl e, m') \<Rightarrow> (Error e, m', s)
             | (Inr vs, m') \<Rightarrow>
                 (case vhtlc_answer L sha W cfgAddr r m' vs of
                    Crash \<Rightarrow> (Crash, m', s)
                  | Error e \<Rightarrow> (Error e, m', s)
                  | Ok (encodedAddr, vhtlcId, scr, keyIndex) \<Rightarrow>
                      (case V_Add R s (NewVhtlc vhtlcId scr) of
                         (Some e, s') \<Rightarrow> (Error (''failed to add vhtlc: '' @ e), m', s')
                       | (None, s') \<Rightarrow> (Ok (encodedAddr, vhtlcId, vs, keyIndex), m', s'))))))"

definition getVHTLCsFunds :: "(string list \<Rightarrow> string + wallet_vtxo list) \<Rightarrow> vhtlc list \<Rightarrow> wallet_vtxo list result" where
  "getVHTLCsFunds indexVtxos vhtlcs = of_sum (indexVtxos (map Vhtlc_Script vhtlcs))"

definition ListVHTLCs ::
  "'s vhtlc_repo \<Rightarrow> (string list \<Rightarrow> string + wallet_vtxo list) \<Rightarrow> string list \<Rightarrow> node \<Rightarrow> 's \<Rightarrow> wallet_vtxo list result" where
  "ListVHTLCs R indexVtxos vhtlcIds n s =
     bind_result (gate n) (\<lambda>_.
     if vhtlcIds = [] then Ok []
     else bind_result (of_sum (V_GetByIds R s vhtlcIds)) (getVHTLCsFunds indexVtxos))"

text \<open>\<open>claim\<close> is the SDK's \<open>ClaimVHTLC\<close> on a script, a preimage and the optional outpoint.\<close>

definition ClaimVHTLC ::
  "'s vhtlc_repo \<Rightarrow> (string \<Rightarrow> bytes \<Rightarrow> (string \<times> u32) option \<Rightarrow> string + string) \<Rightarrow>
     bytes \<Rightarrow> string \<Rightarrow> (string \<times> u32) option \<Rightarrow> node \<Rightarrow> 's \<Rightarrow> string result" where
  "ClaimVHTLC R claim preimage vhtlc_id op n s =
     bind_result (gate n) (\<lambda>_.
     bind_result (of_sum (V_Get R s vhtlc_id)) (\<lambda>v. of_sum (claim (Vhtlc_Script v) preimage op)))"

definition RefundVHTLC ::
  "'s vhtlc_repo \<Rightarrow> (string \<Rightarrow> (string \<times> u32) option \<Rightarrow> string + string) \<Rightarrow>
     string \<Rightarrow> string \<Rightarrow> bool \<Rightarrow> (string \<times> u32) option \<Rightarrow> node \<Rightarrow> 's \<Rightarrow> string result" where
  "RefundVHTLC R unilateralRefund swapId vhtlc_id withReceiver op n s =
     bind_result (gate n) (\<lambda>_.
     bind_result (of_sum (V_Get R s vhtlc_id)) (\<lambda>v. of_sum (unilateralRefund (Vhtlc_Script v) op)))"

text \<open>\<open>contracts\<close> is the SDK's \<open>ListVHTLCs\<close> by scripts, \<open>pendingTx\<close> is \<open>getPendingVHTLCTx\<close>.\<close>

definition getVHTLCSpendingTx ::
  "(string list \<Rightarrow> string + 'v list) \<Rightarrow> (string list \<Rightarrow> string + wallet_vtxo list) \<Rightarrow>
     (wallet_vtxo \<Rightarrow> 'v \<Rightarrow> string + string) \<Rightarrow> (string list \<Rightarrow> string + string list) \<Rightarrow> vhtlc \<Rightarrow> string result" where
  "getVHTLCSpendingTx contracts indexVtxos pendingTx virtualTxs v =
     bind_result (of_sum (contracts [Vhtlc_Script v])) (\<lambda>vhtlcs.
     case vhtlcs of
       [] \<Rightarrow> Error (''no contract found for vhtlc '' @ Vhtlc_Id v @ '' with script '' @ Vhtlc_Script v)
     | vhtlcScript # _ \<Rightarrow>
         bind_result (getVHTLCsFunds indexVtxos [v]) (\<lambda>vtxos.
         case vtxos of
           [] \<Rightarrow> Ok []
         | vt # _ \<Rightarrow>
             if SpentBy vt \<noteq> [] \<and> SettledBy vt = [] \<and> ArkTxid vt = []
             then (case pendingTx vt vhtlcScript of
                     Inl e \<Rightarrow> Error (''failed to get pending tx: '' @ e)
                   | Inr tx \<Rightarrow> Ok tx)
             else (case virtualTxs [ArkTxid vt] of
                     Inl e \<Rightarrow> Error (''failed to get virtual tx: '' @ e)
                   | Inr [] \<Rightarrow> Error (''no virtual tx found for txid '' @ ArkTxid vt)
                   | Inr (tx # _) \<Rightarrow> Ok tx)))"

definition GetVHTLCSpendingTx ::
  "'s vhtlc_repo \<Rightarrow> (string list \<Rightarrow> string + 'v list) \<Rightarrow> (string list \<Rightarrow> string + wallet_vtxo list) \<Rightarrow>
     (wallet_vtxo \<Rightarrow> 'v \<Rightarrow> string + string) \<Rightarrow> (string list \<Rightarrow> string + string list) \<Rightarrow>
     string \<Rightarrow> node \<Rightarrow> 's \<Rightarrow> string result" where
  "GetVHTLCSpendingTx R contracts indexVtxos pendingTx virtualTxs vhtlcId n s =
     bind_result (gate n) (\<lambda>_.
     (case V_Get R s vhtlcId of
        Inl e \<Rightarrow> Error (''failed to get VHTLC '' @ vhtlcId @ '': '' @ e)
      | Inr v \<Rightarrow> getVHTLCSpendingTx contracts indexVtxos pendingTx virtualTxs v))"

section \<open>Address subscriptions\<close>

text \<open>\<open>p2tr\<close> is \<open>txscript.PayToTaprootScript\<close> of the address's VTXO key.\<close>

fun offchainAddressesPkScripts ::
  "crypto \<Rightarrow> (address \<Rightarrow> string + bytes) \<Rightarrow> string list \<Rightarrow> string + string list" where
  "offchainAddressesPkScripts L p2tr [] = Inr []"
| "offchainAddressesPkScripts L p2tr (addr # addrs) =
     (case DecodeAddressV0 L addr of
        Inl e \<Rightarrow> Inl (''failed to decode address '' @ addr @ '': '' @ e)
      | Inr decoded \<Rightarrow>
          (case p2tr decoded of
             Inl e \<Rightarrow> Inl (''failed to parse address to p2tr script: '' @ e)
           | Inr scr \<Rightarrow>
               (case offchainAddressesPkScripts L p2tr addrs of
                  Inl e \<Rightarrow> Inl e
                | Inr scripts \<Rightarrow> Inr (hex_encode scr # scripts))))"

text \<open>The gate, the scripts, then \<open>f\<close> on the handler of the node and the store of scripts.\<close>

definition on_subscription ::
  "crypto \<Rightarrow> (address \<Rightarrow> string + bytes) \<Rightarrow>
     (string list \<Rightarrow> subscriptionHandler \<times> 's \<Rightarrow> err \<times> subscriptionHandler \<times> 's) \<Rightarrow>
     string list \<Rightarrow> node \<times> 's \<Rightarrow> unit result \<times> node \<times> 's" where
  "on_subscription L p2tr f addresses st =
     (case st of (n, s) \<Rightarrow>
       (case bind_result (gate n) (\<lambda>_. of_sum (offchainAddressesPkScripts L p2tr addresses)) of
          Crash \<Rightarrow> (Crash, n, s)
        | Error e \<Rightarrow> (Error e, n, s)
        | Ok scripts \<Rightarrow>
            (case externalSubscription n of
               None \<Rightarrow> (Crash, n, s)
             | Some h \<Rightarrow>
                 (case f scripts (h, s) of
                    (er, h', s') \<Rightarrow>
                      (case er of Some e \<Rightarrow> Error e | None \<Rightarrow> Ok (), n\<lparr>externalSubscription := Some h'\<rparr>, s')))))"

definition SubscribeForAddresses ::
  "crypto \<Rightarrow> (address \<Rightarrow> string + bytes) \<Rightarrow> 's scripts_repo \<Rightarrow> (string list \<Rightarrow> string + string) \<Rightarrow>
     (string \<Rightarrow> string list \<Rightarrow> string list \<Rightarrow> err) \<Rightarrow> string list \<Rightarrow> node \<times> 's \<Rightarrow> unit result \<times> node \<times> 's" where
  "SubscribeForAddresses L p2tr R newSub upd = on_subscription L p2tr (subscribe R newSub upd)"

definition UnsubscribeForAddresses ::
  "crypto \<Rightarrow> (address \<Rightarrow> string + bytes) \<Rightarrow> 's scripts_repo \<Rightarrow>
     (string \<Rightarrow> string list \<Rightarrow> string list \<Rightarrow> err) \<Rightarrow> string list \<Rightarrow> node \<times> 's \<Rightarrow> unit result \<times> node \<times> 's" where
  "UnsubscribeForAddresses L p2tr R upd = on_subscription L p2tr (unsubscribe R upd)"

section \<open>Stale boarding outputs\<close>

definition utxo_key :: "string \<times> u32 \<Rightarrow> string" where
  "utxo_key op = (case op of (txid, vout) \<Rightarrow> txid @ CHR '':'' # format_uint (unat vout))"

definition stale_outpoints :: "(string \<times> u32) list \<Rightarrow> (string \<times> u32) list \<Rightarrow> (string \<times> u32) list" where
  "stale_outpoints spendable explorerUtxos =
     (let onchainUtxos = utxo_key ` set explorerUtxos in
      filter (\<lambda>u. utxo_key u \<notin> onchainUtxos) spendable)"

text \<open>
  \<open>addresses\<close>, \<open>stored\<close> and \<open>explore\<close> are what \<open>GetAddresses\<close>, \<open>GetAllUtxos\<close> and the explorer answer;
  \<open>delete\<close> is the store's \<open>DeleteUtxos\<close>. Every failure is logged and ends the call.
\<close>

definition sanitize ::
  "string + string list \<Rightarrow> ('u \<Rightarrow> string + (string \<times> u32) list) \<Rightarrow> (string list \<Rightarrow> string + (string \<times> u32) list) \<Rightarrow>
     ((string \<times> u32) list \<Rightarrow> 'u \<Rightarrow> (string + nat) \<times> 'u) \<Rightarrow> 'u \<Rightarrow> 'u" where
  "sanitize addresses stored explore delete u =
     (case addresses of
        Inl _ \<Rightarrow> u
      | Inr boardingAddrs \<Rightarrow>
          (case stored u of
             Inl _ \<Rightarrow> u
           | Inr spendable \<Rightarrow>
               if spendable = [] then u
               else
                (case explore boardingAddrs of
                   Inl _ \<Rightarrow> u
                 | Inr explorerUtxos \<Rightarrow>
                     (let staleOutpoints = stale_outpoints spendable explorerUtxos in
                      if staleOutpoints = [] then u else snd (delete staleOutpoints u)))))"

section \<open>Start-up and the configuration\<close>

record server_config =
  ForfeitAddress :: string
  ForfeitPubKey :: pubkey
  CheckpointTapscript :: string
  ExplorerURL :: string
  Config_rest :: string \<comment> \<open>the fields the refresh copies without reading\<close>

record server_info =
  Info_ForfeitAddress :: string
  Info_ForfeitPubKey :: string
  Info_CheckpointTapscript :: string

text \<open>\<open>addData\<close> is the store's \<open>AddData\<close>; the second component says what was written, if anything.\<close>

definition RefreshServerConfig ::
  "crypto \<Rightarrow> string + server_config \<Rightarrow> string + server_info \<Rightarrow> (server_config \<Rightarrow> err) \<Rightarrow> bool \<Rightarrow>
     err \<times> server_config option" where
  "RefreshServerConfig L config getInfo addData initialized =
     (if \<not> initialized then (Some ''service not initialized'', None)
      else case config of
        Inl e \<Rightarrow> (Some (''failed to read current config: '' @ e), None)
      | Inr currentCfg \<Rightarrow>
         (case getInfo of
            Inl e \<Rightarrow> (Some (''failed to get server info: '' @ e), None)
          | Inr info \<Rightarrow>
             (case hex_decode (Info_ForfeitPubKey info) of
                None \<Rightarrow> (Some ''failed to decode forfeit pubkey'', None)
              | Some buf \<Rightarrow>
                 (case ParsePubKey L buf of
                    Inl e \<Rightarrow> (Some (''failed to parse forfeit pubkey: '' @ e), None)
                  | Inr forfeitPubkey \<Rightarrow>
                      if Info_ForfeitAddress info = ForfeitAddress currentCfg \<and>
                         forfeitPubkey = ForfeitPubKey currentCfg \<and>
                         Info_CheckpointTapscript info = CheckpointTapscript currentCfg
                      then (None, None)
                      else
                       (let newCfg = currentCfg\<lparr>ForfeitAddress := Info_ForfeitAddress info, ForfeitPubKey := forfeitPubkey,
                              CheckpointTapscript := Info_CheckpointTapscript info\<rparr>
                        in case addData newCfg of
                             Some e \<Rightarrow> (Some (''failed to persist updated config: '' @ e), None)
                           | None \<Rightarrow> (None, Some newCfg))))))"

definition loadSingleKeyIdentity :: "string + 'st \<Rightarrow> ('st \<Rightarrow> string + bytes option) \<Rightarrow> ('st \<Rightarrow> string + 'i) \<Rightarrow> string + 'i option" where
  "loadSingleKeyIdentity newStore getData newIdentity =
     (case newStore of
        Inl e \<Rightarrow> Inl (''failed to initialize wallet store: '' @ e)
      | Inr st \<Rightarrow>
          (case getData st of
             Inr (Some _) \<Rightarrow> (case newIdentity st of Inl e \<Rightarrow> Inl e | Inr i \<Rightarrow> Inr (Some i))
           | _ \<Rightarrow> Inr None))"

text \<open>
  \<open>newService\<close>: \<open>loadWallet\<close> and \<open>newWallet\<close> take the optional identity, \<open>config\<close> reads the wallet's
  configuration (the explorer of the loaded wallet comes from it), \<open>refresh\<close> is
  \<open>RefreshServerConfig\<close> on it.
\<close>

definition newService ::
  "err \<Rightarrow> string + 'i option \<Rightarrow> ('i option \<Rightarrow> string + 'w) \<Rightarrow> ('i option \<Rightarrow> string + 'w) \<Rightarrow> ('w \<Rightarrow> string + server_config) \<Rightarrow>
     ('w \<Rightarrow> err) \<Rightarrow> bool \<Rightarrow> string \<Rightarrow> string + 'w \<times> node" where
  "newService storeErr ident loadWallet newWallet config refresh enabled esploraUrl =
     (case storeErr of
        Some e \<Rightarrow> Inl (''failed to initialize config store: '' @ e)
      | None \<Rightarrow>
     (case ident of
        Inl e \<Rightarrow> Inl e
      | Inr ident \<Rightarrow>
     (case loadWallet ident of
        Inr w \<Rightarrow>
          (case config w of
             Inl e \<Rightarrow> Inl e
           | Inr cfg \<Rightarrow>
               (case refresh w of
                  Some e \<Rightarrow> Inl e
                | None \<Rightarrow> Inr (w, newService_node True enabled (ExplorerURL cfg))))
      | Inl e \<Rightarrow>
          if \<not> go_contains e ''not initialized'' then Inl e
          else (case newWallet ident of
                  Inl e \<Rightarrow> Inl e
                | Inr w \<Rightarrow> Inr (w, newService_node False enabled esploraUrl)))))"

definition emulator_key :: "crypto \<Rightarrow> string \<Rightarrow> string + pubkey option" where
  "emulator_key L emulatorPubkeyHex =
     (if emulatorPubkeyHex = [] then Inr None
      else (case hex_decode emulatorPubkeyHex of
              None \<Rightarrow> Inl ''invalid emulator pubkey hex''
            | Some pubBytes \<Rightarrow>
                (case ParsePubKey L pubBytes of
                   Inl e \<Rightarrow> Inl (''parse emulator pubkey: '' @ e)
                 | Inr k \<Rightarrow> Inr (Some k))))"

text \<open>\<open>NewServices\<close>: the delegate service exists exactly when delegation is enabled.\<close>

definition NewServices ::
  "crypto \<Rightarrow> string \<Rightarrow> (pubkey option \<Rightarrow> bool \<Rightarrow> string + 'w \<times> node) \<Rightarrow> bool \<Rightarrow> u64 \<Rightarrow>
     string + 'w \<times> node \<times> u64 option" where
  "NewServices L emulatorPubkeyHex newSvc enabled fee =
     (case emulator_key L emulatorPubkeyHex of
        Inl e \<Rightarrow> Inl e
      | Inr emulatorPubKey \<Rightarrow>
          (case newSvc emulatorPubKey enabled of
             Inl e \<Rightarrow> Inl e
           | Inr (w, n) \<Rightarrow> Inr (w, n, if enabled then Some fee else None)))"

end
