(* ===== verification/PendingTx.thy ===== *)
theory PendingTx
  imports WalletOps LifecycleProps
begin

text \<open>
  The proof the wallet signs to ask the server for a pending transaction
  (\<open>getPendingTxIntent\<close> and \<open>extractTaprootLeaf\<close> of \<open>application/utils.go\<close>, \<open>getPendingVHTLCTx\<close> of
  \<open>service.go\<close>). The scripts, the taproot tree and the intent of ark-lib are the fields of
  \<open>intent_lib\<close>.
\<close>

record leaf_proof =
  ControlBlock :: bytes
  Proof_Script :: bytes

record 'c pending_input =
  Pend_Txid :: string
  Pend_VOut :: u32
  Pend_Amount :: u64
  Pend_Tapscripts :: "string list"
  Pend_Closure :: 'c
  Pend_Sequence :: u32
  ConditionWitness :: "bytes list"

record intent_input =
  In_OutPoint :: outpoint
  In_Sequence :: u32
  In_WitnessUtxo :: tx_out

datatype unknown = TapTreeField bytes | WitnessField "bytes list" | OtherField bytes

record proof_input =
  Taproot_Leaf :: "(bytes \<times> bytes \<times> 8 word) list"
  Unknowns :: "unknown list"

record proof_tx =
  Proof_Inputs :: "proof_input list"
  LockTime :: u32

record ('c, 'vs, 'key, 'tree) intent_lib =
  ParseVtxoScript :: "string list \<Rightarrow> string + 'vs"
  ClosureScript :: "'c \<Rightarrow> string + bytes"
  TapTree :: "'vs \<Rightarrow> string + 'key \<times> 'tree"
  GetTaprootMerkleProof :: "'tree \<Rightarrow> bytes \<Rightarrow> string + leaf_proof"
  P2TRScript :: "'key \<Rightarrow> string + bytes"
  EncodeTapTree :: "string list \<Rightarrow> string + bytes"
  EncodeMessage :: "int \<Rightarrow> string + string"
  IntentNew :: "string \<Rightarrow> intent_input list \<Rightarrow> string + proof_tx"
  SetConditionWitness :: "proof_tx \<Rightarrow> nat \<Rightarrow> bytes list \<Rightarrow> string + proof_tx"
  EncodeProof :: "proof_tx \<Rightarrow> string + string"

definition extractTaprootLeaf ::
  "crypto \<Rightarrow> ('c, 'vs, 'key, 'tree) intent_lib \<Rightarrow> string list \<Rightarrow> 'c \<Rightarrow> (bytes \<times> leaf_proof) result" where
  "extractTaprootLeaf L B tapscripts closure =
     bind_result (of_sum (ParseVtxoScript B tapscripts)) (\<lambda>vtxoScript.
     bind_result (of_sum (ClosureScript B closure)) (\<lambda>leafScript.
     bind_result (of_sum (TapTree B vtxoScript)) (\<lambda>(taprootKey, taprootTree).
     case GetTaprootMerkleProof B taprootTree (TapLeafHash L BaseLeafVersion leafScript) of
       Inl e \<Rightarrow> Error (''failed to get taproot merkle proof: '' @ e)
     | Inr leafProof \<Rightarrow>
         bind_result (of_sum (P2TRScript B taprootKey)) (\<lambda>pkScript. Ok (pkScript, leafProof)))))"

text \<open>What the first loop computes of one input: the intent's input, its leaf and its ark field.\<close>

definition prepare_input ::
  "crypto \<Rightarrow> ('c, 'vs, 'key, 'tree) intent_lib \<Rightarrow> 'c pending_input \<Rightarrow> (intent_input \<times> leaf_proof \<times> unknown) result" where
  "prepare_input L B d =
     (case NewHashFromStr (Pend_Txid d) of
        None \<Rightarrow> Error ''invalid txid''
      | Some hash \<Rightarrow>
          bind_result (extractTaprootLeaf L B (Pend_Tapscripts d) (Pend_Closure d)) (\<lambda>(pkScript, leafProof).
          bind_result (of_sum (EncodeTapTree B (Pend_Tapscripts d))) (\<lambda>taptreeField.
          Ok (\<lparr>In_OutPoint = \<lparr>op_hash = hash, op_index = Pend_VOut d\<rparr>, In_Sequence = Pend_Sequence d,
                In_WitnessUtxo = \<lparr>Value = Pend_Amount d, PkScript = pkScript\<rparr>\<rparr>, leafProof, TapTreeField taptreeField))))"

fun prepare_inputs ::
  "crypto \<Rightarrow> ('c, 'vs, 'key, 'tree) intent_lib \<Rightarrow> 'c pending_input list \<Rightarrow>
     (intent_input \<times> leaf_proof \<times> unknown) list result" where
  "prepare_inputs L B [] = Ok []"
| "prepare_inputs L B (d # ds) =
     bind_result (prepare_input L B d) (\<lambda>x. bind_result (prepare_inputs L B ds) (\<lambda>xs. Ok (x # xs)))"

definition leaf_script :: "leaf_proof \<Rightarrow> (bytes \<times> bytes \<times> 8 word) list" where
  "leaf_script p = [(ControlBlock p, Proof_Script p, BaseLeafVersion)]"

text \<open>
  The second loop: input 0 gets the first leaf, input \<open>i\<close> the leaf and the field of index \<open>i - 1\<close>; an
  index out of range is a panic (\<open>None\<close>).
\<close>

fun attach_leaves :: "leaf_proof list \<Rightarrow> unknown list \<Rightarrow> nat \<Rightarrow> proof_input list \<Rightarrow> proof_input list option" where
  "attach_leaves leafProofs arkFields i [] = Some []"
| "attach_leaves leafProofs arkFields i (inp # inps) =
     (if length leafProofs \<le> i - 1 \<or> (0 < i \<and> length arkFields \<le> i - 1) then None
      else
       (let inp = (if i = 0 then inp else inp\<lparr>Unknowns := [arkFields ! (i - 1)]\<rparr>);
            inp = inp\<lparr>Taproot_Leaf := leaf_script (leafProofs ! (i - 1))\<rparr>
        in map_option (\<lambda>r. inp # r) (attach_leaves leafProofs arkFields (Suc i) inps)))"

fun set_witnesses ::
  "('c, 'vs, 'key, 'tree) intent_lib \<Rightarrow> nat \<Rightarrow> 'c pending_input list \<Rightarrow> proof_tx \<Rightarrow> string + proof_tx" where
  "set_witnesses B i [] p = Inr p"
| "set_witnesses B i (d # ds) p =
     (if ConditionWitness d = [] then set_witnesses B (Suc i) ds p
      else (case SetConditionWitness B p (Suc i) (ConditionWitness d) of
              Inl e \<Rightarrow> Inl e
            | Inr p' \<Rightarrow> set_witnesses B (Suc i) ds p'))"

definition build_proof ::
  "crypto \<Rightarrow> ('c, 'vs, 'key, 'tree) intent_lib \<Rightarrow> string \<Rightarrow> 'c pending_input list \<Rightarrow> u32 \<Rightarrow>
     (intent_input \<times> leaf_proof \<times> unknown) list \<Rightarrow> proof_tx result" where
  "build_proof L B message inputsData locktime prep =
     bind_result (of_sum (IntentNew B message (map fst prep))) (\<lambda>proof.
     case attach_leaves (map (\<lambda>x. fst (snd x)) prep) (map (\<lambda>x. snd (snd x)) prep) 0 (Proof_Inputs proof) of
       None \<Rightarrow> Crash
     | Some ins \<Rightarrow> of_sum (set_witnesses B 0 inputsData (proof\<lparr>LockTime := locktime, Proof_Inputs := ins\<rparr>)))"

definition getPendingTxIntent ::
  "crypto \<Rightarrow> ('c, 'vs, 'key, 'tree) intent_lib \<Rightarrow> go_time \<Rightarrow> 'c pending_input list \<Rightarrow> u32 \<Rightarrow> (string \<times> string) result" where
  "getPendingTxIntent L B now inputsData locktime =
     (if inputsData = [] then Error ''missing pending vtxos''
      else
       bind_result (prepare_inputs L B inputsData) (\<lambda>prep.
       bind_result (of_sum (EncodeMessage B (unix_of_time (now + 600 * second)))) (\<lambda>message.
       bind_result (build_proof L B message inputsData locktime prep) (\<lambda>proof.
       bind_result (of_sum (EncodeProof B proof)) (\<lambda>encodedProof. Ok (encodedProof, message))))))"

text \<open>The script of the VHTLC: its revealed leaves and the refund path without the receiver.\<close>

record 'c vhtlc_paths =
  RevealedTapscripts :: "string list"
  RefundWithoutReceiver :: 'c
  RefundLocktime_u32 :: u32

definition getPendingVHTLCTx ::
  "crypto \<Rightarrow> ('c, 'vs, 'key, 'tree) intent_lib \<Rightarrow> (string \<Rightarrow> string + string) \<Rightarrow> (string \<Rightarrow> string \<Rightarrow> string + string list) \<Rightarrow>
     go_time \<Rightarrow> wallet_vtxo \<Rightarrow> 'c vhtlc_paths \<Rightarrow> string result" where
  "getPendingVHTLCTx L B sign getPendingTx now vt vs =
     bind_result
       (getPendingTxIntent L B now
          [\<lparr>Pend_Txid = Vtxo_Txid vt, Pend_VOut = Vtxo_VOut vt, Pend_Amount = Amount vt,
            Pend_Tapscripts = RevealedTapscripts vs, Pend_Closure = RefundWithoutReceiver vs,
            Pend_Sequence = MaxTxInSequenceNum - 1, ConditionWitness = []\<rparr>]
          (RefundLocktime_u32 vs)) (\<lambda>(proof, message).
     case sign proof of
       Inl e \<Rightarrow> Error (''failed to sign pending tx proof: '' @ e)
     | Inr signedProof \<Rightarrow>
         bind_result (of_sum (getPendingTx signedProof message)) (\<lambda>pendingTxs.
         case pendingTxs of [] \<Rightarrow> Error ''no pending txs found'' | finalArkTx # _ \<Rightarrow> Ok finalArkTx))"

section \<open>Every input carries its own leaf\<close>

lemma attach_leaves_nth:
  "attach_leaves ps fs i inps = Some out \<Longrightarrow>
     length out = length inps \<and>
     (\<forall>k < length inps. Taproot_Leaf (out ! k) = leaf_script (ps ! (i + k - 1)) \<and>
        (0 < i + k \<longrightarrow> Unknowns (out ! k) = [fs ! (i + k - 1)]))"
proof (induction ps fs i inps arbitrary: out rule: attach_leaves.induct)
  case (2 ps fs i inp inps)
  let ?inp = "(if i = 0 then inp else inp\<lparr>Unknowns := [fs ! (i - 1)]\<rparr>)\<lparr>Taproot_Leaf := leaf_script (ps ! (i - 1))\<rparr>"
  from 2(2) obtain r where r: "\<not> (length ps \<le> i - 1 \<or> (0 < i \<and> length fs \<le> i - 1))"
    "attach_leaves ps fs (Suc i) inps = Some r" "out = ?inp # r"
    by (auto simp: Let_def split: if_splits)
  note IH = 2(1) [OF r(1) refl refl r(2)]
  show ?case
  proof (intro conjI allI impI)
    show "length out = length (inp # inps)" using IH r(3) by simp
  next
    fix k assume k: "k < length (inp # inps)"
    show "Taproot_Leaf (out ! k) = leaf_script (ps ! (i + k - 1))" using IH r(3) k by (cases k) auto
    show "Unknowns (out ! k) = [fs ! (i + k - 1)]" if "0 < i + k" using IH r(3) k that by (cases k) auto
  qed
qed simp

lemma attach_leaves_total:
  "i + length inps \<le> Suc (length ps) \<Longrightarrow> length fs = length ps \<Longrightarrow> 0 < length ps \<Longrightarrow> attach_leaves ps fs i inps \<noteq> None"
proof (induction ps fs i inps rule: attach_leaves.induct)
  case (2 ps fs i inp inps)
  then have r: "\<not> (length ps \<le> i - 1 \<or> (0 < i \<and> length fs \<le> i - 1))" "Suc i + length inps \<le> Suc (length ps)"
    by (simp_all del: length_greater_0_conv) arith
  from 2(1) [OF r(1) refl refl r(2) 2(3,4)] r(1) show ?case by (auto simp: Let_def)
qed simp

lemma prepare_inputs_Ok:
  "prepare_inputs L B ds = Ok xs \<longleftrightarrow> list_all2 (\<lambda>d x. prepare_input L B d = Ok x) ds xs"
  by (induction ds arbitrary: xs) (auto simp: bind_result_Ok list_all2_Cons1)

text \<open>
  What the code relies on of the library: the intent has one input of its own before the given
  ones, and setting the condition witness of an input appends it to the fields of that input.
\<close>

definition intent_ok :: "('c, 'vs, 'key, 'tree) intent_lib \<Rightarrow> bool" where
  "intent_ok B \<longleftrightarrow>
     (\<forall>msg ins p. IntentNew B msg ins = Inr p \<longrightarrow> length (Proof_Inputs p) = Suc (length ins)) \<and>
     (\<forall>p i w p'. SetConditionWitness B p i w = Inr p' \<longrightarrow>
        i < length (Proof_Inputs p) \<and>
        p' = p\<lparr>Proof_Inputs := (Proof_Inputs p)[i := (Proof_Inputs p ! i)
                 \<lparr>Unknowns := Unknowns (Proof_Inputs p ! i) @ [WitnessField w]\<rparr>]\<rparr>)"

definition witness_field :: "'c pending_input \<Rightarrow> unknown list" where
  "witness_field d = (if ConditionWitness d = [] then [] else [WitnessField (ConditionWitness d)])"

lemma set_witnesses_nth:
  assumes "intent_ok B" "set_witnesses B i ds p = Inr q"
  shows "LockTime q = LockTime p \<and> length (Proof_Inputs q) = length (Proof_Inputs p) \<and>
     (\<forall>k. Taproot_Leaf (Proof_Inputs q ! k) = Taproot_Leaf (Proof_Inputs p ! k)) \<and>
     (\<forall>k < length ds. i + k + 1 < length (Proof_Inputs p) \<longrightarrow> Unknowns (Proof_Inputs q ! (i + k + 1)) =
        Unknowns (Proof_Inputs p ! (i + k + 1)) @ witness_field (ds ! k)) \<and>
     (\<forall>k \<le> i. Unknowns (Proof_Inputs q ! k) = Unknowns (Proof_Inputs p ! k))"
  using assms(2)
proof (induction ds arbitrary: i p)
  case (Cons d ds)
  obtain p1 where p1: "set_witnesses B (Suc i) ds p1 = Inr q"
    and same: "LockTime p1 = LockTime p" "length (Proof_Inputs p1) = length (Proof_Inputs p)"
      "\<And>k. Taproot_Leaf (Proof_Inputs p1 ! k) = Taproot_Leaf (Proof_Inputs p ! k)"
      "\<And>k. k \<noteq> Suc i \<Longrightarrow> Proof_Inputs p1 ! k = Proof_Inputs p ! k"
      "Suc i < length (Proof_Inputs p) \<Longrightarrow>
         Unknowns (Proof_Inputs p1 ! Suc i) = Unknowns (Proof_Inputs p ! Suc i) @ witness_field d"
  proof (cases "ConditionWitness d = []")
    case True
    with Cons.prems that [of p] show thesis by (simp add: witness_field_def)
  next
    case False
    with Cons.prems obtain p' where p': "SetConditionWitness B p (Suc i) (ConditionWitness d) = Inr p'"
      "set_witnesses B (Suc i) ds p' = Inr q" by (auto split: sum.splits)
    from assms(1) p'(1) have "Suc i < length (Proof_Inputs p)"
      "p' = p\<lparr>Proof_Inputs := (Proof_Inputs p)[Suc i := (Proof_Inputs p ! Suc i)
                 \<lparr>Unknowns := Unknowns (Proof_Inputs p ! Suc i) @ [WitnessField (ConditionWitness d)]\<rparr>]\<rparr>"
      unfolding intent_ok_def by blast+
    with False p'(2) show thesis by (intro that [of p']) (auto simp: witness_field_def nth_list_update)
  qed
  note IH = Cons.IH [OF p1]
  show ?case
  proof (intro conjI allI impI)
    show "LockTime q = LockTime p" "length (Proof_Inputs q) = length (Proof_Inputs p)"
      using IH same(1,2) by auto
    show "Taproot_Leaf (Proof_Inputs q ! k) = Taproot_Leaf (Proof_Inputs p ! k)" for k
      using IH same(3) by auto
    show "Unknowns (Proof_Inputs q ! (i + k + 1)) = Unknowns (Proof_Inputs p ! (i + k + 1)) @ witness_field ((d # ds) ! k)"
      if k: "k < length (d # ds)" "i + k + 1 < length (Proof_Inputs p)" for k
    proof (cases k)
      case 0
      with IH same(5) k show ?thesis by simp
    next
      case (Suc j)
      with IH k same(2) have "Unknowns (Proof_Inputs q ! (Suc i + j + 1)) =
          Unknowns (Proof_Inputs p1 ! (Suc i + j + 1)) @ witness_field (ds ! j)" by simp
      with Suc same(4) show ?thesis by simp
    qed
    show "Unknowns (Proof_Inputs q ! k) = Unknowns (Proof_Inputs p ! k)" if "k \<le> i" for k
      using IH same(4) [of k] that by simp
  qed
qed simp

lemma prepare_input_no_crash: "prepare_input L B d \<noteq> Crash"
  by (auto simp: prepare_input_def extractTaprootLeaf_def bind_result_def of_sum_def
      split: option.splits result.splits sum.splits)

lemma prepare_inputs_no_crash: "prepare_inputs L B ds \<noteq> Crash"
proof (induction ds)
  case (Cons d ds)
  with prepare_input_no_crash [of L B d] show ?case by (auto simp: bind_result_def split: result.splits)
qed simp

lemma prepare_input_OkD:
  assumes "prepare_input L B d = Ok x"
  shows "\<exists>pk tree. extractTaprootLeaf L B (Pend_Tapscripts d) (Pend_Closure d) = Ok (pk, fst (snd x)) \<and>
     EncodeTapTree B (Pend_Tapscripts d) = Inr tree \<and> snd (snd x) = TapTreeField tree"
  using assms by (auto simp: prepare_input_def bind_result_Ok split: option.splits)

text \<open>An input of the proof holds what belongs to one of the given inputs.\<close>

definition own_leaf :: "crypto \<Rightarrow> ('c, 'vs, 'key, 'tree) intent_lib \<Rightarrow> 'c pending_input \<Rightarrow> proof_input \<Rightarrow> bool" where
  "own_leaf L B d inp \<longleftrightarrow>
     (\<exists>pk leaf tree.
        extractTaprootLeaf L B (Pend_Tapscripts d) (Pend_Closure d) = Ok (pk, leaf) \<and>
        EncodeTapTree B (Pend_Tapscripts d) = Inr tree \<and>
        Taproot_Leaf inp = leaf_script leaf \<and> Unknowns inp = TapTreeField tree # witness_field d)"

lemma build_proof_not_crash:
  assumes "intent_ok B" "ds \<noteq> []" "prepare_inputs L B ds = Ok prep"
  shows "build_proof L B msg ds lt prep \<noteq> Crash"
proof (cases "IntentNew B msg (map fst prep)")
  case (Inr p)
  from assms(3) have len: "length prep = length ds" by (simp add: prepare_inputs_Ok list_all2_lengthD)
  from assms(1) Inr have "length (Proof_Inputs p) = Suc (length prep)" by (simp add: intent_ok_def)
  with len assms(2) have "attach_leaves (map (\<lambda>x. fst (snd x)) prep) (map (\<lambda>x. snd (snd x)) prep) 0 (Proof_Inputs p) \<noteq> None"
    by (intro attach_leaves_total) auto
  with Inr show ?thesis by (auto simp: build_proof_def of_sum_def split: sum.splits)
qed (simp add: build_proof_def of_sum_def)

lemma build_proof_inputs:
  assumes B: "intent_ok B" and len: "length prep = length ds"
    and run: "build_proof L B msg ds lt prep = Ok q" and k: "k < length ds"
  shows "LockTime q = lt \<and> length (Proof_Inputs q) = Suc (length ds) \<and>
     Taproot_Leaf (Proof_Inputs q ! Suc k) = leaf_script (fst (snd (prep ! k))) \<and>
     Unknowns (Proof_Inputs q ! Suc k) = snd (snd (prep ! k)) # witness_field (ds ! k)"
proof -
  from run obtain p ins where p: "IntentNew B msg (map fst prep) = Inr p"
    "attach_leaves (map (\<lambda>x. fst (snd x)) prep) (map (\<lambda>x. snd (snd x)) prep) 0 (Proof_Inputs p) = Some ins"
    "set_witnesses B 0 ds (p\<lparr>LockTime := lt, Proof_Inputs := ins\<rparr>) = Inr q"
    by (auto simp: build_proof_def bind_result_Ok split: option.splits)
  have n: "length (Proof_Inputs p) = Suc (length ds)" using B p(1) len by (simp add: intent_ok_def)
  note a = attach_leaves_nth [OF p(2)] and w = set_witnesses_nth [OF B p(3)]
  have "Taproot_Leaf (ins ! Suc k) = leaf_script (fst (snd (prep ! k)))" "Unknowns (ins ! Suc k) = [snd (snd (prep ! k))]"
    using a n k len by auto
  with w a n k show ?thesis by simp
qed

text \<open>
  C33: when the intent has one input more than was given, the proof for pending transactions is built
  without an index out of range, and in the proof that is encoded every given input sits one place
  further with the leaf of its own closure, the tree of its own scripts and, when it has one, its
  own condition witness; the lock time is the one asked for.
\<close>

theorem pending_inputs_carry_own_leaf:
  assumes "intent_ok B"
  shows "case getPendingTxIntent L B now ds lt of
      Crash \<Rightarrow> False
    | Error e \<Rightarrow> True
    | Ok (enc, msg) \<Rightarrow>
        \<exists>q. EncodeProof B q = Inr enc \<and> LockTime q = lt \<and> length (Proof_Inputs q) = Suc (length ds) \<and>
          list_all (\<lambda>k. own_leaf L B (ds ! k) (Proof_Inputs q ! Suc k)) [0..<length ds]"
proof (cases "getPendingTxIntent L B now ds lt")
  case Crash
  then have "ds \<noteq> []" by (auto simp: getPendingTxIntent_def)
  with Crash build_proof_not_crash [OF assms this] prepare_inputs_no_crash [of L B ds] show ?thesis
    by (auto simp: getPendingTxIntent_def bind_result_def of_sum_def split: result.splits sum.splits)
next
  case Error
  then show ?thesis by simp
next
  case (Ok r)
  obtain enc msg where r: "r = (enc, msg)" by force
  from Ok r obtain prep q where run: "ds \<noteq> []" "prepare_inputs L B ds = Ok prep"
    "build_proof L B msg ds lt prep = Ok q" "EncodeProof B q = Inr enc"
    by (auto simp: getPendingTxIntent_def bind_result_Ok split: if_splits)
  have all: "list_all2 (\<lambda>d x. prepare_input L B d = Ok x) ds prep" using run(2) by (simp add: prepare_inputs_Ok)
  then have len: "length prep = length ds" by (simp add: list_all2_lengthD)
  note q = build_proof_inputs [OF assms len run(3)]
  have "0 < length ds" using run(1) by simp
  note ends = q [OF this]
  have "own_leaf L B (ds ! k) (Proof_Inputs q ! Suc k)" if "k < length ds" for k
    using prepare_input_OkD [of L B "ds ! k" "prep ! k"] list_all2_nthD [OF all that] q [OF that]
    by (auto simp: own_leaf_def)
  then have "list_all (\<lambda>k. own_leaf L B (ds ! k) (Proof_Inputs q ! Suc k)) [0..<length ds]"
    by (simp add: list_all_iff)
  with ends run(4) show ?thesis unfolding Ok r result.case prod.case by blast
qed

definition demo_lib :: "(bytes, unit, unit, unit) intent_lib" where
  "demo_lib =
     \<lparr>ParseVtxoScript = \<lambda>_. Inr (), ClosureScript = Inr, TapTree = \<lambda>_. Inr ((), ()),
      GetTaprootMerkleProof = \<lambda>_ h. Inr \<lparr>ControlBlock = [], Proof_Script = h\<rparr>, P2TRScript = \<lambda>_. Inr [],
      EncodeTapTree = \<lambda>ts. Inr (map of_char (concat ts)), EncodeMessage = \<lambda>t. Inr ''message'',
      IntentNew = \<lambda>_ ins. Inr \<lparr>Proof_Inputs = replicate (Suc (length ins)) \<lparr>Taproot_Leaf = [], Unknowns = []\<rparr>, LockTime = 0\<rparr>,
      SetConditionWitness = \<lambda>p i w. if i < length (Proof_Inputs p)
        then Inr (p\<lparr>Proof_Inputs := (Proof_Inputs p)[i := (Proof_Inputs p ! i)
               \<lparr>Unknowns := Unknowns (Proof_Inputs p ! i) @ [WitnessField w]\<rparr>]\<rparr>)
        else Inl ''index'',
      EncodeProof = \<lambda>q. if LockTime q = 9 then Inr ''proof'' else Inl ''''\<rparr>"

definition demo_pending :: "bytes \<Rightarrow> bytes list \<Rightarrow> bytes pending_input" where
  "demo_pending c w =
     \<lparr>Pend_Txid = ''aa'', Pend_VOut = 0, Pend_Amount = 5, Pend_Tapscripts = [''s''], Pend_Closure = c,
      Pend_Sequence = 1, ConditionWitness = w\<rparr>"

theorem pending_inputs_carry_own_leaf_witness:
  "getPendingTxIntent demo_keys demo_lib 0 [demo_pending [1] [], demo_pending [2] [[7]]] 9 = Ok (''proof'', ''message'')
   \<and> (\<exists>q :: proof_tx. LockTime q = 9 \<and> own_leaf demo_keys demo_lib (demo_pending [2] [[7]]) (Proof_Inputs q ! 2))"
proof -
  have run: "getPendingTxIntent demo_keys demo_lib 0 [demo_pending [1] [], demo_pending [2] [[7]]] 9 = Ok (''proof'', ''message'')"
    by code_simp
  have "intent_ok demo_lib" by (auto simp: intent_ok_def demo_lib_def split: if_splits)
  from pending_inputs_carry_own_leaf [OF this, where L = demo_keys and now = 0
      and ds = "[demo_pending [1] [], demo_pending [2] [[7]]]" and lt = 9]
  have "\<exists>q :: proof_tx. LockTime q = 9 \<and> own_leaf demo_keys demo_lib (demo_pending [2] [[7]]) (Proof_Inputs q ! 2)"
    unfolding run result.case prod.case by (elim exE conjE) (auto simp: upt_conv_Cons numeral_2_eq_2)
  with run show ?thesis by blast
qed

end
