(* ===== verification/WalletProps.thy ===== *)
theory WalletProps
  imports WalletOps LifecycleProps
begin

text \<open>
  What the wallet operations promise: a listing is the filtered content of all pages in order, a
  VHTLC is recorded once, the clean-up deletes exactly what is gone from the chain, and behind the
  gate of a reachable node no operation follows a nil pointer.
\<close>

section \<open>Listings\<close>

text \<open>The pages behind a cursor, up to the one that brings no other.\<close>

inductive chain :: "(string option \<Rightarrow> string + wallet_vtxo list \<times> string) \<Rightarrow> string \<Rightarrow> wallet_vtxo list \<Rightarrow> bool"
  for page where
  last: "chain page [] []"
| more: "c \<noteq> [] \<Longrightarrow> page (Some c) = Inr (vs, c') \<Longrightarrow> chain page c' ws \<Longrightarrow> chain page c (vs @ ws)"

lemma more_pages_chain: "chain page c ws \<Longrightarrow> more_pages page c acc = Some (Inr (acc @ ws))"
proof (induction arbitrary: acc rule: chain.induct)
  case last
  then show ?case by (subst more_pages.simps) simp
next
  case (more c vs c' ws)
  then show ?case by (subst more_pages.simps) simp
qed

lemma chain_more_pages:
  assumes "more_pages page c acc = Some (Inr out)"
  shows "\<exists>ws. chain page c ws \<and> out = acc @ ws"
  using assms
proof (rule more_pages.raw_induct [rotated, where P = "\<lambda>page c acc r.
    \<forall>out. r = Inr out \<longrightarrow> (\<exists>ws. chain page c ws \<and> out = acc @ ws)", THEN spec, THEN mp], goal_cases)
  case (1 rec page c acc r)
  show ?case
  proof (intro allI impI)
    fix out assume r: "r = Inr out"
    show "\<exists>ws. chain page c ws \<and> out = acc @ ws"
    proof (cases "c = []")
      case True
      with 1(2) r show ?thesis by (auto intro: chain.last)
    next
      case False
      with 1(2) r obtain vs c' where p: "page (Some c) = Inr (vs, c')" "rec page c' (acc @ vs) = Some r"
        by (auto split: sum.splits)
      from 1(1) [OF p(2)] r obtain ws where "chain page c' ws" "out = (acc @ vs) @ ws" by blast
      with chain.more [of c page vs c', OF False p(1)] show ?thesis by auto
    qed
  qed
qed simp

lemma newest_first_props:
  "mset (newest_first vs) = mset vs"
  "sorted_wrt (\<lambda>x y. CreatedAt y \<le> CreatedAt x) (newest_first vs)"
  "filter (\<lambda>v. CreatedAt v = t) (newest_first vs) = filter (\<lambda>v. CreatedAt v = t) vs"
proof -
  show "mset (newest_first vs) = mset vs" by (simp add: newest_first_def)
  have "sorted (map (\<lambda>v. - CreatedAt v) (newest_first vs))" by (simp add: newest_first_def)
  then show "sorted_wrt (\<lambda>x y. CreatedAt y \<le> CreatedAt x) (newest_first vs)"
    by (simp add: sorted_map)
  have "filter (\<lambda>v. - CreatedAt v = - t) (newest_first vs) = filter (\<lambda>v. - CreatedAt v = - t) vs"
    unfolding newest_first_def by (rule sort_key_stable)
  then show "filter (\<lambda>v. CreatedAt v = t) (newest_first vs) = filter (\<lambda>v. CreatedAt v = t) vs" by simp
qed

text \<open>
  \<open>GetVtxos\<close> answers a list exactly when the gate is open, the filter is one of the four and the
  pages end; the list then holds the VTXOs of all pages that pass the filter, each as often as it
  was reported, newest first, and those of the same time in the order they were reported.
\<close>

theorem GetVtxos_lists_all_pages:
  "GetVtxos page filterType n = Some (Ok out) \<longleftrightarrow>
     isInitializedAndUnlocked n = None \<and>
     (\<exists>keep vs c ws. keep_of filterType = Some keep \<and> page None = Inr (vs, c) \<and> chain page c ws \<and>
        mset out = filter_mset keep (mset (vs @ ws)) \<and>
        sorted_wrt (\<lambda>x y. CreatedAt y \<le> CreatedAt x) out \<and>
        (\<forall>t. filter (\<lambda>v. CreatedAt v = t) out = filter (\<lambda>v. CreatedAt v = t \<and> keep v) (vs @ ws)))"
  (is "?L \<longleftrightarrow> ?R")
proof
  assume ?L
  then obtain keep vs c all where *: "isInitializedAndUnlocked n = None" "keep_of filterType = Some keep"
    "page None = Inr (vs, c)" "more_pages page c vs = Some (Inr all)" "out = newest_first (filter keep all)"
    by (auto simp: GetVtxos_def bind_result_Ok split: option.splits sum.splits)
  from chain_more_pages [OF *(4)] obtain ws where ws: "chain page c ws" "all = vs @ ws" by blast
  have "mset out = filter_mset keep (mset (vs @ ws))"
    "sorted_wrt (\<lambda>x y. CreatedAt y \<le> CreatedAt x) out"
    "\<forall>t. filter (\<lambda>v. CreatedAt v = t) out = filter (\<lambda>v. CreatedAt v = t \<and> keep v) (vs @ ws)"
    using newest_first_props [where vs = "filter keep (vs @ ws)"] unfolding *(5) ws(2)
    by (simp_all add: mset_filter conj_commute)
  with *(1-3) ws(1) show ?R by blast
next
  assume ?R
  then obtain keep vs c ws where *: "isInitializedAndUnlocked n = None" "keep_of filterType = Some keep"
    "page None = Inr (vs, c)" "chain page c ws" "mset out = filter_mset keep (mset (vs @ ws))"
    "sorted_wrt (\<lambda>x y. CreatedAt y \<le> CreatedAt x) out"
    "\<forall>t. filter (\<lambda>v. CreatedAt v = t) out = filter (\<lambda>v. CreatedAt v = t \<and> keep v) (vs @ ws)" by blast
  have "newest_first (filter keep (vs @ ws)) = out"
    unfolding newest_first_def
  proof (rule properties_for_sort_key)
    show "mset out = mset (filter keep (vs @ ws))" using *(5) by (simp add: mset_filter)
    show "filter (\<lambda>x. - CreatedAt k = - CreatedAt x) out = filter (\<lambda>x. - CreatedAt k = - CreatedAt x) (filter keep (vs @ ws))"
      if "k \<in> set out" for k
      using *(7) [rule_format, of "CreatedAt k"] by (simp add: eq_commute conj_commute)
    show "sorted (map (\<lambda>v. - CreatedAt v) out)" using *(6) by (simp add: sorted_map)
  qed
  with more_pages_chain [OF *(4)] *(1-3) show ?L by (simp add: GetVtxos_def of_sum_def)
qed

section \<open>VHTLCs\<close>

fun answered :: "'a result \<Rightarrow> bool" where
  "answered (Ok _) = True"
| "answered _ = False"

text \<open>How a call of \<open>CreateVHTLC\<close> ends, seen from the repository.\<close>

lemma CreateVHTLC_cases:
  assumes run: "CreateVHTLC L sha W R k cfgAddr now r n (m, s) = (res, m', s')"
  obtains (unchanged) "s' = s" "\<not> answered res"
  | (refused) e i scr where "V_Add R s (NewVhtlc i scr) = (Some e, s')" "\<not> answered res"
  | (added) addr i scr keyIndex vs net pk where
      "isInitializedAndUnlocked n = None" "cfgAddr = Some net" "S_PkScript vs = Inr pk" "scr = hex_encode pk"
      "i = GetVhtlcId sha (R_PreimageHash r) (SerializeCompressed L (S_Sender vs)) (SerializeCompressed L (S_Receiver vs))"
      "V_Add R s (NewVhtlc i scr) = (None, s')" "res = Ok (addr, i, vs, keyIndex)"
proof -
  show thesis
  proof (cases "bind_result (gate n) (\<lambda>_. nic_option k cfgAddr (R_NonInteractive r))")
    case Crash
    with run have "s' = s" "res = Crash" by (auto simp: CreateVHTLC_def)
    with unchanged show ?thesis by simp
  next
    case (Error e)
    with run have "s' = s" "res = Error e" by (auto simp: CreateVHTLC_def)
    with unchanged show ?thesis by simp
  next
    case ok: (Ok nic)
    obtain a b where nic: "nic = (a, b)" by force
    have open': "isInitializedAndUnlocked n = None"
      using ok by (cases "isInitializedAndUnlocked n") simp_all
    obtain sc m1 where sc: "SDK_CreateVHTLC W m (vhtlc_defaults now r a b) = (sc, m1)" by force
    show ?thesis
    proof (cases sc)
      case (Inl e)
      with run ok nic sc have "s' = s" "res = Error e" by (auto simp: CreateVHTLC_def)
      with unchanged show ?thesis by simp
    next
      case vs: (Inr vs)
      show ?thesis
      proof (cases "vhtlc_answer L sha W cfgAddr r m1 vs")
        case Crash
        with run ok nic sc vs have "s' = s" "res = Crash" by (auto simp: CreateVHTLC_def)
        with unchanged show ?thesis by simp
      next
        case (Error e)
        with run ok nic sc vs have "s' = s" "res = Error e" by (auto simp: CreateVHTLC_def)
        with unchanged show ?thesis by simp
      next
        case an: (Ok y)
        obtain addr i scr ki where y: "y = (addr, i, scr, ki)" by (metis prod_cases4)
        from an y obtain net pk where *: "cfgAddr = Some net" "S_PkScript vs = Inr pk" "scr = hex_encode pk"
          "i = GetVhtlcId sha (R_PreimageHash r) (SerializeCompressed L (S_Sender vs)) (SerializeCompressed L (S_Receiver vs))"
          by (auto simp: vhtlc_answer_def bind_result_Ok split: option.splits)
        obtain er s1 where add: "V_Add R s (NewVhtlc i scr) = (er, s1)" by force
        show ?thesis
        proof (cases er)
          case (Some e)
          with run ok nic sc vs an y add have "s' = s1" "res = Error (''failed to add vhtlc: '' @ e)"
            by (auto simp: CreateVHTLC_def)
          with refused add Some show ?thesis by simp
        next
          case None
          with run ok nic sc vs an y add have "s' = s1" "res = Ok (addr, i, vs, ki)"
            by (auto simp: CreateVHTLC_def)
          with added open' * add None show ?thesis by blast
        qed
      qed
    qed
  qed
qed

context vhtlc_repository
begin

lemma CreateVHTLC_records:
  assumes "invar s" and "CreateVHTLC L sha W R k cfgAddr now r n (m, s) = (Ok (addr, i, vs, keyIndex), m', s')"
  shows "invar s' \<and> isInitializedAndUnlocked n = None \<and> view s i = None \<and>
     (\<exists>pk. S_PkScript vs = Inr pk \<and> view s' = (view s)(i \<mapsto> hex_encode pk)) \<and>
     i = GetVhtlcId sha (R_PreimageHash r) (SerializeCompressed L (S_Sender vs)) (SerializeCompressed L (S_Receiver vs)) \<and>
     legacy s' = legacy s"
  using assms(2)
proof (cases rule: CreateVHTLC_cases)
  case (added addr' i' scr keyIndex' vs' net pk)
  then have same: "i' = i" "vs' = vs" by auto
  from add_ok [OF assms(1) added(6)] added same show ?thesis by (auto simp: NewVhtlc_def)
qed simp_all

lemma CreateVHTLC_fails:
  assumes "invar s" and "CreateVHTLC L sha W R k cfgAddr now r n (m, s) = (res, m', s')" and "\<not> answered res"
  shows "invar s' \<and> view s' = view s \<and> legacy s' = legacy s"
  using assms(2)
proof (cases rule: CreateVHTLC_cases)
  case unchanged
  with assms(1) show ?thesis by simp
next
  case (refused e i scr)
  with add_error [OF assms(1) refused(1)] show ?thesis by simp
next
  case added
  with assms(3) show ?thesis by simp
qed

end

text \<open>
  A \<open>CreateVHTLC\<close> over SQLite that answers has added one record, under the hash of the preimage
  hash and the two keys of the script that was built, holding that script; the id was free before.
  Any other outcome (a closed gate, an error, a panic, a duplicate) leaves the records as they were.
\<close>

theorem CreateVHTLC_records_once:
  assumes "distinct (map Vhtlc_Id (vhtlc_tbl s))"
    and "CreateVHTLC L sha W (sqlite_vhtlc_repo flt) k cfgAddr now r n (m, s) = (res, m', s')"
  shows "case res of
      Ok (addr, i, vs, keyIndex) \<Rightarrow>
        isInitializedAndUnlocked n = None \<and> vhtlc_map (vhtlc_tbl s) i = None \<and>
        (\<exists>pk. S_PkScript vs = Inr pk \<and> vhtlc_map (vhtlc_tbl s') = (vhtlc_map (vhtlc_tbl s))(i \<mapsto> hex_encode pk)) \<and>
        i = GetVhtlcId sha (R_PreimageHash r) (SerializeCompressed L (S_Sender vs)) (SerializeCompressed L (S_Receiver vs))
    | _ \<Rightarrow> vhtlc_map (vhtlc_tbl s') = vhtlc_map (vhtlc_tbl s)"
proof -
  have inv: "sqlite_vhtlc_inv s" using assms(1) by (simp add: sqlite_vhtlc_inv_def)
  show ?thesis
  proof (cases res)
    case (Ok x)
    obtain addr i vs ki where x: "x = (addr, i, vs, ki)" by (metis prod_cases4)
    from sqlite_vhtlc.CreateVHTLC_records [OF inv assms(2) [unfolded Ok x]] show ?thesis
      unfolding Ok x result.case prod.case by blast
  qed (use sqlite_vhtlc.CreateVHTLC_fails [OF inv assms(2)] in simp_all)
qed

definition demo_script :: "pubkey \<Rightarrow> vhtlc_script" where
  "demo_script sender =
     \<lparr>S_Sender = sender, S_Receiver = [2], S_Server = [4], S_Address = (\<lambda>net. Inr (net @ ''1q'')), S_PkScript = Inr [81, 32],
      S_Claim = Inr [1], S_Refund = Inr [2], S_RefundWithoutReceiver = Inr [3], S_UnilateralClaim = Inr [4],
      S_UnilateralRefund = Inr [5], S_UnilateralRefundWithoutReceiver = Inr [6], S_NonInteractiveClaim = None,
      S_RefundLocktime = 0, S_UnilateralClaimDelay = 512, S_UnilateralRefundDelay = 1024,
      S_UnilateralRefundWithoutReceiverDelay = 2048\<rparr>"

definition demo_sdk :: "(unit, unit, unit) vhtlc_sdk" where
  "demo_sdk =
     \<lparr>SDK_CreateVHTLC = (\<lambda>m args. (Inr (demo_script (the (VSender args))), m)),
      SDK_GetContracts = (\<lambda>_ _. Inr [()]), SDK_GetHandler = (\<lambda>_ _. Inr ()), SDK_GetKeyRef = (\<lambda>_ _. Inr ''k''),
      SDK_GetKeyIndex = (\<lambda>_. Inr 7)\<rparr>"

definition demo_request :: vhtlc_request where
  "demo_request =
     \<lparr>R_Receiver = None, R_Sender = Some [3], R_PreimageHash = [1], R_RefundLocktime = None,
      R_UnilateralClaimDelay = None, R_UnilateralRefundDelay = None,
      R_UnilateralRefundWithoutReceiverDelay = None, R_NonInteractive = None\<rparr>"

theorem CreateVHTLC_records_once_witness:
  "\<exists>vs db. CreateVHTLC demo_keys id demo_sdk (sqlite_vhtlc_repo (\<lambda>_. None)) None (Some ''ark'') 0 demo_request demo_open
      ((), \<lparr>vhtlc_tbl = [], legacy_tbl = None\<rparr>) = (Ok (''ark1q'', ''010302'', vs, 7), (), db)
    \<and> vhtlc_map (vhtlc_tbl db) = [''010302'' \<mapsto> ''5120'']"
proof -
  let ?s = "\<lparr>vhtlc_tbl = [], legacy_tbl = None\<rparr>"
  let ?run = "CreateVHTLC demo_keys id demo_sdk (sqlite_vhtlc_repo (\<lambda>_. None)) None (Some ''ark'') 0 demo_request demo_open ((), ?s)"
  define vs where "vs = demo_script [3]"
  have run: "?run = (Ok (''ark1q'', ''010302'', vs, 7), (), snd (snd ?run))"
    by (simp add: CreateVHTLC_def demo_open_gate nic_option_def demo_request_def demo_sdk_def vhtlc_defaults_def
        vhtlc_answer_def getVHTLCKeyIndex_def of_sum_def sqlite_vhtlc_repo_def sqlite_vhtlc_Add_def InsertVHTLC_def
        GetVhtlcId_def demo_keys_def vs_def demo_script_def hex_char_def NewVhtlc_def) code_simp
  have "distinct (map Vhtlc_Id (vhtlc_tbl ?s))" by simp
  from CreateVHTLC_records_once [OF this run] have
    "vhtlc_map (vhtlc_tbl (snd (snd ?run))) = (vhtlc_map (vhtlc_tbl ?s))(''010302'' \<mapsto> hex_encode [81, 32])"
    by (simp add: vs_def demo_script_def)
  moreover have "hex_encode [81, 32] = ''5120''" by code_simp
  ultimately show ?thesis using run by (auto simp: vhtlc_map_def)
qed

section \<open>The gate\<close>

text \<open>
  Behind a closed gate no wallet operation does anything: each answers the gate's error, the
  SDK, the repositories and the subscription are not touched.
\<close>

theorem closed_gate_refuses:
  assumes "isInitializedAndUnlocked n = Some e"
  shows "GetPubkey L getKey keyIndex n = Error e
     \<and> NewAddress fmtBtc boarding offchain sats n = Error e
     \<and> GetTotalBalance balance n = Error e
     \<and> GetVtxos page filterType n = Some (Error e)
     \<and> Settle settle n = Error e
     \<and> SendOnChain exit addr amount n = Error e
     \<and> CreateVHTLC L sha W R k cfgAddr now r n st = (Error e, st)
     \<and> ListVHTLCs R indexVtxos ids n s = Error e
     \<and> ClaimVHTLC R claim preimage i op n s = Error e
     \<and> RefundVHTLC R refund swapId i withReceiver op n s = Error e
     \<and> GetVHTLCSpendingTx R contracts indexVtxos pendingTx virtualTxs i n s = Error e
     \<and> SubscribeForAddresses L p2tr RS newSub upd addrs (n, scripts) = (Error e, n, scripts)
     \<and> UnsubscribeForAddresses L p2tr RS upd addrs (n, scripts) = (Error e, n, scripts)"
  using assms
  by (cases st)
     (simp add: GetPubkey_def NewAddress_def GetTotalBalance_def GetVtxos_def Settle_def SendOnChain_def
       CreateVHTLC_def ListVHTLCs_def ClaimVHTLC_def RefundVHTLC_def GetVHTLCSpendingTx_def
       SubscribeForAddresses_def UnsubscribeForAddresses_def on_subscription_def)

theorem closed_gate_refuses_witness:
  "SendOnChain (\<lambda>_ _. Inr ''txid'') ''addr'' 1 demo_unlock = Error ''service is syncing''
   \<and> SendOnChain (\<lambda>_ _. Inr ''txid'') ''addr'' 1 (newService_node True True []) = Error ''service is locked''"
proof -
  have g: "isInitializedAndUnlocked demo_unlock = Some ''service is syncing''"
    "isInitializedAndUnlocked (newService_node True True []) = Some ''service is locked''" by code_simp+
  note sixth = conjunct2 [THEN conjunct2, THEN conjunct2, THEN conjunct2, THEN conjunct2, THEN conjunct1]
  show ?thesis by (intro conjI closed_gate_refuses [OF g(1), THEN sixth] closed_gate_refuses [OF g(2), THEN sixth])
qed

lemma on_subscription_cases:
  assumes "on_subscription L p2tr f addrs (n, s) = (res, n', s')"
  shows "n' = n \<and> (res = Crash \<longrightarrow> isInitializedAndUnlocked n = None \<and> externalSubscription n = None)
     \<or> isInitializedAndUnlocked n = None \<and> res \<noteq> Crash \<and>
       (\<exists>h h'. externalSubscription n = Some h \<and> n' = n\<lparr>externalSubscription := Some h'\<rparr>)"
proof (cases "isInitializedAndUnlocked n")
  case None
  show ?thesis
  proof (cases "offchainAddressesPkScripts L p2tr addrs")
    case (Inl e)
    with assms None have "n' = n" "res = Error e" by (auto simp: on_subscription_def of_sum_def)
    then show ?thesis by simp
  next
    case (Inr scripts)
    with assms None show ?thesis
      by (cases "externalSubscription n")
         (auto simp: on_subscription_def of_sum_def split: prod.splits option.splits)
  qed
next
  case (Some e)
  with assms have "n' = n" "res = Error e" by (auto simp: on_subscription_def)
  then show ?thesis by simp
qed

lemma on_subscription_reach:
  assumes reach: "node_reach L idle n" and run: "on_subscription L' p2tr f addrs (n, s) = (res, n', s')"
  shows "res \<noteq> Crash \<and> node_reach L idle n'"
  using on_subscription_cases [OF run]
proof
  assume a: "n' = n \<and> (res = Crash \<longrightarrow> isInitializedAndUnlocked n = None \<and> externalSubscription n = None)"
  have "externalSubscription n \<noteq> None" if "isInitializedAndUnlocked n = None"
    using node_inv_restD [OF node_reach_inv [OF reach]] that by (auto simp: gate_open at_rest_def serving_def)
  with a reach show ?thesis by blast
next
  assume b: "isInitializedAndUnlocked n = None \<and> res \<noteq> Crash \<and>
       (\<exists>h h'. externalSubscription n = Some h \<and> n' = n\<lparr>externalSubscription := Some h'\<rparr>)"
  then obtain h h' where "node_step L idle n n'" using node_step.subscribed by metis
  with b reach show ?thesis using node_reach.next_step by blast
qed

text \<open>
  In every state reached without a reset in the middle of an unlock, subscribing and
  unsubscribing never follow a nil subscription handler, and lead to a state of the same kind.
\<close>

theorem subscription_calls_never_crash:
  assumes "node_reach L idle n"
    and "SubscribeForAddresses L' p2tr R newSub upd addrs (n, s) = (res, n1, s1)"
    and "UnsubscribeForAddresses L' p2tr R upd addrs' (n1, s1) = (res', n2, s2)"
  shows "res \<noteq> Crash \<and> res' \<noteq> Crash \<and> node_reach L idle n1 \<and> node_reach L idle n2"
  using on_subscription_reach [OF assms(1) assms(2) [unfolded SubscribeForAddresses_def]]
    on_subscription_reach [OF _ assms(3) [unfolded UnsubscribeForAddresses_def]] by blast

theorem subscription_calls_never_crash_witness:
  "\<exists>n1. node_reach demo_keys idle n1 \<and> isInitializedAndUnlocked n1 = None \<and>
     SubscribeForAddresses (demo_keys\<lparr>DecodeAddressV0 := Inr \<circ> map of_char\<rparr>) Inr (sqlite_scripts_repo (\<lambda>_. None))
       (\<lambda>_. Inr ''id'') (\<lambda>_ _ _. None) [''a''] (demo_open, []) = (Ok (), n1, [''61''])"
proof -
  let ?L = "demo_keys\<lparr>DecodeAddressV0 := Inr \<circ> map of_char\<rparr>" and ?R = "sqlite_scripts_repo (\<lambda>_. None)"
  let ?sub = "\<lambda>_. Inr ''id''" and ?upd = "\<lambda>_ _ _. None"
  let ?n = "fst (snd (SubscribeForAddresses ?L Inr ?R ?sub ?upd [''a''] (demo_open, [])))"
  have run: "SubscribeForAddresses ?L Inr ?R ?sub ?upd [''a''] (demo_open, []) = (Ok (), ?n, [''61''])" by code_simp
  have "UnsubscribeForAddresses ?L Inr ?R ?upd [''a''] (?n, [''61'']) = (Ok (), fst (snd
      (UnsubscribeForAddresses ?L Inr ?R ?upd [''a''] (?n, [''61'']))), [])" by code_simp
  from subscription_calls_never_crash [OF demo_open_reached run this] have "node_reach demo_keys idle ?n" by blast
  moreover have "isInitializedAndUnlocked ?n = None" by code_simp
  ultimately show ?thesis using run by blast
qed

section \<open>Stale boarding outputs\<close>

lemma last_colon:
  assumes "a @ CHR '':'' # x = b @ CHR '':'' # y" "CHR '':'' \<notin> set x" "CHR '':'' \<notin> set y"
  shows "a = b \<and> x = y"
proof -
  from assms(1) have "rev x @ CHR '':'' # rev a = rev y @ CHR '':'' # rev b"
    by (metis append.assoc append_Cons append_Nil rev.simps(2) rev_append)
  moreover have "takeWhile (\<lambda>c. c \<noteq> CHR '':'') (rev x @ CHR '':'' # rev a) = rev x"
    "takeWhile (\<lambda>c. c \<noteq> CHR '':'') (rev y @ CHR '':'' # rev b) = rev y"
    using assms(2,3) by (auto simp: takeWhile_tail takeWhile_append2)
  ultimately have "rev x = rev y" by metis
  with assms(1) show ?thesis by simp
qed

lemma utxo_key_inj: "utxo_key p = utxo_key q \<longleftrightarrow> p = q"
proof
  assume eq: "utxo_key p = utxo_key q"
  obtain t v t' v' where pq: "p = (t, v)" "q = (t', v')" by force
  from eq have "t = t' \<and> format_uint (unat v) = format_uint (unat v')"
    unfolding pq utxo_key_def prod.case by (rule last_colon) simp_all
  then have "t = t'" "parse_digits 0 (format_uint (unat v)) = parse_digits 0 (format_uint (unat v'))" by simp_all
  then have "t = t'" "unat v = unat v'" by (simp_all add: parse_digits_format_uint)
  then show "p = q" by (simp add: pq word_unat_eq_iff)
qed simp

lemma stale_outpoints_eq: "stale_outpoints spendable ex = filter (\<lambda>u. u \<notin> set ex) spendable"
  by (simp add: stale_outpoints_def utxo_key_inj image_iff)

text \<open>
  When the store and the explorer answer and the store deletes what it is asked to, the clean-up
  keeps exactly the stored boarding outputs that are on the chain, in their order; the textual
  "txid:vout" keys never confuse two outputs.
\<close>

theorem sanitize_keeps_onchain:
  assumes "stored u = Inr (utxos u)" and "explore addrs = Inr ex"
    and "\<And>xs. utxos (snd (delete xs u)) = filter (\<lambda>p. p \<notin> set xs) (utxos u)"
  shows "utxos (sanitize (Inr addrs) stored explore delete u) = filter (\<lambda>p. p \<in> set ex) (utxos u)"
proof -
  have all: "filter (\<lambda>p. p \<in> set ex) (utxos u) = utxos u" if "\<forall>p \<in> set (utxos u). p \<in> set ex"
    using that by simp
  have "filter (\<lambda>p. p \<notin> set (filter (\<lambda>q. q \<notin> set ex) (utxos u))) (utxos u) = filter (\<lambda>p. p \<in> set ex) (utxos u)"
    by (rule filter_cong) auto
  with assms all show ?thesis
    by (auto simp: sanitize_def stale_outpoints_eq filter_empty_conv)
qed

theorem sanitize_keeps_onchain_witness:
  "sanitize (Inr [''bcrt1q'']) Inr (\<lambda>_. Inr [(''aa'', 1)])
     (\<lambda>xs u. (Inr (length xs), filter (\<lambda>p. p \<notin> set xs) u)) [(''aa'', 0), (''aa'', 1)] = [(''aa'', 1)]"
  using sanitize_keeps_onchain [of Inr "[(''aa'', 0), (''aa'', 1)]" "\<lambda>u. u" "\<lambda>_. Inr [(''aa'', 1)]" "[''bcrt1q'']"
      "[(''aa'', 1)]" "\<lambda>xs u. (Inr (length xs), filter (\<lambda>p. p \<notin> set xs) u)"] by simp

end
