(* ===== verification/DelegateLoops.thy ===== *)
theory DelegateLoops
  imports DelegateProps
begin

text \<open>
  The two background loops of the delegate service (\<open>listenBatchStartedEvents\<close> and
  \<open>monitorVtxosSpent\<close> of \<open>delegate_service.go\<close>) over the whole of their streams, up to the cancellation
  of their context: what a stream that fails or closes does to them, and what becomes of an outpoint
  that was reported spent.
\<close>

section \<open>The loops\<close>

datatype 'e notice = Notice 'e | StreamErr string | StreamClosed

text \<open>
  An event is \<open>Some\<close> of the hashes of a \<open>BatchStartedEvent\<close> or \<open>None\<close> for any other. The answer says
  whether the loop still listens; \<open>connect\<close> is what \<open>GetEventStream\<close> answers.
\<close>

fun listen_loop :: "string list option notice list \<Rightarrow> 's dstate \<Rightarrow> bool \<times> 's dstate" where
  "listen_loop [] s = (True, s)"
| "listen_loop (StreamClosed # ns) s = (False, s)"
| "listen_loop (StreamErr _ # ns) s = listen_loop ns s"
| "listen_loop (Notice None # ns) s = listen_loop ns s"
| "listen_loop (Notice (Some hashedIntentIds) # ns) s = listen_loop ns (BatchStarted hashedIntentIds s)"

definition listenBatchStartedEvents ::
  "string + string list option notice list \<Rightarrow> 's dstate \<Rightarrow> bool \<times> 's dstate" where
  "listenBatchStartedEvents connect s =
     (case connect of Inl _ \<Rightarrow> (False, s) | Inr ns \<Rightarrow> listen_loop ns s)"

text \<open>
  The monitor has two goroutines: the stream's, which collects, and the ticker's, which goes on when
  the stream has closed. \<open>Tick f\<close> is a tick whose statements fail as \<open>f\<close> says.
\<close>

datatype monitor_input = Tick verdict | Tx "transaction_event notice"

fun monitor_loop ::
  "(verdict \<Rightarrow> 's delegate_repo) \<Rightarrow> (string \<Rightarrow> 256 word option) \<Rightarrow> bool \<Rightarrow> monitor_input list \<Rightarrow> 's dstate \<Rightarrow> 's dstate" where
  "monitor_loop Rs hp is_open [] s = s"
| "monitor_loop Rs hp is_open (Tick f # ins) s = monitor_loop Rs hp is_open ins (monitor_tick (Rs f) s)"
| "monitor_loop Rs hp is_open (Tx StreamClosed # ins) s = monitor_loop Rs hp False ins s"
| "monitor_loop Rs hp is_open (Tx (StreamErr _) # ins) s = monitor_loop Rs hp is_open ins s"
| "monitor_loop Rs hp is_open (Tx (Notice event) # ins) s =
     monitor_loop Rs hp is_open ins (if is_open then monitor_event hp event s else s)"

definition monitorVtxosSpent ::
  "(verdict \<Rightarrow> 's delegate_repo) \<Rightarrow> (string \<Rightarrow> 256 word option) \<Rightarrow> string + monitor_input list \<Rightarrow> 's dstate \<Rightarrow> 's dstate" where
  "monitorVtxosSpent Rs hp connect s =
     (case connect of Inl _ \<Rightarrow> s | Inr ins \<Rightarrow> monitor_loop Rs hp True ins s)"

section \<open>The loops are runs of the service\<close>

lemma listen_loop_reach:
  "delegate_reach Rs L sha hp fee r s \<Longrightarrow> delegate_reach Rs L sha hp fee r (snd (listen_loop ns s))"
  by (induction ns s rule: listen_loop.induct) (simp_all add: delegate_reach.step [OF _ delegate_step.batch_started])

lemma monitor_tick_free: "lock s = Unlocked \<Longrightarrow> lock (monitor_tick R s) = Unlocked \<and> spentVtxos (monitor_tick R s) = []"
  by (auto simp: monitor_tick_def monitor_lock_def monitor_capture_def monitor_cancel_def Let_def
      split: sum.splits prod.splits)

lemma monitor_tick_reach:
  assumes s: "delegate_reach Rs L sha hp fee r s" and free: "lock s = Unlocked"
  shows "delegate_reach Rs L sha hp fee r (monitor_tick (Rs f) s)"
proof -
  have c: "delegate_reach Rs L sha hp fee r (monitor_capture s)" "lock (monitor_capture s) = Unlocked"
    using delegate_reach.step [OF s delegate_step.capture [OF free]] free by (simp_all add: monitor_capture_def)
  let ?l = "monitor_lock (Rs f) (monitor_capture s)"
  have l: "delegate_reach Rs L sha hp fee r ?l"
    by (rule delegate_reach.step [OF c(1) delegate_step.monitor [OF c(2)]])
  show ?thesis
  proof (cases "lock ?l")
    case (MonitorPhase ids)
    have "delegate_step Rs L sha hp fee ?l (snd (monitor_cancel (Rs f) ids ?l))"
      by (rule delegate_step.monitor_cancel [OF MonitorPhase prod.collapse [symmetric]])
    from delegate_reach.step [OF l this] MonitorPhase show ?thesis by (simp add: monitor_tick_def Let_def)
  qed (use l in \<open>simp_all add: monitor_tick_def Let_def\<close>)
qed

lemma lock_monitor_event [simp]: "lock (monitor_event hp event s) = lock s"
  by (simp add: monitor_event_def)

lemma monitor_loop_reach:
  assumes "delegate_reach Rs L sha hp fee r s" and "lock s = Unlocked"
  shows "delegate_reach Rs L sha hp fee r (monitor_loop Rs hp is_open ins s) \<and> lock (monitor_loop Rs hp is_open ins s) = Unlocked"
  using assms
  by (induction Rs hp is_open ins s rule: monitor_loop.induct)
     (auto simp: monitor_tick_reach monitor_tick_free delegate_reach.step [OF _ delegate_step.spent])

lemma monitor_loop_append:
  "\<exists>b. monitor_loop Rs hp is_open (xs @ ys) s = monitor_loop Rs hp b ys (monitor_loop Rs hp is_open xs s)"
  by (induction Rs hp is_open xs s rule: monitor_loop.induct) auto

section \<open>Outpoints that were reported\<close>

text \<open>What the stream reported before it closed.\<close>

fun reported :: "(string \<Rightarrow> 256 word option) \<Rightarrow> monitor_input list \<Rightarrow> outpoint list" where
  "reported hp [] = []"
| "reported hp (Tick f # ins) = reported hp ins"
| "reported hp (Tx StreamClosed # ins) = []"
| "reported hp (Tx (StreamErr _) # ins) = reported hp ins"
| "reported hp (Tx (Notice event) # ins) = getSpentVtxosFromTransactionEvent hp event @ reported hp ins"

text \<open>No pending task spends the outpoint, or the next tick will know it.\<close>

definition noted :: "('s \<Rightarrow> tasks_view) \<Rightarrow> 's dstate \<Rightarrow> outpoint \<Rightarrow> bool" where
  "noted view s op \<longleftrightarrow>
     op \<in> set (spentVtxos s) \<or> (\<forall>i v. view (repo s) i = Some v \<longrightarrow> is_pending v \<longrightarrow> op \<notin> tv_inputs v)"

lemma noted_event: "noted view s op \<Longrightarrow> noted view (monitor_event hp event s) op"
  by (auto simp: noted_def monitor_event_def)

lemma noted_new: "op \<in> set (getSpentVtxosFromTransactionEvent hp event) \<Longrightarrow> noted view (monitor_event hp event s) op"
  by (auto simp: noted_def monitor_event_def)

lemma cancelled_not_pending [simp]: "\<not> is_pending (cancelled v)"
  by (simp add: cancelled_def is_pending_def)

lemma noted_tick:
  assumes "B64_nonempty L" and "delegate_reach sqlite_at L sha hp fee empty_sqldb s" and "lock s = Unlocked"
    and "noted sq_view s op"
  shows "noted sq_view (monitor_tick (sqlite_at no_fault) s) op"
proof -
  have "op \<notin> tv_inputs v" if v: "sq_view (repo (monitor_tick (sqlite_at no_fault) s)) i = Some v" "is_pending v" for i v
  proof -
    from v have "sq_view (repo s) i = Some v" "tv_inputs v \<inter> set (spentVtxos s) = {}"
      using close_tasks_pendingD [OF v(1) [unfolded monitor_tick_cancels [OF assms(1-3)]] v(2)] by auto
    with assms(4) v(2) show ?thesis by (auto simp: noted_def)
  qed
  then show ?thesis by (simp add: noted_def)
qed

lemma noted_loop:
  assumes "B64_nonempty L" and "delegate_reach sqlite_at L sha hp fee empty_sqldb s" and "lock s = Unlocked"
    and "list_all (\<lambda>x. \<forall>f. x = Tick f \<longrightarrow> f = no_fault) ins"
    and "noted sq_view s op \<or> is_open \<and> op \<in> set (reported hp ins)"
  shows "noted sq_view (monitor_loop sqlite_at hp is_open ins s) op"
  using assms(2-)
proof (induction ins arbitrary: s is_open)
  case (Cons x ins)
  show ?case
  proof (cases x)
    case (Tick f)
    with Cons.prems(3) have f: "f = no_fault" by simp
    let ?s = "monitor_tick (sqlite_at no_fault) s"
    have "delegate_reach sqlite_at L sha hp fee empty_sqldb ?s" "lock ?s = Unlocked"
      using monitor_tick_reach [OF Cons.prems(1,2)] monitor_tick_free [OF Cons.prems(2)] by simp_all
    from Cons.IH [OF this, of is_open] Cons.prems(3,4) noted_tick [OF assms(1) Cons.prems(1,2)] Tick f show ?thesis by auto
  next
    case (Tx n)
    show ?thesis
    proof (cases n)
      case (Notice event)
      let ?s = "if is_open then monitor_event hp event s else s"
      have "delegate_reach sqlite_at L sha hp fee empty_sqldb ?s" "lock ?s = Unlocked"
        using Cons.prems(1,2) delegate_reach.step [OF _ delegate_step.spent] by auto
      moreover have "noted sq_view ?s op \<or> is_open \<and> op \<in> set (reported hp ins)"
        using Cons.prems(4) noted_event noted_new by (auto simp: Tx Notice)
      ultimately show ?thesis using Cons.IH Cons.prems(3) by (simp add: Tx Notice)
    qed (use Tx Cons in \<open>auto\<close>)
  qed
qed simp

section \<open>What becomes of them\<close>


text \<open>Two reports with a tick between them and an error on the stream, which then closes: both tasks are
  cancelled, and no pending task is left.\<close>

definition demo_spent :: "u32 \<Rightarrow> monitor_input" where
  "demo_spent n = Tx (Notice \<lparr>CommitmentTx = None, ArkTx = Some [\<lparr>Spent_Txid = ''0'', Spent_VOut = n\<rparr>]\<rparr>)"

definition demo_inputs :: "monitor_input list" where
  "demo_inputs = [demo_spent 0, Tick no_fault, Tx (StreamErr ''eof''), demo_spent 1, Tx StreamClosed]"




text \<open>The batches that are joined: one for every event before the stream closes that names a
  registered intent.\<close>

fun announced :: "string list option notice list \<Rightarrow> string list list" where
  "announced [] = []"
| "announced (StreamClosed # ns) = []"
| "announced (StreamErr _ # ns) = announced ns"
| "announced (Notice None # ns) = announced ns"
| "announced (Notice (Some hashes) # ns) = hashes # announced ns"

lemma selectedTasks_BatchStarted: "selectedTasks hs (BatchStarted hashes s) = selectedTasks hs s"
  by (simp add: selectedTasks_def BatchStarted_def Let_def)

lemma listen_loop_batches:
  "batches (snd (listen_loop ns s))
     = batches s @ filter (\<lambda>b. b \<noteq> []) (map (\<lambda>hs. selectedTasks hs s) (announced ns))"
  by (induction ns s rule: listen_loop.induct) (simp_all add: selectedTasks_BatchStarted, simp add: BatchStarted_def Let_def)

lemma listen_loop_stops: "fst (listen_loop ns s) \<longleftrightarrow> StreamClosed \<notin> set ns"
  by (induction ns s rule: listen_loop.induct) auto

end
