(* ===== verification/Notifications.thy ===== *)
theory Notifications
  imports Prelude "HOL-Library.Multiset"
begin

text \<open>
  The notification streams of \<open>interface/grpc/handlers/notification_handler.go\<close>: a stream
  registers a listener with an unbuffered channel, \<open>listenToNotifications\<close> starts one sending
  goroutine per event and registered listener, and a stream that ends closes its channel and
  removes its listener in two steps.

  A stream is known by its place in the list, which stands for the uuid of its listener. A
  goroutine that has not handed over its event is an element of \<open>st_pending\<close>. Closing a channel
  with such goroutines, sending on a closed channel and closing one twice are panics, which end the
  daemon. The field \<open>st_notified\<close> is not in the code: it records the events that were received
  while the listener was registered.
\<close>

datatype stream_pc =
    Streaming \<comment> \<open>in the select of \<open>GetVtxoNotifications\<close>\<close>
  | Returning \<comment> \<open>left the loop, \<open>removeListener\<close> still to run\<close>
  | Gone

record 'e stream =
  st_pc :: stream_pc
  st_registered :: bool \<comment> \<open>its listener is in \<open>listeners\<close>\<close>
  st_closed :: bool
  st_pending :: "'e list"
  st_delivered :: "'e list"
  st_notified :: "'e list"

record 'e hub =
  streams :: "'e stream list"
  hub_stopped :: bool
  panicked :: bool

definition new_hub :: "'e hub" where
  "new_hub = \<lparr>streams = [], hub_stopped = False, panicked = False\<rparr>"

definition set_stream :: "nat \<Rightarrow> 'e stream \<Rightarrow> 'e hub \<Rightarrow> 'e hub" where
  "set_stream i st h = h\<lparr>streams := (streams h)[i := st]\<rparr>"

text \<open>\<open>pushListener\<close>: a new call of \<open>GetVtxoNotifications\<close>.\<close>

definition pushListener :: "'e hub \<Rightarrow> 'e hub" where
  "pushListener h = h\<lparr>streams := streams h @
     [\<lparr>st_pc = Streaming, st_registered = True, st_closed = False, st_pending = [], st_delivered = [], st_notified = []\<rparr>]\<rparr>"

definition removeListener :: "nat \<Rightarrow> 'e hub \<Rightarrow> 'e hub" where
  "removeListener i h = set_stream i ((streams h ! i)\<lparr>st_registered := False, st_pc := Gone\<rparr>) h"

text \<open>\<open>listenToNotifications\<close> receives an event: one goroutine per registered listener.\<close>

definition notify_stream :: "'e \<Rightarrow> 'e stream \<Rightarrow> 'e stream" where
  "notify_stream e st =
     (if st_registered st
      then st\<lparr>st_notified := st_notified st @ [e],
              st_pending := (if st_closed st then st_pending st else st_pending st @ [e])\<rparr>
      else st)"

definition notify_all :: "'e \<Rightarrow> 'e hub \<Rightarrow> 'e hub" where
  "notify_all e h =
     h\<lparr>streams := map (notify_stream e) (streams h),
       panicked := panicked h \<or> list_ex (\<lambda>st. st_registered st \<and> st_closed st) (streams h)\<rparr>"

text \<open>A sending goroutine hands its event to the stream, which sends it to the client.\<close>

definition deliver :: "nat \<Rightarrow> 'e \<Rightarrow> bool \<Rightarrow> 'e hub \<Rightarrow> 'e hub" where
  "deliver i e sent h =
     (let st = streams h ! i;
          st = st\<lparr>st_pending := remove1 e (st_pending st), st_delivered := st_delivered st @ [e]\<rparr>
      in set_stream i (if sent then st else st\<lparr>st_pc := Returning\<rparr>) h)"

text \<open>The context of the stream ends: \<open>close(listener.ch)\<close>.\<close>

definition close_channel :: "nat \<Rightarrow> 'e hub \<Rightarrow> 'e hub" where
  "close_channel i h =
     (let st = streams h ! i in
      (set_stream i (st\<lparr>st_closed := True\<rparr>) h)
        \<lparr>panicked := panicked h \<or> st_closed st \<or> st_pending st \<noteq> []\<rparr>)"

definition context_done :: "nat \<Rightarrow> 'e hub \<Rightarrow> 'e hub" where
  "context_done i h =
     (let h = close_channel i h in set_stream i ((streams h ! i)\<lparr>st_pc := Returning\<rparr>) h)"

text \<open>The receive of a channel that \<open>stop\<close> closed: the loop returns.\<close>

definition receive_closed :: "nat \<Rightarrow> 'e hub \<Rightarrow> 'e hub" where
  "receive_closed i h = set_stream i ((streams h ! i)\<lparr>st_pc := Returning\<rparr>) h"

definition stop_hub :: "'e hub \<Rightarrow> 'e hub" where
  "stop_hub h =
     h\<lparr>streams := map (\<lambda>st. if st_registered st then st\<lparr>st_closed := True\<rparr> else st) (streams h),
       hub_stopped := True,
       panicked := panicked h \<or> list_ex (\<lambda>st. st_registered st \<and> (st_closed st \<or> st_pending st \<noteq> [])) (streams h)\<rparr>"

inductive hub_step :: "'e hub \<Rightarrow> 'e hub \<Rightarrow> bool" where
  subscribe: "hub_step h (pushListener h)"
| event: "\<not> hub_stopped h \<Longrightarrow> hub_step h (notify_all e h)"
| hand_over: "i < length (streams h) \<Longrightarrow> st_pc (streams h ! i) = Streaming \<Longrightarrow> e \<in> set (st_pending (streams h ! i)) \<Longrightarrow>
    hub_step h (deliver i e sent h)"
| disconnect: "i < length (streams h) \<Longrightarrow> st_pc (streams h ! i) = Streaming \<Longrightarrow> hub_step h (context_done i h)"
| closed: "i < length (streams h) \<Longrightarrow> st_pc (streams h ! i) = Streaming \<Longrightarrow> st_closed (streams h ! i) \<Longrightarrow>
    hub_step h (receive_closed i h)"
| unregister: "i < length (streams h) \<Longrightarrow> st_pc (streams h ! i) = Returning \<Longrightarrow> hub_step h (removeListener i h)"
| stop: "\<not> hub_stopped h \<Longrightarrow> hub_step h (stop_hub h)"

text \<open>The states of a daemon that has not panicked.\<close>

inductive hub_reach :: "'e hub \<Rightarrow> bool" where
  init: "hub_reach new_hub"
| step: "hub_reach h \<Longrightarrow> hub_step h h' \<Longrightarrow> \<not> panicked h' \<Longrightarrow> hub_reach h'"

section \<open>No event is lost or duplicated\<close>

text \<open>
  A registered stream has what was notified either delivered or pending; a stream that still
  receives is registered, and its channel is open unless the handler was stopped.
\<close>

definition stream_inv :: "bool \<Rightarrow> 'e stream \<Rightarrow> bool" where
  "stream_inv stopped st \<longleftrightarrow>
     (st_registered st \<longleftrightarrow> st_pc st \<noteq> Gone) \<and>
     (st_pc st = Streaming \<and> st_closed st \<longrightarrow> stopped) \<and>
     (st_closed st \<longrightarrow> st_pending st = []) \<and>
     mset (st_delivered st) + mset (st_pending st) = mset (st_notified st)"

definition hub_inv :: "'e hub \<Rightarrow> bool" where
  "hub_inv h \<longleftrightarrow> (\<forall>st \<in> set (streams h). stream_inv (hub_stopped h) st)"

lemma hub_inv_nth: "hub_inv h \<Longrightarrow> i < length (streams h) \<Longrightarrow> stream_inv (hub_stopped h) (streams h ! i)"
  by (simp add: hub_inv_def)

lemma hub_inv_set:
  "hub_inv h \<Longrightarrow> stream_inv (hub_stopped h) st \<Longrightarrow> hub_inv (set_stream i st h)"
  by (auto simp: hub_inv_def set_stream_def dest!: set_update_subset_insert [THEN subsetD])

lemma stream_inv_notify:
  "stream_inv b st \<Longrightarrow> \<not> (st_registered st \<and> st_closed st) \<Longrightarrow> stream_inv b (notify_stream e st)"
  by (auto simp: stream_inv_def notify_stream_def)

lemma hub_step_inv: "hub_step h h' \<Longrightarrow> hub_inv h \<Longrightarrow> \<not> panicked h' \<Longrightarrow> hub_inv h'"
proof (induction rule: hub_step.induct)
  case (subscribe h)
  then show ?case by (auto simp: hub_inv_def pushListener_def stream_inv_def)
next
  case (event h e)
  then show ?case by (auto simp: hub_inv_def notify_all_def list_ex_iff intro!: stream_inv_notify)
next
  case (hand_over i h e sent)
  have "stream_inv (hub_stopped h) (st\<lparr>st_pending := remove1 e (st_pending st), st_delivered := st_delivered st @ [e]\<rparr>)"
    if "stream_inv (hub_stopped h) st" "e \<in> set (st_pending st)" for st
    using that by (auto simp: stream_inv_def simp del: union_mset_add_mset_right simp flip: union_mset_add_mset_left)
  from this [OF hub_inv_nth [OF hand_over(4,1)] hand_over(3)] hand_over(2) have
    "stream_inv (hub_stopped h) ((streams h ! i)\<lparr>st_pending := remove1 e (st_pending (streams h ! i)),
       st_delivered := st_delivered (streams h ! i) @ [e]\<rparr>)"
    "stream_inv (hub_stopped h) ((streams h ! i)\<lparr>st_pending := remove1 e (st_pending (streams h ! i)),
       st_delivered := st_delivered (streams h ! i) @ [e], st_pc := Returning\<rparr>)"
    by (simp_all add: stream_inv_def)
  with hub_inv_set [OF hand_over(4)] show ?case by (cases sent) (simp_all add: deliver_def Let_def)
next
  case (disconnect i h)
  from disconnect(4) have p: "\<not> st_closed (streams h ! i)" "st_pending (streams h ! i) = []"
    by (auto simp: context_done_def close_channel_def set_stream_def Let_def)
  have "stream_inv (hub_stopped h) ((streams h ! i)\<lparr>st_closed := True, st_pc := Returning\<rparr>)"
    using hub_inv_nth [OF disconnect(3,1)] p disconnect(2) by (auto simp: stream_inv_def)
  from hub_inv_set [OF disconnect(3) this, of i] disconnect(1) show ?case
    by (simp add: context_done_def close_channel_def set_stream_def hub_inv_def Let_def)
next
  case (closed i h)
  then show ?case using hub_inv_nth [OF closed(4,1)]
    by (auto simp: receive_closed_def stream_inv_def intro!: hub_inv_set)
next
  case (unregister i h)
  then show ?case using hub_inv_nth [OF unregister(3,1)]
    by (auto simp: removeListener_def stream_inv_def intro!: hub_inv_set)
next
  case (stop h)
  then show ?case by (auto simp: hub_inv_def stop_hub_def stream_inv_def list_ex_iff)
qed

lemma hub_reach_inv: "hub_reach h \<Longrightarrow> hub_inv h"
proof (induction rule: hub_reach.induct)
  case init
  show ?case by (simp add: hub_inv_def new_hub_def)
qed (rule hub_step_inv)


definition demo_hub :: "nat hub" where
  "demo_hub = deliver 0 7 True (notify_all 7 (pushListener new_hub))"

lemma demo_hub_reached: "hub_reach demo_hub"
proof -
  have "hub_reach (pushListener (new_hub :: nat hub))"
    by (rule hub_reach.step [OF hub_reach.init hub_step.subscribe]) (simp add: pushListener_def new_hub_def)
  then have "hub_reach (notify_all 7 (pushListener (new_hub :: nat hub)))"
    by (rule hub_reach.step [OF _ hub_step.event]) (simp_all add: pushListener_def new_hub_def notify_all_def)
  then show ?thesis unfolding demo_hub_def
    by (rule hub_reach.step [OF _ hub_step.hand_over])
       (simp_all add: pushListener_def new_hub_def notify_all_def notify_stream_def deliver_def set_stream_def)
qed




end
