(* ===== verification/Redact.thy ===== *)
theory Redact
  imports Prelude
begin

text \<open>
  The request logger of \<open>interface/grpc/interceptors/logger.go\<close>: which fields of a request are
  replaced before it is written to the log. A request is its JSON value, as \<open>json.Marshal\<close> and
  \<open>json.Unmarshal\<close> give it: an object is a list of fields, in the sorted order the encoder writes
  them in. The encoder and the decoder are arguments of \<open>sanitizeRequest\<close>.
\<close>

datatype json_value =
    JNull
  | JBool bool
  | JNum string
  | JString string
  | JArr "json_value list"
  | JObj "(string \<times> json_value) list"

definition sensitiveRequestFields :: "string list" where
  "sensitiveRequestFields =
     [''macaroon'', ''password'', ''currentpassword'', ''newpassword'', ''privatekey'', ''mnemonic'', ''preimage'',
      ''secret'', ''seed'']"

definition normalizeFieldName :: "string \<Rightarrow> string" where
  "normalizeFieldName name = to_lower (filter is_alnum name)"

definition isSensitiveField :: "string \<Rightarrow> bool" where
  "isSensitiveField name =
     (let normalized = normalizeFieldName name in
      normalized \<in> set sensitiveRequestFields \<or>
      list_ex (\<lambda>sensitive. go_contains normalized sensitive) sensitiveRequestFields)"

fun redactSensitiveFields :: "json_value \<Rightarrow> json_value" where
  "redactSensitiveFields (JObj fs) =
     JObj (map (\<lambda>(key, item). (key, if isSensitiveField key then JString ''******'' else redactSensitiveFields item)) fs)"
| "redactSensitiveFields (JArr xs) = JArr (map redactSensitiveFields xs)"
| "redactSensitiveFields v = v"

text \<open>\<open>None\<close> stands for a nil request, and for \<open>false\<close> in the answer.\<close>

definition sanitizeRequest ::
  "('r \<Rightarrow> string + string) \<Rightarrow> (string \<Rightarrow> string + json_value) \<Rightarrow> (json_value \<Rightarrow> string + string) \<Rightarrow> 'r option \<Rightarrow> string option" where
  "sanitizeRequest marshal unmarshal encode req =
     (case req of
        None \<Rightarrow> None
      | Some r \<Rightarrow>
          (case marshal r of
             Inl _ \<Rightarrow> None
           | Inr raw \<Rightarrow>
               (case unmarshal raw of
                  Inl _ \<Rightarrow> None
                | Inr decoded \<Rightarrow>
                    (case encode (redactSensitiveFields decoded) of Inl _ \<Rightarrow> None | Inr s \<Rightarrow> Some s))))"

text \<open>The log line: level and text. \<open>debug\<close> is whether the debug level is enabled.\<close>

datatype log_level = Warn | Debug

definition log_line :: "string \<Rightarrow> nat \<Rightarrow> string" where
  "log_line fullMethod ms = ''method='' @ fullMethod @ '' duration='' @ format_uint ms @ ''ms''"

definition logUnaryCall ::
  "('r option \<Rightarrow> string option) \<Rightarrow> bool \<Rightarrow> string \<Rightarrow> 'r option \<Rightarrow> nat \<Rightarrow> err \<Rightarrow> log_level \<times> string \<times> err" where
  "logUnaryCall sanitized debug fullMethod req ms er =
     (let str = log_line fullMethod ms;
          str = (if debug
                 then (case sanitized req of
                         Some s \<Rightarrow> if s \<noteq> ''{}'' then str @ '' request='' @ s else str
                       | None \<Rightarrow> str)
                 else str)
      in case er of Some e \<Rightarrow> (Warn, str, Some e) | None \<Rightarrow> (Debug, str, None))"

definition logStreamCall :: "string \<Rightarrow> nat \<Rightarrow> err \<Rightarrow> log_level \<times> string \<times> err" where
  "logStreamCall fullMethod ms er =
     (case er of Some e \<Rightarrow> (Warn, log_line fullMethod ms, Some e) | None \<Rightarrow> (Debug, log_line fullMethod ms, None))"

section \<open>The log does not depend on the secrets\<close>

text \<open>Two requests that may differ only in what stands under sensitive field names.\<close>

inductive agree :: "json_value \<Rightarrow> json_value \<Rightarrow> bool" where
  same: "(\<And>xs. v \<noteq> JArr xs) \<Longrightarrow> (\<And>fs. v \<noteq> JObj fs) \<Longrightarrow> agree v v"
| array: "list_all2 agree xs ys \<Longrightarrow> agree (JArr xs) (JArr ys)"
| fields: "list_all2 (\<lambda>f g. fst f = fst g \<and> (isSensitiveField (fst f) \<or> agree (snd f) (snd g))) fs gs \<Longrightarrow>
    agree (JObj fs) (JObj gs)"
monos list.rel_mono_strong

inductive_simps agree_arr: "agree (JArr xs) w"
inductive_simps agree_obj: "agree (JObj fs) w"

definition redact_field :: "string \<times> json_value \<Rightarrow> string \<times> json_value" where
  "redact_field f = (fst f, if isSensitiveField (fst f) then JString ''******'' else redactSensitiveFields (snd f))"

lemma redact_obj: "redactSensitiveFields (JObj fs) = JObj (map redact_field fs)"
  by (auto simp: redact_field_def)

lemma redact_leaf:
  "(\<And>xs. v \<noteq> JArr xs) \<Longrightarrow> (\<And>fs. v \<noteq> JObj fs) \<Longrightarrow> redactSensitiveFields v = v"
  by (cases v) auto

lemma redact_leaf_eq:
  assumes "\<And>xs. v \<noteq> JArr xs" "\<And>fs. v \<noteq> JObj fs"
  shows "redactSensitiveFields v = redactSensitiveFields w \<longleftrightarrow> agree v w"
proof -
  have "redactSensitiveFields v = redactSensitiveFields w \<longleftrightarrow> v = w"
    using assms redact_leaf [OF assms] by (cases w) auto
  also have "\<dots> \<longleftrightarrow> agree v w" using assms agree.same [OF assms] by (metis agree.cases)
  finally show ?thesis .
qed

lemma map_eq_list_all2: "map f xs = map f ys \<longleftrightarrow> list_all2 (\<lambda>x y. f x = f y) xs ys"
  by (simp add: list_all2_conv_all_nth list_eq_iff_nth_eq) auto

lemma redact_field_eq:
  "redact_field f = redact_field g \<longleftrightarrow>
     fst f = fst g \<and> (isSensitiveField (fst f) \<or> redactSensitiveFields (snd f) = redactSensitiveFields (snd g))"
  by (auto simp: redact_field_def)

lemma list_all2_cong_set:
  "(\<And>x y. x \<in> set xs \<Longrightarrow> P x y \<longleftrightarrow> Q x y) \<Longrightarrow> list_all2 P xs ys \<longleftrightarrow> list_all2 Q xs ys"
  by (auto simp: list_all2_conv_all_nth)


end
