(* ===== verification/Auth.thy ===== *)
theory Auth
  imports Lifecycle
begin

text \<open>
  Who may call what: the permission tables of \<open>internal/config/permissions.go\<close>, the macaroon
  service (\<open>pkg/macaroon/macaroons.go\<close>), the interceptors that ask it
  (\<open>interface/grpc/interceptors/auth.go\<close>), and the loop of \<open>interface/grpc/service.go\<close> that follows
  the wallet's updates. The macaroon library of arkd is the record \<open>mac_lib\<close>, the file system the
  record \<open>mac_files\<close>.

  A method is the pair of its service and its name; \<open>full_method\<close> prints it as gRPC does.
\<close>

section \<open>Permissions\<close>

datatype entity = EntityWallet | EntityService | EntityNotification | EntityDelegate

text \<open>The only action is \<open>access\<close>, so a permission is its entity.\<close>

type_synonym permissions = "(string \<times> entity list) list"

definition full_method :: "string \<times> string \<Rightarrow> string" where
  "full_method m = (case m of (svc, name) \<Rightarrow> CHR ''/'' # svc @ CHR ''/'' # name)"

definition WalletService :: string where "WalletService = ''fulmine.v1.WalletService''"
definition Service_v1 :: string where "Service_v1 = ''fulmine.v1.Service''"
definition NotificationService :: string where "NotificationService = ''fulmine.v1.NotificationService''"
definition DelegateService_v1 :: string where "DelegateService_v1 = ''delegate.v1.DelegateService''"
definition AdminService :: string where "AdminService = ''delegate.v1.AdminService''"
definition Health :: string where "Health = ''grpc.health.v1.Health''"

definition methods_of :: "entity \<Rightarrow> string \<Rightarrow> string list \<Rightarrow> permissions" where
  "methods_of e svc names = map (\<lambda>m. (full_method (svc, m), [e])) names"

definition AdminPermissions :: "entity list" where
  "AdminPermissions = [EntityWallet, EntityService, EntityNotification]"

definition WhitelistedByMethod :: permissions where
  "WhitelistedByMethod =
     methods_of EntityWallet WalletService
       [''GenSeed'', ''CreateWallet'', ''Unlock'', ''Lock'', ''ChangePassword'', ''RestoreWallet'', ''Status'', ''Auth'']
     @ methods_of EntityDelegate DelegateService_v1 [''GetDelegateInfo'', ''Delegate'']
     @ methods_of EntityService ''grpc.reflection.v1.ServerReflection'' [''ServerReflectionInfo'']
     @ methods_of EntityService ''grpc.reflection.v1alpha.ServerReflection'' [''ServerReflectionInfo'']"

definition ProtectedByMethod :: permissions where
  "ProtectedByMethod =
     methods_of EntityService Service_v1
       [''GetAddress'', ''GetBalance'', ''GetInfo'', ''GetOnboardAddress'', ''GetTransactionHistory'', ''RedeemNote'',
        ''Settle'', ''SendOffChain'', ''SendOnChain'', ''SignTransaction'', ''CreateVHTLC'', ''ClaimVHTLC'',
        ''RefundVHTLCWithoutReceiver'', ''ListVHTLC'', ''ListVHTLCs'', ''GetVHTLCSpendingTx'', ''GetVirtualTxs'',
        ''GetVtxos'', ''NextSettlement'']
     @ methods_of EntityService AdminService [''ListDelegates'']
     @ methods_of EntityNotification NotificationService
       [''SubscribeForAddresses'', ''UnsubscribeForAddresses'', ''GetVtxoNotifications'', ''RoundNotifications'',
        ''AddWebhook'', ''RemoveWebhook'', ''ListWebhooks'']"

text \<open>Later entries of the same key win in the Go map; the lookup takes the first, so the protected
  ones come first.\<close>

definition AllPermissionsByMethod :: permissions where
  "AllPermissionsByMethod = ProtectedByMethod @ WhitelistedByMethod"

text \<open>The methods the server registers: the three services of the API, the health service and reflection.\<close>

definition registered_methods :: "string list" where
  "registered_methods =
     map (\<lambda>m. full_method (WalletService, m))
       [''GenSeed'', ''CreateWallet'', ''Unlock'', ''Lock'', ''ChangePassword'', ''RestoreWallet'', ''Status'', ''Auth'',
        ''GetPubKey'']
     @ map (\<lambda>m. full_method (Service_v1, m))
       [''GetAddress'', ''GetBalance'', ''GetInfo'', ''GetOnboardAddress'', ''GetTransactionHistory'', ''RedeemNote'',
        ''Settle'', ''SendOffChain'', ''SendOnChain'', ''SignTransaction'', ''CreateVHTLC'', ''ClaimVHTLC'',
        ''RefundVHTLCWithoutReceiver'', ''ListVHTLC'', ''ListVHTLCs'', ''GetVHTLCSpendingTx'', ''GetVirtualTxs'',
        ''GetVtxos'', ''NextSettlement'']
     @ map (\<lambda>m. full_method (NotificationService, m))
       [''SubscribeForAddresses'', ''UnsubscribeForAddresses'', ''GetVtxoNotifications'', ''RoundNotifications'',
        ''AddWebhook'', ''RemoveWebhook'', ''ListWebhooks'']
     @ map (\<lambda>m. full_method (Health, m)) [''Check'', ''List'', ''Watch'']
     @ [full_method (''grpc.reflection.v1.ServerReflection'', ''ServerReflectionInfo''),
        full_method (''grpc.reflection.v1alpha.ServerReflection'', ''ServerReflectionInfo'')]"

section \<open>The macaroon service\<close>

text \<open>
  The library: unlocking the root-key store of a state with a password, changing it, baking a
  macaroon, validating the one in the request (\<open>'r\<close>) for the permissions of a method, and a
  service over the store that \<open>initKeyStore\<close> opens.
\<close>

record ('k, 'r) mac_lib =
  CreateUnlock :: "string \<Rightarrow> 'k \<Rightarrow> err \<times> 'k"
  Lib_ChangePassword :: "string \<Rightarrow> string \<Rightarrow> 'k \<Rightarrow> err \<times> 'k"
  BakeMacaroon :: "'k \<Rightarrow> entity list \<Rightarrow> string + bytes"
  ValidateMacaroon :: "'k \<Rightarrow> 'r \<Rightarrow> entity list \<Rightarrow> string \<Rightarrow> err"
  FreshStore :: "string + 'k"

record 'k macaroonSvc =
  mac_store :: 'k
  unlocked :: bool
  files :: "(string \<times> bytes) list"

text \<open>\<open>NewService\<close> over the directory of an earlier run: \<open>onDisk\<close> are the files it finds there.\<close>

definition mac_NewService :: "('k, 'r) mac_lib \<Rightarrow> (string \<times> bytes) list \<Rightarrow> string + 'k macaroonSvc" where
  "mac_NewService B onDisk =
     (case FreshStore B of
        Inl e \<Rightarrow> Inl e
      | Inr k \<Rightarrow> Inr \<lparr>mac_store = k, unlocked = False, files = onDisk\<rparr>)"

definition mac_Unlock :: "('k, 'r) mac_lib \<Rightarrow> string \<Rightarrow> 'k macaroonSvc \<Rightarrow> err \<times> 'k macaroonSvc" where
  "mac_Unlock B password m =
     (if unlocked m then (None, m)
      else (case CreateUnlock B password (mac_store m) of
              (Some e, k) \<Rightarrow> (Some e, m\<lparr>mac_store := k\<rparr>)
            | (None, k) \<Rightarrow> (None, m\<lparr>mac_store := k, unlocked := True\<rparr>)))"

definition mac_ChangePassword ::
  "('k, 'r) mac_lib \<Rightarrow> string \<Rightarrow> string \<Rightarrow> 'k macaroonSvc \<Rightarrow> err \<times> 'k macaroonSvc" where
  "mac_ChangePassword B oldPassword newPassword m =
     (if \<not> unlocked m then (Some ''macaroon service is locked'', m)
      else (case Lib_ChangePassword B oldPassword newPassword (mac_store m) of
              (Some e, k) \<Rightarrow> (Some e, m\<lparr>mac_store := k\<rparr>)
            | (None, k) \<Rightarrow> (None, m\<lparr>mac_store := k, unlocked := True\<rparr>)))"

text \<open>\<open>macFiles\<close> has the one entry \<open>admin.macaroon\<close>; \<open>writeErr\<close> is what writing a file answers, and a
  failed write leaves no file.\<close>

definition macFiles :: "(string \<times> entity list) list" where
  "macFiles = [(''admin.macaroon'', AdminPermissions)]"

fun generate_files ::
  "('k, 'r) mac_lib \<Rightarrow> (string \<Rightarrow> err) \<Rightarrow> (string \<times> entity list) list \<Rightarrow> 'k macaroonSvc \<Rightarrow> err \<times> 'k macaroonSvc" where
  "generate_files B writeErr [] m = (None, m)"
| "generate_files B writeErr ((f, perms) # fs) m =
     (if f \<in> fst ` set (files m) then generate_files B writeErr fs m
      else (case BakeMacaroon B (mac_store m) perms of
              Inl e \<Rightarrow> (Some e, m)
            | Inr mac \<Rightarrow>
                (case writeErr f of
                   Some e \<Rightarrow> (Some e, m)
                 | None \<Rightarrow> generate_files B writeErr fs (m\<lparr>files := files m @ [(f, mac)]\<rparr>))))"

definition mac_Generate ::
  "('k, 'r) mac_lib \<Rightarrow> (string \<Rightarrow> err) \<Rightarrow> 'k macaroonSvc \<Rightarrow> err \<times> 'k macaroonSvc" where
  "mac_Generate B writeErr m = generate_files B writeErr macFiles m"

definition mac_Auth :: "('k, 'r) mac_lib \<Rightarrow> 'k macaroonSvc \<Rightarrow> 'r \<Rightarrow> string \<Rightarrow> err" where
  "mac_Auth B m req grpcFullMethodName =
     (if map_of WhitelistedByMethod grpcFullMethodName \<noteq> None then None
      else (case map_of AllPermissionsByMethod grpcFullMethodName of
              None \<Rightarrow> Some (grpcFullMethodName @ '': unknown permissions required for method'')
            | Some uriPermissions \<Rightarrow> ValidateMacaroon B (mac_store m) req uriPermissions grpcFullMethodName))"

text \<open>\<open>removeErr\<close> is what \<open>os.RemoveAll\<close> answers. Between the removal and the new store the old one
  stays in place.\<close>

definition mac_Reset :: "('k, 'r) mac_lib \<Rightarrow> err \<Rightarrow> 'k macaroonSvc \<Rightarrow> err \<times> 'k macaroonSvc" where
  "mac_Reset B removeErr m =
     (case removeErr of
        Some e \<Rightarrow> (Some e, m)
      | None \<Rightarrow>
          (case FreshStore B of
             Inl e \<Rightarrow> (Some e, m\<lparr>files := []\<rparr>)
           | Inr k \<Rightarrow> (None, m\<lparr>files := [], unlocked := False, mac_store := k\<rparr>)))"

section \<open>The interceptors\<close>

text \<open>Without a macaroon service every call goes through; \<open>handler\<close> runs only after \<open>Auth\<close> agreed.\<close>

definition unaryMacaroonAuth ::
  "('k, 'r) mac_lib \<Rightarrow> 'k macaroonSvc option \<Rightarrow> 'r \<Rightarrow> string \<Rightarrow> (unit \<Rightarrow> string + 'a) \<Rightarrow> string + 'a" where
  "unaryMacaroonAuth B svc req fullMethod handler =
     (case svc of
        None \<Rightarrow> handler ()
      | Some m \<Rightarrow> (case mac_Auth B m req fullMethod of Some e \<Rightarrow> Inl e | None \<Rightarrow> handler ()))"

definition streamMacaroonAuth ::
  "('k, 'r) mac_lib \<Rightarrow> 'k macaroonSvc option \<Rightarrow> 'r \<Rightarrow> string \<Rightarrow> (unit \<Rightarrow> err) \<Rightarrow> err" where
  "streamMacaroonAuth B svc req fullMethod handler =
     (case svc of
        None \<Rightarrow> handler ()
      | Some m \<Rightarrow> (case mac_Auth B m req fullMethod of Some e \<Rightarrow> Some e | None \<Rightarrow> handler ()))"

section \<open>Following the wallet\<close>

text \<open>
  One update of \<open>listenToWalletUpdates\<close>, as the type and the password of \<open>WalletUpdate\<close>; \<open>None\<close> is
  \<open>log.Fatal\<close>, which ends the daemon.
\<close>

definition wallet_update ::
  "('k, 'r) mac_lib \<Rightarrow> (string \<Rightarrow> err) \<Rightarrow> err \<Rightarrow> string \<times> string \<Rightarrow> 'k macaroonSvc \<Rightarrow> 'k macaroonSvc option" where
  "wallet_update B writeErr removeErr upd m =
     (case upd of (ty, password) \<Rightarrow>
        if ty = ''init'' \<or> ty = ''unlock''
        then (case mac_Unlock B password m of
                (Some e, _) \<Rightarrow> None
              | (None, m) \<Rightarrow>
                  (case mac_Generate B writeErr m of (Some e, _) \<Rightarrow> None | (None, m) \<Rightarrow> Some m))
        else if ty = ''reset''
        then (case mac_Reset B removeErr m of (Some e, _) \<Rightarrow> None | (None, m) \<Rightarrow> Some m)
        else Some m)"

fun listenToWalletUpdates ::
  "('k, 'r) mac_lib \<Rightarrow> (string \<Rightarrow> err) \<Rightarrow> err \<Rightarrow> (string \<times> string) list \<Rightarrow> 'k macaroonSvc \<Rightarrow> 'k macaroonSvc option" where
  "listenToWalletUpdates B writeErr removeErr [] m = Some m"
| "listenToWalletUpdates B writeErr removeErr (u # us) m =
     (case wallet_update B writeErr removeErr u m of
        None \<Rightarrow> None
      | Some m' \<Rightarrow> listenToWalletUpdates B writeErr removeErr us m')"

section \<open>Starting with an unlocker\<close>

text \<open>\<open>autoUnlock\<close>: \<open>password\<close> is what the unlocker answers, \<open>unlock\<close> the call of \<open>UnlockNode\<close>.\<close>

definition autoUnlock :: "string + string \<Rightarrow> (string \<Rightarrow> node \<Rightarrow> err \<times> node) \<Rightarrow> node \<Rightarrow> err \<times> node" where
  "autoUnlock password unlock n =
     (if \<not> isInitialized n then (None, n)
      else (case password of
              Inl e \<Rightarrow> (Some (''failed to get password: '' @ e), n)
            | Inr pw \<Rightarrow>
                (case unlock pw n of
                   (Some e, n') \<Rightarrow> (Some (''failed to auto unlock: '' @ e), n')
                 | (None, n') \<Rightarrow> (None, n'))))"

section \<open>Properties\<close>

definition public_methods :: "string list" where
  "public_methods = map fst WhitelistedByMethod"

lemma public_methods_lookup: "map_of WhitelistedByMethod x \<noteq> None \<longleftrightarrow> x \<in> set public_methods"
  by (simp add: public_methods_def map_of_eq_None_iff)

text \<open>The tables do not overlap.\<close>

lemma tables_disjoint: "list_all (\<lambda>x. map_of ProtectedByMethod x = None) public_methods"
  by code_simp

lemma protected_lookup:
  "x \<notin> set public_methods \<Longrightarrow> map_of AllPermissionsByMethod x = map_of ProtectedByMethod x"
proof -
  assume "x \<notin> set public_methods"
  then have "map_of WhitelistedByMethod x = None" by (simp add: public_methods_def map_of_eq_None_iff)
  then show ?thesis by (simp add: AllPermissionsByMethod_def map_add_def split: option.splits)
qed

text \<open>The methods that read the wallet, move funds or watch addresses.\<close>

definition wallet_methods :: "string list" where
  "wallet_methods = filter (\<lambda>x. has_prefix (CHR ''/'' # Service_v1) x \<or> has_prefix (CHR ''/'' # NotificationService) x)
     registered_methods"

lemma wallet_methods_protected:
  "list_all (\<lambda>x. x \<notin> set public_methods \<and> map_of ProtectedByMethod x \<noteq> None) wallet_methods"
  by code_simp

lemma mac_Auth_agrees:
  "mac_Auth B m req x = None \<longleftrightarrow>
     x \<in> set public_methods \<or>
     (\<exists>perms. map_of ProtectedByMethod x = Some perms \<and> ValidateMacaroon B (mac_store m) req perms x = None)"
proof (cases "x \<in> set public_methods")
  case True
  then show ?thesis using public_methods_lookup [of x] by (simp add: mac_Auth_def)
next
  case False
  then have "map_of WhitelistedByMethod x = None" using public_methods_lookup [of x] by blast
  with False protected_lookup [OF False] show ?thesis by (auto simp: mac_Auth_def split: option.splits)
qed

text \<open>
  With macaroons on, a method of the wallet API runs only for a request whose macaroon was
  validated for that method and the permission of its service: the answer of a call is then the
  handler's, and a call or a stream that is not validated never reaches its handler.
\<close>

theorem wallet_method_needs_macaroon:
  assumes "x \<in> set wallet_methods"
  shows "\<exists>perms. map_of ProtectedByMethod x = Some perms \<and>
     (case ValidateMacaroon B (mac_store m) req perms x of
        None \<Rightarrow> unaryMacaroonAuth B (Some m) req x handler = handler ()
               \<and> streamMacaroonAuth B (Some m) req x stream = stream ()
      | Some e \<Rightarrow> unaryMacaroonAuth B (Some m) req x handler = Inl e
               \<and> streamMacaroonAuth B (Some m) req x stream = Some e)"
proof -
  from wallet_methods_protected assms obtain perms where
    x: "x \<notin> set public_methods" "map_of ProtectedByMethod x = Some perms" by (auto simp: list_all_iff)
  then have "map_of WhitelistedByMethod x = None" using public_methods_lookup [of x] by blast
  with x protected_lookup [OF x(1)] show ?thesis
    by (auto simp: unaryMacaroonAuth_def streamMacaroonAuth_def mac_Auth_def split: option.splits)
qed

definition demo_mac_lib :: "(unit, string option) mac_lib" where
  "demo_mac_lib =
     \<lparr>CreateUnlock = \<lambda>_ k. (None, k), Lib_ChangePassword = \<lambda>_ _ k. (None, k), BakeMacaroon = \<lambda>_ _. Inr [1],
      ValidateMacaroon = \<lambda>_ req _ _. if req = Some ''admin'' then None else Some ''no macaroon'', FreshStore = Inr ()\<rparr>"

definition demo_mac :: "unit macaroonSvc" where
  "demo_mac = \<lparr>mac_store = (), unlocked = True, files = [(''admin.macaroon'', [1])]\<rparr>"

theorem wallet_method_needs_macaroon_witness:
  "unaryMacaroonAuth demo_mac_lib (Some demo_mac) None (full_method (Service_v1, ''SendOffChain'')) (\<lambda>_. Inr ''txid'') = Inl ''no macaroon''
   \<and> unaryMacaroonAuth demo_mac_lib (Some demo_mac) (Some ''admin'') (full_method (Service_v1, ''SendOffChain'')) (\<lambda>_. Inr ''txid'')
       = Inr ''txid''"
proof -
  have "full_method (Service_v1, ''SendOffChain'') \<in> set wallet_methods" by code_simp
  note protected = wallet_method_needs_macaroon [OF this, where B = demo_mac_lib and m = demo_mac]
  show ?thesis
    using protected [of None "\<lambda>_. Inr ''txid''" "\<lambda>_. None"] protected [of "Some ''admin''" "\<lambda>_. Inr ''txid''" "\<lambda>_. None"]
    by (auto simp: demo_mac_lib_def)
qed

definition unlisted_methods :: "string list" where
  "unlisted_methods = [full_method (WalletService, ''GetPubKey''), full_method (Health, ''Check''),
     full_method (Health, ''List''), full_method (Health, ''Watch'')]"

lemma unlisted_lookup: "x \<in> set unlisted_methods \<Longrightarrow> x \<notin> set public_methods \<and> map_of AllPermissionsByMethod x = None"
proof -
  have "list_all (\<lambda>x. x \<notin> set public_methods \<and> map_of AllPermissionsByMethod x = None) unlisted_methods" by code_simp
  then show "x \<in> set unlisted_methods \<Longrightarrow> x \<notin> set public_methods \<and> map_of AllPermissionsByMethod x = None"
    by (simp add: list_all_iff)
qed

text \<open>
  With macaroons on, the registered methods that are in neither table are exactly
  \<open>WalletService.GetPubKey\<close> and the three of the health service, and they are refused whatever
  macaroon the request carries: the admin macaroon included.
\<close>

theorem unlisted_methods_always_refused:
  "filter (\<lambda>x. map_of AllPermissionsByMethod x = None) registered_methods = unlisted_methods
   \<and> list_all (\<lambda>x. unaryMacaroonAuth B (Some m) req x handler
        = Inl (x @ '': unknown permissions required for method'')) unlisted_methods"
proof
  show "filter (\<lambda>x. map_of AllPermissionsByMethod x = None) registered_methods = unlisted_methods" by code_simp
  show "list_all (\<lambda>x. unaryMacaroonAuth B (Some m) req x handler
        = Inl (x @ '': unknown permissions required for method'')) unlisted_methods"
    using unlisted_lookup public_methods_lookup
    by (auto simp: list_all_iff unaryMacaroonAuth_def mac_Auth_def)
qed

section \<open>The macaroon service follows the wallet\<close>

lemma generate_files_exist:
  "generate_files B w fs m = (None, m') \<Longrightarrow>
     fst ` set fs \<subseteq> fst ` set (files m') \<and> fst ` set (files m) \<subseteq> fst ` set (files m') \<and> unlocked m' = unlocked m"
proof (induction B w fs m rule: generate_files.induct)
  case (2 B w f perms fs m)
  show ?case
  proof (cases "f \<in> fst ` set (files m)")
    case True
    with 2 show ?thesis by auto
  next
    case False
    with 2(3) obtain mac where "BakeMacaroon B (mac_store m) perms = Inr mac" "w f = None"
      "generate_files B w fs (m\<lparr>files := files m @ [(f, mac)]\<rparr>) = (None, m')"
      by (auto split: sum.splits option.splits)
    from 2(2) [OF False this] show ?thesis by auto
  qed
qed auto

definition serving_macaroons :: "'k macaroonSvc \<Rightarrow> bool" where
  "serving_macaroons m \<longleftrightarrow> unlocked m \<and> ''admin.macaroon'' \<in> fst ` set (files m)"

lemma mac_Unlock_None: "mac_Unlock B pw m = (None, m') \<Longrightarrow> unlocked m'"
  by (auto simp: mac_Unlock_def split: if_splits prod.splits option.splits)

lemma wallet_update_serves:
  assumes "wallet_update B w r (ty, pw) m = Some m'" "ty = ''init'' \<or> ty = ''unlock''"
  shows "serving_macaroons m'"
proof -
  from assms obtain m1 where m1: "mac_Unlock B pw m = (None, m1)" "mac_Generate B w m1 = (None, m')"
    by (auto simp: wallet_update_def split: prod.splits option.splits)
  from generate_files_exist [OF m1(2) [unfolded mac_Generate_def]] mac_Unlock_None [OF m1(1)] show ?thesis
    by (auto simp: serving_macaroons_def macFiles_def)
qed

lemma wallet_update_reset:
  "wallet_update B w r (''reset'', pw) m = Some m' \<Longrightarrow> \<not> unlocked m' \<and> files m' = []"
  by (auto simp: wallet_update_def mac_Reset_def split: option.splits sum.splits)

lemma listen_append:
  "listenToWalletUpdates B w r (us @ vs) m =
     (case listenToWalletUpdates B w r us m of None \<Rightarrow> None | Some m' \<Rightarrow> listenToWalletUpdates B w r vs m')"
  by (induction us arbitrary: m) (auto split: option.splits)

text \<open>
  When the updates of a wallet that is reset and set up again arrive in the order they were
  caused, the macaroon service ends unlocked with the admin macaroon on disk; in the other order,
  which the two sending goroutines allow, it ends locked without one, while the wallet is
  initialized.
\<close>

theorem wallet_updates_out_of_order:
  assumes "listenToWalletUpdates B w r [(''reset'', []), (''init'', pw)] m = Some m1"
    and "listenToWalletUpdates B w r [(''init'', pw), (''reset'', [])] m = Some m2"
  shows "serving_macaroons m1 \<and> \<not> unlocked m2 \<and> files m2 = []"
proof -
  from assms(1) obtain a where "wallet_update B w r (''init'', pw) a = Some m1" by (auto split: option.splits)
  moreover from assms(2) obtain b where "wallet_update B w r (''reset'', []) b = Some m2" by (auto split: option.splits)
  ultimately show ?thesis using wallet_update_serves [of B w r "''init''" pw a m1] wallet_update_reset [of B w r "[]" b m2] by blast
qed

end
