(* ===== verification/Handlers.thy ===== *)
theory Handlers
  imports WalletOps Auth
begin

text \<open>
  The gRPC handlers (\<open>interface/grpc/handlers/\<close>): how a request is checked and turned into the
  arguments of the service, the retry of an offchain send, the health service, and the
  \<open>/healthz\<close> endpoint of the gateway. A gRPC status is its code and its text.
\<close>

datatype code = InvalidArgument | Internal | Unimplemented | Unknown_code

type_synonym status = "code \<times> string"

definition invalid :: "string + 'a \<Rightarrow> status + 'a" where
  "invalid x = (case x of Inl e \<Rightarrow> Inl (InvalidArgument, e) | Inr a \<Rightarrow> Inr a)"

definition bind_status :: "status + 'a \<Rightarrow> ('a \<Rightarrow> status + 'b) \<Rightarrow> status + 'b" where
  "bind_status x f = (case x of Inl e \<Rightarrow> Inl e | Inr a \<Rightarrow> f a)"

lemma bind_status_Inr: "bind_status x f = Inr b \<longleftrightarrow> (\<exists>a. x = Inr a \<and> f a = Inr b)"
  by (cases x) (auto simp: bind_status_def)

lemma invalid_Inr [simp]: "invalid x = Inr a \<longleftrightarrow> x = Inr a"
  by (cases x) (auto simp: invalid_def)

section \<open>Checking a request\<close>

definition parseServerUrl :: "(string \<Rightarrow> string + url) \<Rightarrow> string \<Rightarrow> string + string" where
  "parseServerUrl parse a =
     (if a = [] then Inl ''missing server url''
      else if \<not> IsValidURL parse a then Inl ''invalid server url''
      else Inr a)"

text \<open>\<open>IsValidPassword\<close> accepts everything.\<close>

definition parsePassword :: "string \<Rightarrow> string + string" where
  "parsePassword p = (if p = [] then Inl ''missing password'' else Inr p)"

definition parseMnemonic :: "(string \<Rightarrow> err) \<Rightarrow> string \<Rightarrow> string + string" where
  "parseMnemonic validMnemonic mnemonic =
     (if mnemonic = [] then Inl ''missing mnemonic''
      else (case validMnemonic mnemonic of Some e \<Rightarrow> Inl e | None \<Rightarrow> Inr mnemonic))"

definition parseArkAddress :: "string \<Rightarrow> string + string" where
  "parseArkAddress a =
     (if a = [] then Inl ''missing address''
      else if \<not> IsValidOffchainAddress a then Inl ''invalid address''
      else Inr a)"

fun check_addresses :: "string list \<Rightarrow> status + unit" where
  "check_addresses [] = Inr ()"
| "check_addresses (addr # addrs) =
     (case parseArkAddress addr of
        Inl e \<Rightarrow> Inl (InvalidArgument, ''invalid address '' @ addr @ '': '' @ e)
      | Inr _ \<Rightarrow> check_addresses addrs)"

definition parseAddresses :: "string list \<Rightarrow> status + string list" where
  "parseAddresses addresses =
     (if addresses = [] then Inl (InvalidArgument, ''no addresses provided'')
      else bind_status (check_addresses addresses) (\<lambda>_. Inr addresses))"

text \<open>\<open>Error()\<close> of a gRPC status, which a handler wraps into a status again.\<close>

definition code_text :: "code \<Rightarrow> string" where
  "code_text c =
     (case c of InvalidArgument \<Rightarrow> ''InvalidArgument'' | Internal \<Rightarrow> ''Internal''
      | Unimplemented \<Rightarrow> ''Unimplemented'' | Unknown_code \<Rightarrow> ''Unknown'')"

definition status_text :: "status \<Rightarrow> string" where
  "status_text st = ''rpc error: code = '' @ code_text (fst st) @ '' desc = '' @ snd st"

definition h_SubscribeForAddresses :: "(string list \<Rightarrow> 's \<Rightarrow> err \<times> 's) \<Rightarrow> string list \<Rightarrow> 's \<Rightarrow> (status + unit) \<times> 's" where
  "h_SubscribeForAddresses svc req s =
     (case parseAddresses req of
        Inl st \<Rightarrow> (Inl (InvalidArgument, status_text st), s)
      | Inr addresses \<Rightarrow>
          (case svc addresses s of
             (Some e, s') \<Rightarrow> (Inl (Internal, ''failed to subscribe: '' @ e), s')
           | (None, s') \<Rightarrow> (Inr (), s')))"

definition h_UnsubscribeForAddresses :: "(string list \<Rightarrow> 's \<Rightarrow> err \<times> 's) \<Rightarrow> string list \<Rightarrow> 's \<Rightarrow> (status + unit) \<times> 's" where
  "h_UnsubscribeForAddresses svc req s =
     (case parseAddresses req of
        Inl st \<Rightarrow> (Inl (InvalidArgument, status_text st), s)
      | Inr addresses \<Rightarrow>
          (case svc addresses s of
             (Some e, s') \<Rightarrow> (Inl (Internal, ''failed to unsubscribe: '' @ e), s')
           | (None, s') \<Rightarrow> (Inr (), s')))"

definition parseAddress :: "string \<Rightarrow> string + string" where
  "parseAddress a =
     (if a = [] then Inl ''missing address''
      else if \<not> IsValidOffchainAddress a \<and> \<not> IsValidBtcAddress a then Inl ''invalid address''
      else Inr a)"

definition parseAmount :: "u64 \<Rightarrow> string + u64" where
  "parseAmount a = (if a = 0 then Inl ''missing amount'' else Inr a)"

text \<open>\<open>noteValue\<close> is \<open>int(n.Value)\<close> for the note \<open>note.NewNoteFromString\<close> reads, if the text is one.\<close>

definition SatsFromNote :: "(string \<Rightarrow> int option) \<Rightarrow> string \<Rightarrow> int" where
  "SatsFromNote noteValue text = (case noteValue text of None \<Rightarrow> 0 | Some v \<Rightarrow> v)"

definition IsValidNote :: "(string \<Rightarrow> int option) \<Rightarrow> string \<Rightarrow> bool" where
  "IsValidNote noteValue text = (SatsFromNote noteValue text > 0)"

definition parseNote :: "(string \<Rightarrow> int option) \<Rightarrow> string \<Rightarrow> string + string" where
  "parseNote noteValue n =
     (if n = [] then Inl ''missing note''
      else if \<not> IsValidNote noteValue n then Inl ''invalid note''
      else Inr n)"

definition parsePubkey :: "crypto \<Rightarrow> string \<Rightarrow> string + pubkey option" where
  "parsePubkey L pk =
     (if pk = [] then Inr None
      else (case hex_decode pk of
              None \<Rightarrow> Inl ''pubkey must be encoded in hex format''
            | Some buf \<Rightarrow>
                (case ParsePubKey L buf of
                   Inl e \<Rightarrow> Inl (''invalid pubkey: '' @ e)
                 | Inr k \<Rightarrow> Inr (Some k))))"

definition parseAbsoluteLocktime :: "u32 \<Rightarrow> u32 option" where
  "parseAbsoluteLocktime locktime = (if locktime = 0 then None else Some locktime)"

datatype locktime_type = LOCKTIME_TYPE_UNSPECIFIED | LOCKTIME_TYPE_BLOCK | LOCKTIME_TYPE_SECOND

definition parseRelativeLocktime :: "(locktime_type \<times> u32) option \<Rightarrow> relative_locktime option" where
  "parseRelativeLocktime locktime =
     (case locktime of
        None \<Rightarrow> None
      | Some (LOCKTIME_TYPE_SECOND, v) \<Rightarrow> Some (LocktimeSecond v)
      | Some (_, v) \<Rightarrow> Some (LocktimeBlock v))"

definition parseTransaction :: "crypto \<Rightarrow> string \<Rightarrow> string + string" where
  "parseTransaction L tx =
     (if tx = [] then Inl ''missing transaction''
      else (case NewFromRawBytes L tx of Inl e \<Rightarrow> Inl (''invalid transaction: '' @ e) | Inr _ \<Rightarrow> Inr tx))"

text \<open>\<open>decodeAddress\<close> is \<open>arklib.DecodeAddressV0\<close> with the parts the service reads.\<close>

definition parseNonInteractiveClaim :: "(string \<Rightarrow> string + nic_address) \<Rightarrow> string \<Rightarrow> string + nic_address" where
  "parseNonInteractiveClaim decodeAddress claimAddr =
     (if claimAddr = [] then Inl ''claim_address is required'' else decodeAddress claimAddr)"

definition parseInputOutpoint :: "(string \<times> u32) option \<Rightarrow> status + (string \<times> u32) option" where
  "parseInputOutpoint input =
     (case input of
        None \<Rightarrow> Inr None
      | Some (txid, vout) \<Rightarrow>
          if txid = [] then Inl (InvalidArgument, ''outpoint txid is required when outpoint is provided'')
          else Inr (Some (txid, vout)))"

section \<open>VHTLC requests\<close>

record create_vhtlc_request =
  Req_PreimageHash :: string
  Req_ReceiverPubkey :: string
  Req_SenderPubkey :: string
  Req_RefundLocktime :: u32
  Req_UnilateralClaimDelay :: "(locktime_type \<times> u32) option"
  Req_UnilateralRefundDelay :: "(locktime_type \<times> u32) option"
  Req_UnilateralRefundWithoutReceiverDelay :: "(locktime_type \<times> u32) option"
  Req_NonInteractiveClaim :: "string option"

definition with_text :: "string \<Rightarrow> string + 'a \<Rightarrow> string + 'a" where
  "with_text t x = (case x of Inl _ \<Rightarrow> Inl t | Inr a \<Rightarrow> Inr a)"

definition parse_nic :: "(string \<Rightarrow> string + nic_address) \<Rightarrow> string option \<Rightarrow> string + nic_address option" where
  "parse_nic decodeAddress nic =
     (case nic of
        None \<Rightarrow> Inr None
      | Some a \<Rightarrow> (case parseNonInteractiveClaim decodeAddress a of Inl e \<Rightarrow> Inl e | Inr x \<Rightarrow> Inr (Some x)))"

text \<open>The arguments \<open>serviceHandler.CreateVHTLC\<close> calls the service with.\<close>

definition parse_CreateVHTLC ::
  "crypto \<Rightarrow> (string \<Rightarrow> string + nic_address) \<Rightarrow> create_vhtlc_request option \<Rightarrow> status + vhtlc_request" where
  "parse_CreateVHTLC L decodeAddress req =
     (case req of
        None \<Rightarrow> Inl (InvalidArgument, ''request cannot be nil'')
      | Some rq \<Rightarrow>
          if Req_PreimageHash rq = [] then Inl (InvalidArgument, ''preimage hash is required'')
          else
          bind_status (invalid (with_text ''invalid receiver pubkey'' (parsePubkey L (Req_ReceiverPubkey rq)))) (\<lambda>receiverPubkey.
          bind_status (invalid (with_text ''invalid sender pubkey'' (parsePubkey L (Req_SenderPubkey rq)))) (\<lambda>senderPubkey.
          if (receiverPubkey \<noteq> None) = (senderPubkey \<noteq> None)
          then Inl (InvalidArgument, ''only one of receiver or sender public keys must be set'')
          else
           (case hex_decode (Req_PreimageHash rq) of
              None \<Rightarrow> Inl (InvalidArgument, ''invalid preimage hash'')
            | Some preimageHash \<Rightarrow>
                bind_status (invalid (parse_nic decodeAddress (Req_NonInteractiveClaim rq))) (\<lambda>nic.
                Inr \<lparr>R_Receiver = receiverPubkey, R_Sender = senderPubkey, R_PreimageHash = preimageHash,
                     R_RefundLocktime = parseAbsoluteLocktime (Req_RefundLocktime rq),
                     R_UnilateralClaimDelay = parseRelativeLocktime (Req_UnilateralClaimDelay rq),
                     R_UnilateralRefundDelay = parseRelativeLocktime (Req_UnilateralRefundDelay rq),
                     R_UnilateralRefundWithoutReceiverDelay = parseRelativeLocktime (Req_UnilateralRefundWithoutReceiverDelay rq),
                     R_NonInteractive = nic\<rparr>)))))"

definition parse_ClaimVHTLC ::
  "string \<Rightarrow> string \<Rightarrow> (string \<times> u32) option \<Rightarrow> status + bytes \<times> string \<times> (string \<times> u32) option" where
  "parse_ClaimVHTLC preimage vhtlcId op =
     (if preimage = [] then Inl (InvalidArgument, ''missing preimage'')
      else case hex_decode preimage of
        None \<Rightarrow> Inl (InvalidArgument, ''invalid preimage'')
      | Some preimageBytes \<Rightarrow>
          if vhtlcId = [] then Inl (InvalidArgument, ''missing vhtlc id'')
          else bind_status (parseInputOutpoint op) (\<lambda>outpoint. Inr (preimageBytes, vhtlcId, outpoint)))"

definition parse_RefundVHTLC :: "string \<Rightarrow> (string \<times> u32) option \<Rightarrow> status + string \<times> (string \<times> u32) option" where
  "parse_RefundVHTLC vhtlcId op =
     (if vhtlcId = [] then Inl (InvalidArgument, ''missing vhtlc id'')
      else bind_status (parseInputOutpoint op) (\<lambda>outpoint. Inr (vhtlcId, outpoint)))"

section \<open>Listings\<close>

datatype vtxo_filter = SpendableOnly bool | SpentOnly bool | RecoverableOnly bool

definition parse_vtxo_filter :: "vtxo_filter option \<Rightarrow> status + string" where
  "parse_vtxo_filter flt =
     (case flt of
        Some (SpendableOnly b) \<Rightarrow>
          if b then Inr ''spendable'' else Inl (InvalidArgument, ''spendable only cannot be false'')
      | Some (SpentOnly b) \<Rightarrow> if b then Inr ''spent'' else Inl (InvalidArgument, ''spent only cannot be false'')
      | Some (RecoverableOnly b) \<Rightarrow>
          if b then Inr ''recoverable'' else Inl (InvalidArgument, ''recoverable only cannot be false'')
      | None \<Rightarrow> Inr ''all'')"

definition h_GetVirtualTxs :: "(string list \<Rightarrow> string list result) \<Rightarrow> string list \<Rightarrow> string list result" where
  "h_GetVirtualTxs svc txids =
     (let filteredTxids = filter (\<lambda>t. t \<noteq> []) txids in
      if filteredTxids = [] then Ok [] else svc filteredTxids)"

definition NextSettlement :: "go_time \<Rightarrow> int" where
  "NextSettlement nextRenewal = (if IsZero nextRenewal then 0 else unix_of_time nextRenewal)"

text \<open>The page of \<open>ListDelegates\<close>; the request has unsigned 32-bit numbers, \<open>int\<close> has 64 bits.\<close>

definition delegate_page :: "u32 \<Rightarrow> u32 \<Rightarrow> int \<times> int" where
  "delegate_page reqLimit reqOffset =
     (let l = uint reqLimit;
          l = (if l \<le> 0 then 100 else l);
          l = (if l > 1000 then 1000 else l);
          offset = uint reqOffset
      in (l, if offset < 0 then 0 else offset))"

definition ListDelegates ::
  "(delegate_task_status \<Rightarrow> int \<Rightarrow> int \<Rightarrow> string + 'd list) \<Rightarrow> string \<Rightarrow> u32 \<Rightarrow> u32 \<Rightarrow> status + 'd list" where
  "ListDelegates getTasks statusStr reqLimit reqOffset =
     (if statusStr = [] then Inl (InvalidArgument, ''status is required'')
      else bind_status (invalid (DelegateTaskStatusFromString statusStr)) (\<lambda>st.
        case delegate_page reqLimit reqOffset of
          (l, offset) \<Rightarrow>
            (case getTasks st l offset of Inl e \<Rightarrow> Inl (Internal, e) | Inr ds \<Rightarrow> Inr ds)))"

datatype network = NETWORK_UNSPECIFIED | NETWORK_REGTEST | NETWORK_TESTNET | NETWORK_MAINNET

definition toNetworkProto :: "string \<Rightarrow> network" where
  "toNetworkProto net =
     (if net = ''regtest'' then NETWORK_REGTEST
      else if net = ''testnet'' then NETWORK_TESTNET
      else if net = ''mainnet'' then NETWORK_MAINNET
      else NETWORK_UNSPECIFIED)"

section \<open>Wallet requests\<close>

text \<open>\<open>unlocker\<close> is what the configured unlocker answers, \<open>None\<close> without one.\<close>

definition autoUnlockPassword :: "(string + string) option \<Rightarrow> string option" where
  "autoUnlockPassword unlocker =
     (case unlocker of
        Some (Inr password) \<Rightarrow> if password = [] then None else Some password
      | _ \<Rightarrow> None)"

definition CreateWallet ::
  "(string \<Rightarrow> string + url) \<Rightarrow> (string \<Rightarrow> err) \<Rightarrow> (string + string) option \<Rightarrow>
     (string \<Rightarrow> string \<Rightarrow> string \<Rightarrow> node \<Rightarrow> err \<times> node) \<Rightarrow> string \<Rightarrow> string \<Rightarrow> string \<Rightarrow> node \<Rightarrow> (status + unit) \<times> node" where
  "CreateWallet parse validMnemonic unlocker setup' serverUrl0 password0 mnemonic0 n =
     (case bind_status (invalid (parseServerUrl parse serverUrl0)) (\<lambda>serverUrl.
           bind_status (case autoUnlockPassword unlocker of
                          Some pw \<Rightarrow> if \<not> isInitialized n then Inr pw else invalid (parsePassword password0)
                        | None \<Rightarrow> invalid (parsePassword password0)) (\<lambda>password.
           bind_status (invalid (parseMnemonic validMnemonic mnemonic0)) (\<lambda>mnemonic.
           Inr (serverUrl, password, mnemonic)))) of
        Inl e \<Rightarrow> (Inl e, n)
      | Inr (serverUrl, password, mnemonic) \<Rightarrow>
          (case setup' serverUrl password mnemonic n of
             (Some e, n') \<Rightarrow> (Inl (Unknown_code, e), n')
           | (None, n') \<Rightarrow> (Inr (), n')))"

definition h_Unlock :: "(string \<Rightarrow> node \<Rightarrow> err \<times> node) \<Rightarrow> string \<Rightarrow> node \<Rightarrow> (status + unit) \<times> node" where
  "h_Unlock unlock password n =
     (case parsePassword password of
        Inl e \<Rightarrow> (Inl (InvalidArgument, e), n)
      | Inr pw \<Rightarrow> (case unlock pw n of (Some e, n') \<Rightarrow> (Inl (Unknown_code, e), n') | (None, n') \<Rightarrow> (Inr (), n')))"

text \<open>Initialized, unlocked, synced.\<close>

definition h_Status :: "node \<Rightarrow> bool \<times> bool \<times> bool" where
  "h_Status n = (isInitialized n, isInitialized n \<and> \<not> walletLocked n, fst (IsSynced n))"

section \<open>Health\<close>

datatype health = SERVING | NOT_SERVING | UNKNOWN | SERVICE_UNKNOWN

definition getFulmineStatus :: "node \<Rightarrow> health" where
  "getFulmineStatus n =
     (case IsSynced n of
        (_, Some e) \<Rightarrow> NOT_SERVING
      | (isSynced, None) \<Rightarrow> if isSynced \<and> isInitialized n \<and> \<not> walletLocked n then SERVING else NOT_SERVING)"

definition validateServiceName :: "string \<Rightarrow> err" where
  "validateServiceName requested =
     (if requested = ''fulmine'' then None
      else if requested = [] then Some ''missing service name''
      else Some (''invalid service name: '' @ requested))"

definition getServiceStatus :: "node \<Rightarrow> string \<Rightarrow> health" where
  "getServiceStatus n serviceName = (if serviceName = ''fulmine'' then getFulmineStatus n else UNKNOWN)"

definition health_Check :: "node \<Rightarrow> string \<Rightarrow> status + health" where
  "health_Check n serviceName =
     (case validateServiceName serviceName of
        Some e \<Rightarrow> Inl (InvalidArgument, e)
      | None \<Rightarrow> Inr (getServiceStatus n serviceName))"

text \<open>\<open>GET /healthz\<close>: the HTTP status of what the health client answers.\<close>

definition healthz :: "string + health \<Rightarrow> nat" where
  "healthz resp =
     (case resp of
        Inl _ \<Rightarrow> 503
      | Inr SERVING \<Rightarrow> 200
      | Inr NOT_SERVING \<Rightarrow> 503
      | Inr SERVICE_UNKNOWN \<Rightarrow> 404
      | Inr UNKNOWN \<Rightarrow> 503)"

text \<open>The endpoint calls the server, so it passes the interceptor.\<close>

definition get_healthz :: "('k, 'r) mac_lib \<Rightarrow> 'k macaroonSvc option \<Rightarrow> 'r \<Rightarrow> node \<Rightarrow> nat" where
  "get_healthz B svc req n =
     healthz (unaryMacaroonAuth B svc req (full_method (Health, ''Check''))
       (\<lambda>_. case health_Check n ''fulmine'' of Inl (_, e) \<Rightarrow> Inl e | Inr h \<Rightarrow> Inr h))"

section \<open>Sending offchain\<close>

text \<open>
  \<open>sendOffChainWithRecovery\<close> over a state the sends and the finalizations change; \<open>ctx_ended\<close> says
  whether the context ends while the loop waits. The trace counts the sends and the
  finalizations.
\<close>

record 's send_env =
  Send :: "'s \<Rightarrow> (string + string) \<times> 's"
  FinalizePending :: "'s \<Rightarrow> err \<times> 's"
  CtxEnded :: "'s \<Rightarrow> err"

definition isVtxoAlreadySpent :: "string \<Rightarrow> bool" where
  "isVtxoAlreadySpent e = go_contains (to_lower e) ''vtxo_already_spent''"

datatype send_call = SendCall | FinalizeCall

fun send_loop :: "'s send_env \<Rightarrow> nat \<Rightarrow> string \<Rightarrow> 's \<Rightarrow> (string + string) \<times> send_call list \<times> 's" where
  "send_loop E 0 er s = (Inl er, [], s)"
| "send_loop E (Suc k) er s =
     (case Send E s of
        (Inr txid, s1) \<Rightarrow> (Inr txid, [SendCall], s1)
      | (Inl e, s1) \<Rightarrow>
          if \<not> isVtxoAlreadySpent e then (Inl e, [SendCall], s1)
          else
           (case FinalizePending E s1 of
              (_, s2) \<Rightarrow>
                if k = 0 then (Inl e, [SendCall, FinalizeCall], s2)
                else
                 (case CtxEnded E s2 of
                    Some c \<Rightarrow> (Inl c, [SendCall, FinalizeCall], s2)
                  | None \<Rightarrow>
                      (case send_loop E k e s2 of
                         (res, tr, s3) \<Rightarrow> (res, SendCall # FinalizeCall # tr, s3)))))"

definition sendOffChainWithRecovery ::
  "'s send_env \<Rightarrow> int \<Rightarrow> 's \<Rightarrow> (string + string) \<times> send_call list \<times> 's" where
  "sendOffChainWithRecovery E attempts s =
     (if attempts \<le> 0 then (Inl (''attempts must be positive, got '' @ format_int attempts), [], s)
      else send_loop E (nat attempts) [] s)"

definition SendOffChain ::
  "'s send_env \<Rightarrow> string \<Rightarrow> u64 \<Rightarrow> 's \<Rightarrow> (status + string) \<times> send_call list \<times> 's" where
  "SendOffChain E addr amount s =
     (case bind_status (invalid (parseAddress addr)) (\<lambda>_. invalid (parseAmount amount)) of
        Inl e \<Rightarrow> (Inl e, [], s)
      | Inr _ \<Rightarrow>
          (case sendOffChainWithRecovery E 3 s of
             (Inl e, tr, s') \<Rightarrow> (Inl (Unknown_code, e), tr, s')
           | (Inr txid, tr, s') \<Rightarrow> (Inr txid, tr, s')))"

section \<open>Properties of the requests\<close>

text \<open>What the service is called with has exactly one key set and the preimage hash of the request.\<close>

lemma parse_CreateVHTLC_args:
  assumes "parse_CreateVHTLC L decodeAddress req = Inr r"
  shows "(R_Receiver r = None) \<noteq> (R_Sender r = None) \<and>
     (\<exists>rq. req = Some rq \<and> Req_PreimageHash rq \<noteq> [] \<and> hex_decode (Req_PreimageHash rq) = Some (R_PreimageHash r))"
  using assms
  by (auto simp: parse_CreateVHTLC_def bind_status_Inr split: option.splits if_splits)

lemma delegate_page_bounds:
  assumes "delegate_page l off = (k, j)"
  shows "1 \<le> k \<and> k \<le> 1000 \<and> 0 \<le> j"
proof -
  have l: "uint l = 0 \<or> 1 \<le> uint l" using uint_ge_0 [of l] by linarith
  have "0 \<le> uint off" by simp
  with l assms show ?thesis by (auto simp: delegate_page_def Let_def split: if_splits)
qed

text \<open>A filter the handler passes on is one the service knows.\<close>

lemma vtxo_filter_known: "parse_vtxo_filter flt = Inr ft \<Longrightarrow> keep_of ft \<noteq> None"
  by (auto simp: parse_vtxo_filter_def keep_of_def split: option.splits vtxo_filter.splits if_splits)

section \<open>The recovery of a send\<close>

text \<open>The state after a send that failed and the finalization that follows it.\<close>

definition recovery_round :: "'s send_env \<Rightarrow> 's \<Rightarrow> 's" where
  "recovery_round E s = snd (FinalizePending E (snd (Send E s)))"

definition spent_at :: "'s send_env \<Rightarrow> 's \<Rightarrow> nat \<Rightarrow> bool" where
  "spent_at E s i =
     (case fst (Send E ((recovery_round E ^^ i) s)) of Inl e \<Rightarrow> isVtxoAlreadySpent e | Inr _ \<Rightarrow> False)"

definition send_trace :: "nat \<Rightarrow> send_call list" where
  "send_trace k = concat (replicate k [SendCall, FinalizeCall])"

text \<open>How a loop of at most \<open>n\<close> attempts ends after \<open>k\<close> rounds of recovery.\<close>

inductive send_outcome :: "'s send_env \<Rightarrow> 's \<Rightarrow> nat \<Rightarrow> nat \<Rightarrow> string + string \<Rightarrow> send_call list \<Rightarrow> 's \<Rightarrow> bool"
  for E :: "'s send_env" and s :: 's and n :: nat where
  answered: "k < n \<Longrightarrow> Send E ((recovery_round E ^^ k) s) = (res, s') \<Longrightarrow> \<not> spent_at E s k \<Longrightarrow>
    send_outcome E s n k res (send_trace k @ [SendCall]) s'"
| cancelled: "0 < k \<Longrightarrow> k < n \<Longrightarrow> s' = (recovery_round E ^^ k) s \<Longrightarrow> CtxEnded E s' = Some c \<Longrightarrow>
    send_outcome E s n k (Inl c) (send_trace k) s'"
| given_up: "0 < n \<Longrightarrow> s' = (recovery_round E ^^ n) s \<Longrightarrow>
    send_outcome E s n n (fst (Send E ((recovery_round E ^^ (n - 1)) s))) (send_trace n) s'"

lemma send_outcome_Suc:
  assumes "send_outcome E (recovery_round E s) n k res tr s'"
  shows "send_outcome E s (Suc n) (Suc k) res (SendCall # FinalizeCall # tr) s'"
  using assms
proof cases
  case answered
  then show ?thesis
    using send_outcome.answered [of "Suc k" "Suc n" E s res s']
    by (simp add: send_trace_def spent_at_def funpow_Suc_right del: funpow.simps)
next
  case (cancelled c)
  then show ?thesis
    using send_outcome.cancelled [of "Suc k" "Suc n" s' E s c]
    by (simp add: send_trace_def funpow_Suc_right del: funpow.simps)
next
  case given_up
  then obtain m where m: "n = Suc m" by (cases n) auto
  with given_up show ?thesis
    using send_outcome.given_up [of "Suc n" s' E s]
    by (simp add: send_trace_def funpow_Suc_right del: funpow.simps)
qed

lemma send_loop_outcome:
  "0 < n \<Longrightarrow> send_loop E n er s = (res, tr, s') \<Longrightarrow>
     \<exists>k. send_outcome E s n k res tr s' \<and> list_all (spent_at E s) [0..<k]"
proof (induction n arbitrary: er s res tr s')
  case (Suc k)
  obtain r s1 where send: "Send E s = (r, s1)" by force
  show ?case
  proof (cases "spent_at E s 0")
    case False
    then have "res = r \<and> tr = [SendCall] \<and> s' = s1"
      using Suc.prems(2) send by (cases r) (auto simp: spent_at_def)
    then show ?thesis
      using send_outcome.answered [of 0 "Suc k" E s r s1] send False by (auto simp: send_trace_def)
  next
    case True
    then obtain e where e: "r = Inl e" "isVtxoAlreadySpent e"
      using send by (cases r) (auto simp: spent_at_def)
    obtain fe s2 where fin: "FinalizePending E s1 = (fe, s2)" by force
    have s2: "recovery_round E s = s2" using send fin by (simp add: recovery_round_def)
    show ?thesis
    proof (cases "k = 0")
      case True
      then have "res = Inl e \<and> tr = [SendCall, FinalizeCall] \<and> s' = s2" using Suc.prems(2) send e fin by simp
      then show ?thesis
        using send_outcome.given_up [of 1 s2 E s] \<open>spent_at E s 0\<close> True send e s2 by (auto simp: send_trace_def)
    next
      case k: False
      show ?thesis
      proof (cases "CtxEnded E s2")
        case (Some c)
        then have "res = Inl c \<and> tr = [SendCall, FinalizeCall] \<and> s' = s2" using Suc.prems(2) send e fin k by simp
        then show ?thesis
          using send_outcome.cancelled [of 1 "Suc k" s2 E s c] \<open>spent_at E s 0\<close> k Some s2
          by (intro exI [of _ 1]) (simp add: send_trace_def)
      next
        case None
        obtain res3 tr3 s3 where rec: "send_loop E k e s2 = (res3, tr3, s3)" by (metis prod_cases3)
        then have out: "res = res3" "tr = SendCall # FinalizeCall # tr3" "s' = s3"
          using Suc.prems(2) send e fin k None by auto
        from Suc.IH [OF _ rec] k obtain j where
          j: "send_outcome E s2 k j res3 tr3 s3" "list_all (spent_at E s2) [0..<j]" by blast
        have "spent_at E s (Suc i) = spent_at E s2 i" for i
          by (simp add: spent_at_def funpow_Suc_right s2 del: funpow.simps)
        then have "spent_at E s i" if "i < Suc j" for i
          using that j(2) \<open>spent_at E s 0\<close> by (cases i) (auto simp: list_all_iff)
        then have "list_all (spent_at E s) [0..<Suc j]" by (simp add: list_all_iff)
        with send_outcome_Suc [OF j(1) [folded s2]] out show ?thesis by blast
      qed
    qed
  qed
qed simp


lemma IsSynced_ok:
  "IsSynced n = (True, None) \<longleftrightarrow> (\<exists>ev. syncEvent n = Some ev \<and> Synced ev \<and> SyncErr ev = None)"
  by (auto simp: IsSynced_def split: option.splits)

lemma getFulmineStatus_serving:
  "getFulmineStatus n = SERVING \<longleftrightarrow> IsSynced n = (True, None) \<and> isInitialized n \<and> \<not> walletLocked n"
  by (auto simp: getFulmineStatus_def split: prod.splits option.splits)

lemma getFulmineStatus_cases: "getFulmineStatus n = SERVING \<or> getFulmineStatus n = NOT_SERVING"
  by (auto simp: getFulmineStatus_def split: prod.splits option.splits)

text \<open>
  Without macaroons \<open>GET /healthz\<close> answers 200 exactly when the wallet is initialized, unlocked and
  synced without an error, and 503 otherwise. With macaroons on, which is the default, it answers
  503 in every state: the health service is in no permission table.
\<close>

theorem healthz_is_down_with_macaroons:
  "get_healthz B (Some m) req n = 503 \<and>
   get_healthz B None req n =
     (if isInitialized n \<and> \<not> walletLocked n \<and> (\<exists>ev. syncEvent n = Some ev \<and> Synced ev \<and> SyncErr ev = None)
      then 200 else 503)"
proof
  have "full_method (Health, ''Check'') \<in> set unlisted_methods" by (simp add: unlisted_methods_def)
  from unlisted_lookup [OF this] public_methods_lookup [of "full_method (Health, ''Check'')"]
  show "get_healthz B (Some m) req n = 503"
    by (auto simp: get_healthz_def unaryMacaroonAuth_def mac_Auth_def healthz_def)
  have "health_Check n ''fulmine'' = Inr (getFulmineStatus n)"
    by (simp add: health_Check_def validateServiceName_def getServiceStatus_def)
  then have "get_healthz B None req n = (if getFulmineStatus n = SERVING then 200 else 503)"
    using getFulmineStatus_cases [of n] by (auto simp: get_healthz_def unaryMacaroonAuth_def healthz_def)
  then show "get_healthz B None req n =
     (if isInitialized n \<and> \<not> walletLocked n \<and> (\<exists>ev. syncEvent n = Some ev \<and> Synced ev \<and> SyncErr ev = None)
      then 200 else 503)"
    by (simp add: getFulmineStatus_serving IsSynced_ok conj_ac)
qed

end
