(* ===== verification/Messages.thy ===== *)
theory Messages
  imports Handlers Subscription DelegateService
begin

text \<open>
  The answers of the gRPC handlers (\<open>interface/grpc/handlers/\<close>): the translation of the program's
  values into protobuf messages, and the handlers as a whole, from the request to the reply. A
  message is a record with the fields the code sets; a nil message is \<open>None\<close>.
\<close>

section \<open>VTXOs and notifications\<close>

type_synonym pb_input = "string \<times> u32"

definition toInputProto :: "string \<times> u32 \<Rightarrow> pb_input" where
  "toInputProto op = (fst op, snd op)"

record pb_vtxo =
  Pb_Outpoint :: pb_input
  Pb_Script :: string
  Pb_Amount :: u64
  Pb_SpentBy :: string
  Pb_ExpiresAt :: int
  Pb_CommitmentTxids :: "string list"
  Pb_ArkTxid :: string
  Pb_CreatedAt :: int
  Pb_IsPreconfirmed :: bool
  Pb_IsSwept :: bool
  Pb_IsUnrolled :: bool
  Pb_IsSpent :: bool
  Pb_SettledBy :: string

definition toVtxoProto :: "wallet_vtxo \<Rightarrow> pb_vtxo" where
  "toVtxoProto v =
     \<lparr>Pb_Outpoint = toInputProto (Vtxo_Txid v, Vtxo_VOut v), Pb_Script = Vtxo_Script v, Pb_Amount = Amount v,
      Pb_SpentBy = SpentBy v, Pb_ExpiresAt = unix_of_time (ExpiresAt v), Pb_CommitmentTxids = CommitmentTxids v,
      Pb_ArkTxid = ArkTxid v, Pb_CreatedAt = unix_of_time (CreatedAt v), Pb_IsPreconfirmed = Preconfirmed v,
      Pb_IsSwept = Swept v, Pb_IsUnrolled = Unrolled v, Pb_IsSpent = Spent v, Pb_SettledBy = SettledBy v\<rparr>"

definition toVtxosProto :: "wallet_vtxo list \<Rightarrow> pb_vtxo list" where
  "toVtxosProto vtxos = map toVtxoProto vtxos"

record pb_notification =
  Pb_Addresses :: "string list"
  Pb_NewVtxos :: "pb_vtxo list"
  Pb_SpentVtxos :: "pb_vtxo list"
  Pb_Txid :: string
  Pb_Tx :: string
  Pb_Checkpoints :: "(string \<times> string \<times> string) list" \<comment> \<open>by key, the transaction and its id\<close>

definition toNotificationProto :: "wallet_vtxo notification \<Rightarrow> pb_notification" where
  "toNotificationProto n =
     \<lparr>Pb_Addresses = Addrs n, Pb_NewVtxos = toVtxosProto (NewVtxos n), Pb_SpentVtxos = toVtxosProto (SpentVtxos n),
      Pb_Txid = snd (TxData n), Pb_Tx = fst (TxData n), Pb_Checkpoints = Checkpoints n\<rparr>"

section \<open>Delegate tasks\<close>

definition toDelegateProtoInput :: "outpoint \<Rightarrow> pb_input" where
  "toDelegateProtoInput op = (hash_String (op_hash op), op_index op)"

record pb_delegate_intent =
  Pb_IntentTxid :: string
  Pb_Message :: string
  Pb_Proof :: string
  Pb_Inputs :: "pb_input list"

record pb_delegate =
  Pb_Id :: string
  Pb_Intent :: pb_delegate_intent
  Pb_ForfeitTxs :: "(pb_input \<times> string) list"
  Pb_Fee :: u64
  Pb_DelegatePublicKey :: string
  Pb_ScheduledAt :: int
  Pb_Status :: string
  Pb_FailReason :: string
  Pb_CommitmentTxid :: string

definition toDelegateProto :: "delegate_task \<Rightarrow> pb_delegate" where
  "toDelegateProto d =
     \<lparr>Pb_Id = ID d,
      Pb_Intent = \<lparr>Pb_IntentTxid = Txid (Intent d), Pb_Message = Message (Intent d), Pb_Proof = Proof (Intent d),
                   Pb_Inputs = map toDelegateProtoInput (Inputs (Intent d))\<rparr>,
      Pb_ForfeitTxs = map (\<lambda>(op, tx). (toDelegateProtoInput op, tx)) (ForfeitTxs d),
      Pb_Fee = Fee d, Pb_DelegatePublicKey = DelegatePublicKey d, Pb_ScheduledAt = unix_of_time (ScheduledAt d),
      Pb_Status = status_String (Status d), Pb_FailReason = FailReason d, Pb_CommitmentTxid = CommitmentTxid d\<rparr>"

definition toDelegatesProto :: "delegate_task list \<Rightarrow> pb_delegate list" where
  "toDelegatesProto delegates = map toDelegateProto delegates"

section \<open>Transactions\<close>

datatype tx_type = TxSent | TxReceived | OtherTxType string

text \<open>A transaction of the SDK's history; \<open>Tx_Key\<close> is \<open>TransactionKey.String()\<close>.\<close>

record sdk_tx =
  Tx_Amount :: u64
  Tx_Type :: tx_type
  Tx_CreatedAt :: go_time
  Tx_CommitmentTxid :: string
  Tx_BoardingTxid :: string
  Tx_ArkTxid :: string
  Tx_SettledBy :: string
  Tx_Key :: string

datatype pb_tx_type = TX_TYPE_UNSPECIFIED | TX_TYPE_SENT | TX_TYPE_RECEIVED

definition toTxTypeProto :: "tx_type \<Rightarrow> pb_tx_type" where
  "toTxTypeProto ty =
     (case ty of TxSent \<Rightarrow> TX_TYPE_SENT | TxReceived \<Rightarrow> TX_TYPE_RECEIVED | OtherTxType _ \<Rightarrow> TX_TYPE_UNSPECIFIED)"

record pb_transaction =
  Pb_Date :: string
  Pb_TxAmount :: u64
  Pb_TxCommitmentTxid :: string
  Pb_TxArkTxid :: string
  Pb_BoardingTxid :: string
  Pb_TxType :: pb_tx_type
  Pb_TxSettledBy :: string

text \<open>\<open>fmt\<close> prints a time in a layout.\<close>

definition toTransactionProto :: "(string \<Rightarrow> go_time \<Rightarrow> string) \<Rightarrow> sdk_tx \<Rightarrow> pb_transaction" where
  "toTransactionProto fmt tx =
     \<lparr>Pb_Date = fmt ''2006-01-02T15:04:05Z07:00'' (Tx_CreatedAt tx), Pb_TxAmount = Tx_Amount tx,
      Pb_TxCommitmentTxid = Tx_CommitmentTxid tx, Pb_TxArkTxid = Tx_ArkTxid tx, Pb_BoardingTxid = Tx_BoardingTxid tx,
      Pb_TxType = toTxTypeProto (Tx_Type tx), Pb_TxSettledBy = Tx_SettledBy tx\<rparr>"

section \<open>The tree of a VHTLC\<close>

text \<open>A leaf is its version and its script in hexadecimal; the error of \<open>Script\<close> is dropped, which
  leaves an empty script.\<close>

type_synonym pb_leaf = "int \<times> string"

definition leaf_of :: "string + bytes \<Rightarrow> pb_leaf" where
  "leaf_of scr = (0, case scr of Inl _ \<Rightarrow> [] | Inr b \<Rightarrow> hex_encode b)"

record pb_tree =
  ClaimLeaf :: pb_leaf
  RefundLeaf :: pb_leaf
  RefundWithoutBoltzLeaf :: pb_leaf
  UnilateralClaimLeaf :: pb_leaf
  UnilateralRefundLeaf :: pb_leaf
  UnilateralRefundWithoutBoltzLeaf :: pb_leaf
  NonInteractiveClaimLeaf :: "pb_leaf option"

definition toSwapTreeProto :: "vhtlc_script \<Rightarrow> pb_tree" where
  "toSwapTreeProto tree =
     \<lparr>ClaimLeaf = leaf_of (S_Claim tree), RefundLeaf = leaf_of (S_Refund tree),
      RefundWithoutBoltzLeaf = leaf_of (S_RefundWithoutReceiver tree),
      UnilateralClaimLeaf = leaf_of (S_UnilateralClaim tree), UnilateralRefundLeaf = leaf_of (S_UnilateralRefund tree),
      UnilateralRefundWithoutBoltzLeaf = leaf_of (S_UnilateralRefundWithoutReceiver tree),
      NonInteractiveClaimLeaf = map_option leaf_of (S_NonInteractiveClaim tree)\<rparr>"

record pb_vhtlc =
  Pb_VhtlcId :: string
  Pb_Address :: string
  Pb_ClaimPubkey :: string
  Pb_RefundPubkey :: string
  Pb_ServerPubkey :: string
  Pb_SwapTree :: pb_tree
  Pb_RefundLocktime :: int
  Pb_UnilateralClaimDelay :: int
  Pb_UnilateralRefundDelay :: int
  Pb_UnilateralRefundWithoutReceiverDelay :: int
  Pb_KeyIndex :: u64

text \<open>A compressed key without its first byte.\<close>

definition xonly_hex :: "crypto \<Rightarrow> pubkey \<Rightarrow> string" where
  "xonly_hex L k = hex_encode (drop 1 (SerializeCompressed L k))"

definition vhtlc_reply :: "crypto \<Rightarrow> string \<times> string \<times> vhtlc_script \<times> u64 \<Rightarrow> pb_vhtlc" where
  "vhtlc_reply L res =
     (case res of (addr, vhtlcId, vs, keyIndex) \<Rightarrow>
       \<lparr>Pb_VhtlcId = vhtlcId, Pb_Address = addr, Pb_ClaimPubkey = xonly_hex L (S_Receiver vs),
        Pb_RefundPubkey = xonly_hex L (S_Sender vs), Pb_ServerPubkey = xonly_hex L (S_Server vs),
        Pb_SwapTree = toSwapTreeProto vs, Pb_RefundLocktime = uint (S_RefundLocktime vs),
        Pb_UnilateralClaimDelay = uint (S_UnilateralClaimDelay vs),
        Pb_UnilateralRefundDelay = uint (S_UnilateralRefundDelay vs),
        Pb_UnilateralRefundWithoutReceiverDelay = uint (S_UnilateralRefundWithoutReceiverDelay vs),
        Pb_KeyIndex = keyIndex\<rparr>)"

section \<open>Replies\<close>

text \<open>A plain error reaches the client with the code \<open>Unknown\<close>; no interceptor recovers a panic.\<close>

datatype 'a reply = Panic | Fail status | Reply 'a

definition reply_of :: "('a \<Rightarrow> 'b) \<Rightarrow> 'a result \<Rightarrow> 'b reply" where
  "reply_of f r = (case r of Crash \<Rightarrow> Panic | Error e \<Rightarrow> Fail (Unknown_code, e) | Ok a \<Rightarrow> Reply (f a))"

definition checked :: "status + 'a \<Rightarrow> ('a \<Rightarrow> 'b reply) \<Rightarrow> 'b reply" where
  "checked x f = (case x of Inl st \<Rightarrow> Fail st | Inr a \<Rightarrow> f a)"

lemma reply_of_Reply: "reply_of f r = Reply b \<longleftrightarrow> (\<exists>a. r = Ok a \<and> b = f a)"
  by (cases r) (auto simp: reply_of_def)

lemma checked_Reply: "checked x f = Reply b \<longleftrightarrow> (\<exists>a. x = Inr a \<and> f a = Reply b)"
  by (cases x) (auto simp: checked_def)

section \<open>The service\<close>

definition h_GetAddress :: "(u64 \<Rightarrow> node \<Rightarrow> (string \<times> string \<times> string) result) \<Rightarrow> node \<Rightarrow> string reply" where
  "h_GetAddress newAddress n = reply_of fst (newAddress 0 n)"

definition h_GetOnboardAddress :: "(u64 \<Rightarrow> node \<Rightarrow> (string \<times> string \<times> string) result) \<Rightarrow> node \<Rightarrow> string reply" where
  "h_GetOnboardAddress newAddress n = reply_of (\<lambda>(_, _, boarding). boarding) (newAddress 0 n)"

definition h_GetBalance :: "string + u64 \<Rightarrow> node \<Rightarrow> u64 reply" where
  "h_GetBalance balance n = reply_of id (GetTotalBalance balance n)"

record sdk_config =
  SignerPubKey :: pubkey
  Net_Name :: string
  Net_Addr :: string
  Cfg_ServerUrl :: string

record pb_info =
  Pb_Build :: "string \<times> string \<times> string"
  Pb_SignerPubkey :: string
  Pb_Network :: network
  Pb_AddrPrefix :: string
  Pb_ServerUrl :: string

text \<open>The configuration is read twice: only the second answer is checked for nil.\<close>

definition GetInfo_reply ::
  "crypto \<Rightarrow> string \<times> string \<times> string \<Rightarrow> string + sdk_config option \<Rightarrow> string + sdk_config option \<Rightarrow> pb_info reply" where
  "GetInfo_reply L build config again =
     (case config of
        Inl e \<Rightarrow> Fail (Unknown_code, e)
      | Inr None \<Rightarrow> Panic
      | Inr (Some cfg) \<Rightarrow>
          (let info = \<lparr>Pb_Build = build, Pb_SignerPubkey = hex_encode (SerializeCompressed L (SignerPubKey cfg)),
                       Pb_Network = NETWORK_UNSPECIFIED, Pb_AddrPrefix = [], Pb_ServerUrl = []\<rparr>
           in Reply (case again of
                Inr (Some d) \<Rightarrow>
                  info\<lparr>Pb_Network := toNetworkProto (Net_Name d), Pb_AddrPrefix := Net_Addr d, Pb_ServerUrl := Cfg_ServerUrl d\<rparr>
              | _ \<Rightarrow> info)))"

definition h_GetTransactionHistory :: "(string \<Rightarrow> go_time \<Rightarrow> string) \<Rightarrow> string + sdk_tx list \<Rightarrow> pb_transaction list reply" where
  "h_GetTransactionHistory fmt txHistory = reply_of (map (toTransactionProto fmt)) (of_sum txHistory)"

definition h_RedeemNote :: "(string \<Rightarrow> int option) \<Rightarrow> (string \<Rightarrow> string + string) \<Rightarrow> string \<Rightarrow> string reply" where
  "h_RedeemNote noteValue redeem reqNote =
     checked (invalid (parseNote noteValue reqNote)) (\<lambda>note. reply_of id (of_sum (redeem note)))"

definition h_Settle :: "string + string \<Rightarrow> node \<Rightarrow> string reply" where
  "h_Settle settle n = reply_of id (Settle settle n)"

definition h_SendOnChain :: "(string \<Rightarrow> u64 \<Rightarrow> string + string) \<Rightarrow> string \<Rightarrow> u64 \<Rightarrow> node \<Rightarrow> string reply" where
  "h_SendOnChain exit reqAddr reqAmount n =
     checked (invalid (parseAddress reqAddr)) (\<lambda>addr.
     checked (invalid (parseAmount reqAmount)) (\<lambda>amount.
     reply_of id (SendOnChain exit addr amount n)))"

definition h_SignTransaction :: "crypto \<Rightarrow> (string \<Rightarrow> string + string) \<Rightarrow> string \<Rightarrow> string reply" where
  "h_SignTransaction L sign reqTx =
     checked (invalid (parseTransaction L reqTx)) (\<lambda>tx. reply_of id (of_sum (sign tx)))"

definition h_ClaimVHTLC ::
  "(bytes \<Rightarrow> string \<Rightarrow> pb_input option \<Rightarrow> string result) \<Rightarrow> string \<Rightarrow> string \<Rightarrow> pb_input option \<Rightarrow> string reply" where
  "h_ClaimVHTLC claim reqPreimage vhtlcId op =
     checked (parse_ClaimVHTLC reqPreimage vhtlcId op) (\<lambda>(preimage, i, outpoint). reply_of id (claim preimage i outpoint))"

definition h_RefundVHTLC ::
  "(string \<Rightarrow> string \<Rightarrow> bool \<Rightarrow> pb_input option \<Rightarrow> string result) \<Rightarrow> string \<Rightarrow> pb_input option \<Rightarrow> string reply" where
  "h_RefundVHTLC refund vhtlcId op =
     checked (parse_RefundVHTLC vhtlcId op) (\<lambda>(i, outpoint). reply_of id (refund [] i False outpoint))"

definition h_GetVHTLCSpendingTx :: "(string \<Rightarrow> string result) \<Rightarrow> string \<Rightarrow> string reply" where
  "h_GetVHTLCSpendingTx spendingTx vhtlcId =
     (if vhtlcId = [] then Fail (InvalidArgument, ''missing vhtlc id'') else reply_of id (spendingTx vhtlcId))"

definition h_ListVHTLCs :: "(string list \<Rightarrow> wallet_vtxo list result) \<Rightarrow> string list \<Rightarrow> pb_vtxo list reply" where
  "h_ListVHTLCs list ids = reply_of toVtxosProto (list ids)"

definition h_ListVHTLC :: "(string list \<Rightarrow> wallet_vtxo list result) \<Rightarrow> string \<Rightarrow> pb_vtxo list reply" where
  "h_ListVHTLC list i = reply_of toVtxosProto (list [i])"

definition h_CreateVHTLC ::
  "crypto \<Rightarrow> (string \<Rightarrow> string + nic_address) \<Rightarrow>
     (vhtlc_request \<Rightarrow> 'x \<Rightarrow> (string \<times> string \<times> vhtlc_script \<times> u64) result \<times> 'x) \<Rightarrow>
     create_vhtlc_request option \<Rightarrow> 'x \<Rightarrow> pb_vhtlc reply \<times> 'x" where
  "h_CreateVHTLC L decodeAddress create req x =
     (case parse_CreateVHTLC L decodeAddress req of
        Inl st \<Rightarrow> (Fail st, x)
      | Inr r \<Rightarrow> (case create r x of (res, x') \<Rightarrow> (reply_of (vhtlc_reply L) res, x')))"

definition h_GetVtxos ::
  "(string \<Rightarrow> wallet_vtxo list result option) \<Rightarrow> vtxo_filter option \<Rightarrow> pb_vtxo list reply option" where
  "h_GetVtxos list flt =
     (case parse_vtxo_filter flt of
        Inl st \<Rightarrow> Some (Fail st)
      | Inr filterType \<Rightarrow> map_option (reply_of toVtxosProto) (list filterType))"

definition h_ListDelegates ::
  "(delegate_task_status \<Rightarrow> int \<Rightarrow> int \<Rightarrow> string + delegate_task list) \<Rightarrow> string \<Rightarrow> u32 \<Rightarrow> u32 \<Rightarrow> pb_delegate list reply" where
  "h_ListDelegates getTasks statusStr reqLimit reqOffset =
     checked (ListDelegates getTasks statusStr reqLimit reqOffset) (\<lambda>ds. Reply (toDelegatesProto ds))"

section \<open>The wallet and the notifications\<close>

definition h_GenSeed :: "string + string \<Rightarrow> string reply" where
  "h_GenSeed mnemonic = checked (invalid mnemonic) Reply"

definition h_Lock :: "(node \<Rightarrow> err \<times> node) \<Rightarrow> node \<Rightarrow> unit reply \<times> node" where
  "h_Lock lockNode n =
     (case lockNode n of (Some e, n') \<Rightarrow> (Fail (Unknown_code, e), n') | (None, n') \<Rightarrow> (Reply (), n'))"

text \<open>The key index of the request is an unsigned 32-bit number.\<close>

definition h_GetPubKey :: "(string \<Rightarrow> node \<Rightarrow> string result) \<Rightarrow> u32 \<Rightarrow> node \<Rightarrow> string reply" where
  "h_GetPubKey getPubkey keyIndex n = reply_of id (getPubkey (format_uint (unat keyIndex)) n)"

definition not_implemented :: "'a reply" where
  "not_implemented = Fail (Unknown_code, ''not implemented'')"

section \<open>The delegate service\<close>

record pb_delegate_info =
  Pb_Pubkey :: string
  Pb_InfoFee :: string
  Pb_DelegatorAddress :: string
  Pb_DelegateAddress :: string

definition h_GetDelegateInfo :: "string + delegateInfo \<Rightarrow> pb_delegate_info reply" where
  "h_GetDelegateInfo info =
     (case info of
        Inl e \<Rightarrow> Fail (Internal, e)
      | Inr i \<Rightarrow>
          Reply \<lparr>Pb_Pubkey = Info_PubKey i, Pb_InfoFee = format_uint (unat (Info_Fee i)),
                 Pb_DelegatorAddress = Info_Address i, Pb_DelegateAddress = Info_Address i\<rparr>)"

record pb_delegate_request =
  Rq_Message :: string \<comment> \<open>the getters of a nil intent give empty texts\<close>
  Rq_Proof :: string
  Rq_ForfeitTxs :: "string list"
  Rq_RejectReplace :: bool

fun parse_forfeit_txs :: "crypto \<Rightarrow> string list \<Rightarrow> string + psbt list" where
  "parse_forfeit_txs L [] = Inr []"
| "parse_forfeit_txs L (f # fs) =
     (case NewFromRawBytes L f of
        Inl e \<Rightarrow> Inl e
      | Inr p \<Rightarrow> (case parse_forfeit_txs L fs of Inl e \<Rightarrow> Inl e | Inr ps \<Rightarrow> Inr (p # ps)))"

text \<open>\<open>decode\<close> is \<open>RegisterMessage.Decode\<close>, \<open>as_proof\<close> wraps a PSBT into an \<open>intent.Proof\<close>.\<close>

definition parse_Delegate ::
  "crypto \<Rightarrow> (string \<Rightarrow> string + register_message) \<Rightarrow> (psbt \<Rightarrow> intent_proof) \<Rightarrow> pb_delegate_request \<Rightarrow>
     status + register_message \<times> intent_proof \<times> psbt list \<times> bool" where
  "parse_Delegate L decode as_proof req =
     bind_status (invalid (decode (Rq_Message req))) (\<lambda>message.
     bind_status (invalid (NewFromRawBytes L (Rq_Proof req))) (\<lambda>proofPtx.
     bind_status (invalid (parse_forfeit_txs L (Rq_ForfeitTxs req))) (\<lambda>forfeitTxs.
     Inr (message, as_proof proofPtx, forfeitTxs, \<not> Rq_RejectReplace req))))"

definition h_Delegate ::
  "crypto \<Rightarrow> (string \<Rightarrow> string + register_message) \<Rightarrow> (psbt \<Rightarrow> intent_proof) \<Rightarrow>
     (register_message \<Rightarrow> intent_proof \<Rightarrow> psbt list \<Rightarrow> bool \<Rightarrow> 's \<Rightarrow> err \<times> 's) \<Rightarrow>
     pb_delegate_request \<Rightarrow> 's \<Rightarrow> unit reply \<times> 's" where
  "h_Delegate L decode as_proof svc req s =
     (case parse_Delegate L decode as_proof req of
        Inl st \<Rightarrow> (Fail st, s)
      | Inr (message, proof, forfeitTxs, allowReplace) \<Rightarrow>
          (case svc message proof forfeitTxs allowReplace s of
             (Some e, s') \<Rightarrow> (Fail (Internal, e), s')
           | (None, s') \<Rightarrow> (Reply (), s')))"

end
