(* ===== verification/Endpoints.thy ===== *)
theory Endpoints
  imports Messages WalletProps DelegateProps
begin

text \<open>
  Requests from the wire to the store: the interceptor with the macaroon service in front of the
  handlers of \<open>Messages\<close>, the handlers in front of the operations of \<open>WalletOps\<close> and
  \<open>DelegateService\<close>. The delegate server runs without macaroons.
\<close>

section \<open>The interceptor in front of a handler\<close>

definition MacaroonAuthInterceptor ::
  "('k, 'r) mac_lib \<Rightarrow> 'k macaroonSvc option \<Rightarrow> 'r \<Rightarrow> string \<Rightarrow> ('s \<Rightarrow> 'a reply \<times> 's) \<Rightarrow> 's \<Rightarrow> 'a reply \<times> 's" where
  "MacaroonAuthInterceptor B svc hdr method handler s =
     (case unaryMacaroonAuth B svc hdr method (\<lambda>_. Inr (handler s)) of
        Inl e \<Rightarrow> (Fail (Unknown_code, e), s)
      | Inr r \<Rightarrow> r)"

text \<open>The macaroon of the request was validated for the method and its permissions.\<close>

definition authorized :: "('k, 'r) mac_lib \<Rightarrow> 'k macaroonSvc \<Rightarrow> 'r \<Rightarrow> string \<Rightarrow> bool" where
  "authorized B m hdr x \<longleftrightarrow>
     (\<exists>perms. map_of ProtectedByMethod x = Some perms \<and> ValidateMacaroon B (mac_store m) hdr perms x = None)"

lemma interceptor_eq:
  assumes "x \<in> set wallet_methods"
  shows "MacaroonAuthInterceptor B (Some m) hdr x handler s =
     (if authorized B m hdr x then handler s else (Fail (Unknown_code, the (mac_Auth B m hdr x)), s))"
proof -
  from wallet_methods_protected assms obtain perms where
    x: "x \<notin> set public_methods" "map_of ProtectedByMethod x = Some perms" by (auto simp: list_all_iff)
  then have "mac_Auth B m hdr x = None \<longleftrightarrow> authorized B m hdr x" by (simp add: mac_Auth_agrees authorized_def)
  then show ?thesis by (auto simp: MacaroonAuthInterceptor_def unaryMacaroonAuth_def split: option.splits)
qed

lemma methods [simp]:
  "full_method (Service_v1, ''CreateVHTLC'') \<in> set wallet_methods"
  "full_method (Service_v1, ''SendOnChain'') \<in> set wallet_methods"
  "full_method (Service_v1, ''ClaimVHTLC'') \<in> set wallet_methods"
  by code_simp+

section \<open>VHTLCs\<close>

definition grpc_CreateVHTLC ::
  "('k, 'r) mac_lib \<Rightarrow> 'k macaroonSvc option \<Rightarrow> 'r \<Rightarrow> crypto \<Rightarrow> (string \<Rightarrow> string + nic_address) \<Rightarrow> (bytes \<Rightarrow> bytes) \<Rightarrow>
     ('m, 'c, 'h) vhtlc_sdk \<Rightarrow> 's vhtlc_repo \<Rightarrow> pubkey option \<Rightarrow> string option \<Rightarrow> go_time \<Rightarrow> node \<Rightarrow>
     create_vhtlc_request option \<Rightarrow> 'm \<times> 's \<Rightarrow> pb_vhtlc reply \<times> 'm \<times> 's" where
  "grpc_CreateVHTLC B svc hdr L decodeAddress sha W R k cfgAddr now n req =
     MacaroonAuthInterceptor B svc hdr (full_method (Service_v1, ''CreateVHTLC''))
       (h_CreateVHTLC L decodeAddress (\<lambda>r. CreateVHTLC L sha W R k cfgAddr now r n) req)"


definition demo_rpc_request :: create_vhtlc_request where
  "demo_rpc_request =
     \<lparr>Req_PreimageHash = ''01'', Req_ReceiverPubkey = [], Req_SenderPubkey = ''03'', Req_RefundLocktime = 0,
      Req_UnilateralClaimDelay = None, Req_UnilateralRefundDelay = None,
      Req_UnilateralRefundWithoutReceiverDelay = None, Req_NonInteractiveClaim = None\<rparr>"

lemma demo_rpc_parsed: "parse_CreateVHTLC demo_keys d (Some demo_rpc_request) = Inr demo_request"
  by code_simp

lemma demo_rpc_authorized: "authorized demo_mac_lib demo_mac (Some ''admin'') (full_method (Service_v1, ''CreateVHTLC''))"
proof -
  have "map_of ProtectedByMethod (full_method (Service_v1, ''CreateVHTLC'')) = Some [EntityService]" by code_simp
  then show ?thesis by (simp add: authorized_def demo_mac_lib_def)
qed


section \<open>Requests that move funds\<close>

definition grpc_SendOnChain ::
  "('k, 'r) mac_lib \<Rightarrow> 'k macaroonSvc option \<Rightarrow> 'r \<Rightarrow> (string \<Rightarrow> u64 \<Rightarrow> string + string) \<Rightarrow> string \<Rightarrow> u64 \<Rightarrow> node \<Rightarrow> string reply" where
  "grpc_SendOnChain B svc hdr exit addr amount n =
     fst (MacaroonAuthInterceptor B svc hdr (full_method (Service_v1, ''SendOnChain''))
            (\<lambda>u. (h_SendOnChain exit addr amount n, u)) ())"

definition grpc_ClaimVHTLC ::
  "('k, 'r) mac_lib \<Rightarrow> 'k macaroonSvc option \<Rightarrow> 'r \<Rightarrow> 's vhtlc_repo \<Rightarrow>
     (string \<Rightarrow> bytes \<Rightarrow> pb_input option \<Rightarrow> string + string) \<Rightarrow> string \<Rightarrow> string \<Rightarrow> pb_input option \<Rightarrow> node \<Rightarrow> 's \<Rightarrow> string reply" where
  "grpc_ClaimVHTLC B svc hdr R claim preimage vhtlcId op n s =
     fst (MacaroonAuthInterceptor B svc hdr (full_method (Service_v1, ''ClaimVHTLC''))
            (\<lambda>u. (h_ClaimVHTLC (\<lambda>p i out. ClaimVHTLC R claim p i out n s) preimage vhtlcId op, u)) ())"

lemma SendOnChain_Ok: "SendOnChain exit addr amount n = Ok t \<longleftrightarrow> isInitializedAndUnlocked n = None \<and> exit addr amount = Inr t"
  by (cases "isInitializedAndUnlocked n") (auto simp: SendOnChain_def of_sum_def split: sum.splits)

lemma ClaimVHTLC_Ok:
  "ClaimVHTLC R claim p i op n s = Ok t \<longleftrightarrow>
     isInitializedAndUnlocked n = None \<and> (\<exists>v. V_Get R s i = Inr v \<and> claim (Vhtlc_Script v) p op = Inr t)"
  by (cases "isInitializedAndUnlocked n") (auto simp: ClaimVHTLC_def bind_result_Ok)

lemma parse_ClaimVHTLC_Inr:
  "parse_ClaimVHTLC preimage vhtlcId op = Inr (p, i, out) \<longleftrightarrow>
     preimage \<noteq> [] \<and> hex_decode preimage = Some p \<and> vhtlcId \<noteq> [] \<and> i = vhtlcId \<and> parseInputOutpoint op = Inr out"
  by (auto simp: parse_ClaimVHTLC_def bind_status_Inr split: option.splits)

text \<open>
  C4: a request that moves funds is answered with a transaction exactly when its macaroon was
  validated, its arguments are well formed, the gate is open and the SDK made that transaction: for
  a collaborative exit, and for the claim of a VHTLC, which reaches the SDK with the script stored
  under the id and the preimage of the request.
\<close>

theorem funds_move_after_all_checks:
  "(grpc_SendOnChain B (Some m) hdr exit addr amount n = Reply txid \<longleftrightarrow>
      authorized B m hdr (full_method (Service_v1, ''SendOnChain'')) \<and>
      (IsValidOffchainAddress addr \<or> IsValidBtcAddress addr) \<and> addr \<noteq> [] \<and> amount \<noteq> 0 \<and>
      isInitializedAndUnlocked n = None \<and> exit addr amount = Inr txid)
   \<and> (grpc_ClaimVHTLC B (Some m) hdr R claim preimage vhtlcId op n s = Reply txid \<longleftrightarrow>
      authorized B m hdr (full_method (Service_v1, ''ClaimVHTLC'')) \<and>
      (\<exists>p out v. preimage \<noteq> [] \<and> hex_decode preimage = Some p \<and> vhtlcId \<noteq> [] \<and> parseInputOutpoint op = Inr out \<and>
         isInitializedAndUnlocked n = None \<and> V_Get R s vhtlcId = Inr v \<and> claim (Vhtlc_Script v) p out = Inr txid))"
proof
  show "grpc_SendOnChain B (Some m) hdr exit addr amount n = Reply txid \<longleftrightarrow>
      authorized B m hdr (full_method (Service_v1, ''SendOnChain'')) \<and>
      (IsValidOffchainAddress addr \<or> IsValidBtcAddress addr) \<and> addr \<noteq> [] \<and> amount \<noteq> 0 \<and>
      isInitializedAndUnlocked n = None \<and> exit addr amount = Inr txid"
    by (auto simp: grpc_SendOnChain_def interceptor_eq h_SendOnChain_def checked_Reply reply_of_Reply SendOnChain_Ok
        parseAddress_def parseAmount_def split: if_splits)
next
  show "grpc_ClaimVHTLC B (Some m) hdr R claim preimage vhtlcId op n s = Reply txid \<longleftrightarrow>
      authorized B m hdr (full_method (Service_v1, ''ClaimVHTLC'')) \<and>
      (\<exists>p out v. preimage \<noteq> [] \<and> hex_decode preimage = Some p \<and> vhtlcId \<noteq> [] \<and> parseInputOutpoint op = Inr out \<and>
         isInitializedAndUnlocked n = None \<and> V_Get R s vhtlcId = Inr v \<and> claim (Vhtlc_Script v) p out = Inr txid)"
    by (auto simp: grpc_ClaimVHTLC_def interceptor_eq h_ClaimVHTLC_def checked_Reply reply_of_Reply ClaimVHTLC_Ok
        parse_ClaimVHTLC_Inr)
qed

section \<open>Delegations\<close>


definition demo_wire :: crypto where
  "demo_wire = demo_crypto\<lparr>NewFromRawBytes := \<lambda>_. Inr (ProofTx (demo_proof 0))\<rparr>"

definition demo_delegate_rpc :: "sqldb dstate \<Rightarrow> unit reply \<times> sqldb dstate" where
  "demo_delegate_rpc =
     h_Delegate demo_wire (\<lambda>_. Inr demo_message) (\<lambda>_. demo_proof 0) (Delegate (sqlite_at no_fault) demo_wire (demo_env ''t1'') [3] 0 None)
       \<lparr>Rq_Message = ''m'', Rq_Proof = ''p'', Rq_ForfeitTxs = [], Rq_RejectReplace = True\<rparr>"


end
