(* ===== verification/Web.thy ===== *)
theory Web
  imports Messages LifecycleProps
begin

text \<open>
  The web interface (\<open>interface/web/handlers.go\<close>, \<open>api.go\<close>, \<open>utils.go\<close>): what each form and page
  decides. A page is a value of \<open>view\<close>, with the data its template is given; the templates are not
  part of the model. Dates are printed by the argument \<open>fmt\<close>, which takes the layout and the Unix
  time.
\<close>

datatype view =
    Toast string
  | Aborted nat
  | RedirectTo string
  | Page string "string list"
  | Modal string "string list"

section \<open>Helpers\<close>

definition getExplorerUrl :: "string \<Rightarrow> string" where
  "getExplorerUrl net =
     (if net = ''bitcoin'' then ''https://mempool.space''
      else if net = ''mutinynet'' then ''https://mutinynet.com''
      else if net = ''signet'' then ''https://mempool.space/signet''
      else ''http://localhost:5000'')"

definition getArkExplorerUrl :: "string \<Rightarrow> string" where
  "getArkExplorerUrl net =
     (if net = ''bitcoin'' then ''https://arkade.space''
      else if net = ''signet'' then ''https://explorer.signet.arkade.sh''
      else if net = ''mutinynet'' then ''https://explorer.mutinynet.arkade.sh''
      else ''http://localhost:7080'')"

definition prettyUnixTimestamp :: "(string \<Rightarrow> int \<Rightarrow> string) \<Rightarrow> int \<Rightarrow> string" where
  "prettyUnixTimestamp fmt t = fmt ''January, 2 2006 15:04'' t"

definition prettyDay :: "(string \<Rightarrow> int \<Rightarrow> string) \<Rightarrow> int \<Rightarrow> string" where
  "prettyDay fmt t = (if t = 0 then ''0'' else fmt ''02/01/2006'' t)"

definition prettyHour :: "(string \<Rightarrow> int \<Rightarrow> string) \<Rightarrow> int \<Rightarrow> string" where
  "prettyHour fmt t = (if t = 0 then ''0'' else fmt ''15:04'' t)"

fun Partition :: "('a \<Rightarrow> bool) \<Rightarrow> 'a list \<Rightarrow> 'a list \<times> 'a list" where
  "Partition pred [] = ([], [])"
| "Partition pred (it # items) =
     (case Partition pred items of (yes, no) \<Rightarrow> if pred it then (it # yes, no) else (yes, it # no))"

lemma Partition_filter: "Partition p xs = (filter p xs, filter (\<lambda>x. \<not> p x) xs)"
  by (induction xs) auto

fun RemoveFind :: "('a \<Rightarrow> bool) \<Rightarrow> 'a list \<Rightarrow> 'a list \<times> 'a option" where
  "RemoveFind match [] = ([], None)"
| "RemoveFind match (v # vs) =
     (if match v then (vs, Some v)
      else (case RemoveFind match vs of (rest, r) \<Rightarrow> (v # rest, r)))"

lemma RemoveFind_find: "snd (RemoveFind p xs) = find p xs"
  by (induction xs) (auto split: prod.splits)

section \<open>The transaction history\<close>

record transfer =
  T_Amount :: string
  T_CreatedAt :: string
  T_Day :: string
  T_Explorable :: bool
  T_Hour :: string
  T_Kind :: string
  T_Status :: string
  T_Txid :: string
  T_UnixDate :: int

definition toTransfer :: "(string \<Rightarrow> int \<Rightarrow> string) \<Rightarrow> (tx_type \<Rightarrow> string) \<Rightarrow> sdk_tx \<Rightarrow> transfer" where
  "toTransfer fmt typeText tx =
     (let amount = format_uint (unat (Tx_Amount tx));
          amount = (if Tx_Type tx = TxSent then CHR ''-'' # amount else amount);
          dateCreated = unix_of_time (Tx_CreatedAt tx);
          status = ''success'';
          status = (if Tx_BoardingTxid tx \<noteq> [] \<and> Tx_SettledBy tx = [] then ''pending'' else status);
          unconfirmed = IsZero (Tx_CreatedAt tx);
          status = (if unconfirmed then ''unconfirmed'' else status);
          dateCreated = (if unconfirmed then 0 else dateCreated)
      in \<lparr>T_Amount = amount, T_CreatedAt = prettyUnixTimestamp fmt dateCreated, T_Day = prettyDay fmt dateCreated,
          T_Explorable = (Tx_ArkTxid tx = []), T_Hour = prettyHour fmt dateCreated,
          T_Kind = to_lower (typeText (Tx_Type tx)), T_Status = status, T_Txid = Tx_Key tx,
          T_UnixDate = dateCreated\<rparr>)"

record history_entry =
  H_Id :: string
  H_DateCreated :: int
  H_Transfer :: transfer

definition getTxHistory :: "(string \<Rightarrow> int \<Rightarrow> string) \<Rightarrow> (tx_type \<Rightarrow> string) \<Rightarrow> string + sdk_tx list \<Rightarrow> string + history_entry list" where
  "getTxHistory fmt typeText txs =
     (case txs of
        Inl e \<Rightarrow> Inl e
      | Inr txHistory \<Rightarrow>
          Inr (sort_key (\<lambda>h. - H_DateCreated h)
                 (map (\<lambda>tx. let t = toTransfer fmt typeText tx in
                    \<lparr>H_Id = T_Txid t, H_DateCreated = unix_of_time (Tx_CreatedAt tx), H_Transfer = t\<rparr>) txHistory)))"

text \<open>
  The page of \<open>getTxs\<close>: the entries to show and whether there are more. \<open>lastId\<close> is ''0'' for the
  first page, else the id of the last entry shown; an id that is not in the history shows all of it.
\<close>

fun find_index :: "('a \<Rightarrow> bool) \<Rightarrow> 'a list \<Rightarrow> nat option" where
  "find_index p [] = None"
| "find_index p (x # xs) = (if p x then Some 0 else map_option Suc (find_index p xs))"

definition txs_page :: "string \<Rightarrow> history_entry list \<Rightarrow> history_entry list \<times> bool" where
  "txs_page lastId txHistory =
     (let txsPerPage = 10 in
      if lastId = ''0''
      then (if length txHistory > txsPerPage then (take txsPerPage txHistory, True) else (txHistory, False))
      else
       (case find_index (\<lambda>tx. H_Id tx = lastId) txHistory of
          None \<Rightarrow> (txHistory, False)
        | Some i \<Rightarrow>
            (let txsOnList = i + 1 in
             if txsOnList + txsPerPage < length txHistory
             then (take (txsOnList + txsPerPage) txHistory, True)
             else (txHistory, False))))"

definition last_id :: "history_entry list \<Rightarrow> string" where
  "last_id txHistory = (if txHistory = [] then ''0'' else H_Id (last txHistory))"

text \<open>What \<open>getTxs\<close> renders, \<open>None\<close> the redirect of a locked wallet; a history that cannot be read is logged and shown as empty.\<close>

definition getTxs ::
  "(string \<Rightarrow> int \<Rightarrow> string) \<Rightarrow> (tx_type \<Rightarrow> string) \<Rightarrow> string + sdk_tx list \<Rightarrow> string \<Rightarrow> node \<Rightarrow>
     (history_entry list \<times> string \<times> bool) option" where
  "getTxs fmt typeText txs lastId n =
     (if walletLocked n then None
      else if \<not> fst (IsSynced n) then Some ([], ''0'', False)
      else
       (let history = (case getTxHistory fmt typeText txs of Inl _ \<Rightarrow> [] | Inr h \<Rightarrow> h) in
        case txs_page lastId history of (shown, loadMore) \<Rightarrow> Some (shown, last_id shown, loadMore)))"

section \<open>Sending\<close>

record web_config =
  VtxoMaxAmount :: int
  UtxoMaxAmount :: int
  NetworkName :: string
  BoardingExitDelay :: relative_locktime

definition within :: "int \<Rightarrow> int \<Rightarrow> bool" where
  "within maxAmount amount = (maxAmount = - 1 \<or> amount \<le> maxAmount)"

text \<open>Where a pasted destination leads: the offchain and the onchain address it names.\<close>

definition destination :: "string \<Rightarrow> string \<times> string" where
  "destination dest =
     (let off = (if IsBip21 dest then GetOffchainAddress dest else []);
          on = (if IsBip21 dest then GetBtcAddress dest else []);
          on = (if IsValidBtcAddress dest then dest else on);
          off = (if IsValidOffchainAddress dest then dest else off)
      in (off, on))"

text \<open>\<open>sats\<close> is the amount field as \<open>strconv.Atoi\<close> reads it.\<close>

definition sendPreview ::
  "(string \<Rightarrow> int option) \<Rightarrow> string + web_config \<Rightarrow> string \<Rightarrow> int option \<Rightarrow> node \<Rightarrow> view" where
  "sendPreview noteValue config dest sats n =
     (if walletLocked n then RedirectTo ''/''
      else case config of
        Inl e \<Rightarrow> Toast e
      | Inr cfg \<Rightarrow>
         (case sats of
            None \<Rightarrow> Toast ''Invalid amount''
          | Some sats \<Rightarrow>
              if IsValidNote noteValue dest
              then (let sats = SatsFromNote noteValue dest in
                    if \<not> within (VtxoMaxAmount cfg) sats then Toast ''Amount too high''
                    else Page ''NotePreview'' [dest, format_int sats])
              else
               (case destination dest of
                  (offchainAddr, onchainAddr) \<Rightarrow>
                    if offchainAddr \<noteq> [] \<and> \<not> within (VtxoMaxAmount cfg) sats then Toast ''Amount too high''
                    else if offchainAddr = [] \<and> onchainAddr \<noteq> [] \<and> \<not> within (UtxoMaxAmount cfg) sats
                    then Toast ''Amount too high''
                    else
                     (let addr = (if offchainAddr \<noteq> [] then offchainAddr else onchainAddr) in
                      if addr = [] then Toast ''Missing address''
                      else Page ''SendPreview'' [addr, format_int sats, ''0'', format_int sats]))))"

text \<open>\<open>sendOffchain\<close> is the SDK's send; the second component says whether it was called.\<close>

definition sendConfirm ::
  "(string \<Rightarrow> u64 \<Rightarrow> string + string) \<Rightarrow> string + web_config \<Rightarrow> string \<Rightarrow> string \<Rightarrow> node \<Rightarrow> view \<times> bool" where
  "sendConfirm sendOffchain config addr sats n =
     (if walletLocked n then (RedirectTo ''/'', False)
      else case parse_uint 64 sats of
        None \<Rightarrow> (Toast ''Invalid amount'', False)
      | Some v \<Rightarrow>
          if \<not> IsValidOffchainAddress addr then (Toast ''Invalid address'', False)
          else
           (case sendOffchain addr (of_nat v) of
              Inl e \<Rightarrow> (Toast e, True)
            | Inr txid \<Rightarrow>
                (case config of
                   Inl e \<Rightarrow> (Toast e, True)
                 | Inr cfg \<Rightarrow> (Page ''SendSuccess'' [addr, sats, txid, getExplorerUrl (NetworkName cfg)], True))))"

definition noteConfirm ::
  "(string \<Rightarrow> int option) \<Rightarrow> (string \<Rightarrow> string + string) \<Rightarrow> string + web_config \<Rightarrow> string \<Rightarrow> node \<Rightarrow> view" where
  "noteConfirm noteValue redeem config note n =
     (if walletLocked n then RedirectTo ''/''
      else
       (let sats = SatsFromNote noteValue note in
        if sats = 0 then Toast ''invalid ark note''
        else
         (case redeem note of
            Inl e \<Rightarrow> Toast e
          | Inr txId \<Rightarrow>
              if txId = [] then Toast ''Something went wrong''
              else (case config of
                      Inl e \<Rightarrow> Toast e
                    | Inr cfg \<Rightarrow> Page ''NoteSuccess'' [format_int sats, txId, getExplorerUrl (NetworkName cfg)]))))"

text \<open>\<open>None\<close> is the panic on an empty history, which the recovery middleware turns into a 500.\<close>

definition receiveSuccess :: "string + sdk_tx list \<Rightarrow> string \<Rightarrow> view option" where
  "receiveSuccess history bip21 =
     (case history of
        Inl e \<Rightarrow> Some (Toast e)
      | Inr [] \<Rightarrow> None
      | Inr (lastTx # _) \<Rightarrow>
          Some (Page ''ReceiveSuccess''
            [if Tx_BoardingTxid lastTx \<noteq> [] then GetBtcAddress bip21 else GetOffchainAddress bip21,
             format_int (sint (Tx_Amount lastTx))]))"

section \<open>Onboarding, locking, pages\<close>

definition index_page :: "node \<Rightarrow> view" where
  "index_page n =
     (if \<not> isInitialized n then Page ''Welcome'' []
      else if walletLocked n then Page ''Unlock'' []
      else Page ''Index'' [])"

definition setMnemonic :: "(string \<Rightarrow> err) \<Rightarrow> string \<Rightarrow> view" where
  "setMnemonic validMnemonic mnemonic =
     (if validMnemonic mnemonic \<noteq> None then Toast ''Invalid mnemonic'' else Page ''SetPassword'' [mnemonic])"

definition setPassword :: "string \<Rightarrow> string \<Rightarrow> string \<Rightarrow> string \<Rightarrow> string \<Rightarrow> view" where
  "setPassword arkServer password pconfirm mnemonic urlOnQuery =
     (if password \<noteq> pconfirm then Toast (''Passwords doesn'' @ [CHR 0x27] @ ''t match'')
      else Page ''ServerUrl'' [if urlOnQuery = [] then arkServer else urlOnQuery, mnemonic, password])"

definition initialize ::
  "(string \<Rightarrow> string + url) \<Rightarrow> (string \<Rightarrow> err) \<Rightarrow> (string + string) option \<Rightarrow>
     (string \<Rightarrow> string \<Rightarrow> string \<Rightarrow> node \<Rightarrow> err \<times> node) \<Rightarrow> string \<Rightarrow> string \<Rightarrow> string \<Rightarrow> node \<Rightarrow> view \<times> node" where
  "initialize parse validMnemonic unlocker setup' serverUrl password mnemonic n =
     (if serverUrl = [] then (Toast (''Server URL can'' @ [CHR 0x27] @ ''t be empty''), n)
      else if \<not> IsValidURL parse serverUrl then (Toast ''Invalid server URL'', n)
      else if mnemonic = [] then (Toast (''Mnemonic key can'' @ [CHR 0x27] @ ''t be empty''), n)
      else case validMnemonic mnemonic of
        Some e \<Rightarrow> (Toast e, n)
      | None \<Rightarrow>
          (case (case autoUnlockPassword unlocker of
                   Some pw \<Rightarrow> if \<not> isInitialized n then Some pw else if password = [] then None else Some password
                 | None \<Rightarrow> if password = [] then None else Some password) of
             None \<Rightarrow> (Toast (''Password can'' @ [CHR 0x27] @ ''t be empty''), n)
           | Some pw \<Rightarrow>
               (case setup' serverUrl pw mnemonic n of
                  (Some e, n') \<Rightarrow> (Page ''Error'' [''Server initialization failed'', ''Please try again''], n')
                | (None, n') \<Rightarrow> (RedirectTo ''/done'', n'))))"

definition lock_page :: "(node \<Rightarrow> err \<times> node) \<Rightarrow> node \<Rightarrow> view \<times> node" where
  "lock_page lockNode n =
     (if walletLocked n then (RedirectTo ''/'', n)
      else (case lockNode n of (Some e, n') \<Rightarrow> (Toast e, n') | (None, n') \<Rightarrow> (RedirectTo ''/'', n')))"

definition unlockApi :: "(string \<Rightarrow> node \<Rightarrow> err \<times> node) \<Rightarrow> string \<Rightarrow> node \<Rightarrow> view \<times> node" where
  "unlockApi unlock password n =
     (if password = [] then (Toast (''Password can'' @ [CHR 0x27] @ ''t be empty''), n)
      else (case unlock password n of (Some e, n') \<Rightarrow> (Toast e, n') | (None, n') \<Rightarrow> (RedirectTo ''/'', n')))"

text \<open>The balance of the page head.\<close>

definition getHero :: "u64 result \<Rightarrow> node \<Rightarrow> (string \<times> bool) option" where
  "getHero balance n =
     (if walletLocked n then None
      else (case IsSynced n of
              (_, Some e) \<Rightarrow> Some (''ERROR'', False)
            | (False, None) \<Rightarrow> Some (''PLACEHOLDER'', False)
            | (True, None) \<Rightarrow>
                Some (case balance of Ok b \<Rightarrow> (format_uint (unat b), True) | _ \<Rightarrow> ([], False))))"

text \<open>Offchain, onchain and total balance: 64-bit sums.\<close>

definition getBalanceApi :: "u64 \<Rightarrow> u64 \<Rightarrow> u64 list \<Rightarrow> u64 \<times> u64 \<times> u64" where
  "getBalanceApi offchain spendable lockedAmounts =
     (let onchainBalance = fold (\<lambda>a s. s + a) lockedAmounts spendable in
      (offchain, onchainBalance, offchain + onchainBalance))"

definition validateBip21Api :: "(string \<Rightarrow> 'f option) \<Rightarrow> ('f \<Rightarrow> int option) \<Rightarrow> string \<Rightarrow> u64 option" where
  "validateBip21Api ParseFloat NewAmount bip21 =
     (let sats = SatsFromBip21 ParseFloat NewAmount bip21 in if sats > 0 then Some sats else None)"

definition validateNoteApi :: "(string \<Rightarrow> int option) \<Rightarrow> string \<Rightarrow> int option" where
  "validateNoteApi noteValue note =
     (let sats = SatsFromNote noteValue note in if sats > 0 then Some sats else None)"

text \<open>
  The tasks of a page of the delegate view, or a view: the redirect of a locked wallet, or a toast.
  \<open>None\<close> is an empty answer past the end.
\<close>

definition getDelegateTasks ::
  "(delegate_task_status \<Rightarrow> int \<Rightarrow> int \<Rightarrow> string + 'd list) \<Rightarrow> string \<Rightarrow> int option \<Rightarrow> node \<Rightarrow>
     view + ('d list \<times> int \<times> bool) option" where
  "getDelegateTasks taskPage statusStr offsetArg n =
     (if walletLocked n then Inl (RedirectTo ''/'')
      else case DelegateTaskStatusFromString statusStr of
        Inl _ \<Rightarrow> Inl (Toast ''Invalid status'')
      | Inr st \<Rightarrow>
          (let offset = (case offsetArg of None \<Rightarrow> 0 | Some i \<Rightarrow> i) in
           case taskPage st 20 offset of
             Inl _ \<Rightarrow> Inl (Toast ''Unable to get delegate tasks'')
           | Inr ts \<Rightarrow>
               if ts = [] \<and> offset > 0 then Inr None
               else Inr (Some (ts, offset + int (length ts), length ts = 20))))"

section \<open>Paging the history\<close>

text \<open>The pages a client gets that follows the last id of each.\<close>

fun paged :: "nat \<Rightarrow> history_entry list \<Rightarrow> history_entry list \<times> bool" where
  "paged 0 h = txs_page ''0'' h"
| "paged (Suc k) h = txs_page (last_id (fst (paged k h))) h"

lemma find_index_distinct:
  "distinct (map f xs) \<Longrightarrow> i < length xs \<Longrightarrow> find_index (\<lambda>x. f x = f (xs ! i)) xs = Some i"
proof (induction xs arbitrary: i)
  case (Cons x xs)
  show ?case
  proof (cases i)
    case (Suc j)
    with Cons.prems have "f (xs ! j) \<in> f ` set xs" "f x \<notin> f ` set xs" by simp_all
    then have "f x \<noteq> f (xs ! j)" by metis
    with Cons Suc show ?thesis by simp
  qed simp
qed simp

lemma txs_page_after:
  assumes "distinct (map H_Id h)" "''0'' \<notin> H_Id ` set h" "0 < k" "k \<le> length h"
  shows "txs_page (last_id (take k h)) h = (take (k + 10) h, k + 10 < length h)"
proof -
  have last: "last (take k h) = h ! (k - 1)" using assms(3,4) by (subst last_conv_nth) (auto simp: min_def)
  moreover have "take k h \<noteq> []" using assms(3,4) by auto
  ultimately have id': "last_id (take k h) = H_Id (h ! (k - 1))" by (simp add: last_id_def)
  have "h ! (k - 1) \<in> set h" using assms(3,4) by simp
  with assms(2) have "H_Id (h ! (k - 1)) \<noteq> ''0''" by (metis image_eqI)
  moreover have "find_index (\<lambda>tx. H_Id tx = H_Id (h ! (k - 1))) h = Some (k - 1)"
    using assms(1,3,4) by (intro find_index_distinct) simp_all
  ultimately show ?thesis using assms(3,4) by (simp add: txs_page_def id' Let_def)
qed

text \<open>
  A client that follows the last id from page to page sees the whole history, ten entries more
  at a time and each from the start, and is told that there is more exactly as long as there is;
  provided the ids of the history are distinct and none is "0".
\<close>

theorem history_pages_reach_the_end:
  assumes "distinct (map H_Id h)" "''0'' \<notin> H_Id ` set h"
  shows "paged k h = (take (10 * (k + 1)) h, 10 * (k + 1) < length h)"
proof (induction k)
  case 0
  show ?case by (simp add: txs_page_def)
next
  case (Suc k)
  show ?case
  proof (cases "10 * (k + 1) \<le> length h")
    case True
    with txs_page_after [OF assms, of "10 * (k + 1)"] Suc show ?thesis by (simp add: algebra_simps)
  next
    case False
    then have all: "take (10 * (k + 1)) h = h" by simp
    show ?thesis
    proof (cases "h = []")
      case True
      then show ?thesis using Suc by (simp add: last_id_def txs_page_def)
    next
      case ne: False
      with txs_page_after [OF assms, of "length h"] False Suc all show ?thesis by simp
    qed
  qed
qed

definition demo_entry :: "nat \<Rightarrow> history_entry" where
  "demo_entry i =
     \<lparr>H_Id = format_uint i, H_DateCreated = int i,
      H_Transfer = \<lparr>T_Amount = [], T_CreatedAt = [], T_Day = [], T_Explorable = False, T_Hour = [], T_Kind = [],
        T_Status = [], T_Txid = [], T_UnixDate = 0\<rparr>\<rparr>"

theorem history_pages_reach_the_end_witness:
  "paged 1 (map demo_entry [1..<25]) = (map demo_entry [1..<21], True)
   \<and> paged 2 (map demo_entry [1..<25]) = (map demo_entry [1..<25], False)"
proof -
  have "distinct (map H_Id (map demo_entry [1..<25]))" by code_simp
  moreover have "''0'' \<notin> H_Id ` set (map demo_entry [1..<25])" by code_simp
  ultimately have p: "paged k (map demo_entry [1..<25]) =
      (take (10 * (k + 1)) (map demo_entry [1..<25]), 10 * (k + 1) < length (map demo_entry [1..<25]))" for k
    by (rule history_pages_reach_the_end)
  show ?thesis using p [of 1] p [of 2] by (simp add: take_map)
qed

section \<open>The send form\<close>

lemma btc_not_ark: "IsValidBtcAddress b \<Longrightarrow> \<not> IsValidOffchainAddress b"
  by (cases b; cases "tl b") (auto simp: IsValidBtcAddress_def IsValidOffchainAddress_def match_after_def has_prefix_def)

lemma btc_not_bip21: "IsValidBtcAddress b \<Longrightarrow> \<not> IsBip21 b"
proof
  assume b: "IsValidBtcAddress b" "IsBip21 b"
  then have "take 8 b = ''bitcoin:''" by (simp add: IsBip21_def startsWithBitcoinPrefix_def)
  then have "CHR '':'' \<in> set b" by (metis in_set_takeD list.set_intros)
  with alnum_no_sep(2) [OF btc_alnum [OF b(1)]] show False by simp
qed

text \<open>
  An onchain address that is pasted into the send form is previewed, with its amount, when it
  is within the limit; confirming that preview is always refused as an invalid address, without a
  send.
\<close>

theorem onchain_preview_cannot_be_confirmed:
  assumes "IsValidBtcAddress b" and "\<not> IsValidNote noteValue b" and "\<not> walletLocked n"
    and "within (UtxoMaxAmount cfg) sats" and "parse_uint 64 (format_int sats) \<noteq> None"
  shows "sendPreview noteValue (Inr cfg) b (Some sats) n = Page ''SendPreview'' [b, format_int sats, ''0'', format_int sats]
     \<and> sendConfirm sendOffchain config b (format_int sats) n = (Toast ''Invalid address'', False)"
proof -
  have "destination b = ([], b)" using assms(1) btc_not_ark btc_not_bip21 by (simp add: destination_def Let_def)
  then show ?thesis
    using assms btc_not_ark valid_nonempty(2) [OF assms(1)] by (auto simp: sendPreview_def sendConfirm_def Let_def)
qed

theorem onchain_preview_cannot_be_confirmed_witness:
  "sendConfirm (\<lambda>_ _. Inr ''txid'') (Inl []) (''bc1q'' @ replicate 38 CHR ''x'') (format_int 1000) (demo_open)
     = (Toast ''Invalid address'', False)"
proof -
  have "IsValidBtcAddress (''bc1q'' @ replicate 38 CHR ''x'')" by code_simp
  moreover have "\<not> walletLocked demo_open" by code_simp
  moreover have "parse_uint 64 (format_int 1000) \<noteq> None" by (simp add: format_int_def)
  ultimately show ?thesis
    using onchain_preview_cannot_be_confirmed [of "''bc1q'' @ replicate 38 CHR ''x''" "\<lambda>_. None" demo_open
      "\<lparr>VtxoMaxAmount = - 1, UtxoMaxAmount = - 1, NetworkName = [], BoardingExitDelay = LocktimeSecond 0\<rparr>" 1000 "\<lambda>_ _. Inr ''txid''" "Inl []"]
    by (simp add: within_def IsValidNote_def SatsFromNote_def)
qed

end
