(* ===== verification/WebPages.thy ===== *)
theory WebPages
  imports Web WalletProps
begin

text \<open>
  The rest of the web interface (\<open>interface/web/handlers.go\<close>, \<open>api.go\<close>, \<open>utils.go\<close>): the pages about
  the seed, receiving, single transactions and delegate tasks, the routes of \<open>server.go\<close> with what each
  request answers and does to the node, and the event stream. What the SDK and the repositories answer
  is a record of the request's environment.
\<close>

section \<open>Answers\<close>

record web_task_intent =
  WI_Txid :: string
  WI_Message :: string
  WI_Proof :: string
  WI_Inputs :: "string list"

record web_task_forfeit =
  WF_Outpoint :: string
  WF_Txid :: string

record web_task =
  WT_ID :: string
  WT_Status :: string
  WT_Fee :: string
  WT_ScheduledAt :: string
  WT_ScheduledAtUnix :: int
  WT_ScheduledDate :: string
  WT_ScheduledHour :: string
  WT_FailReason :: string
  WT_CommitmentTxid :: string
  WT_DelegatePublicKey :: string
  WT_Intent :: "web_task_intent option"
  WT_Forfeits :: "web_task_forfeit list"

text \<open>\<open>Recovered\<close> is a panic that the recovery middleware turns into a 500, \<open>Blank\<close> an empty answer.\<close>

datatype web_answer =
    View view
  | Blank
  | Recovered
  | TransferPage transfer string string "string option"
  | TransferRow transfer string string
  | HistoryPage "history_entry list" string bool
  | HeroView string bool
  | TaskList "web_task list" string int bool
  | TaskModal web_task
  | Json "(string \<times> string) list"

text \<open>Toasts and modals are for htmx requests only.\<close>

definition toastHandler :: "bool \<Rightarrow> string \<Rightarrow> web_answer" where
  "toastHandler htmx t = (if htmx then View (Toast t) else View (Aborted 400))"

definition modalHandler :: "bool \<Rightarrow> web_answer \<Rightarrow> web_answer" where
  "modalHandler htmx m = (if htmx then m else View (Aborted 400))"

definition respond :: "bool \<Rightarrow> view \<Rightarrow> web_answer" where
  "respond htmx v =
     (case v of Toast t \<Rightarrow> toastHandler htmx t | Modal m xs \<Rightarrow> modalHandler htmx (View v) | _ \<Rightarrow> View v)"

text \<open>The first lines of most pages.\<close>

definition redirectedBecauseWalletIsLocked :: "node \<Rightarrow> web_answer \<Rightarrow> web_answer" where
  "redirectedBecauseWalletIsLocked n page = (if walletLocked n then View (RedirectTo ''/'') else page)"

section \<open>Plain pages\<close>

definition backupInitial :: "node \<Rightarrow> web_answer" where
  "backupInitial n = redirectedBecauseWalletIsLocked n (View (Page ''BackupInitial'' []))"

definition backupAck :: "node \<Rightarrow> web_answer" where
  "backupAck n = redirectedBecauseWalletIsLocked n (View (Page ''BackupAck'' []))"

definition done_page :: web_answer where
  "done_page = View (Page ''Done'' [])"

definition importMnemonic :: web_answer where
  "importMnemonic = View (Page ''ManageMnemonic'' [[]])"

definition unlock_page :: web_answer where
  "unlock_page = View (Page ''Unlock'' [])"

definition receiveEdit :: "node \<Rightarrow> web_answer" where
  "receiveEdit n = redirectedBecauseWalletIsLocked n (View (Page ''ReceiveEdit'' []))"

definition welcome_page :: web_answer where
  "welcome_page = View (Page ''Welcome'' [])"

definition delegate_tab :: "node \<Rightarrow> web_answer" where
  "delegate_tab n = redirectedBecauseWalletIsLocked n (View (Page ''Delegate'' []))"

definition delegateActive :: "string \<Rightarrow> node \<Rightarrow> web_answer" where
  "delegateActive active n = redirectedBecauseWalletIsLocked n (View (Page ''DelegatePartial'' [active]))"

definition feeInfoModal :: "bool \<Rightarrow> web_answer" where
  "feeInfoModal htmx = modalHandler htmx (View (Modal ''FeeInfo'' []))"

definition reversibleInfoModal :: "bool \<Rightarrow> web_answer" where
  "reversibleInfoModal htmx = modalHandler htmx (View (Modal ''ReversibleInfo'' []))"

definition scannerModal :: "bool \<Rightarrow> string \<Rightarrow> web_answer" where
  "scannerModal htmx i = modalHandler htmx (View (Modal ''Scanner'' [i]))"

section \<open>The seed\<close>

definition backupSecret :: "bool \<Rightarrow> string + string \<Rightarrow> node \<Rightarrow> web_answer" where
  "backupSecret htmx dump n =
     redirectedBecauseWalletIsLocked n
      (case dump of
         Inl _ \<Rightarrow> toastHandler htmx ''Unable to get seed''
       | Inr seed \<Rightarrow> View (Page ''BackupSecret'' [seed, seed]))"

definition backupTabActive :: "bool \<Rightarrow> string + string \<Rightarrow> string \<Rightarrow> web_answer" where
  "backupTabActive htmx dump active =
     (case dump of
        Inl _ \<Rightarrow> toastHandler htmx ''Unable to get seed''
      | Inr seed \<Rightarrow> View (Page ''BackupPartial'' [active, seed]))"

definition seedInfoModal :: "bool \<Rightarrow> string + string \<Rightarrow> web_answer" where
  "seedInfoModal htmx dump =
     (case dump of
        Inl _ \<Rightarrow> toastHandler htmx ''Unable to get seed''
      | Inr seed \<Rightarrow> modalHandler htmx (View (Modal ''SeedInfo'' [seed])))"

definition newMnemonic :: "string + string \<Rightarrow> web_answer" where
  "newMnemonic generated =
     (case generated of
        Inl _ \<Rightarrow> View (Aborted 500)
      | Inr mnemonic \<Rightarrow> View (Page ''ManageMnemonic'' [mnemonic]))"

section \<open>Receiving, sending, settings\<close>

text \<open>\<open>png\<close> is the QR code of a text, base64 encoded.\<close>

definition receiveQrCode ::
  "(u64 \<Rightarrow> (string \<times> string \<times> string) result) \<Rightarrow> (string \<Rightarrow> string + string) \<Rightarrow> string \<Rightarrow> node \<Rightarrow> web_answer" where
  "receiveQrCode newAddress png satsField n =
     redirectedBecauseWalletIsLocked n
      (case (if satsField = [] then Some 0 else parse_uint 64 satsField) of
         None \<Rightarrow> View (Aborted 500)
       | Some sats \<Rightarrow>
          (case newAddress (of_nat sats) of
             Crash \<Rightarrow> Recovered
           | Error _ \<Rightarrow> View (Aborted 500)
           | Ok (bip21, offchainAddr, boardingAddr) \<Rightarrow>
              (case png bip21 of
                 Inl _ \<Rightarrow> Blank
               | Inr encoded \<Rightarrow>
                   View (Page ''ReceiveQrCode'' [bip21, offchainAddr, boardingAddr, encoded, format_uint sats]))))"

definition getSpendableBalance :: "u64 result \<Rightarrow> string result" where
  "getSpendableBalance balance = bind_result balance (\<lambda>b. Ok (format_uint (unat b)))"

definition send :: "u64 result \<Rightarrow> node \<Rightarrow> web_answer" where
  "send balance n =
     redirectedBecauseWalletIsLocked n
      (case getSpendableBalance balance of
         Crash \<Rightarrow> Recovered
       | Error _ \<Rightarrow> View (Aborted 500)
       | Ok b \<Rightarrow> View (Page ''Send'' [b]))"

definition settings_page :: "string \<Rightarrow> string \<Rightarrow> node \<Rightarrow> web_answer" where
  "settings_page version active n =
     redirectedBecauseWalletIsLocked n
      (View (Page ''Settings'' [active, if walletLocked n then ''locked'' else ''unlocked'', version]))"

section \<open>Single transactions\<close>

text \<open>\<open>nextRenewal\<close> is \<open>WhenNextRenewal\<close>; \<open>lockSeconds\<close> are the seconds of a lock time.\<close>

definition getTransfer ::
  "(string \<Rightarrow> int \<Rightarrow> string) \<Rightarrow> (relative_locktime \<Rightarrow> int) \<Rightarrow> go_time \<Rightarrow> go_time \<Rightarrow> string + web_config \<Rightarrow>
     string \<Rightarrow> string \<Rightarrow> transfer \<Rightarrow> web_answer" where
  "getTransfer fmt lockSeconds now nextRenewal config explorerUrl arkExplorerUrl t =
     (if T_Status t = ''pending''
      then
       (let next = (if IsZero nextRenewal
                    then (case config of
                            Inl _ \<Rightarrow> None
                          | Inr cfg \<Rightarrow> Some (now + lockSeconds (BoardingExitDelay cfg) * second))
                    else Some nextRenewal)
        in TransferPage t explorerUrl arkExplorerUrl
             (Some (case next of None \<Rightarrow> ''unknown'' | Some at \<Rightarrow> prettyUnixTimestamp fmt (unix_of_time at))))
      else TransferPage t explorerUrl arkExplorerUrl None)"

text \<open>The entry of the path's id; an entry with an empty id counts as none.\<close>

definition find_tx :: "string \<Rightarrow> history_entry list \<Rightarrow> history_entry option" where
  "find_tx txid history =
     (case find (\<lambda>h. H_Id h = txid) history of
        None \<Rightarrow> None
      | Some h \<Rightarrow> if H_Id h = [] then None else Some h)"

definition getTx ::
  "bool \<Rightarrow> (transfer \<Rightarrow> string \<Rightarrow> string \<Rightarrow> web_answer) \<Rightarrow> string + history_entry list \<Rightarrow> string + web_config \<Rightarrow>
     string \<Rightarrow> node \<Rightarrow> web_answer" where
  "getTx htmx transferView txHistory config txid n =
     redirectedBecauseWalletIsLocked n
      (case txHistory of
         Inl _ \<Rightarrow> View (Aborted 500)
       | Inr history \<Rightarrow>
          (case config of
             Inl e \<Rightarrow> toastHandler htmx e
           | Inr cfg \<Rightarrow>
              (case find_tx txid history of
                 None \<Rightarrow> View (Page ''TxNotFound'' [])
               | Some h \<Rightarrow>
                   transferView (H_Transfer h) (getExplorerUrl (NetworkName cfg)) (getArkExplorerUrl (NetworkName cfg)))))"

text \<open>The second component says whether \<open>Settle\<close> was called.\<close>

definition claimTx ::
  "bool \<Rightarrow> (sdk_tx \<Rightarrow> transfer) \<Rightarrow> string + sdk_tx list \<Rightarrow> string + web_config \<Rightarrow> string result \<Rightarrow> string \<Rightarrow>
     web_answer \<times> bool" where
  "claimTx htmx asTransfer history config settled txid =
     (case config of
        Inl e \<Rightarrow> (toastHandler htmx e, False)
      | Inr cfg \<Rightarrow>
         (case history of
            Inl _ \<Rightarrow> (View (Aborted 500), False)
          | Inr transferTxns \<Rightarrow>
             (case find (\<lambda>t. T_Txid t = txid) (map asTransfer transferTxns) of
                None \<Rightarrow> (toastHandler htmx ''transaction not found'', False)
              | Some tx \<Rightarrow>
                  if T_Txid tx = [] then (toastHandler htmx ''transaction not found'', False)
                  else
                   (case settled of
                      Crash \<Rightarrow> (Recovered, True)
                    | Error e \<Rightarrow> (toastHandler htmx e, True)
                    | Ok _ \<Rightarrow>
                        (TransferRow (tx\<lparr>T_Status := ''success''\<rparr>)
                           (getExplorerUrl (NetworkName cfg)) (getArkExplorerUrl (NetworkName cfg)), True)))))"

section \<open>Delegate tasks\<close>

text \<open>The forfeits come in the order of one iteration of the map.\<close>

definition toWebTask :: "(string \<Rightarrow> int \<Rightarrow> string) \<Rightarrow> delegate_task \<Rightarrow> web_task" where
  "toWebTask fmt task =
     (let unixTime = unix_of_time (ScheduledAt task); i = Intent task in
      \<lparr>WT_ID = ID task, WT_Status = status_String (Status task), WT_Fee = format_uint (unat (Fee task)),
       WT_ScheduledAt = prettyUnixTimestamp fmt unixTime, WT_ScheduledAtUnix = unixTime,
       WT_ScheduledDate = prettyDay fmt unixTime, WT_ScheduledHour = prettyHour fmt unixTime,
       WT_FailReason = FailReason task, WT_CommitmentTxid = CommitmentTxid task,
       WT_DelegatePublicKey = DelegatePublicKey task,
       WT_Intent =
         (if Txid i \<noteq> [] \<or> Message i \<noteq> [] \<or> Proof i \<noteq> [] \<or> Inputs i \<noteq> []
          then Some \<lparr>WI_Txid = Txid i, WI_Message = Message i, WI_Proof = Proof i,
                     WI_Inputs = map OutPoint_String (Inputs i)\<rparr>
          else None),
       WT_Forfeits = map (\<lambda>(op, txid). \<lparr>WF_Outpoint = OutPoint_String op, WF_Txid = txid\<rparr>) (ForfeitTxs task)\<rparr>)"

definition getDelegateTaskDetail ::
  "bool \<Rightarrow> (string \<Rightarrow> int \<Rightarrow> string) \<Rightarrow> (string \<Rightarrow> string + delegate_task option) \<Rightarrow> string \<Rightarrow> node \<Rightarrow> web_answer" where
  "getDelegateTaskDetail htmx fmt taskById tid n =
     redirectedBecauseWalletIsLocked n
      (if tid = [] then toastHandler htmx ''Task ID is required''
       else
        (case taskById tid of
           Inl _ \<Rightarrow> toastHandler htmx ''Unable to get task details''
         | Inr None \<Rightarrow> toastHandler htmx ''Task not found''
         | Inr (Some task) \<Rightarrow> modalHandler htmx (TaskModal (toWebTask fmt task))))"

section \<open>The helpers of the forms\<close>

definition forgotApi :: "bool \<Rightarrow> (node \<Rightarrow> err \<times> node) \<Rightarrow> node \<Rightarrow> web_answer \<times> node" where
  "forgotApi htmx reset n =
     (case reset n of
        (Some _, n') \<Rightarrow> (toastHandler htmx ''Unable to delete previous wallet'', n')
      | (None, n') \<Rightarrow> (View (RedirectTo ''/welcome''), n'))"

definition valid_json :: "err \<Rightarrow> web_answer" where
  "valid_json e = (case e of None \<Rightarrow> Json [(''valid'', ''true'')] | Some e \<Rightarrow> Json [(''valid'', ''false''), (''error'', e)])"

definition validateMnemonicApi :: "(string \<Rightarrow> err) \<Rightarrow> string \<Rightarrow> web_answer" where
  "validateMnemonicApi validMnemonic mnemonic = valid_json (validMnemonic mnemonic)"

definition validateUrlApi :: "(string \<Rightarrow> string + url) \<Rightarrow> string \<Rightarrow> web_answer" where
  "validateUrlApi parse address = Json [(''valid'', if IsValidURL parse address then ''true'' else ''false'')]"

text \<open>\<open>strconv.Atoi\<close>: a sign and digits, in the range of an \<open>int64\<close>.\<close>

definition atoi :: "string \<Rightarrow> int option" where
  "atoi s =
     (let neg = (case s of c # _ \<Rightarrow> c = CHR ''-'' | [] \<Rightarrow> False);
          ds = (case s of c # cs \<Rightarrow> if c = CHR ''-'' \<or> c = CHR ''+'' then cs else s | [] \<Rightarrow> [])
      in case parse_uint 64 ds of
           None \<Rightarrow> None
         | Some k \<Rightarrow> if neg then (if k \<le> 2 ^ 63 then Some (- int k) else None)
                     else (if k < 2 ^ 63 then Some (int k) else None))"

section \<open>The routes\<close>

datatype web_request =
    Req_Index
  | Req_Backup
  | Req_BackupSecret
  | Req_BackupAck
  | Req_BackupTab string
  | Req_Done
  | Req_Hero
  | Req_Import
  | Req_Lock
  | Req_New
  | Req_Receive string \<comment> \<open>the amount field; GET and POST share the handler\<close>
  | Req_ReceiveEdit
  | Req_Send
  | Req_Settings string
  | Req_Tx string
  | Req_Txs string
  | Req_Unlock
  | Req_Welcome
  | Req_Delegate
  | Req_DelegateActive string
  | Req_DelegateTasks string string
  | Req_DelegateTask string
  | Req_FeeInfoModal
  | Req_ReversibleInfoModal
  | Req_ScannerModal string
  | Req_SeedInfoModal
  | Req_Initialize string string string \<comment> \<open>server URL, password, mnemonic\<close>
  | Req_Mnemonic string
  | Req_Password string string string string \<comment> \<open>password, its confirmation, mnemonic, URL of the query\<close>
  | Req_NoteConfirm string
  | Req_ReceiveSuccess string
  | Req_SendPreview string string
  | Req_SendConfirm string string
  | Req_ValidateBip21 string
  | Req_Claim string
  | Req_Forgot
  | Req_ValidateNote string
  | Req_ValidateMnemonic string
  | Req_HelperUnlock string
  | Req_ValidateUrl string
  | Req_Balance

text \<open>The service of \<open>server.go\<close> and what stands around it while a request is served.\<close>

record 'f web_env =
  E_arkServer :: string
  E_version :: string
  E_unlocker :: "(string + string) option"
  E_fmt :: "string \<Rightarrow> int \<Rightarrow> string"
  E_typeText :: "tx_type \<Rightarrow> string"
  E_parseURL :: "string \<Rightarrow> string + url"
  E_validateURL :: "string \<Rightarrow> string + string"
  E_validMnemonic :: "string \<Rightarrow> err"
  E_newMnemonic :: "string + string"
  E_noteValue :: "string \<Rightarrow> int option"
  E_parseFloat :: "string \<Rightarrow> 'f option"
  E_newAmount :: "'f \<Rightarrow> int option"
  E_fmtBtc :: "u64 \<Rightarrow> string"
  E_png :: "string \<Rightarrow> string + string"
  E_now :: go_time
  E_lockSeconds :: "relative_locktime \<Rightarrow> int"
  E_config :: "string + web_config"
  E_dump :: "string + string"
  E_history :: "string + sdk_tx list"
  E_balance :: "string + u64 \<times> u64 \<times> u64 list" \<comment> \<open>offchain, spendable and locked onchain amounts\<close>
  E_nextRenewal :: go_time
  E_newBoarding :: "string + string"
  E_newOffchain :: "string + string"
  E_redeem :: "string \<Rightarrow> string + string"
  E_sendOffchain :: "string \<Rightarrow> u64 \<Rightarrow> string + string"
  E_settle :: "string + string"
  E_taskPage :: "delegate_task_status \<Rightarrow> int \<Rightarrow> int \<Rightarrow> string + delegate_task list"
  E_taskById :: "string \<Rightarrow> string + delegate_task option"
  E_initErr :: err
  E_explorer :: "string + string" \<comment> \<open>\<open>GetConfigData\<close> as \<open>Setup\<close> reads it\<close>
  E_lockErr :: err
  E_unlockErr :: err
  E_configErr :: err
  E_subs :: "string + subscriptionHandler"
  E_lockedAfter :: bool

definition total_balance :: "'f web_env \<Rightarrow> node \<Rightarrow> u64 result" where
  "total_balance e n = GetTotalBalance (case E_balance e of Inl er \<Rightarrow> Inl er | Inr (off, _) \<Rightarrow> Inr off) n"

definition web_history :: "'f web_env \<Rightarrow> string + history_entry list" where
  "web_history e = getTxHistory (E_fmt e) (E_typeText e) (E_history e)"

definition hero_answer :: "'f web_env \<Rightarrow> node \<Rightarrow> web_answer" where
  "hero_answer e n =
     (case getHero (total_balance e n) n of None \<Rightarrow> View (RedirectTo ''/'') | Some (b, online) \<Rightarrow> HeroView b online)"

definition txs_answer :: "'f web_env \<Rightarrow> string \<Rightarrow> node \<Rightarrow> web_answer" where
  "txs_answer e lastId n =
     (case getTxs (E_fmt e) (E_typeText e) (E_history e) lastId n of
        None \<Rightarrow> View (RedirectTo ''/'')
      | Some (shown, lastId, loadMore) \<Rightarrow> HistoryPage shown lastId loadMore)"

definition tasks_answer :: "bool \<Rightarrow> 'f web_env \<Rightarrow> string \<Rightarrow> string \<Rightarrow> node \<Rightarrow> web_answer" where
  "tasks_answer htmx e st offset n =
     (case getDelegateTasks (E_taskPage e) st (atoi offset) n of
        Inl v \<Rightarrow> respond htmx v
      | Inr None \<Rightarrow> Blank
      | Inr (Some (ts, nextOffset, loadMore)) \<Rightarrow> TaskList (map (toWebTask (E_fmt e)) ts) st nextOffset loadMore)"

definition balance_answer :: "'f web_env \<Rightarrow> web_answer" where
  "balance_answer e =
     (case E_balance e of
        Inl _ \<Rightarrow> View (Aborted 500)
      | Inr (off, spendable, lockedAmounts) \<Rightarrow>
          (case getBalanceApi off spendable lockedAmounts of
             (off, on, both) \<Rightarrow> Json [(''offchain'', format_uint (unat off)), (''onchain'', format_uint (unat on)),
                                      (''total'', format_uint (unat both))]))"

definition valid_sats :: "string \<Rightarrow> string option \<Rightarrow> web_answer" where
  "valid_sats e sats =
     (case sats of
        Some s \<Rightarrow> Json [(''sats'', s), (''valid'', ''true'')]
      | None \<Rightarrow> Json [(''valid'', ''false''), (''error'', e)])"

text \<open>What a request that leaves the node alone is answered.\<close>

fun show_page :: "bool \<Rightarrow> 'f web_env \<Rightarrow> web_request \<Rightarrow> node \<Rightarrow> web_answer" where
  "show_page htmx e Req_Index n = View (index_page n)"
| "show_page htmx e Req_Backup n = backupInitial n"
| "show_page htmx e Req_BackupSecret n = backupSecret htmx (E_dump e) n"
| "show_page htmx e Req_BackupAck n = backupAck n"
| "show_page htmx e (Req_BackupTab active) n = backupTabActive htmx (E_dump e) active"
| "show_page htmx e Req_Done n = done_page"
| "show_page htmx e Req_Hero n = hero_answer e n"
| "show_page htmx e Req_Import n = importMnemonic"
| "show_page htmx e Req_New n = newMnemonic (E_newMnemonic e)"
| "show_page htmx e (Req_Receive sats) n =
     receiveQrCode (\<lambda>v. NewAddress (E_fmtBtc e) (E_newBoarding e) (E_newOffchain e) v n) (E_png e) sats n"
| "show_page htmx e Req_ReceiveEdit n = receiveEdit n"
| "show_page htmx e Req_Send n = send (total_balance e n) n"
| "show_page htmx e (Req_Settings active) n = settings_page (E_version e) active n"
| "show_page htmx e (Req_Tx txid) n =
     getTx htmx (\<lambda>t ex ax. getTransfer (E_fmt e) (E_lockSeconds e) (E_now e) (E_nextRenewal e) (E_config e) ex ax t)
       (web_history e) (E_config e) txid n"
| "show_page htmx e (Req_Txs lastId) n = txs_answer e lastId n"
| "show_page htmx e Req_Unlock n = unlock_page"
| "show_page htmx e Req_Welcome n = welcome_page"
| "show_page htmx e Req_Delegate n = delegate_tab n"
| "show_page htmx e (Req_DelegateActive active) n = delegateActive active n"
| "show_page htmx e (Req_DelegateTasks st offset) n = tasks_answer htmx e st offset n"
| "show_page htmx e (Req_DelegateTask i) n = getDelegateTaskDetail htmx (E_fmt e) (E_taskById e) i n"
| "show_page htmx e Req_FeeInfoModal n = feeInfoModal htmx"
| "show_page htmx e Req_ReversibleInfoModal n = reversibleInfoModal htmx"
| "show_page htmx e (Req_ScannerModal i) n = scannerModal htmx i"
| "show_page htmx e Req_SeedInfoModal n = seedInfoModal htmx (E_dump e)"
| "show_page htmx e (Req_Mnemonic mnemonic) n = respond htmx (setMnemonic (E_validMnemonic e) mnemonic)"
| "show_page htmx e (Req_Password pw pc mnemonic url') n = respond htmx (setPassword (E_arkServer e) pw pc mnemonic url')"
| "show_page htmx e (Req_NoteConfirm note) n = respond htmx (noteConfirm (E_noteValue e) (E_redeem e) (E_config e) note n)"
| "show_page htmx e (Req_ReceiveSuccess bip21) n =
     (case receiveSuccess (E_history e) bip21 of None \<Rightarrow> Recovered | Some v \<Rightarrow> respond htmx v)"
| "show_page htmx e (Req_SendPreview dest sats) n =
     respond htmx (sendPreview (E_noteValue e) (E_config e) dest (atoi sats) n)"
| "show_page htmx e (Req_SendConfirm dest sats) n =
     respond htmx (fst (sendConfirm (E_sendOffchain e) (E_config e) dest sats n))"
| "show_page htmx e (Req_ValidateBip21 bip21) n =
     valid_sats ''invalid invoice''
       (map_option (\<lambda>w. format_uint (unat w)) (validateBip21Api (E_parseFloat e) (E_newAmount e) bip21))"
| "show_page htmx e (Req_Claim txid) n =
     fst (claimTx htmx (toTransfer (E_fmt e) (E_typeText e)) (E_history e) (E_config e) (Settle (E_settle e) n) txid)"
| "show_page htmx e (Req_ValidateNote note) n =
     valid_sats ''invalid note'' (map_option format_int (validateNoteApi (E_noteValue e) note))"
| "show_page htmx e (Req_ValidateMnemonic mnemonic) n = validateMnemonicApi (E_validMnemonic e) mnemonic"
| "show_page htmx e (Req_ValidateUrl address) n = validateUrlApi (E_parseURL e) address"
| "show_page htmx e Req_Balance n = balance_answer e"
| "show_page htmx e r n = Blank"

text \<open>Every route with its handler, those that change the node first.\<close>

definition serve :: "bool \<Rightarrow> 'f web_env \<Rightarrow> web_request \<Rightarrow> node \<Rightarrow> web_answer \<times> node" where
  "serve htmx e r n =
     (case r of
        Req_Lock \<Rightarrow>
          (case lock_page (LockNode (E_lockErr e)) n of (v, n') \<Rightarrow> (respond htmx v, n'))
      | Req_Initialize serverUrl password mnemonic \<Rightarrow>
          (case initialize (E_parseURL e) (E_validMnemonic e) (E_unlocker e)
                  (Setup (E_validMnemonic e) (E_validateURL e) (E_initErr e) (E_lockedAfter e) (E_explorer e))
                  serverUrl password mnemonic n of (v, n') \<Rightarrow> (respond htmx v, n'))
      | Req_HelperUnlock password \<Rightarrow>
          (case unlockApi (UnlockNode (E_unlockErr e) (E_configErr e) (E_subs e)) password n of
             (v, n') \<Rightarrow> (respond htmx v, n'))
      | Req_Forgot \<Rightarrow> forgotApi htmx (\<lambda>n. (None, ResetWallet (E_lockedAfter e) n)) n
      | _ \<Rightarrow> (show_page htmx e r n, n))"

section \<open>What a locked wallet shows\<close>

text \<open>An answer that holds data of the wallet; the remaining pages are the same for every wallet or
  repeat what the client sent.\<close>

definition discloses :: "web_answer \<Rightarrow> bool" where
  "discloses a =
     (case a of
        View v \<Rightarrow>
          (case v of
             Page name _ \<Rightarrow> name \<notin> {''Welcome'', ''Unlock'', ''Done'', ''ManageMnemonic'', ''SetPassword'', ''ServerUrl'', ''Error''}
           | Modal name _ \<Rightarrow> name \<notin> {''FeeInfo'', ''ReversibleInfo'', ''Scanner''}
           | _ \<Rightarrow> False)
      | Blank \<Rightarrow> False
      | Recovered \<Rightarrow> False
      | Json fs \<Rightarrow> ''total'' \<in> set (map fst fs)
      | _ \<Rightarrow> True)"

text \<open>The SDK of a locked wallet answers neither its seed, its history nor its balance.\<close>

definition refuses :: "'f web_env \<Rightarrow> bool" where
  "refuses e \<longleftrightarrow> (\<exists>a. E_dump e = Inl a) \<and> (\<exists>a. E_history e = Inl a) \<and> (\<exists>a. E_balance e = Inl a)"

lemma discloses_simps [simp]:
  "\<not> discloses (View (Toast t))" "\<not> discloses (View (Aborted k))" "\<not> discloses (View (RedirectTo p))"
  "\<not> discloses Blank" "\<not> discloses Recovered"
  "\<not> discloses (toastHandler htmx t)" "discloses (modalHandler htmx m) \<longleftrightarrow> htmx \<and> discloses m"
  "\<not> discloses (valid_json er)" "\<not> discloses (valid_sats msg sats)"
  "discloses (View (Page name xs)) \<longleftrightarrow>
     name \<notin> {''Welcome'', ''Unlock'', ''Done'', ''ManageMnemonic'', ''SetPassword'', ''ServerUrl'', ''Error''}"
  "discloses (View (Modal name xs)) \<longleftrightarrow> name \<notin> {''FeeInfo'', ''ReversibleInfo'', ''Scanner''}"
  by (simp_all add: discloses_def toastHandler_def modalHandler_def valid_json_def valid_sats_def split: option.splits)

lemma discloses_respond [simp]: "discloses (respond htmx v) \<longleftrightarrow> discloses (View v) \<and> (htmx \<or> (\<forall>m xs. v \<noteq> Modal m xs))"
  by (cases v) (auto simp: respond_def)

lemma locked_redirects [simp]: "walletLocked n \<Longrightarrow> redirectedBecauseWalletIsLocked n page = View (RedirectTo ''/'')"
  by (simp add: redirectedBecauseWalletIsLocked_def)

lemmas locked_answers = backupSecret_def backupTabActive_def seedInfoModal_def newMnemonic_def receiveQrCode_def send_def
  settings_page_def getTx_def claimTx_def getDelegateTaskDetail_def hero_answer_def getHero_def txs_answer_def getTxs_def
  tasks_answer_def getDelegateTasks_def balance_answer_def index_page_def setMnemonic_def setPassword_def noteConfirm_def
  receiveSuccess_def sendPreview_def sendConfirm_def validateMnemonicApi_def validateUrlApi_def
  backupInitial_def backupAck_def done_page_def importMnemonic_def unlock_page_def receiveEdit_def welcome_page_def delegate_tab_def
  delegateActive_def feeInfoModal_def reversibleInfoModal_def scannerModal_def

lemma locked_page:
  assumes "walletLocked n" and "refuses e"
  shows "\<not> discloses (show_page htmx e r n)"
proof -
  obtain a b c where e: "E_dump e = Inl a" "E_history e = Inl b" "E_balance e = Inl c"
    using assms(2) by (auto simp: refuses_def)
  show ?thesis
    using assms(1) by (cases r) (simp_all add: locked_answers e split: sum.split, simp add: discloses_def)
qed

text \<open>Serving requests one after another, each with its own environment.\<close>

fun serve_all :: "bool \<Rightarrow> ('f web_env \<times> web_request) list \<Rightarrow> node \<Rightarrow> web_answer list \<times> node" where
  "serve_all htmx [] n = ([], n)"
| "serve_all htmx ((e, r) # rs) n =
     (case serve htmx e r n of (a, n') \<Rightarrow> (case serve_all htmx rs n' of (as, n'') \<Rightarrow> (a # as, n'')))"

lemma serve_locked:
  assumes "walletLocked n" and "refuses e" and "E_unlockErr e \<noteq> None" and "E_lockedAfter e"
  shows "\<not> discloses (fst (serve htmx e r n))" and "walletLocked (snd (serve htmx e r n))"
proof -
  have set_up: "walletLocked (snd (Setup vm vu er True cfg url' pw mn n))" for vm vu er cfg url' pw mn
    using assms(1) by (simp add: Setup_def Let_def notify_def split: option.split sum.split)
  then have ini: "\<not> discloses (View (fst (initialize p vm u (Setup vm' vu er True cfg) url' pw mn n)))
      \<and> walletLocked (snd (initialize p vm u (Setup vm' vu er True cfg) url' pw mn n))
      \<and> fst (initialize p vm u (Setup vm' vu er True cfg) url' pw mn n) \<noteq> Modal m xs" for p vm u vm' vu er cfg url' pw mn m xs
    using assms(1) by (auto simp: initialize_def split: option.split prod.split) (metis snd_conv)+
  have unl: "\<not> discloses (View (fst (unlockApi (UnlockNode ue ce sb) pw n))) \<and> walletLocked (snd (unlockApi (UnlockNode ue ce sb) pw n))
      \<and> fst (unlockApi (UnlockNode ue ce sb) pw n) \<noteq> Modal m xs"
    if "ue \<noteq> None" for ue ce sb pw m xs
    using assms(1) that by (auto simp: unlockApi_def UnlockNode_def Let_def)
  have "\<not> discloses (fst (serve htmx e r n)) \<and> walletLocked (snd (serve htmx e r n))"
  proof (cases r)
    case Req_Lock
    with assms(1) show ?thesis by (simp add: serve_def lock_page_def)
  next
    case (Req_Initialize a b c)
    with assms(4) ini show ?thesis by (simp add: serve_def split_beta)
  next
    case (Req_HelperUnlock pw)
    with unl [OF assms(3)] show ?thesis by (simp add: serve_def split_beta)
  next
    case Req_Forgot
    with assms(4) show ?thesis
      by (simp add: serve_def forgotApi_def ResetWallet_def Let_def notify_def close_sync_def stop_subscription_def
          clearSignerKey_def onLock_def)
  qed (use locked_page [OF assms(1,2)] assms(1) in \<open>simp_all add: serve_def del: show_page.simps\<close>)
  then show "\<not> discloses (fst (serve htmx e r n))" and "walletLocked (snd (serve htmx e r n))" by simp_all
qed


definition demo_env :: "unit web_env" where
  "demo_env =
     \<lparr>E_arkServer = [], E_version = [], E_unlocker = None, E_fmt = (\<lambda>_ _. []), E_typeText = (\<lambda>_. []),
      E_parseURL = (\<lambda>_. Inl []), E_validateURL = (\<lambda>_. Inl []), E_validMnemonic = (\<lambda>_. None), E_newMnemonic = Inl [],
      E_noteValue = (\<lambda>_. None), E_parseFloat = (\<lambda>_. None), E_newAmount = (\<lambda>_. None), E_fmtBtc = (\<lambda>_. []),
      E_png = (\<lambda>_. Inl []), E_now = 0, E_lockSeconds = (\<lambda>_. 0),
      E_config = Inr \<lparr>VtxoMaxAmount = - 1, UtxoMaxAmount = - 1, NetworkName = ''bitcoin'', BoardingExitDelay = LocktimeSecond 0\<rparr>,
      E_dump = Inl ''wallet is locked'', E_history = Inl ''wallet is locked'', E_balance = Inl ''wallet is locked'',
      E_nextRenewal = 0, E_newBoarding = Inl [], E_newOffchain = Inl [], E_redeem = (\<lambda>_. Inl []),
      E_sendOffchain = (\<lambda>_ _. Inl []), E_settle = Inl [], E_taskPage = (\<lambda>_ _ _. Inr []), E_taskById = (\<lambda>_. Inr None),
      E_initErr = None, E_explorer = Inr [], E_lockErr = None, E_unlockErr = Some ''invalid password'',
      E_configErr = None, E_subs = Inl [], E_lockedAfter = True\<rparr>"


section \<open>The event stream\<close>

datatype events_pc =
    SyncLoop \<comment> \<open>the loop of a client that connected before the wallet was synced\<close>
  | FirstEvent \<comment> \<open>receiving the event of a synced wallet\<close>
  | Transactions \<comment> \<open>the loop over the transactions\<close>
  | EventsDone

datatype sse =
    Sse_Synced "sync_event option" \<comment> \<open>\<open>None\<close>: the zero event of a closed channel\<close>
  | Sse_Tx string string

record events_conn =
  events_at :: events_pc
  events_chan :: "sync_event list option" \<comment> \<open>what \<open>GetSyncedUpdate\<close> gave: nil, or the buffer\<close>
  events_closed :: bool
  events_sent :: "sse list"

definition events_open :: "node \<Rightarrow> events_conn" where
  "events_open n =
     \<lparr>events_at = (if fst (IsSynced n) then FirstEvent else SyncLoop), events_chan = GetSyncedUpdate n,
      events_closed = False, events_sent = []\<rparr>"

definition send_sse :: "sse \<Rightarrow> events_conn \<Rightarrow> events_conn" where
  "send_sse ev c = c\<lparr>events_sent := events_sent c @ [ev]\<rparr>"

text \<open>
  The steps of the handler, and what others do to the channel it holds: the sync goroutine fills it,
  another client takes the event, a lock closes it. A closed channel is received from at once, so the
  first loop goes round without waiting. The two reads of the wallet's state when a client connects
  are one step.
\<close>

inductive events_step :: "events_conn \<Rightarrow> events_conn \<Rightarrow> bool" where
  leave: "events_at c \<in> {SyncLoop, Transactions} \<Longrightarrow> events_step c (c\<lparr>events_at := EventsDone\<rparr>)"
| synced: "events_at c = SyncLoop \<Longrightarrow> events_chan c = Some (ev # q) \<Longrightarrow>
    events_step c (send_sse (Sse_Synced (Some ev)) (c\<lparr>events_chan := Some q\<rparr>))"
| spin: "events_at c = SyncLoop \<Longrightarrow> events_chan c = Some [] \<Longrightarrow> events_closed c \<Longrightarrow> events_step c c"
| first: "events_at c = FirstEvent \<Longrightarrow> events_chan c = Some (ev # q) \<Longrightarrow>
    events_step c (send_sse (Sse_Synced (Some ev)) (c\<lparr>events_chan := Some q, events_at := Transactions\<rparr>))"
| first_closed: "events_at c = FirstEvent \<Longrightarrow> events_chan c = Some [] \<Longrightarrow> events_closed c \<Longrightarrow>
    events_step c (send_sse (Sse_Synced None) (c\<lparr>events_at := Transactions\<rparr>))"
| transaction: "events_at c = Transactions \<Longrightarrow> events_step c (send_sse (Sse_Tx ty tx) c)"
| txs_closed: "events_at c = Transactions \<Longrightarrow> events_step c (c\<lparr>events_at := EventsDone\<rparr>)"
| filled: "events_chan c = Some [] \<Longrightarrow> \<not> events_closed c \<Longrightarrow> events_step c (c\<lparr>events_chan := Some [ev]\<rparr>)"
| taken: "events_chan c = Some (ev # q) \<Longrightarrow> events_step c (c\<lparr>events_chan := Some q\<rparr>)"
| closed: "events_chan c \<noteq> None \<Longrightarrow> events_step c (c\<lparr>events_closed := True\<rparr>)"

inductive_cases events_stepE: "events_step c c'"

definition waits_for_sync :: "events_conn \<Rightarrow> bool" where
  "waits_for_sync c \<longleftrightarrow> events_at c \<in> {SyncLoop, EventsDone} \<and> (\<forall>ty tx. Sse_Tx ty tx \<notin> set (events_sent c))"

definition hears_nothing :: "events_conn \<Rightarrow> bool" where
  "hears_nothing c \<longleftrightarrow> events_at c \<in> {SyncLoop, EventsDone} \<and> events_chan c = None \<and> events_sent c = []"

lemma waits_for_sync_step: "events_step c c' \<Longrightarrow> waits_for_sync c \<Longrightarrow> waits_for_sync c'"
  by (erule events_stepE) (auto simp: waits_for_sync_def send_sse_def)

lemma hears_nothing_step: "events_step c c' \<Longrightarrow> hears_nothing c \<Longrightarrow> hears_nothing c'"
  by (erule events_stepE) (auto simp: hears_nothing_def send_sse_def)

lemma events_run:
  assumes "events_step\<^sup>*\<^sup>* c c'"
  shows "waits_for_sync c \<Longrightarrow> waits_for_sync c'" and "hears_nothing c \<Longrightarrow> hears_nothing c'"
  using assms by (induction rule: rtranclp_induct) (auto intro: waits_for_sync_step hears_nothing_step)

lemma synced_open:
  assumes "syncEvent n = Some ev"
  shows "\<exists>c. events_step (events_open n) c \<and> events_sent c \<noteq> [] \<and> (fst (IsSynced n) \<longrightarrow> events_at c = Transactions)"
proof (cases "fst (IsSynced n)")
  case True
  then have "events_step (events_open n)
      (send_sse (Sse_Synced (Some ev)) ((events_open n)\<lparr>events_chan := Some [], events_at := Transactions\<rparr>))"
    by (intro first) (simp_all add: events_open_def GetSyncedUpdate_def assms)
  then show ?thesis by (intro exI conjI) (auto simp: send_sse_def)
next
  case False
  then have "events_step (events_open n) (send_sse (Sse_Synced (Some ev)) ((events_open n)\<lparr>events_chan := Some []\<rparr>))"
    by (intro synced) (simp_all add: events_open_def GetSyncedUpdate_def assms)
  with False show ?thesis by (intro exI conjI) (auto simp: send_sse_def)
qed

lemma pending_open:
  assumes "syncEvent n = None" and "syncCh n = Some q"
  shows "\<exists>c. events_step\<^sup>*\<^sup>* (events_open n) c \<and> events_sent c \<noteq> []"
proof -
  have chan: "events_at (events_open n) = SyncLoop" "events_chan (events_open n) = Some q"
      "\<not> events_closed (events_open n)"
    by (simp_all add: events_open_def GetSyncedUpdate_def IsSynced_def assms)
  have "\<exists>c ev q'. events_step\<^sup>*\<^sup>* (events_open n) c \<and> events_at c = SyncLoop \<and> events_chan c = Some (ev # q')"
  proof (cases q)
    case Nil
    let ?c = "(events_open n)\<lparr>events_chan := Some [\<lparr>Synced = True, SyncErr = None\<rparr>]\<rparr>"
    have "events_step (events_open n) ?c" using chan Nil by (intro filled) simp_all
    moreover have "events_at ?c = SyncLoop" "events_chan ?c = Some (\<lparr>Synced = True, SyncErr = None\<rparr> # [])"
      using chan by simp_all
    ultimately show ?thesis by blast
  qed (use chan in blast)
  then obtain c ev q' where c: "events_step\<^sup>*\<^sup>* (events_open n) c" "events_at c = SyncLoop" "events_chan c = Some (ev # q')"
    by blast
  from c(1) synced [OF c(2,3)] have "events_step\<^sup>*\<^sup>* (events_open n) (send_sse (Sse_Synced (Some ev)) (c\<lparr>events_chan := Some q'\<rparr>))"
    by (rule rtranclp.rtrancl_into_rtrancl)
  then show ?thesis by (intro exI conjI) (auto simp: send_sse_def)
qed

text \<open>
  C35: whether a client of \<open>/events\<close> ever sees a transaction is decided when it connects: exactly a
  client that connects to a synced wallet can. One that connects earlier stays in the loop that waits
  for the sync, and if it connects while no unlock is under way it is never sent anything at all, not
  even that the wallet is synced, however long the connection lasts.
\<close>

theorem events_need_a_synced_wallet:
  "((\<exists>c ty tx. events_step\<^sup>*\<^sup>* (events_open n) c \<and> Sse_Tx ty tx \<in> set (events_sent c)) \<longleftrightarrow> fst (IsSynced n))
   \<and> ((\<exists>c. events_step\<^sup>*\<^sup>* (events_open n) c \<and> events_sent c \<noteq> []) \<longleftrightarrow> \<not> (syncEvent n = None \<and> syncCh n = None))"
proof (intro conjI iffI notI)
  assume "\<exists>c ty tx. events_step\<^sup>*\<^sup>* (events_open n) c \<and> Sse_Tx ty tx \<in> set (events_sent c)"
  then obtain c ty tx where c: "events_step\<^sup>*\<^sup>* (events_open n) c" "Sse_Tx ty tx \<in> set (events_sent c)" by blast
  show "fst (IsSynced n)"
  proof (rule ccontr)
    assume "\<not> fst (IsSynced n)"
    then have "waits_for_sync (events_open n)" by (simp add: waits_for_sync_def events_open_def)
    with events_run(1) [OF c(1)] c(2) show False by (simp add: waits_for_sync_def)
  qed
next
  assume s: "fst (IsSynced n)"
  then obtain ev where ev: "syncEvent n = Some ev" by (auto simp: IsSynced_def split: option.splits)
  from synced_open [OF ev] s obtain c where "events_step (events_open n) c" "events_at c = Transactions" by blast
  with transaction [of c "[]" "[]"] have "events_step\<^sup>*\<^sup>* (events_open n) (send_sse (Sse_Tx [] []) c)"
    by (meson converse_rtranclp_into_rtranclp rtranclp.rtrancl_refl)
  then show "\<exists>c ty tx. events_step\<^sup>*\<^sup>* (events_open n) c \<and> Sse_Tx ty tx \<in> set (events_sent c)"
    by (intro exI conjI) (auto simp: send_sse_def)
next
  assume c: "\<exists>c. events_step\<^sup>*\<^sup>* (events_open n) c \<and> events_sent c \<noteq> []" and nil: "syncEvent n = None \<and> syncCh n = None"
  then have "hears_nothing (events_open n)"
    by (simp add: hears_nothing_def events_open_def IsSynced_def GetSyncedUpdate_def)
  with c events_run(2) show False by (auto simp: hears_nothing_def)
next
  assume "\<not> (syncEvent n = None \<and> syncCh n = None)"
  then consider ev where "syncEvent n = Some ev" | q where "syncEvent n = None" "syncCh n = Some q"
    by (cases "syncEvent n"; cases "syncCh n") auto
  then show "\<exists>c. events_step\<^sup>*\<^sup>* (events_open n) c \<and> events_sent c \<noteq> []"
    using synced_open pending_open by cases blast+
qed

end
