(* ===== verification/Config.thy ===== *)
theory Config
  imports Prelude
begin

text \<open>
  Starting the daemon: the checks of \<open>internal/config/config.go\<close>, the unlockers, the check of the
  ports (\<open>interface/grpc/config.go\<close>) and the block height of the esplora client. The environment is
  a function from variable names to their values as viper casts them; the file system, the network
  and HTTP answers are arguments.
\<close>

section \<open>Settings\<close>

text \<open>A signed 64-bit integer is a word read with \<^term>\<open>sint\<close>.\<close>

type_synonym i64 = "64 word"

record settings =
  Set_Datadir :: string
  Set_DbType :: string
  Set_GRPCPort :: u32
  Set_HTTPPort :: u32
  Set_WithTLS :: bool
  Set_LogLevel :: u32
  Set_ArkServer :: string
  Set_EsploraURL :: string
  Set_BoltzURL :: string
  Set_BoltzWSURL :: string
  Set_SchedulerPollInterval :: i64
  Set_ProfilingEnabled :: bool
  Set_RefreshDbInterval :: i64
  Set_DelegatePort :: u32
  Set_DelegateFee :: u64
  Set_DelegateEnabled :: bool
  Set_EmulatorPubkey :: string
  Set_UnlockerType :: string
  Set_UnlockerFilePath :: string
  Set_UnlockerPassword :: string
  Set_DisableTelemetry :: bool
  Set_SwapTimeout :: u32
  Set_OtelCollectorURL :: string
  Set_OtelPushInterval :: i64
  Set_PyroscopeURL :: string

text \<open>What the environment sets, as viper casts it to each type; the rest has its default.\<close>

record env =
  Env_text :: "string \<Rightarrow> string option"
  Env_u32 :: "string \<Rightarrow> u32 option"
  Env_u64 :: "string \<Rightarrow> u64 option"
  Env_i64 :: "string \<Rightarrow> i64 option"
  Env_bool :: "string \<Rightarrow> bool option"

definition from_env :: "'a \<Rightarrow> 'a option \<Rightarrow> 'a" where
  "from_env d x = (case x of None \<Rightarrow> d | Some a \<Rightarrow> a)"

definition read_settings :: "string \<Rightarrow> env \<Rightarrow> settings" where
  "read_settings defaultDatadir v =
     \<lparr>Set_Datadir = from_env defaultDatadir (Env_text v ''DATADIR''),
      Set_DbType = from_env ''sqlite'' (Env_text v ''DB_TYPE''),
      Set_GRPCPort = from_env 7000 (Env_u32 v ''GRPC_PORT''),
      Set_HTTPPort = from_env 7001 (Env_u32 v ''HTTP_PORT''),
      Set_WithTLS = from_env False (Env_bool v ''WITH_TLS''),
      Set_LogLevel = from_env 4 (Env_u32 v ''LOG_LEVEL''),
      Set_ArkServer = from_env [] (Env_text v ''ARK_SERVER''),
      Set_EsploraURL = from_env [] (Env_text v ''ESPLORA_URL''),
      Set_BoltzURL = from_env [] (Env_text v ''BOLTZ_URL''),
      Set_BoltzWSURL = from_env [] (Env_text v ''BOLTZ_WS_URL''),
      Set_SchedulerPollInterval = from_env 600 (Env_i64 v ''SCHEDULER_POLL_INTERVAL''),
      Set_ProfilingEnabled = from_env False (Env_bool v ''PROFILING_ENABLED''),
      Set_RefreshDbInterval = from_env 60 (Env_i64 v ''REFRESH_DB_INTERVAL''),
      Set_DelegatePort = from_env 7002 (Env_u32 v ''DELEGATE_PORT''),
      Set_DelegateFee = from_env 0 (Env_u64 v ''DELEGATE_FEE''),
      Set_DelegateEnabled = from_env False (Env_bool v ''DELEGATE_ENABLED''),
      Set_EmulatorPubkey = from_env [] (Env_text v ''EMULATOR_PUBKEY''),
      Set_UnlockerType = from_env [] (Env_text v ''UNLOCKER_TYPE''),
      Set_UnlockerFilePath = from_env [] (Env_text v ''UNLOCKER_FILE_PATH''),
      Set_UnlockerPassword = from_env [] (Env_text v ''UNLOCKER_PASSWORD''),
      Set_DisableTelemetry = from_env False (Env_bool v ''DISABLE_TELEMETRY''),
      Set_SwapTimeout = from_env 15 (Env_u32 v ''SWAP_TIMEOUT''),
      Set_OtelCollectorURL = from_env [] (Env_text v ''OTEL_COLLECTOR_URL''),
      Set_OtelPushInterval = from_env 10 (Env_i64 v ''OTEL_PUSH_INTERVAL''),
      Set_PyroscopeURL = from_env [] (Env_text v ''PYROSCOPE_URL'')\<rparr>"

section \<open>Unlockers\<close>

datatype unlocker = EnvUnlocker string | FileUnlocker string

text \<open>\<open>stat\<close> answers for a path whether it exists, or another error.\<close>

definition new_env_unlocker :: "string \<Rightarrow> string + unlocker" where
  "new_env_unlocker password =
     (if password = [] then Inl ''missing password in environment'' else Inr (EnvUnlocker password))"

definition new_file_unlocker :: "(string \<Rightarrow> string + bool) \<Rightarrow> string \<Rightarrow> string + unlocker" where
  "new_file_unlocker stat path =
     (case stat path of
        Inl e \<Rightarrow> Inl e
      | Inr exists \<Rightarrow> if exists then Inr (FileUnlocker path) else Inl (''password file not found at path '' @ path))"

definition password_blank :: "char \<Rightarrow> bool" where
  "password_blank c = (let k = of_char c :: nat in k = 10 \<or> k = 13 \<or> k = 32)"

definition GetPassword :: "(string \<Rightarrow> string + string) \<Rightarrow> unlocker \<Rightarrow> string + string" where
  "GetPassword readFile u =
     (case u of
        EnvUnlocker password \<Rightarrow> Inr password
      | FileUnlocker path \<Rightarrow>
          (case readFile path of Inl e \<Rightarrow> Inl e | Inr buf \<Rightarrow> Inr (trim_func password_blank buf)))"

definition initUnlockerService :: "(string \<Rightarrow> string + bool) \<Rightarrow> settings \<Rightarrow> string + unlocker option" where
  "initUnlockerService stat s =
     (if Set_UnlockerType s = [] then Inr None
      else
       (case (if Set_UnlockerType s = ''file'' then new_file_unlocker stat (Set_UnlockerFilePath s)
              else if Set_UnlockerType s = ''env'' then new_env_unlocker (Set_UnlockerPassword s)
              else Inl ''unknown unlocker type'') of
          Inl e \<Rightarrow> Inl e
        | Inr u \<Rightarrow> Inr (Some u)))"

section \<open>LoadConfig\<close>

record 'm config =
  Cfg_settings :: settings
  Cfg_unlocker :: "unlocker option"
  Cfg_macaroons :: "'m option"

text \<open>The file system: \<open>Stat\<close> as for the unlocker, \<open>MkdirAll\<close> creates a directory.\<close>

record filesystem =
  Stat :: "string \<Rightarrow> string + bool"
  MkdirAll :: "string \<Rightarrow> err"

definition makeDirectoryIfNotExists :: "filesystem \<Rightarrow> string \<Rightarrow> err" where
  "makeDirectoryIfNotExists fs path = (case Stat fs path of Inr False \<Rightarrow> MkdirAll fs path | _ \<Rightarrow> None)"

text \<open>\<open>macaroons\<close> is \<open>macaroon.NewService\<close> for a data directory.\<close>

definition initMacaroonService :: "(string \<Rightarrow> string + 'm) \<Rightarrow> bool \<Rightarrow> string \<Rightarrow> string + 'm option" where
  "initMacaroonService macaroons noMacaroons datadir =
     (if noMacaroons then Inr None
      else (case macaroons datadir of Inl e \<Rightarrow> Inl e | Inr m \<Rightarrow> Inr (Some m)))"

definition check_settings :: "settings \<Rightarrow> err" where
  "check_settings s =
     (if Set_DbType s \<noteq> ''sqlite'' \<and> Set_DbType s \<noteq> ''badger'' then Some (''unsupported db type: '' @ Set_DbType s)
      else if sint (Set_SchedulerPollInterval s) < 1 then Some ''scheduler poll interval must be at least 1 second''
      else if Set_DelegateEnabled s \<and>
              (Set_DelegatePort s = Set_GRPCPort s \<or> Set_DelegatePort s = Set_HTTPPort s)
      then Some ''delegate must not run on same port of the wallet''
      else None)"

definition LoadConfig ::
  "filesystem \<Rightarrow> (string \<Rightarrow> string + 'm) \<Rightarrow> string \<Rightarrow> env \<Rightarrow> string + 'm config" where
  "LoadConfig fs macaroons defaultDatadir v =
     (let s = read_settings defaultDatadir v in
      case makeDirectoryIfNotExists fs (Set_Datadir s) of
        Some e \<Rightarrow> Inl (''error while creating datadir: '' @ e)
      | None \<Rightarrow>
     (case check_settings s of
        Some e \<Rightarrow> Inl e
      | None \<Rightarrow>
     (case initUnlockerService (Stat fs) s of
        Inl e \<Rightarrow> Inl e
      | Inr u \<Rightarrow>
     (case initMacaroonService macaroons (from_env False (Env_bool v ''NO_MACAROONS'')) (Set_Datadir s) of
        Inl e \<Rightarrow> Inl e
      | Inr m \<Rightarrow> Inr \<lparr>Cfg_settings = s, Cfg_unlocker = u, Cfg_macaroons = m\<rparr>))))"

text \<open>The data directory: \<open>usr\<close> is the home directory of \<open>user.Current\<close>, \<open>getenv\<close> the environment,
  \<open>join\<close> is \<open>filepath.Join\<close>.\<close>

definition upper_char :: "char \<Rightarrow> char" where
  "upper_char c = (let k = of_char c :: nat in if 97 \<le> k \<and> k \<le> 122 then char_of (k - 32) else c)"

definition appDatadir ::
  "(string list \<Rightarrow> string) \<Rightarrow> string \<Rightarrow> string + string \<Rightarrow> (string \<Rightarrow> string) \<Rightarrow> string \<Rightarrow> bool \<Rightarrow> string" where
  "appDatadir join goos usr getenv appName roaming =
     (if appName = [] \<or> appName = ''.'' then ''.''
      else
       (let name = (if has_prefix ''.'' appName then tl appName else appName);
            upper = upper_char (hd name) # tl name;
            lower = lower_char (hd name) # tl name;
            homeDir = (case usr of Inl _ \<Rightarrow> [] | Inr h \<Rightarrow> h);
            homeDir = (if homeDir = [] then getenv ''HOME'' else homeDir);
            appData = getenv ''LOCALAPPDATA'';
            appData = (if roaming \<or> appData = [] then getenv ''APPDATA'' else appData)
        in if goos = ''windows'' then (if appData \<noteq> [] then join [appData, upper] else ''.'')
           else if homeDir = [] then ''.''
           else if goos = ''darwin'' then join [homeDir, ''Library'', ''Application Support'', upper]
           else if goos = ''plan9'' then join [homeDir, lower]
           else join [homeDir, CHR ''.'' # lower]))"

section \<open>Ports\<close>

text \<open>\<open>listen\<close> tries an address.\<close>

definition address_of_port :: "u32 \<Rightarrow> string" where
  "address_of_port p = CHR '':'' # format_uint (unat p)"

definition Validate :: "(string \<Rightarrow> err) \<Rightarrow> u32 \<Rightarrow> u32 \<Rightarrow> u32 \<Rightarrow> bool \<Rightarrow> err" where
  "Validate listen grpcPort httpPort delegatePort withTLS =
     (case listen (address_of_port grpcPort) of
        Some e \<Rightarrow> Some (''invalid grpc port: '' @ e)
      | None \<Rightarrow>
     (case listen (address_of_port httpPort) of
        Some e \<Rightarrow> Some (''invalid http port: '' @ e)
      | None \<Rightarrow>
     (case (if delegatePort > 0 then listen (address_of_port delegatePort) else None) of
        Some e \<Rightarrow> Some (''invalid delegate port: '' @ e)
      | None \<Rightarrow> if withTLS then Some ''tls termination not supported yet'' else None)))"

section \<open>The esplora client\<close>

text \<open>
  \<open>ParseInt\<close> in base ten with 64 bits, its errors with the quoted input. The HTTP client is a
  request builder that may fail and a call that answers a status and a body, whose reading may fail;
  at most 64 bytes of it are read.
\<close>

definition parse_int64 :: "(string \<Rightarrow> string) \<Rightarrow> string \<Rightarrow> string + int" where
  "parse_int64 quote s =
     (let (neg, ds) = (case s of CHR ''-'' # r \<Rightarrow> (True, r) | CHR ''+'' # r \<Rightarrow> (False, r) | _ \<Rightarrow> (False, s));
          fail = (\<lambda>why. Inl (''strconv.ParseInt: parsing '' @ quote s @ '': '' @ why))
      in case (if ds = [] then None else parse_digits 0 ds) of
           None \<Rightarrow> fail ''invalid syntax''
         | Some n \<Rightarrow>
             (let i = (if neg then - int n else int n) in
              if - (2 ^ 63) \<le> i \<and> i < 2 ^ 63 then Inr i else fail ''value out of range''))"

record http_client =
  NewRequest :: "string \<Rightarrow> err"
  Do :: "string \<Rightarrow> string + nat \<times> (string + string)"

definition GetBlockHeight :: "(string \<Rightarrow> string) \<Rightarrow> http_client \<Rightarrow> string \<Rightarrow> string + int" where
  "GetBlockHeight quote H baseUrl =
     (let url = rev (dropWhile (\<lambda>c. c = CHR ''/'') (rev baseUrl)) @ ''/blocks/tip/height'' in
      case NewRequest H url of
        Some e \<Rightarrow> Inl e
      | None \<Rightarrow>
     (case Do H url of
        Inl e \<Rightarrow> Inl (''get height: '' @ e)
      | Inr (code, body) \<Rightarrow>
     (case body of
        Inl e \<Rightarrow> Inl (''read body: '' @ e)
      | Inr b0 \<Rightarrow>
          (let b = take 64 b0 in
           if code \<noteq> 200 then Inl (''unexpected status '' @ format_uint code @ '': '' @ trim_space b)
           else (case parse_int64 quote (trim_space b) of Inl e \<Rightarrow> Inl (''parse height: '' @ e) | Inr n \<Rightarrow> Inr n)))))"

section \<open>What a loaded configuration has\<close>

lemma password_no_blank_ends:
  assumes "GetPassword readFile (FileUnlocker p) = Inr pw" "pw \<noteq> []"
  shows "\<not> password_blank (hd pw) \<and> \<not> password_blank (last pw)"
proof -
  obtain buf where pw: "pw = trim_func password_blank buf"
    using assms(1) by (auto simp: GetPassword_def split: sum.splits)
  let ?a = "dropWhile password_blank buf"
  have ne: "dropWhile password_blank (rev ?a) \<noteq> []"
    using assms(2) by (auto simp: pw trim_func_def)
  have "\<not> password_blank (last pw)"
    using hd_dropWhile [OF ne] ne by (simp add: pw trim_func_def last_rev)
  moreover have "\<not> password_blank (hd pw)"
  proof -
    obtain zs where "rev ?a = zs @ dropWhile password_blank (rev ?a)" by (metis takeWhile_dropWhile_id)
    then have "?a = rev (dropWhile password_blank (rev ?a)) @ rev zs" by (metis rev_append rev_rev_ident)
    moreover have "rev (dropWhile password_blank (rev ?a)) \<noteq> []" using ne by simp
    ultimately have "hd pw = hd ?a" by (metis hd_append2 pw trim_func_def)
    moreover have "?a \<noteq> []" using ne by (metis dropWhile.simps(1) rev.simps(1))
    ultimately show ?thesis using hd_dropWhile [OF \<open>?a \<noteq> []\<close>] by simp
  qed
  ultimately show ?thesis by blast
qed

lemma check_settings_ok:
  assumes "check_settings s = None"
  shows "(Set_DbType s = ''sqlite'' \<or> Set_DbType s = ''badger'') \<and> 1 \<le> sint (Set_SchedulerPollInterval s)
     \<and> (Set_DelegateEnabled s \<longrightarrow> Set_DelegatePort s \<noteq> Set_GRPCPort s \<and> Set_DelegatePort s \<noteq> Set_HTTPPort s)"
  using assms by (simp add: check_settings_def split: if_splits)

lemma initUnlockerService_ok:
  "initUnlockerService stat s = Inr u \<Longrightarrow> (u = None \<longleftrightarrow> Set_UnlockerType s = []) \<and> u \<noteq> Some (EnvUnlocker [])"
  by (auto simp: initUnlockerService_def new_env_unlocker_def new_file_unlocker_def split: if_splits sum.splits)

lemma initMacaroonService_ok: "initMacaroonService mk b d = Inr m \<Longrightarrow> m = None \<longleftrightarrow> b"
  by (auto simp: initMacaroonService_def split: if_splits sum.splits)

lemma LoadConfig_Inr:
  assumes "LoadConfig fs macaroons d v = Inr c"
  shows "Cfg_settings c = read_settings d v \<and> check_settings (read_settings d v) = None
     \<and> initUnlockerService (Stat fs) (read_settings d v) = Inr (Cfg_unlocker c)
     \<and> initMacaroonService macaroons (from_env False (Env_bool v ''NO_MACAROONS'')) (Set_Datadir (read_settings d v))
         = Inr (Cfg_macaroons c)"
  using assms by (auto simp: LoadConfig_def Let_def split: option.splits sum.splits)

text \<open>
  A configuration that loads names one of the two databases, polls at least once a second, and
  keeps a delegate server off the ports of the wallet; it has no macaroon service only when
  \<open>NO_MACAROONS\<close> is set, and an unlocker exactly when a type is given, an environment unlocker only
  with a password.
\<close>

theorem loaded_config_is_valid:
  assumes "LoadConfig fs macaroons d v = Inr c"
  shows "(Set_DbType (Cfg_settings c) = ''sqlite'' \<or> Set_DbType (Cfg_settings c) = ''badger'')
     \<and> 1 \<le> sint (Set_SchedulerPollInterval (Cfg_settings c))
     \<and> (Set_DelegateEnabled (Cfg_settings c) \<longrightarrow>
          Set_DelegatePort (Cfg_settings c) \<noteq> Set_GRPCPort (Cfg_settings c) \<and>
          Set_DelegatePort (Cfg_settings c) \<noteq> Set_HTTPPort (Cfg_settings c))
     \<and> (Cfg_macaroons c = None \<longleftrightarrow> from_env False (Env_bool v ''NO_MACAROONS''))
     \<and> (Cfg_unlocker c = None \<longleftrightarrow> Set_UnlockerType (Cfg_settings c) = [])
     \<and> Cfg_unlocker c \<noteq> Some (EnvUnlocker [])"
proof -
  have s: "Cfg_settings c = read_settings d v" and ok: "check_settings (read_settings d v) = None"
    and u: "initUnlockerService (Stat fs) (read_settings d v) = Inr (Cfg_unlocker c)"
    and m: "initMacaroonService macaroons (from_env False (Env_bool v ''NO_MACAROONS'')) (Set_Datadir (read_settings d v))
         = Inr (Cfg_macaroons c)"
    using LoadConfig_Inr [OF assms] by blast+
  show ?thesis
    using check_settings_ok [OF ok] initUnlockerService_ok [OF u] initMacaroonService_ok [OF m]
    unfolding s by blast
qed

theorem loaded_config_is_valid_witness:
  "\<exists>c. LoadConfig \<lparr>Stat = \<lambda>_. Inr True, MkdirAll = \<lambda>_. None\<rparr> Inr ''/data''
       \<lparr>Env_text = \<lambda>_. None, Env_u32 = \<lambda>_. None, Env_u64 = \<lambda>_. None, Env_i64 = \<lambda>_. None, Env_bool = \<lambda>_. None\<rparr> = Inr c
     \<and> (Cfg_macaroons c :: string option) \<noteq> None"
proof -
  let ?v = "\<lparr>Env_text = \<lambda>_. None, Env_u32 = \<lambda>_. None, Env_u64 = \<lambda>_. None, Env_i64 = \<lambda>_. None, Env_bool = \<lambda>_. None\<rparr>"
  let ?fs = "\<lparr>Stat = \<lambda>_. Inr True, MkdirAll = \<lambda>_. None\<rparr>"
  have s: "Set_DbType (read_settings ''/data'' ?v) = ''sqlite''" "Set_UnlockerType (read_settings ''/data'' ?v) = []"
    "\<not> Set_DelegateEnabled (read_settings ''/data'' ?v)" "Set_SchedulerPollInterval (read_settings ''/data'' ?v) = 600"
    by (simp_all add: read_settings_def from_env_def)
  then have "check_settings (read_settings ''/data'' ?v) = None" by (simp add: check_settings_def)
  then obtain c :: "string config" where c: "LoadConfig ?fs Inr ''/data'' ?v = Inr c"
    using s by (simp add: LoadConfig_def initUnlockerService_def initMacaroonService_def makeDirectoryIfNotExists_def
        from_env_def Let_def)
  from loaded_config_is_valid [OF c] have "Cfg_macaroons c \<noteq> None" by (simp add: from_env_def)
  with c show ?thesis by blast
qed

end
