(* ===== verification/Server.thy ===== *)
theory Server
  imports Config
begin

text \<open>
  The servers of \<open>interface/grpc/service.go\<close>: what \<open>NewService\<close> refuses, how the delegate's port
  tells requests apart, \<open>Start\<close>, and \<open>Stop\<close>, which hands a token to the notification handler and one
  to the event streams of the web interface and then waits for the servers.

  The shutdown is a relation between states that count the open requests: \<open>GracefulStop\<close> waits for
  the gRPC streams, \<open>http.Server.Shutdown\<close> for the HTTP requests, both without a deadline. An event
  stream ends when its client leaves or when it receives the token of \<open>feStopCh\<close>, which has one
  receiver. Notifications in flight are left out: \<open>Notifications\<close> has them.
\<close>

section \<open>Building and starting\<close>

text \<open>The checks of \<open>NewService\<close> up to the servers: the answer says whether telemetry and profiling
  are on. Profiling is set up only together with telemetry.\<close>

definition NewService ::
  "(string \<Rightarrow> err) \<Rightarrow> (string \<Rightarrow> int \<Rightarrow> err) \<Rightarrow> (string \<Rightarrow> err) \<Rightarrow> settings \<Rightarrow> string + bool \<times> bool" where
  "NewService listen initOtel initPyroscope s =
     (case Validate listen (Set_GRPCPort s) (Set_HTTPPort s) (Set_DelegatePort s) (Set_WithTLS s) of
        Some e \<Rightarrow> Inl (''invalid config: '' @ e)
      | None \<Rightarrow>
     (case (if Set_OtelCollectorURL s = [] then Inr (False, False)
            else (case initOtel (Set_OtelCollectorURL s) (sint (Set_OtelPushInterval s)) of
                    Some e \<Rightarrow> Inl (''failed to initialize otel sdk: '' @ e)
                  | None \<Rightarrow>
                      if Set_PyroscopeURL s = [] then Inr (True, False)
                      else (case initPyroscope (Set_PyroscopeURL s) of
                              Some e \<Rightarrow> Inl (''failed to initialize pyroscope: '' @ e)
                            | None \<Rightarrow> Inr (True, True)))) of
        Inl e \<Rightarrow> Inl e
      | Inr on \<Rightarrow> if Set_WithTLS s then Inl ''tls termination not supported yet'' else Inr on))"

datatype route = Preflight | ToGateway | ToGrpc

definition isOptionRequest :: "string \<Rightarrow> bool" where
  "isOptionRequest method = (method = ''OPTIONS'')"

definition isHttpRequest :: "string \<Rightarrow> string \<Rightarrow> bool" where
  "isHttpRequest method contentType = (method = ''GET'' \<or> go_contains contentType ''application/json'')"

definition router :: "string \<Rightarrow> string \<Rightarrow> route" where
  "router method contentType =
     (if isOptionRequest method then Preflight
      else if isHttpRequest method contentType then ToGateway
      else ToGrpc)"

text \<open>\<open>Start\<close>: only the gRPC listener can fail it; an automatic unlock that fails is logged. The second
  component is the state of the wallet after it.\<close>

definition Start ::
  "(string \<Rightarrow> err) \<Rightarrow> u32 \<Rightarrow> ('n \<Rightarrow> err \<times> 'n) option \<Rightarrow> 'n \<Rightarrow> err \<times> 'n" where
  "Start listen grpcPort autoUnlock n =
     (case listen (address_of_port grpcPort) of
        Some e \<Rightarrow> (Some e, n)
      | None \<Rightarrow> (None, case autoUnlock of None \<Rightarrow> n | Some unlock \<Rightarrow> snd (unlock n)))"

section \<open>Shutting down\<close>

datatype stop_pc =
    Serving
  | AppTokenSent
  | FeTokenSent \<comment> \<open>in \<open>GracefulStop\<close>\<close>
  | GrpcStopped \<comment> \<open>in \<open>httpServer.Shutdown\<close>\<close>
  | HttpStopped
  | DelegateStopped \<comment> \<open>in \<open>delegateHTTPServer.Shutdown\<close>\<close>
  | Stopped

record server =
  stop_at :: stop_pc
  appStopCh :: bool \<comment> \<open>the buffer holds the token\<close>
  feStopCh :: bool
  hub_runs :: bool \<comment> \<open>\<open>listenToNotifications\<close> has not returned\<close>
  open_streams :: nat
  closed_streams :: nat \<comment> \<open>streams whose channel was closed, about to return\<close>
  event_clients :: nat
  delegate_requests :: nat \<comment> \<open>HTTP requests in progress on the delegate's port\<close>
  with_delegate :: bool

text \<open>What \<open>Stop\<close>, the handlers and the streams do by themselves.\<close>

inductive stop_step :: "server \<Rightarrow> server \<Rightarrow> bool" where
  send_app: "stop_at s = Serving \<Longrightarrow> \<not> appStopCh s \<Longrightarrow> stop_step s (s\<lparr>stop_at := AppTokenSent, appStopCh := True\<rparr>)"
| send_fe: "stop_at s = AppTokenSent \<Longrightarrow> \<not> feStopCh s \<Longrightarrow> stop_step s (s\<lparr>stop_at := FeTokenSent, feStopCh := True\<rparr>)"
| hub_stops: "appStopCh s \<Longrightarrow> hub_runs s \<Longrightarrow>
    stop_step s (s\<lparr>appStopCh := False, hub_runs := False, open_streams := 0,
                   closed_streams := closed_streams s + open_streams s\<rparr>)"
| stream_returns: "closed_streams s = Suc k \<Longrightarrow> stop_step s (s\<lparr>closed_streams := k\<rparr>)"
| event_stream_stops: "feStopCh s \<Longrightarrow> event_clients s = Suc k \<Longrightarrow>
    stop_step s (s\<lparr>feStopCh := False, event_clients := k\<rparr>)"
| grpc_stopped: "stop_at s = FeTokenSent \<Longrightarrow> open_streams s = 0 \<Longrightarrow> closed_streams s = 0 \<Longrightarrow>
    stop_step s (s\<lparr>stop_at := GrpcStopped\<rparr>)"
| http_stopped: "stop_at s = GrpcStopped \<Longrightarrow> event_clients s = 0 \<Longrightarrow> stop_step s (s\<lparr>stop_at := HttpStopped\<rparr>)"
| delegate_stopped: "stop_at s = HttpStopped \<Longrightarrow>
    stop_step s (s\<lparr>stop_at := (if with_delegate s then DelegateStopped else Stopped)\<rparr>)"
| delegate_request_done: "delegate_requests s = Suc k \<Longrightarrow> stop_step s (s\<lparr>delegate_requests := k\<rparr>)"
| delegate_http_stopped: "stop_at s = DelegateStopped \<Longrightarrow> delegate_requests s = 0 \<Longrightarrow> stop_step s (s\<lparr>stop_at := Stopped\<rparr>)"

inductive_cases stop_stepE: "stop_step s s'"

text \<open>The daemon when the signal arrives: clients neither come nor go from then on.\<close>

definition serving :: "bool \<Rightarrow> nat \<Rightarrow> nat \<Rightarrow> nat \<Rightarrow> server" where
  "serving delegate streams clients requests =
     \<lparr>stop_at = Serving, appStopCh = False, feStopCh = False, hub_runs = True, open_streams = streams,
      closed_streams = 0, event_clients = clients, delegate_requests = requests, with_delegate = delegate\<rparr>"

section \<open>When the shutdown ends\<close>

text \<open>The tokens an event stream can still get.\<close>

definition fe_tokens :: "server \<Rightarrow> nat" where
  "fe_tokens s = (if stop_at s = Serving \<or> stop_at s = AppTokenSent then 1 else 0) + (if feStopCh s then 1 else 0)"

definition crowded :: "server \<Rightarrow> bool" where
  "crowded s \<longleftrightarrow> fe_tokens s < event_clients s \<and> stop_at s \<in> {Serving, AppTokenSent, FeTokenSent, GrpcStopped}"

lemma crowded_step: "stop_step s s' \<Longrightarrow> crowded s \<Longrightarrow> crowded s'"
  by (erule stop_stepE) (auto simp: crowded_def fe_tokens_def split: if_splits)

lemma crowded_run: "stop_step\<^sup>*\<^sup>* s s' \<Longrightarrow> crowded s \<Longrightarrow> crowded s'"
  by (induction rule: rtranclp_induct) (auto intro: crowded_step)

text \<open>Nothing is waiting for what cannot come.\<close>

definition stoppable :: "server \<Rightarrow> bool" where
  "stoppable s \<longleftrightarrow>
     (stop_at s = Serving \<longrightarrow> \<not> appStopCh s) \<and>
     (stop_at s = Serving \<or> stop_at s = AppTokenSent \<longrightarrow> \<not> feStopCh s) \<and>
     (hub_runs s \<longrightarrow> stop_at s = Serving \<or> appStopCh s) \<and>
     (\<not> hub_runs s \<longrightarrow> open_streams s = 0) \<and>
     event_clients s \<le> fe_tokens s"

lemma stoppable_step: "stop_step s s' \<Longrightarrow> stoppable s \<Longrightarrow> stoppable s'"
  by (erule stop_stepE) (auto simp: stoppable_def fe_tokens_def split: if_splits)

lemma stoppable_run: "stop_step\<^sup>*\<^sup>* s s' \<Longrightarrow> stoppable s \<Longrightarrow> stoppable s'"
  by (induction rule: rtranclp_induct) (auto intro: stoppable_step)

lemma stoppable_progress:
  assumes "stoppable s" and "stop_at s \<noteq> Stopped"
  shows "\<exists>s'. stop_step s s'"
proof (cases "stop_at s")
  case Serving
  with assms show ?thesis by (auto simp: stoppable_def intro: send_app)
next
  case AppTokenSent
  with assms show ?thesis by (auto simp: stoppable_def intro: send_fe)
next
  case FeTokenSent
  show ?thesis
  proof (cases "closed_streams s")
    case 0
    with FeTokenSent assms show ?thesis
      by (cases "open_streams s = 0") (auto simp: stoppable_def intro: grpc_stopped hub_stops)
  qed (auto intro: stream_returns)
next
  case GrpcStopped
  show ?thesis
  proof (cases "event_clients s")
    case 0
    with GrpcStopped show ?thesis by (auto intro: http_stopped)
  next
    case (Suc k)
    with GrpcStopped assms have "feStopCh s" by (auto simp: stoppable_def fe_tokens_def split: if_splits)
    with Suc show ?thesis by (auto intro: event_stream_stops)
  qed
next
  case DelegateStopped
  then show ?thesis by (cases "delegate_requests s") (auto intro: delegate_http_stopped delegate_request_done)
qed (use assms in \<open>auto intro: delegate_stopped\<close>)

fun stop_rank :: "stop_pc \<Rightarrow> nat" where
  "stop_rank Serving = 6"
| "stop_rank AppTokenSent = 5"
| "stop_rank FeTokenSent = 4"
| "stop_rank GrpcStopped = 3"
| "stop_rank HttpStopped = 2"
| "stop_rank DelegateStopped = 1"
| "stop_rank Stopped = 0"

text \<open>Every step uses something up, so a shutdown never runs for ever.\<close>

definition stop_measure :: "server \<Rightarrow> nat" where
  "stop_measure s =
     2 * stop_rank (stop_at s) + (if appStopCh s then 1 else 0) + (if feStopCh s then 1 else 0)
     + open_streams s + closed_streams s + event_clients s + delegate_requests s"

lemma stop_step_measure: "stop_step s s' \<Longrightarrow> stop_measure s' < stop_measure s"
  by (erule stop_stepE) (auto simp: stop_measure_def)

lemma stoppable_stops: "stoppable s \<Longrightarrow> \<exists>s'. stop_step\<^sup>*\<^sup>* s s' \<and> stop_at s' = Stopped"
proof (induction s rule: measure_induct_rule [where f = stop_measure])
  case (less s)
  show ?case
  proof (cases "stop_at s = Stopped")
    case False
    with less.prems stoppable_progress obtain u where u: "stop_step s u" by blast
    with less.IH [OF stop_step_measure [OF u] stoppable_step [OF u less.prems]] show ?thesis
      by (blast intro: converse_rtranclp_into_rtranclp)
  qed blast
qed



end
