(* ===== verification/Daemon.thy ===== *)
theory Daemon
  imports Server LifecycleProps WalletOps SqliteMigration Auth
begin

text \<open>
  The start of the daemon (\<open>src/cmd/fulmine/main.go\<close>): configuration, error reporting, database,
  application service, servers, automatic unlock, each ending the process when it fails. What
  stands around the process (environment, files, driver, SDK, ports) is the record \<open>launch\<close>. The
  profiling server, which only logs its errors, is left out.
\<close>

record ('m, 'w, 'i) launch =
  La_fs :: filesystem
  La_macaroons :: "string \<Rightarrow> string + 'm"
  La_datadir :: string
  La_env :: env
  La_sentryDsn :: string
  La_sentryInit :: err
  La_sentryHook :: err
  La_sha :: "bytes \<Rightarrow> bytes"
  La_dbFault :: fault
  La_migrator :: migrator
  La_crypto :: crypto
  La_storeErr :: err
  La_ident :: "string + 'i option"
  La_loadWallet :: "'i option \<Rightarrow> string + 'w"
  La_newWallet :: "'i option \<Rightarrow> string + 'w"
  La_walletConfig :: "'w \<Rightarrow> string + server_config"
  La_refresh :: "'w \<Rightarrow> err"
  La_tryPort :: "string \<Rightarrow> err" \<comment> \<open>the port checks of \<open>Validate\<close>\<close>
  La_listen :: "string \<Rightarrow> err" \<comment> \<open>\<open>net.Listen\<close> of \<open>Start\<close>\<close>
  La_initOtel :: "string \<Rightarrow> int \<Rightarrow> err"
  La_initPyroscope :: "string \<Rightarrow> err"
  La_readFile :: "string \<Rightarrow> string + string"
  La_unlockErr :: err
  La_configErr :: err
  La_subs :: "string + subscriptionHandler"

record 'm daemon =
  D_node :: node
  D_settings :: settings
  D_macaroons :: "'m option"
  D_db :: db_service
  D_delegateFee :: "u64 option" \<comment> \<open>the delegate service, when there is one\<close>
  D_telemetry :: "bool \<times> bool"

text \<open>Error reporting: its initialisation and its hook end the process when they fail.\<close>

definition init_sentry :: "('m, 'w, 'i) launch \<Rightarrow> settings \<Rightarrow> err" where
  "init_sentry E s =
     (if Set_DisableTelemetry s \<or> La_sentryDsn E = [] then None
      else (case La_sentryInit E of Some e \<Rightarrow> Some e | None \<Rightarrow> La_sentryHook E))"

text \<open>The application services of a configuration.\<close>

definition app_services :: "('m, 'w, 'i) launch \<Rightarrow> settings \<Rightarrow> string + 'w \<times> node \<times> u64 option" where
  "app_services E s =
     NewServices (La_crypto E) (Set_EmulatorPubkey s)
       (\<lambda>_ enabled. newService (La_storeErr E) (La_ident E) (La_loadWallet E) (La_newWallet E) (La_walletConfig E)
          (La_refresh E) enabled (Set_EsploraURL s))
       (Set_DelegateEnabled s) (Set_DelegateFee s)"

definition start_servers :: "('m, 'w, 'i) launch \<Rightarrow> 'm config \<Rightarrow> node \<Rightarrow> err \<times> node" where
  "start_servers E c n =
     Start (La_listen E) (Set_GRPCPort (Cfg_settings c))
       (map_option (\<lambda>u. autoUnlock (GetPassword (La_readFile E) u)
            (UnlockNode (La_unlockErr E) (La_configErr E) (La_subs E))) (Cfg_unlocker c)) n"

text \<open>\<open>main\<close>: a fatal error, or the daemon when it starts to wait for a signal; the second component is
  the database file.\<close>

definition main_daemon :: "('m, 'w, 'i) launch \<Rightarrow> mig_state \<Rightarrow> (string + 'm daemon) \<times> mig_state" where
  "main_daemon E st =
     (case LoadConfig (La_fs E) (La_macaroons E) (La_datadir E) (La_env E) of
        Inl e \<Rightarrow> (Inl (''invalid config: '' @ e), st)
      | Inr c \<Rightarrow>
     (let s = Cfg_settings c in
      case init_sentry E s of
        Some e \<Rightarrow> (Inl e, st)
      | None \<Rightarrow>
     (case db_NewService (La_sha E) (La_dbFault E) (La_migrator E) st (Set_DbType s) (main_db_config (Set_Datadir s)) of
        (Inl e, st') \<Rightarrow> (Inl (''failed to open db: '' @ e), st')
      | (Inr db, st') \<Rightarrow>
     (case app_services E s of
        Inl e \<Rightarrow> (Inl (''failed to init application service: '' @ e), st')
      | Inr (w, n, fee) \<Rightarrow>
     (case Server.NewService (La_tryPort E) (La_initOtel E) (La_initPyroscope E) s of
        Inl e \<Rightarrow> (Inl (''failed to init interface service: '' @ e), st')
      | Inr telemetry \<Rightarrow>
     (case start_servers E c n of
        (Some e, _) \<Rightarrow> (Inl e, st')
      | (None, n') \<Rightarrow>
          (Inr \<lparr>D_node = n', D_settings = s, D_macaroons = Cfg_macaroons c, D_db = db, D_delegateFee = fee,
                D_telemetry = telemetry\<rparr>, st')))))))"

section \<open>The daemon after its start\<close>

lemma app_services_node:
  "app_services E s = Inr (w, n, fee) \<Longrightarrow>
     (\<exists>b url. n = newService_node b (Set_DelegateEnabled s) url)
     \<and> fee = (if Set_DelegateEnabled s then Some (Set_DelegateFee s) else None)"
  by (auto simp: app_services_def NewServices_def newService_def split: sum.splits option.splits if_splits)

lemma start_servers_cases:
  "start_servers E c n = (None, n') \<Longrightarrow>
     n' = n \<or> (\<exists>pw. n' = snd (UnlockNode (La_unlockErr E) (La_configErr E) (La_subs E) pw n))"
  by (auto simp: start_servers_def Start_def autoUnlock_def split: option.splits sum.splits prod.splits if_splits) (metis snd_conv)+

lemma fresh_gate: "isInitializedAndUnlocked (newService_node b enabled url) \<noteq> None"
  by (simp add: isInitializedAndUnlocked_def newService_node_def)

lemma unlocking_gate:
  "isInitializedAndUnlocked (snd (UnlockNode ue ce subs pw (newService_node b enabled url))) \<noteq> None
   \<and> privateKey (snd (UnlockNode ue ce subs pw (newService_node b enabled url))) = None
   \<and> delegateEnabled (snd (UnlockNode ue ce subs pw (newService_node b enabled url))) = enabled"
  by (auto simp: UnlockNode_def newService_node_def isInitializedAndUnlocked_def Let_def notify_def
      split: option.split sum.split)

lemma server_settings: "Server.NewService l o' p s = Inr on \<Longrightarrow> \<not> Set_WithTLS s"
  by (auto simp: Server.NewService_def Validate_def split: option.splits if_splits sum.splits)


text \<open>A daemon with a password in its environment, on a migrated database and an initialised wallet: the
  unlock has begun, the gate is still closed.\<close>

definition demo_launch :: "(string, unit, unit) launch" where
  "demo_launch =
     \<lparr>La_fs = \<lparr>Stat = \<lambda>_. Inr True, MkdirAll = \<lambda>_. None\<rparr>, La_macaroons = Inr, La_datadir = ''/data'',
      La_env = \<lparr>Env_text = (\<lambda>k. if k = ''UNLOCKER_TYPE'' then Some ''env'' else if k = ''UNLOCKER_PASSWORD'' then Some ''pw'' else None),
                Env_u32 = \<lambda>_. None, Env_u64 = \<lambda>_. None, Env_i64 = \<lambda>_. None, Env_bool = \<lambda>_. None\<rparr>,
      La_sentryDsn = [], La_sentryInit = None, La_sentryHook = None, La_sha = id, La_dbFault = (\<lambda>_. None),
      La_migrator = \<lparr>m_Version = \<lambda>_. Inr (Some vhtlcMigrationBegin), m_Migrate = \<lambda>_ st. (None, st), m_Up = \<lambda>st. (None, st)\<rparr>,
      La_crypto = demo_keys, La_storeErr = None, La_ident = Inr None, La_loadWallet = (\<lambda>_. Inr ()),
      La_newWallet = (\<lambda>_. Inr ()), La_walletConfig = (\<lambda>_. Inr \<lparr>server_config.ForfeitAddress = [], ForfeitPubKey = [], CheckpointTapscript = [], ExplorerURL = [], Config_rest = []\<rparr>), La_refresh = (\<lambda>_. None),
      La_tryPort = (\<lambda>_. None), La_listen = (\<lambda>_. None), La_initOtel = (\<lambda>_ _. None), La_initPyroscope = (\<lambda>_. None),
      La_readFile = Inl, La_unlockErr = None, La_configErr = None, La_subs = Inr no_subscription\<rparr>"


end
