(* ===== verification/Telemetry.thy ===== *)
theory Telemetry
  imports Prelude
begin

text \<open>
  Telemetry (\<open>infrastructure/telemetry/\<close>): where the exporters send to, the hook that turns log entries
  into records, and the instruments of the Go runtime's metrics. The exporters, meters and loggers of
  OpenTelemetry are arguments.
\<close>

section \<open>The exporters\<close>

definition trim_suffix :: "string \<Rightarrow> string \<Rightarrow> string" where
  "trim_suffix suf s = (if has_prefix (rev suf) (rev s) then take (length s - length suf) s else s)"

definition trim_prefix :: "string \<Rightarrow> string \<Rightarrow> string" where
  "trim_prefix pre s = (if has_prefix pre s then drop (length pre) s else s)"

text \<open>The endpoint all three exporters get, or the error of the first that cannot be made.\<close>

definition InitOtelSDK ::
  "(string \<Rightarrow> err) \<Rightarrow> (string \<Rightarrow> err) \<Rightarrow> (string \<Rightarrow> err) \<Rightarrow> string \<Rightarrow> string + string" where
  "InitOtelSDK newTrace newMetric newLog otelCollectorUrl =
     (let otelCollectorUrl = trim_suffix ''/'' otelCollectorUrl;
          endpoint = trim_prefix ''http://'' otelCollectorUrl;
          endpoint = trim_prefix ''https://'' endpoint
      in case newTrace endpoint of
           Some e \<Rightarrow> Inl e
         | None \<Rightarrow>
        (case newMetric endpoint of
           Some e \<Rightarrow> Inl e
         | None \<Rightarrow>
        (case newLog endpoint of Some e \<Rightarrow> Inl e | None \<Rightarrow> Inr endpoint)))"

text \<open>\<open>InitPyroscope\<close>: whether there is a profiler to stop.\<close>

definition InitPyroscope :: "(string \<Rightarrow> err) \<Rightarrow> string \<Rightarrow> string + bool" where
  "InitPyroscope start pyroscopeServerURL =
     (if pyroscopeServerURL = [] then Inr False
      else (case start pyroscopeServerURL of
              Some e \<Rightarrow> Inl (''failed to start pyroscope profiler: '' @ e)
            | None \<Rightarrow> Inr True))"

section \<open>The log hook\<close>

datatype logrus_level =
  PanicLevel | FatalLevel | ErrorLevel | WarnLevel | InfoLevel | DebugLevel | TraceLevel | OtherLevel nat

datatype severity = SeverityFatal | SeverityError | SeverityWarn | SeverityInfo | SeverityDebug | SeverityTrace

fun mapLevel :: "logrus_level \<Rightarrow> severity" where
  "mapLevel PanicLevel = SeverityFatal"
| "mapLevel FatalLevel = SeverityFatal"
| "mapLevel ErrorLevel = SeverityError"
| "mapLevel WarnLevel = SeverityWarn"
| "mapLevel InfoLevel = SeverityInfo"
| "mapLevel DebugLevel = SeverityDebug"
| "mapLevel TraceLevel = SeverityTrace"
| "mapLevel (OtherLevel _) = SeverityInfo"

record 'v log_entry =
  Log_Time :: go_time
  Log_Level :: logrus_level
  Log_Message :: string
  Log_Data :: "(string \<times> 'v) list" \<comment> \<open>a map, in the order of one iteration\<close>

record log_record =
  Rec_Timestamp :: go_time
  Rec_Observed :: go_time
  Rec_Severity :: severity
  Rec_Body :: string
  Rec_Attributes :: "(string \<times> string) list"

text \<open>\<open>span\<close> is the valid span of the entry's context, as its two ids; they are written into the entry
  itself. \<open>print\<close> is \<open>toString\<close>, \<open>of_text\<close> makes a value of a text.\<close>

definition Fire ::
  "('v \<Rightarrow> string) \<Rightarrow> (string \<Rightarrow> 'v) \<Rightarrow> (logrus_level \<Rightarrow> string) \<Rightarrow> go_time \<Rightarrow> (string \<times> string) option \<Rightarrow>
     'v log_entry \<Rightarrow> log_record \<times> 'v log_entry" where
  "Fire print of_text levelText now span e =
     (let e = (case span of
                 None \<Rightarrow> e
               | Some (traceId, spanId) \<Rightarrow>
                   e\<lparr>Log_Data := AList.update ''span_id'' (of_text spanId)
                                  (AList.update ''trace_id'' (of_text traceId) (Log_Data e))\<rparr>)
      in (\<lparr>Rec_Timestamp = Log_Time e, Rec_Observed = now, Rec_Severity = mapLevel (Log_Level e),
           Rec_Body = Log_Message e,
           Rec_Attributes = [(''log.kind'', ''app''), (''logger'', ''fulmine''), (''level'', levelText (Log_Level e))]
                              @ map (\<lambda>(k, v). (k, print v)) (Log_Data e)\<rparr>, e))"

section \<open>The runtime's metrics\<close>

datatype metric_type = asGauge | asCounter

datatype value_kind = KindUint64 | KindFloat64 | OtherKind

definition typeMap :: "(string \<times> metric_type) list" where
  "typeMap =
     [(''/cpu/classes/user:cpu-seconds'', asCounter), (''/cpu/classes/gc/total:cpu-seconds'', asCounter),
      (''/gc/cycles/total:gc-cycles'', asCounter), (''/gc/heap/live:bytes'', asGauge),
      (''/sched/goroutines:goroutines'', asGauge), (''/memory/classes/total:bytes'', asGauge),
      (''/sync/mutex/wait/total:seconds'', asCounter), (''/gc/heap/allocs:bytes'', asCounter),
      (''/gc/heap/frees:bytes'', asCounter)]"

definition fulmineRuntimeMetrics :: "string list" where
  "fulmineRuntimeMetrics =
     [''/cpu/classes/user:cpu-seconds'', ''/cpu/classes/gc/total:cpu-seconds'', ''/gc/cycles/total:gc-cycles'',
      ''/gc/heap/live:bytes'', ''/sched/goroutines:goroutines'', ''/memory/classes/total:bytes'',
      ''/sync/mutex/wait/total:seconds'', ''/gc/heap/allocs:bytes'', ''/gc/heap/frees:bytes'']"

text \<open>A name that is missing from the map has the zero value of its type.\<close>

definition metric_type_of :: "string \<Rightarrow> metric_type" where
  "metric_type_of n = (case map_of typeMap n of None \<Rightarrow> asGauge | Some t \<Rightarrow> t)"

definition fulmineMetricName :: "string \<Rightarrow> string" where
  "fulmineMetricName name =
     ''fulmine_'' @ dropWhile (\<lambda>c. c = CHR ''_'')
       (map (\<lambda>c. if c = CHR ''/'' \<or> c = CHR '':'' then CHR ''_'' else c) name)"

record fulmineInstruments =
  counters :: "(string \<times> string) list"
  floatCounters :: "(string \<times> string) list"
  gauges :: "(string \<times> string) list"
  floatGauges :: "(string \<times> string) list"

text \<open>An instrument is its name; \<open>create\<close> is what the meter answers when it is asked for one.\<close>

definition add_instrument :: "value_kind \<Rightarrow> string \<Rightarrow> fulmineInstruments \<Rightarrow> fulmineInstruments" where
  "add_instrument kind n inst =
     (let m = fulmineMetricName n in
      case metric_type_of n of
        asCounter \<Rightarrow> (if kind = KindFloat64 then inst\<lparr>floatCounters := AList.update n m (floatCounters inst)\<rparr>
                      else inst\<lparr>counters := AList.update n m (counters inst)\<rparr>)
      | asGauge \<Rightarrow> (if kind = KindFloat64 then inst\<lparr>floatGauges := AList.update n m (floatGauges inst)\<rparr>
                    else inst\<lparr>gauges := AList.update n m (gauges inst)\<rparr>))"

fun initFulmineRuntimeInstruments ::
  "(string \<Rightarrow> err) \<Rightarrow> (string \<Rightarrow> value_kind) \<Rightarrow> string list \<Rightarrow> fulmineInstruments \<Rightarrow> string + fulmineInstruments" where
  "initFulmineRuntimeInstruments create kind [] inst = Inr inst"
| "initFulmineRuntimeInstruments create kind (n # ns) inst =
     (case create (fulmineMetricName n) of
        Some e \<Rightarrow> Inl e
      | None \<Rightarrow> initFulmineRuntimeInstruments create kind ns (add_instrument (kind n) n inst))"

definition no_instruments :: fulmineInstruments where
  "no_instruments = \<lparr>counters = [], floatCounters = [], gauges = [], floatGauges = []\<rparr>"

datatype observation = ObserveInt64 "string option" string | ObserveFloat64 string string

text \<open>What the callback observes of one sample: the instrument, \<open>None\<close> a nil one, and the name.\<close>

definition observe_sample :: "fulmineInstruments \<Rightarrow> string \<Rightarrow> value_kind \<Rightarrow> observation list" where
  "observe_sample inst n kind =
     (let (ints, floats) = (case metric_type_of n of
                              asCounter \<Rightarrow> (counters inst, floatCounters inst)
                            | asGauge \<Rightarrow> (gauges inst, floatGauges inst))
      in case kind of
           KindUint64 \<Rightarrow> [ObserveInt64 (map_of ints n) n]
         | KindFloat64 \<Rightarrow> (case map_of floats n of Some m \<Rightarrow> [ObserveFloat64 m n] | None \<Rightarrow> [])
         | OtherKind \<Rightarrow> [])"

text \<open>The callback of \<open>collectGoRuntimeMetrics\<close>; \<open>up\<close> says whether the gauge of the service was made.\<close>

definition collectGoRuntimeMetrics :: "bool \<Rightarrow> fulmineInstruments \<Rightarrow> (string \<Rightarrow> value_kind) \<Rightarrow> observation list" where
  "collectGoRuntimeMetrics up inst kind =
     concat (map (\<lambda>n. observe_sample inst n (kind n)) fulmineRuntimeMetrics)
       @ (if up then [ObserveInt64 (Some ''fulmine_service_up'') []] else [])"

definition collectInstruments :: "fulmineInstruments \<Rightarrow> string list" where
  "collectInstruments inst =
     map snd (counters inst) @ map snd (floatCounters inst) @ map snd (gauges inst) @ map snd (floatGauges inst)"

section \<open>Every metric is reported\<close>

definition own_observation :: "(string \<Rightarrow> value_kind) \<Rightarrow> string \<Rightarrow> observation list" where
  "own_observation kind n =
     (case kind n of
        KindUint64 \<Rightarrow> [ObserveInt64 (Some (fulmineMetricName n)) n]
      | KindFloat64 \<Rightarrow> [ObserveFloat64 (fulmineMetricName n) n]
      | OtherKind \<Rightarrow> [])"

lemma observe_added: "observe_sample (add_instrument (kind n) n inst) n (kind n) = own_observation kind n"
  by (cases "kind n"; cases "metric_type_of n")
     (simp_all add: observe_sample_def add_instrument_def own_observation_def Let_def update_conv')

lemma observe_other: "m \<noteq> n \<Longrightarrow> observe_sample (add_instrument k m inst) n k' = observe_sample inst n k'"
  by (cases "metric_type_of n"; cases "metric_type_of m"; cases k')
     (simp_all add: observe_sample_def add_instrument_def Let_def update_conv')

lemma init_keeps:
  "initFulmineRuntimeInstruments create kind ns inst = Inr inst' \<Longrightarrow> n \<notin> set ns \<Longrightarrow>
     observe_sample inst' n k = observe_sample inst n k"
  by (induction ns arbitrary: inst) (auto simp: observe_other split: option.splits)

lemma init_observes:
  "initFulmineRuntimeInstruments create kind ns inst = Inr inst' \<Longrightarrow> distinct ns \<Longrightarrow> n \<in> set ns \<Longrightarrow>
     observe_sample inst' n (kind n) = own_observation kind n"
  by (induction ns arbitrary: inst) (auto simp: observe_added init_keeps split: option.splits)

lemma runtime_metrics_distinct: "distinct fulmineRuntimeMetrics" "distinct (map fulmineMetricName fulmineRuntimeMetrics)"
  by code_simp+

text \<open>
  When the meter makes every instrument, each runtime metric whose kind has not changed since is
  observed on the instrument of its own name, and no observation goes to a nil instrument; the names
  of the instruments are different.
\<close>

lemma runtime_metrics_reported:
  assumes "initFulmineRuntimeInstruments create kind fulmineRuntimeMetrics no_instruments = Inr inst"
  shows "collectGoRuntimeMetrics False inst kind = concat (map (own_observation kind) fulmineRuntimeMetrics)"
  using init_observes [OF assms runtime_metrics_distinct(1)]
  by (simp add: collectGoRuntimeMetrics_def cong: map_cong)

end
