(* ===== verification/Gateway.thy ===== *)
theory Gateway
  imports Endpoints
begin

text \<open>
  The generated REST gateway (\<open>src/api-spec/protobuf/gen/go/\<close>, the \<open>.pb.gw.go\<close> files): what its handlers have
  in common. A handler builds the message of a call from the HTTP request, calls the method on a
  client (or, in the variant that needs no connection, on the server itself), and forwards the
  answer. The runtime of grpc-gateway is the record \<open>gw_lib\<close>; headers and trailers of the answer are
  left out.

  \<open>ServiceGateway\<close> and \<open>WalletGateway\<close> have the functions of each method, \<open>RestApi\<close> the servers.
\<close>

section \<open>Requests and messages\<close>

record 'b http_request =
  HR_Method :: string
  HR_Path :: string
  HR_Header :: "(string \<times> string list) list" \<comment> \<open>under canonical names\<close>
  HR_Body :: 'b

type_synonym path_params = "(string \<times> string) list"

text \<open>
  A message is its type and its contents \<open>'m\<close>, which only the library reads; the messages of which the
  gateway sets a field have a constructor of their own.
\<close>

datatype 'm message =
    Msg string 'm
  | GetVHTLCSpendingTxRequest string
  | GetVirtualTxsRequest "string list"
  | GetPubKeyRequest u64
  | HealthCheckRequest string

datatype decode_err = EOF | DecodeErr string

text \<open>
  \<open>ZeroMessage\<close> is the zero value of a message type and \<open>Decode\<close> reads a JSON body into one.
  \<open>AnnotateContext\<close> gets the matcher for the incoming headers, the request, the method and the path
  template, and answers the context of the call.
\<close>

record ('b, 'f, 'm, 'c, 'a) gw_lib =
  ZeroMessage :: "string \<Rightarrow> 'm"
  IOReaderFactory :: "'b \<Rightarrow> string + 'b"
  Decode :: "'b \<Rightarrow> 'm \<Rightarrow> decode_err option \<times> 'm"
  ParseForm :: "'b http_request \<Rightarrow> string + 'f"
  PopulateQueryParameters :: "'m \<Rightarrow> 'f \<Rightarrow> err \<times> 'm"
  String_param :: "string \<Rightarrow> string + string"
  StringSlice :: "char \<Rightarrow> string \<Rightarrow> string + string list"
  Uint64_param :: "string \<Rightarrow> string + u64"
  Header :: "'a \<Rightarrow> status option"
  AnnotateContext :: "(string \<Rightarrow> string \<times> bool) \<Rightarrow> 'b http_request \<Rightarrow> string \<Rightarrow> string \<Rightarrow> status + 'c"
  AnnotateIncomingContext :: "(string \<Rightarrow> string \<times> bool) \<Rightarrow> 'b http_request \<Rightarrow> string \<Rightarrow> string \<Rightarrow> status + 'c"

text \<open>
  A client calls a method by its full name over a connection; a server has its methods under the same
  names. The state \<open>'s\<close> is the daemon's.
\<close>

type_synonym ('c, 'm, 'a, 's) rpc = "string \<Rightarrow> 'c \<Rightarrow> 'm message \<Rightarrow> 's \<Rightarrow> 'a reply \<times> 's"

record ('c, 'm, 'a, 's) client =
  Invoke :: "('c, 'm, 'a, 's) rpc"
  NewStream :: "('c, 'm, 'a, 's) rpc"

section \<open>Building the message\<close>

type_synonym ('b, 'm) builder = "'b http_request \<Rightarrow> path_params \<Rightarrow> status + 'm message"

definition no_arguments :: "('b, 'f, 'm, 'c, 'a) gw_lib \<Rightarrow> string \<Rightarrow> ('b, 'm) builder" where
  "no_arguments G ty req pathParams = Inr (Msg ty (ZeroMessage G ty))"

text \<open>An empty body is a decoder that answers \<open>EOF\<close>, which is let through.\<close>

definition json_body :: "('b, 'f, 'm, 'c, 'a) gw_lib \<Rightarrow> string \<Rightarrow> ('b, 'm) builder" where
  "json_body G ty req pathParams =
     (case IOReaderFactory G (HR_Body req) of
        Inl berr \<Rightarrow> Inl (InvalidArgument, berr)
      | Inr reader \<Rightarrow>
          (case Decode G reader (ZeroMessage G ty) of
             (Some (DecodeErr e), _) \<Rightarrow> Inl (InvalidArgument, e)
           | (Some EOF, protoReq) \<Rightarrow> Inr (Msg ty protoReq)
           | (None, protoReq) \<Rightarrow> Inr (Msg ty protoReq)))"

definition query_form :: "('b, 'f, 'm, 'c, 'a) gw_lib \<Rightarrow> string \<Rightarrow> ('b, 'm) builder" where
  "query_form G ty req pathParams =
     (case ParseForm G req of
        Inl e \<Rightarrow> Inl (InvalidArgument, e)
      | Inr form \<Rightarrow>
          (case PopulateQueryParameters G (ZeroMessage G ty) form of
             (Some e, _) \<Rightarrow> Inl (InvalidArgument, e)
           | (None, protoReq) \<Rightarrow> Inr (Msg ty protoReq)))"

definition path_argument :: "(string \<Rightarrow> string + 'v) \<Rightarrow> string \<Rightarrow> ('v \<Rightarrow> 'm message) \<Rightarrow> ('b, 'm) builder" where
  "path_argument convert name protoReq req pathParams =
     (case map_of pathParams name of
        None \<Rightarrow> Inl (InvalidArgument, ''missing parameter '' @ name)
      | Some val \<Rightarrow>
          (case convert val of
             Inl e \<Rightarrow> Inl (InvalidArgument, ''type mismatch, parameter: '' @ name @ '', error: '' @ e)
           | Inr v \<Rightarrow> Inr (protoReq v)))"

section \<open>Calling the method\<close>

type_synonym ('b, 'c, 'a, 's) request_fn = "'c \<Rightarrow> 'b http_request \<Rightarrow> path_params \<Rightarrow> 's \<Rightarrow> 'a reply \<times> 's"

definition unary_call :: "('c, 'm, 'a, 's) rpc \<Rightarrow> string \<Rightarrow> ('b, 'm) builder \<Rightarrow> ('b, 'c, 'a, 's) request_fn" where
  "unary_call call method build ctx req pathParams s =
     (case build req pathParams of
        Inl e \<Rightarrow> (Fail e, s)
      | Inr protoReq \<Rightarrow> call method ctx protoReq s)"

text \<open>A stream is answered once its header has arrived.\<close>

definition stream_call ::
  "('b, 'f, 'm, 'c, 'a) gw_lib \<Rightarrow> ('c, 'm, 'a, 's) rpc \<Rightarrow> string \<Rightarrow> ('b, 'm) builder \<Rightarrow> ('b, 'c, 'a, 's) request_fn" where
  "stream_call G call method build ctx req pathParams s =
     (case build req pathParams of
        Inl e \<Rightarrow> (Fail e, s)
      | Inr protoReq \<Rightarrow>
          (case call method ctx protoReq s of
             (Reply st, s') \<Rightarrow>
               (case Header G st of Some e \<Rightarrow> (Fail e, s') | None \<Rightarrow> (Reply st, s'))
           | r \<Rightarrow> r))"

section \<open>The handlers\<close>

datatype 'a http_reply =
    HTTPError status
  | ForwardResponseMessage 'a
  | ForwardResponseStream 'a
  | HTTPStatus nat
  | NoRoute
  | Aborted \<comment> \<open>the call panicked\<close>

type_synonym ('b, 'a, 's) http_handler = "'b http_request \<Rightarrow> path_params \<Rightarrow> 's \<Rightarrow> 'a http_reply \<times> 's"

definition answer :: "('a \<Rightarrow> 'a http_reply) \<Rightarrow> 'a reply \<times> 's \<Rightarrow> 'a http_reply \<times> 's" where
  "answer forward res =
     (case res of
        (Fail e, s) \<Rightarrow> (HTTPError e, s)
      | (Panic, s) \<Rightarrow> (Aborted, s)
      | (Reply resp, s) \<Rightarrow> (forward resp, s))"

text \<open>The closures that \<open>Register...HandlerClient\<close> gives to \<open>mux.Handle\<close>; the mux has the matcher.\<close>

definition client_handler ::
  "('b, 'f, 'm, 'c, 'a) gw_lib \<Rightarrow> (string \<Rightarrow> string \<times> bool) \<Rightarrow> string \<Rightarrow> string \<Rightarrow>
     ('b, 'c, 'a, 's) request_fn \<Rightarrow> ('a \<Rightarrow> 'a http_reply) \<Rightarrow> ('b, 'a, 's) http_handler" where
  "client_handler G mux method template request forward req pathParams s =
     (case AnnotateContext G mux req method template of
        Inl e \<Rightarrow> (HTTPError e, s)
      | Inr annotatedContext \<Rightarrow> answer forward (request annotatedContext req pathParams s))"

text \<open>The closures of \<open>Register...HandlerServer\<close>: the same in process, without streams.\<close>

definition server_handler ::
  "('b, 'f, 'm, 'c, 'a) gw_lib \<Rightarrow> (string \<Rightarrow> string \<times> bool) \<Rightarrow> string \<Rightarrow> string \<Rightarrow>
     ('b, 'c, 'a, 's) request_fn \<Rightarrow> ('a \<Rightarrow> 'a http_reply) \<Rightarrow> ('b, 'a, 's) http_handler" where
  "server_handler G mux method template request forward req pathParams s =
     (case AnnotateIncomingContext G mux req method template of
        Inl e \<Rightarrow> (HTTPError e, s)
      | Inr annotatedContext \<Rightarrow> answer forward (request annotatedContext req pathParams s))"

definition no_stream_handler :: "('b, 'a, 's) http_handler" where
  "no_stream_handler req pathParams s =
     (HTTPError (Unimplemented, ''streaming calls are not yet supported in the in-process transport''), s)"

text \<open>A pattern is the version, the opcodes, the pool of strings and the verb it was compiled to.\<close>

type_synonym pattern = "nat \<times> nat list \<times> string list \<times> string"

text \<open>\<open>Route_Rpc\<close> is the method and the template a closure announces.\<close>

record ('b, 'a, 's) gw_route =
  Route_Verb :: string
  Route_Pattern :: pattern
  Route_Rpc :: "(string \<times> string) option"
  Route_Handle :: "('b, 'a, 's) http_handler"

definition client_route ::
  "('b, 'f, 'm, 'c, 'a) gw_lib \<Rightarrow> (string \<Rightarrow> string \<times> bool) \<Rightarrow> string \<Rightarrow> pattern \<Rightarrow> string \<Rightarrow> string \<Rightarrow>
     ('b, 'c, 'a, 's) request_fn \<Rightarrow> ('a \<Rightarrow> 'a http_reply) \<Rightarrow> ('b, 'a, 's) gw_route" where
  "client_route G mux verb pattern method template request forward =
     \<lparr>Route_Verb = verb, Route_Pattern = pattern, Route_Rpc = Some (method, template),
      Route_Handle = client_handler G mux method template request forward\<rparr>"

definition server_route ::
  "('b, 'f, 'm, 'c, 'a) gw_lib \<Rightarrow> (string \<Rightarrow> string \<times> bool) \<Rightarrow> string \<Rightarrow> pattern \<Rightarrow> string \<Rightarrow> string \<Rightarrow>
     ('b, 'c, 'a, 's) request_fn \<Rightarrow> ('a \<Rightarrow> 'a http_reply) \<Rightarrow> ('b, 'a, 's) gw_route" where
  "server_route G mux verb pattern method template request forward =
     \<lparr>Route_Verb = verb, Route_Pattern = pattern, Route_Rpc = Some (method, template),
      Route_Handle = server_handler G mux method template request forward\<rparr>"

definition no_stream_route :: "string \<Rightarrow> pattern \<Rightarrow> ('b, 'a, 's) gw_route" where
  "no_stream_route verb pattern =
     \<lparr>Route_Verb = verb, Route_Pattern = pattern, Route_Rpc = None, Route_Handle = no_stream_handler\<rparr>"

section \<open>What a handler can do\<close>

text \<open>
  \<open>calls_method G C x f\<close>: \<open>f\<close> builds a message and then at most calls the method \<open>x\<close> of the client once; a
  message it cannot build is an invalid argument.
\<close>

definition calls_method ::
  "('b, 'f, 'm, 'c, 'a) gw_lib \<Rightarrow> ('c, 'm, 'a, 's) client \<Rightarrow> string \<Rightarrow> ('b, 'c, 'a, 's) request_fn \<Rightarrow> bool" where
  "calls_method G C x f \<longleftrightarrow>
     (\<exists>build. (f = unary_call (Invoke C) x build \<or> f = stream_call G (NewStream C) x build)
        \<and> (\<forall>req ps e. build req ps = Inl e \<longrightarrow> fst e = InvalidArgument))"

named_theorems builders \<open>the ways to build a message fail with an invalid argument only\<close>

lemma no_arguments_invalid [builders]: "no_arguments G ty req ps = Inl e \<longrightarrow> fst e = InvalidArgument"
  by (simp add: no_arguments_def)

lemma json_body_invalid [builders]: "json_body G ty req ps = Inl e \<longrightarrow> fst e = InvalidArgument"
  by (auto simp: json_body_def split: sum.splits prod.splits option.splits decode_err.splits)

lemma query_form_invalid [builders]: "query_form G ty req ps = Inl e \<longrightarrow> fst e = InvalidArgument"
  by (auto simp: query_form_def split: sum.splits prod.splits option.splits)

lemma path_argument_invalid [builders]: "path_argument conv name K req ps = Inl e \<longrightarrow> fst e = InvalidArgument"
  by (auto simp: path_argument_def split: option.splits sum.splits)

named_theorems calling \<open>the functions of the gateway call the method they are named after\<close>

lemma unary_callsI: "(\<And>req ps e. build req ps = Inl e \<longrightarrow> fst e = InvalidArgument) \<Longrightarrow> calls_method G C x (unary_call (Invoke C) x build)"
  unfolding calls_method_def by (rule exI [of _ build]) simp

lemma stream_callsI:
  "(\<And>req ps e. build req ps = Inl e \<longrightarrow> fst e = InvalidArgument) \<Longrightarrow> calls_method G C x (stream_call G (NewStream C) x build)"
  unfolding calls_method_def by (rule exI [of _ build]) simp

lemma calls_unary [calling]:
  "calls_method G C x (unary_call (Invoke C) x (no_arguments G ty))"
  "calls_method G C x (unary_call (Invoke C) x (json_body G ty))"
  "calls_method G C x (unary_call (Invoke C) x (query_form G ty))"
  "calls_method G C x (unary_call (Invoke C) x (path_argument conv name K))"
  by (rule unary_callsI, rule builders)+

lemma calls_stream [calling]:
  "calls_method G C x (stream_call G (NewStream C) x (no_arguments G ty))"
  "calls_method G C x (stream_call G (NewStream C) x (json_body G ty))"
  by (rule stream_callsI, rule builders)+

text \<open>A message that cannot be built ends the request before the call.\<close>

lemma calls_cases:
  assumes "calls_method G C x f"
  obtains (invalid) e where "f ctx req ps s = (Fail (InvalidArgument, e), s)"
    | (unary) msg where "f ctx req ps s = Invoke C x ctx msg s"
    | (stream) msg where "f ctx req ps s =
        (case NewStream C x ctx msg s of
           (Reply st, s') \<Rightarrow> (case Header G st of Some e \<Rightarrow> (Fail e, s') | None \<Rightarrow> (Reply st, s'))
         | r \<Rightarrow> r)"
proof -
  from assms obtain build where b: "f = unary_call (Invoke C) x build \<or> f = stream_call G (NewStream C) x build"
    and inv: "\<And>req ps e. build req ps = Inl e \<Longrightarrow> fst e = InvalidArgument" unfolding calls_method_def by blast
  show thesis
  proof (cases "build req ps")
    case (Inl e)
    with inv [OF Inl] b invalid show ?thesis by (cases e) (auto simp: unary_call_def stream_call_def)
  next
    case (Inr msg)
    from b show ?thesis
    proof
      assume "f = unary_call (Invoke C) x build"
      with Inr unary show ?thesis by (simp add: unary_call_def)
    next
      assume "f = stream_call G (NewStream C) x build"
      with Inr stream show ?thesis by (simp add: stream_call_def)
    qed
  qed
qed

end
