(* ===== verification/ServiceGateway.thy ===== *)
theory ServiceGateway
  imports Gateway
begin

text \<open>
  The requests of \<open>fulmine/v1/service.pb.gw.go\<close>: how each method of \<open>Service\<close> is called from its HTTP
  request, over a client and on the server itself.
\<close>

section \<open>The requests of \<open>Service\<close>\<close>

definition request_Service_GetAddress_0 ::
  "('b, 'f, 'm, 'c, 'a) gw_lib \<Rightarrow> ('c, 'm, 'a, 's) client \<Rightarrow> ('b, 'c, 'a, 's) request_fn" where
  "request_Service_GetAddress_0 G client =
     unary_call (Invoke client) (full_method (Service_v1, ''GetAddress''))
       (no_arguments G ''GetAddressRequest'')"

definition request_Service_GetBalance_0 ::
  "('b, 'f, 'm, 'c, 'a) gw_lib \<Rightarrow> ('c, 'm, 'a, 's) client \<Rightarrow> ('b, 'c, 'a, 's) request_fn" where
  "request_Service_GetBalance_0 G client =
     unary_call (Invoke client) (full_method (Service_v1, ''GetBalance''))
       (no_arguments G ''GetBalanceRequest'')"

definition request_Service_GetInfo_0 ::
  "('b, 'f, 'm, 'c, 'a) gw_lib \<Rightarrow> ('c, 'm, 'a, 's) client \<Rightarrow> ('b, 'c, 'a, 's) request_fn" where
  "request_Service_GetInfo_0 G client =
     unary_call (Invoke client) (full_method (Service_v1, ''GetInfo''))
       (no_arguments G ''GetInfoRequest'')"

definition request_Service_GetOnboardAddress_0 ::
  "('b, 'f, 'm, 'c, 'a) gw_lib \<Rightarrow> ('c, 'm, 'a, 's) client \<Rightarrow> ('b, 'c, 'a, 's) request_fn" where
  "request_Service_GetOnboardAddress_0 G client =
     unary_call (Invoke client) (full_method (Service_v1, ''GetOnboardAddress''))
       (json_body G ''GetOnboardAddressRequest'')"

definition request_Service_GetTransactionHistory_0 ::
  "('b, 'f, 'm, 'c, 'a) gw_lib \<Rightarrow> ('c, 'm, 'a, 's) client \<Rightarrow> ('b, 'c, 'a, 's) request_fn" where
  "request_Service_GetTransactionHistory_0 G client =
     unary_call (Invoke client) (full_method (Service_v1, ''GetTransactionHistory''))
       (no_arguments G ''GetTransactionHistoryRequest'')"

definition request_Service_RedeemNote_0 ::
  "('b, 'f, 'm, 'c, 'a) gw_lib \<Rightarrow> ('c, 'm, 'a, 's) client \<Rightarrow> ('b, 'c, 'a, 's) request_fn" where
  "request_Service_RedeemNote_0 G client =
     unary_call (Invoke client) (full_method (Service_v1, ''RedeemNote''))
       (json_body G ''RedeemNoteRequest'')"

definition request_Service_Settle_0 ::
  "('b, 'f, 'm, 'c, 'a) gw_lib \<Rightarrow> ('c, 'm, 'a, 's) client \<Rightarrow> ('b, 'c, 'a, 's) request_fn" where
  "request_Service_Settle_0 G client =
     unary_call (Invoke client) (full_method (Service_v1, ''Settle''))
       (no_arguments G ''SettleRequest'')"

definition request_Service_SendOffChain_0 ::
  "('b, 'f, 'm, 'c, 'a) gw_lib \<Rightarrow> ('c, 'm, 'a, 's) client \<Rightarrow> ('b, 'c, 'a, 's) request_fn" where
  "request_Service_SendOffChain_0 G client =
     unary_call (Invoke client) (full_method (Service_v1, ''SendOffChain''))
       (json_body G ''SendOffChainRequest'')"

definition request_Service_SendOnChain_0 ::
  "('b, 'f, 'm, 'c, 'a) gw_lib \<Rightarrow> ('c, 'm, 'a, 's) client \<Rightarrow> ('b, 'c, 'a, 's) request_fn" where
  "request_Service_SendOnChain_0 G client =
     unary_call (Invoke client) (full_method (Service_v1, ''SendOnChain''))
       (json_body G ''SendOnChainRequest'')"

definition request_Service_SignTransaction_0 ::
  "('b, 'f, 'm, 'c, 'a) gw_lib \<Rightarrow> ('c, 'm, 'a, 's) client \<Rightarrow> ('b, 'c, 'a, 's) request_fn" where
  "request_Service_SignTransaction_0 G client =
     unary_call (Invoke client) (full_method (Service_v1, ''SignTransaction''))
       (json_body G ''SignTransactionRequest'')"

definition request_Service_CreateVHTLC_0 ::
  "('b, 'f, 'm, 'c, 'a) gw_lib \<Rightarrow> ('c, 'm, 'a, 's) client \<Rightarrow> ('b, 'c, 'a, 's) request_fn" where
  "request_Service_CreateVHTLC_0 G client =
     unary_call (Invoke client) (full_method (Service_v1, ''CreateVHTLC''))
       (json_body G ''CreateVHTLCRequest'')"

definition request_Service_ClaimVHTLC_0 ::
  "('b, 'f, 'm, 'c, 'a) gw_lib \<Rightarrow> ('c, 'm, 'a, 's) client \<Rightarrow> ('b, 'c, 'a, 's) request_fn" where
  "request_Service_ClaimVHTLC_0 G client =
     unary_call (Invoke client) (full_method (Service_v1, ''ClaimVHTLC''))
       (json_body G ''ClaimVHTLCRequest'')"

definition request_Service_RefundVHTLCWithoutReceiver_0 ::
  "('b, 'f, 'm, 'c, 'a) gw_lib \<Rightarrow> ('c, 'm, 'a, 's) client \<Rightarrow> ('b, 'c, 'a, 's) request_fn" where
  "request_Service_RefundVHTLCWithoutReceiver_0 G client =
     unary_call (Invoke client) (full_method (Service_v1, ''RefundVHTLCWithoutReceiver''))
       (json_body G ''RefundVHTLCWithoutReceiverRequest'')"

definition request_Service_ListVHTLC_0 ::
  "('b, 'f, 'm, 'c, 'a) gw_lib \<Rightarrow> ('c, 'm, 'a, 's) client \<Rightarrow> ('b, 'c, 'a, 's) request_fn" where
  "request_Service_ListVHTLC_0 G client =
     unary_call (Invoke client) (full_method (Service_v1, ''ListVHTLC''))
       (query_form G ''ListVHTLCRequest'')"

definition request_Service_ListVHTLCs_0 ::
  "('b, 'f, 'm, 'c, 'a) gw_lib \<Rightarrow> ('c, 'm, 'a, 's) client \<Rightarrow> ('b, 'c, 'a, 's) request_fn" where
  "request_Service_ListVHTLCs_0 G client =
     unary_call (Invoke client) (full_method (Service_v1, ''ListVHTLCs''))
       (query_form G ''ListVHTLCsRequest'')"

definition request_Service_GetVHTLCSpendingTx_0 ::
  "('b, 'f, 'm, 'c, 'a) gw_lib \<Rightarrow> ('c, 'm, 'a, 's) client \<Rightarrow> ('b, 'c, 'a, 's) request_fn" where
  "request_Service_GetVHTLCSpendingTx_0 G client =
     unary_call (Invoke client) (full_method (Service_v1, ''GetVHTLCSpendingTx''))
       (path_argument (String_param G) ''vhtlc_id'' GetVHTLCSpendingTxRequest)"

definition request_Service_GetVirtualTxs_0 ::
  "('b, 'f, 'm, 'c, 'a) gw_lib \<Rightarrow> ('c, 'm, 'a, 's) client \<Rightarrow> ('b, 'c, 'a, 's) request_fn" where
  "request_Service_GetVirtualTxs_0 G client =
     unary_call (Invoke client) (full_method (Service_v1, ''GetVirtualTxs''))
       (path_argument (StringSlice G (CHR '','')) ''txids'' GetVirtualTxsRequest)"

definition request_Service_GetVtxos_0 ::
  "('b, 'f, 'm, 'c, 'a) gw_lib \<Rightarrow> ('c, 'm, 'a, 's) client \<Rightarrow> ('b, 'c, 'a, 's) request_fn" where
  "request_Service_GetVtxos_0 G client =
     unary_call (Invoke client) (full_method (Service_v1, ''GetVtxos''))
       (query_form G ''GetVtxosRequest'')"

definition request_Service_NextSettlement_0 ::
  "('b, 'f, 'm, 'c, 'a) gw_lib \<Rightarrow> ('c, 'm, 'a, 's) client \<Rightarrow> ('b, 'c, 'a, 's) request_fn" where
  "request_Service_NextSettlement_0 G client =
     unary_call (Invoke client) (full_method (Service_v1, ''NextSettlement''))
       (no_arguments G ''NextSettlementRequest'')"

section \<open>The same on the server itself\<close>

definition local_request_Service_GetAddress_0 ::
  "('b, 'f, 'm, 'c, 'a) gw_lib \<Rightarrow> ('c, 'm, 'a, 's) rpc \<Rightarrow> ('b, 'c, 'a, 's) request_fn" where
  "local_request_Service_GetAddress_0 G server =
     unary_call server (full_method (Service_v1, ''GetAddress''))
       (no_arguments G ''GetAddressRequest'')"

definition local_request_Service_GetBalance_0 ::
  "('b, 'f, 'm, 'c, 'a) gw_lib \<Rightarrow> ('c, 'm, 'a, 's) rpc \<Rightarrow> ('b, 'c, 'a, 's) request_fn" where
  "local_request_Service_GetBalance_0 G server =
     unary_call server (full_method (Service_v1, ''GetBalance''))
       (no_arguments G ''GetBalanceRequest'')"

definition local_request_Service_GetInfo_0 ::
  "('b, 'f, 'm, 'c, 'a) gw_lib \<Rightarrow> ('c, 'm, 'a, 's) rpc \<Rightarrow> ('b, 'c, 'a, 's) request_fn" where
  "local_request_Service_GetInfo_0 G server =
     unary_call server (full_method (Service_v1, ''GetInfo''))
       (no_arguments G ''GetInfoRequest'')"

definition local_request_Service_GetOnboardAddress_0 ::
  "('b, 'f, 'm, 'c, 'a) gw_lib \<Rightarrow> ('c, 'm, 'a, 's) rpc \<Rightarrow> ('b, 'c, 'a, 's) request_fn" where
  "local_request_Service_GetOnboardAddress_0 G server =
     unary_call server (full_method (Service_v1, ''GetOnboardAddress''))
       (json_body G ''GetOnboardAddressRequest'')"

definition local_request_Service_GetTransactionHistory_0 ::
  "('b, 'f, 'm, 'c, 'a) gw_lib \<Rightarrow> ('c, 'm, 'a, 's) rpc \<Rightarrow> ('b, 'c, 'a, 's) request_fn" where
  "local_request_Service_GetTransactionHistory_0 G server =
     unary_call server (full_method (Service_v1, ''GetTransactionHistory''))
       (no_arguments G ''GetTransactionHistoryRequest'')"

definition local_request_Service_RedeemNote_0 ::
  "('b, 'f, 'm, 'c, 'a) gw_lib \<Rightarrow> ('c, 'm, 'a, 's) rpc \<Rightarrow> ('b, 'c, 'a, 's) request_fn" where
  "local_request_Service_RedeemNote_0 G server =
     unary_call server (full_method (Service_v1, ''RedeemNote''))
       (json_body G ''RedeemNoteRequest'')"

definition local_request_Service_Settle_0 ::
  "('b, 'f, 'm, 'c, 'a) gw_lib \<Rightarrow> ('c, 'm, 'a, 's) rpc \<Rightarrow> ('b, 'c, 'a, 's) request_fn" where
  "local_request_Service_Settle_0 G server =
     unary_call server (full_method (Service_v1, ''Settle''))
       (no_arguments G ''SettleRequest'')"

definition local_request_Service_SendOffChain_0 ::
  "('b, 'f, 'm, 'c, 'a) gw_lib \<Rightarrow> ('c, 'm, 'a, 's) rpc \<Rightarrow> ('b, 'c, 'a, 's) request_fn" where
  "local_request_Service_SendOffChain_0 G server =
     unary_call server (full_method (Service_v1, ''SendOffChain''))
       (json_body G ''SendOffChainRequest'')"

definition local_request_Service_SendOnChain_0 ::
  "('b, 'f, 'm, 'c, 'a) gw_lib \<Rightarrow> ('c, 'm, 'a, 's) rpc \<Rightarrow> ('b, 'c, 'a, 's) request_fn" where
  "local_request_Service_SendOnChain_0 G server =
     unary_call server (full_method (Service_v1, ''SendOnChain''))
       (json_body G ''SendOnChainRequest'')"

definition local_request_Service_SignTransaction_0 ::
  "('b, 'f, 'm, 'c, 'a) gw_lib \<Rightarrow> ('c, 'm, 'a, 's) rpc \<Rightarrow> ('b, 'c, 'a, 's) request_fn" where
  "local_request_Service_SignTransaction_0 G server =
     unary_call server (full_method (Service_v1, ''SignTransaction''))
       (json_body G ''SignTransactionRequest'')"

definition local_request_Service_CreateVHTLC_0 ::
  "('b, 'f, 'm, 'c, 'a) gw_lib \<Rightarrow> ('c, 'm, 'a, 's) rpc \<Rightarrow> ('b, 'c, 'a, 's) request_fn" where
  "local_request_Service_CreateVHTLC_0 G server =
     unary_call server (full_method (Service_v1, ''CreateVHTLC''))
       (json_body G ''CreateVHTLCRequest'')"

definition local_request_Service_ClaimVHTLC_0 ::
  "('b, 'f, 'm, 'c, 'a) gw_lib \<Rightarrow> ('c, 'm, 'a, 's) rpc \<Rightarrow> ('b, 'c, 'a, 's) request_fn" where
  "local_request_Service_ClaimVHTLC_0 G server =
     unary_call server (full_method (Service_v1, ''ClaimVHTLC''))
       (json_body G ''ClaimVHTLCRequest'')"

definition local_request_Service_RefundVHTLCWithoutReceiver_0 ::
  "('b, 'f, 'm, 'c, 'a) gw_lib \<Rightarrow> ('c, 'm, 'a, 's) rpc \<Rightarrow> ('b, 'c, 'a, 's) request_fn" where
  "local_request_Service_RefundVHTLCWithoutReceiver_0 G server =
     unary_call server (full_method (Service_v1, ''RefundVHTLCWithoutReceiver''))
       (json_body G ''RefundVHTLCWithoutReceiverRequest'')"

definition local_request_Service_ListVHTLC_0 ::
  "('b, 'f, 'm, 'c, 'a) gw_lib \<Rightarrow> ('c, 'm, 'a, 's) rpc \<Rightarrow> ('b, 'c, 'a, 's) request_fn" where
  "local_request_Service_ListVHTLC_0 G server =
     unary_call server (full_method (Service_v1, ''ListVHTLC''))
       (query_form G ''ListVHTLCRequest'')"

definition local_request_Service_ListVHTLCs_0 ::
  "('b, 'f, 'm, 'c, 'a) gw_lib \<Rightarrow> ('c, 'm, 'a, 's) rpc \<Rightarrow> ('b, 'c, 'a, 's) request_fn" where
  "local_request_Service_ListVHTLCs_0 G server =
     unary_call server (full_method (Service_v1, ''ListVHTLCs''))
       (query_form G ''ListVHTLCsRequest'')"

definition local_request_Service_GetVHTLCSpendingTx_0 ::
  "('b, 'f, 'm, 'c, 'a) gw_lib \<Rightarrow> ('c, 'm, 'a, 's) rpc \<Rightarrow> ('b, 'c, 'a, 's) request_fn" where
  "local_request_Service_GetVHTLCSpendingTx_0 G server =
     unary_call server (full_method (Service_v1, ''GetVHTLCSpendingTx''))
       (path_argument (String_param G) ''vhtlc_id'' GetVHTLCSpendingTxRequest)"

definition local_request_Service_GetVirtualTxs_0 ::
  "('b, 'f, 'm, 'c, 'a) gw_lib \<Rightarrow> ('c, 'm, 'a, 's) rpc \<Rightarrow> ('b, 'c, 'a, 's) request_fn" where
  "local_request_Service_GetVirtualTxs_0 G server =
     unary_call server (full_method (Service_v1, ''GetVirtualTxs''))
       (path_argument (StringSlice G (CHR '','')) ''txids'' GetVirtualTxsRequest)"

definition local_request_Service_GetVtxos_0 ::
  "('b, 'f, 'm, 'c, 'a) gw_lib \<Rightarrow> ('c, 'm, 'a, 's) rpc \<Rightarrow> ('b, 'c, 'a, 's) request_fn" where
  "local_request_Service_GetVtxos_0 G server =
     unary_call server (full_method (Service_v1, ''GetVtxos''))
       (query_form G ''GetVtxosRequest'')"

definition local_request_Service_NextSettlement_0 ::
  "('b, 'f, 'm, 'c, 'a) gw_lib \<Rightarrow> ('c, 'm, 'a, 's) rpc \<Rightarrow> ('b, 'c, 'a, 's) request_fn" where
  "local_request_Service_NextSettlement_0 G server =
     unary_call server (full_method (Service_v1, ''NextSettlement''))
       (no_arguments G ''NextSettlementRequest'')"

end
