(* ===== verification/ServiceRoutes.thy ===== *)
theory ServiceRoutes
  imports ServiceGateway
begin

text \<open>
  The routes of \<open>fulmine/v1/service.pb.gw.go\<close>: the pattern of each method and the closures that are
  registered under it.
\<close>

section \<open>The patterns of \<open>Service\<close>\<close>

definition pattern_Service_GetAddress_0 :: pattern where
  "pattern_Service_GetAddress_0 = (1, [2, 0, 2, 1], [''v1'', ''address''], [])"

definition pattern_Service_GetBalance_0 :: pattern where
  "pattern_Service_GetBalance_0 = (1, [2, 0, 2, 1], [''v1'', ''balance''], [])"

definition pattern_Service_GetInfo_0 :: pattern where
  "pattern_Service_GetInfo_0 = (1, [2, 0, 2, 1], [''v1'', ''info''], [])"

definition pattern_Service_GetOnboardAddress_0 :: pattern where
  "pattern_Service_GetOnboardAddress_0 = (1, [2, 0, 2, 1], [''v1'', ''onboard''], [])"

definition pattern_Service_GetTransactionHistory_0 :: pattern where
  "pattern_Service_GetTransactionHistory_0 = (1, [2, 0, 2, 1], [''v1'', ''transactions''], [])"

definition pattern_Service_RedeemNote_0 :: pattern where
  "pattern_Service_RedeemNote_0 = (1, [2, 0, 2, 1, 2, 2], [''v1'', ''note'', ''redeem''], [])"

definition pattern_Service_Settle_0 :: pattern where
  "pattern_Service_Settle_0 = (1, [2, 0, 2, 1], [''v1'', ''settle''], [])"

definition pattern_Service_SendOffChain_0 :: pattern where
  "pattern_Service_SendOffChain_0 = (1, [2, 0, 2, 1, 2, 2], [''v1'', ''send'', ''offchain''], [])"

definition pattern_Service_SendOnChain_0 :: pattern where
  "pattern_Service_SendOnChain_0 = (1, [2, 0, 2, 1, 2, 2], [''v1'', ''send'', ''onchain''], [])"

definition pattern_Service_SignTransaction_0 :: pattern where
  "pattern_Service_SignTransaction_0 = (1, [2, 0, 2, 1, 2, 2], [''v1'', ''transaction'', ''sign''], [])"

definition pattern_Service_CreateVHTLC_0 :: pattern where
  "pattern_Service_CreateVHTLC_0 = (1, [2, 0, 2, 1], [''v1'', ''vhtlc''], [])"

definition pattern_Service_ClaimVHTLC_0 :: pattern where
  "pattern_Service_ClaimVHTLC_0 = (1, [2, 0, 2, 1, 2, 2], [''v1'', ''vhtlc'', ''claim''], [])"

definition pattern_Service_RefundVHTLCWithoutReceiver_0 :: pattern where
  "pattern_Service_RefundVHTLCWithoutReceiver_0 = (1, [2, 0, 2, 1, 2, 2], [''v1'', ''vhtlc'', ''refundWithoutReceiver''], [])"

definition pattern_Service_ListVHTLC_0 :: pattern where
  "pattern_Service_ListVHTLC_0 = (1, [2, 0, 2, 1], [''v1'', ''vhtlc''], [])"

definition pattern_Service_ListVHTLCs_0 :: pattern where
  "pattern_Service_ListVHTLCs_0 = (1, [2, 0, 2, 1], [''v1'', ''vhtlcs''], [])"

definition pattern_Service_GetVHTLCSpendingTx_0 :: pattern where
  "pattern_Service_GetVHTLCSpendingTx_0 = (1, [2, 0, 2, 1, 2, 2, 1, 0, 4, 1, 5, 3], [''v1'', ''vhtlc'', ''spendTx'', ''vhtlc_id''], [])"

definition pattern_Service_GetVirtualTxs_0 :: pattern where
  "pattern_Service_GetVirtualTxs_0 = (1, [2, 0, 2, 1, 1, 0, 4, 1, 5, 2], [''v1'', ''virtualTx'', ''txids''], [])"

definition pattern_Service_GetVtxos_0 :: pattern where
  "pattern_Service_GetVtxos_0 = (1, [2, 0, 2, 1], [''v1'', ''vtxos''], [])"

definition pattern_Service_NextSettlement_0 :: pattern where
  "pattern_Service_NextSettlement_0 = (1, [2, 0, 2, 1, 2, 2], [''v1'', ''settlement'', ''next''], [])"

section \<open>The routes of \<open>Service\<close>\<close>

definition route_Service_GetAddress_0 ::
  "('b, 'f, 'm, 'c, 'a) gw_lib \<Rightarrow> (string \<Rightarrow> string \<times> bool) \<Rightarrow> ('c, 'm, 'a, 's) client \<Rightarrow> ('b, 'a, 's) gw_route" where
  "route_Service_GetAddress_0 G mux client =
     client_route G mux ''GET'' pattern_Service_GetAddress_0 ''/fulmine.v1.Service/GetAddress''
       ''/v1/address'' (request_Service_GetAddress_0 G client) ForwardResponseMessage"

definition route_Service_GetBalance_0 ::
  "('b, 'f, 'm, 'c, 'a) gw_lib \<Rightarrow> (string \<Rightarrow> string \<times> bool) \<Rightarrow> ('c, 'm, 'a, 's) client \<Rightarrow> ('b, 'a, 's) gw_route" where
  "route_Service_GetBalance_0 G mux client =
     client_route G mux ''GET'' pattern_Service_GetBalance_0 ''/fulmine.v1.Service/GetBalance''
       ''/v1/balance'' (request_Service_GetBalance_0 G client) ForwardResponseMessage"

definition route_Service_GetInfo_0 ::
  "('b, 'f, 'm, 'c, 'a) gw_lib \<Rightarrow> (string \<Rightarrow> string \<times> bool) \<Rightarrow> ('c, 'm, 'a, 's) client \<Rightarrow> ('b, 'a, 's) gw_route" where
  "route_Service_GetInfo_0 G mux client =
     client_route G mux ''GET'' pattern_Service_GetInfo_0 ''/fulmine.v1.Service/GetInfo''
       ''/v1/info'' (request_Service_GetInfo_0 G client) ForwardResponseMessage"

definition route_Service_GetOnboardAddress_0 ::
  "('b, 'f, 'm, 'c, 'a) gw_lib \<Rightarrow> (string \<Rightarrow> string \<times> bool) \<Rightarrow> ('c, 'm, 'a, 's) client \<Rightarrow> ('b, 'a, 's) gw_route" where
  "route_Service_GetOnboardAddress_0 G mux client =
     client_route G mux ''POST'' pattern_Service_GetOnboardAddress_0 ''/fulmine.v1.Service/GetOnboardAddress''
       ''/v1/onboard'' (request_Service_GetOnboardAddress_0 G client) ForwardResponseMessage"

definition route_Service_GetTransactionHistory_0 ::
  "('b, 'f, 'm, 'c, 'a) gw_lib \<Rightarrow> (string \<Rightarrow> string \<times> bool) \<Rightarrow> ('c, 'm, 'a, 's) client \<Rightarrow> ('b, 'a, 's) gw_route" where
  "route_Service_GetTransactionHistory_0 G mux client =
     client_route G mux ''GET'' pattern_Service_GetTransactionHistory_0 ''/fulmine.v1.Service/GetTransactionHistory''
       ''/v1/transactions'' (request_Service_GetTransactionHistory_0 G client) ForwardResponseMessage"

definition route_Service_RedeemNote_0 ::
  "('b, 'f, 'm, 'c, 'a) gw_lib \<Rightarrow> (string \<Rightarrow> string \<times> bool) \<Rightarrow> ('c, 'm, 'a, 's) client \<Rightarrow> ('b, 'a, 's) gw_route" where
  "route_Service_RedeemNote_0 G mux client =
     client_route G mux ''POST'' pattern_Service_RedeemNote_0 ''/fulmine.v1.Service/RedeemNote''
       ''/v1/note/redeem'' (request_Service_RedeemNote_0 G client) ForwardResponseMessage"

definition route_Service_Settle_0 ::
  "('b, 'f, 'm, 'c, 'a) gw_lib \<Rightarrow> (string \<Rightarrow> string \<times> bool) \<Rightarrow> ('c, 'm, 'a, 's) client \<Rightarrow> ('b, 'a, 's) gw_route" where
  "route_Service_Settle_0 G mux client =
     client_route G mux ''GET'' pattern_Service_Settle_0 ''/fulmine.v1.Service/Settle''
       ''/v1/settle'' (request_Service_Settle_0 G client) ForwardResponseMessage"

definition route_Service_SendOffChain_0 ::
  "('b, 'f, 'm, 'c, 'a) gw_lib \<Rightarrow> (string \<Rightarrow> string \<times> bool) \<Rightarrow> ('c, 'm, 'a, 's) client \<Rightarrow> ('b, 'a, 's) gw_route" where
  "route_Service_SendOffChain_0 G mux client =
     client_route G mux ''POST'' pattern_Service_SendOffChain_0 ''/fulmine.v1.Service/SendOffChain''
       ''/v1/send/offchain'' (request_Service_SendOffChain_0 G client) ForwardResponseMessage"

definition route_Service_SendOnChain_0 ::
  "('b, 'f, 'm, 'c, 'a) gw_lib \<Rightarrow> (string \<Rightarrow> string \<times> bool) \<Rightarrow> ('c, 'm, 'a, 's) client \<Rightarrow> ('b, 'a, 's) gw_route" where
  "route_Service_SendOnChain_0 G mux client =
     client_route G mux ''POST'' pattern_Service_SendOnChain_0 ''/fulmine.v1.Service/SendOnChain''
       ''/v1/send/onchain'' (request_Service_SendOnChain_0 G client) ForwardResponseMessage"

definition route_Service_SignTransaction_0 ::
  "('b, 'f, 'm, 'c, 'a) gw_lib \<Rightarrow> (string \<Rightarrow> string \<times> bool) \<Rightarrow> ('c, 'm, 'a, 's) client \<Rightarrow> ('b, 'a, 's) gw_route" where
  "route_Service_SignTransaction_0 G mux client =
     client_route G mux ''POST'' pattern_Service_SignTransaction_0 ''/fulmine.v1.Service/SignTransaction''
       ''/v1/transaction/sign'' (request_Service_SignTransaction_0 G client) ForwardResponseMessage"

definition route_Service_CreateVHTLC_0 ::
  "('b, 'f, 'm, 'c, 'a) gw_lib \<Rightarrow> (string \<Rightarrow> string \<times> bool) \<Rightarrow> ('c, 'm, 'a, 's) client \<Rightarrow> ('b, 'a, 's) gw_route" where
  "route_Service_CreateVHTLC_0 G mux client =
     client_route G mux ''POST'' pattern_Service_CreateVHTLC_0 ''/fulmine.v1.Service/CreateVHTLC''
       ''/v1/vhtlc'' (request_Service_CreateVHTLC_0 G client) ForwardResponseMessage"

definition route_Service_ClaimVHTLC_0 ::
  "('b, 'f, 'm, 'c, 'a) gw_lib \<Rightarrow> (string \<Rightarrow> string \<times> bool) \<Rightarrow> ('c, 'm, 'a, 's) client \<Rightarrow> ('b, 'a, 's) gw_route" where
  "route_Service_ClaimVHTLC_0 G mux client =
     client_route G mux ''POST'' pattern_Service_ClaimVHTLC_0 ''/fulmine.v1.Service/ClaimVHTLC''
       ''/v1/vhtlc/claim'' (request_Service_ClaimVHTLC_0 G client) ForwardResponseMessage"

definition route_Service_RefundVHTLCWithoutReceiver_0 ::
  "('b, 'f, 'm, 'c, 'a) gw_lib \<Rightarrow> (string \<Rightarrow> string \<times> bool) \<Rightarrow> ('c, 'm, 'a, 's) client \<Rightarrow> ('b, 'a, 's) gw_route" where
  "route_Service_RefundVHTLCWithoutReceiver_0 G mux client =
     client_route G mux ''POST'' pattern_Service_RefundVHTLCWithoutReceiver_0 ''/fulmine.v1.Service/RefundVHTLCWithoutReceiver''
       ''/v1/vhtlc/refundWithoutReceiver'' (request_Service_RefundVHTLCWithoutReceiver_0 G client) ForwardResponseMessage"

definition route_Service_ListVHTLC_0 ::
  "('b, 'f, 'm, 'c, 'a) gw_lib \<Rightarrow> (string \<Rightarrow> string \<times> bool) \<Rightarrow> ('c, 'm, 'a, 's) client \<Rightarrow> ('b, 'a, 's) gw_route" where
  "route_Service_ListVHTLC_0 G mux client =
     client_route G mux ''GET'' pattern_Service_ListVHTLC_0 ''/fulmine.v1.Service/ListVHTLC''
       ''/v1/vhtlc'' (request_Service_ListVHTLC_0 G client) ForwardResponseMessage"

definition route_Service_ListVHTLCs_0 ::
  "('b, 'f, 'm, 'c, 'a) gw_lib \<Rightarrow> (string \<Rightarrow> string \<times> bool) \<Rightarrow> ('c, 'm, 'a, 's) client \<Rightarrow> ('b, 'a, 's) gw_route" where
  "route_Service_ListVHTLCs_0 G mux client =
     client_route G mux ''GET'' pattern_Service_ListVHTLCs_0 ''/fulmine.v1.Service/ListVHTLCs''
       ''/v1/vhtlcs'' (request_Service_ListVHTLCs_0 G client) ForwardResponseMessage"

definition route_Service_GetVHTLCSpendingTx_0 ::
  "('b, 'f, 'm, 'c, 'a) gw_lib \<Rightarrow> (string \<Rightarrow> string \<times> bool) \<Rightarrow> ('c, 'm, 'a, 's) client \<Rightarrow> ('b, 'a, 's) gw_route" where
  "route_Service_GetVHTLCSpendingTx_0 G mux client =
     client_route G mux ''GET'' pattern_Service_GetVHTLCSpendingTx_0 ''/fulmine.v1.Service/GetVHTLCSpendingTx''
       ''/v1/vhtlc/spendTx/{vhtlc_id}'' (request_Service_GetVHTLCSpendingTx_0 G client) ForwardResponseMessage"

definition route_Service_GetVirtualTxs_0 ::
  "('b, 'f, 'm, 'c, 'a) gw_lib \<Rightarrow> (string \<Rightarrow> string \<times> bool) \<Rightarrow> ('c, 'm, 'a, 's) client \<Rightarrow> ('b, 'a, 's) gw_route" where
  "route_Service_GetVirtualTxs_0 G mux client =
     client_route G mux ''GET'' pattern_Service_GetVirtualTxs_0 ''/fulmine.v1.Service/GetVirtualTxs''
       ''/v1/virtualTx/{txids}'' (request_Service_GetVirtualTxs_0 G client) ForwardResponseMessage"

definition route_Service_GetVtxos_0 ::
  "('b, 'f, 'm, 'c, 'a) gw_lib \<Rightarrow> (string \<Rightarrow> string \<times> bool) \<Rightarrow> ('c, 'm, 'a, 's) client \<Rightarrow> ('b, 'a, 's) gw_route" where
  "route_Service_GetVtxos_0 G mux client =
     client_route G mux ''GET'' pattern_Service_GetVtxos_0 ''/fulmine.v1.Service/GetVtxos''
       ''/v1/vtxos'' (request_Service_GetVtxos_0 G client) ForwardResponseMessage"

definition route_Service_NextSettlement_0 ::
  "('b, 'f, 'm, 'c, 'a) gw_lib \<Rightarrow> (string \<Rightarrow> string \<times> bool) \<Rightarrow> ('c, 'm, 'a, 's) client \<Rightarrow> ('b, 'a, 's) gw_route" where
  "route_Service_NextSettlement_0 G mux client =
     client_route G mux ''GET'' pattern_Service_NextSettlement_0 ''/fulmine.v1.Service/NextSettlement''
       ''/v1/settlement/next'' (request_Service_NextSettlement_0 G client) ForwardResponseMessage"

definition RegisterServiceHandlerClient ::
  "('b, 'f, 'm, 'c, 'a) gw_lib \<Rightarrow> (string \<Rightarrow> string \<times> bool) \<Rightarrow> ('c, 'm, 'a, 's) client \<Rightarrow> ('b, 'a, 's) gw_route list" where
  "RegisterServiceHandlerClient G mux client =
     [route_Service_GetAddress_0 G mux client,
      route_Service_GetBalance_0 G mux client,
      route_Service_GetInfo_0 G mux client,
      route_Service_GetOnboardAddress_0 G mux client,
      route_Service_GetTransactionHistory_0 G mux client,
      route_Service_RedeemNote_0 G mux client,
      route_Service_Settle_0 G mux client,
      route_Service_SendOffChain_0 G mux client,
      route_Service_SendOnChain_0 G mux client,
      route_Service_SignTransaction_0 G mux client,
      route_Service_CreateVHTLC_0 G mux client,
      route_Service_ClaimVHTLC_0 G mux client,
      route_Service_RefundVHTLCWithoutReceiver_0 G mux client,
      route_Service_ListVHTLC_0 G mux client,
      route_Service_ListVHTLCs_0 G mux client,
      route_Service_GetVHTLCSpendingTx_0 G mux client,
      route_Service_GetVirtualTxs_0 G mux client,
      route_Service_GetVtxos_0 G mux client,
      route_Service_NextSettlement_0 G mux client]"

section \<open>The routes in process\<close>

definition local_route_Service_GetAddress_0 ::
  "('b, 'f, 'm, 'c, 'a) gw_lib \<Rightarrow> (string \<Rightarrow> string \<times> bool) \<Rightarrow> ('c, 'm, 'a, 's) rpc \<Rightarrow> ('b, 'a, 's) gw_route" where
  "local_route_Service_GetAddress_0 G mux server =
     server_route G mux ''GET'' pattern_Service_GetAddress_0 ''/fulmine.v1.Service/GetAddress''
       ''/v1/address'' (local_request_Service_GetAddress_0 G server) ForwardResponseMessage"

definition local_route_Service_GetBalance_0 ::
  "('b, 'f, 'm, 'c, 'a) gw_lib \<Rightarrow> (string \<Rightarrow> string \<times> bool) \<Rightarrow> ('c, 'm, 'a, 's) rpc \<Rightarrow> ('b, 'a, 's) gw_route" where
  "local_route_Service_GetBalance_0 G mux server =
     server_route G mux ''GET'' pattern_Service_GetBalance_0 ''/fulmine.v1.Service/GetBalance''
       ''/v1/balance'' (local_request_Service_GetBalance_0 G server) ForwardResponseMessage"

definition local_route_Service_GetInfo_0 ::
  "('b, 'f, 'm, 'c, 'a) gw_lib \<Rightarrow> (string \<Rightarrow> string \<times> bool) \<Rightarrow> ('c, 'm, 'a, 's) rpc \<Rightarrow> ('b, 'a, 's) gw_route" where
  "local_route_Service_GetInfo_0 G mux server =
     server_route G mux ''GET'' pattern_Service_GetInfo_0 ''/fulmine.v1.Service/GetInfo''
       ''/v1/info'' (local_request_Service_GetInfo_0 G server) ForwardResponseMessage"

definition local_route_Service_GetOnboardAddress_0 ::
  "('b, 'f, 'm, 'c, 'a) gw_lib \<Rightarrow> (string \<Rightarrow> string \<times> bool) \<Rightarrow> ('c, 'm, 'a, 's) rpc \<Rightarrow> ('b, 'a, 's) gw_route" where
  "local_route_Service_GetOnboardAddress_0 G mux server =
     server_route G mux ''POST'' pattern_Service_GetOnboardAddress_0 ''/fulmine.v1.Service/GetOnboardAddress''
       ''/v1/onboard'' (local_request_Service_GetOnboardAddress_0 G server) ForwardResponseMessage"

definition local_route_Service_GetTransactionHistory_0 ::
  "('b, 'f, 'm, 'c, 'a) gw_lib \<Rightarrow> (string \<Rightarrow> string \<times> bool) \<Rightarrow> ('c, 'm, 'a, 's) rpc \<Rightarrow> ('b, 'a, 's) gw_route" where
  "local_route_Service_GetTransactionHistory_0 G mux server =
     server_route G mux ''GET'' pattern_Service_GetTransactionHistory_0 ''/fulmine.v1.Service/GetTransactionHistory''
       ''/v1/transactions'' (local_request_Service_GetTransactionHistory_0 G server) ForwardResponseMessage"

definition local_route_Service_RedeemNote_0 ::
  "('b, 'f, 'm, 'c, 'a) gw_lib \<Rightarrow> (string \<Rightarrow> string \<times> bool) \<Rightarrow> ('c, 'm, 'a, 's) rpc \<Rightarrow> ('b, 'a, 's) gw_route" where
  "local_route_Service_RedeemNote_0 G mux server =
     server_route G mux ''POST'' pattern_Service_RedeemNote_0 ''/fulmine.v1.Service/RedeemNote''
       ''/v1/note/redeem'' (local_request_Service_RedeemNote_0 G server) ForwardResponseMessage"

definition local_route_Service_Settle_0 ::
  "('b, 'f, 'm, 'c, 'a) gw_lib \<Rightarrow> (string \<Rightarrow> string \<times> bool) \<Rightarrow> ('c, 'm, 'a, 's) rpc \<Rightarrow> ('b, 'a, 's) gw_route" where
  "local_route_Service_Settle_0 G mux server =
     server_route G mux ''GET'' pattern_Service_Settle_0 ''/fulmine.v1.Service/Settle''
       ''/v1/settle'' (local_request_Service_Settle_0 G server) ForwardResponseMessage"

definition local_route_Service_SendOffChain_0 ::
  "('b, 'f, 'm, 'c, 'a) gw_lib \<Rightarrow> (string \<Rightarrow> string \<times> bool) \<Rightarrow> ('c, 'm, 'a, 's) rpc \<Rightarrow> ('b, 'a, 's) gw_route" where
  "local_route_Service_SendOffChain_0 G mux server =
     server_route G mux ''POST'' pattern_Service_SendOffChain_0 ''/fulmine.v1.Service/SendOffChain''
       ''/v1/send/offchain'' (local_request_Service_SendOffChain_0 G server) ForwardResponseMessage"

definition local_route_Service_SendOnChain_0 ::
  "('b, 'f, 'm, 'c, 'a) gw_lib \<Rightarrow> (string \<Rightarrow> string \<times> bool) \<Rightarrow> ('c, 'm, 'a, 's) rpc \<Rightarrow> ('b, 'a, 's) gw_route" where
  "local_route_Service_SendOnChain_0 G mux server =
     server_route G mux ''POST'' pattern_Service_SendOnChain_0 ''/fulmine.v1.Service/SendOnChain''
       ''/v1/send/onchain'' (local_request_Service_SendOnChain_0 G server) ForwardResponseMessage"

definition local_route_Service_SignTransaction_0 ::
  "('b, 'f, 'm, 'c, 'a) gw_lib \<Rightarrow> (string \<Rightarrow> string \<times> bool) \<Rightarrow> ('c, 'm, 'a, 's) rpc \<Rightarrow> ('b, 'a, 's) gw_route" where
  "local_route_Service_SignTransaction_0 G mux server =
     server_route G mux ''POST'' pattern_Service_SignTransaction_0 ''/fulmine.v1.Service/SignTransaction''
       ''/v1/transaction/sign'' (local_request_Service_SignTransaction_0 G server) ForwardResponseMessage"

definition local_route_Service_CreateVHTLC_0 ::
  "('b, 'f, 'm, 'c, 'a) gw_lib \<Rightarrow> (string \<Rightarrow> string \<times> bool) \<Rightarrow> ('c, 'm, 'a, 's) rpc \<Rightarrow> ('b, 'a, 's) gw_route" where
  "local_route_Service_CreateVHTLC_0 G mux server =
     server_route G mux ''POST'' pattern_Service_CreateVHTLC_0 ''/fulmine.v1.Service/CreateVHTLC''
       ''/v1/vhtlc'' (local_request_Service_CreateVHTLC_0 G server) ForwardResponseMessage"

definition local_route_Service_ClaimVHTLC_0 ::
  "('b, 'f, 'm, 'c, 'a) gw_lib \<Rightarrow> (string \<Rightarrow> string \<times> bool) \<Rightarrow> ('c, 'm, 'a, 's) rpc \<Rightarrow> ('b, 'a, 's) gw_route" where
  "local_route_Service_ClaimVHTLC_0 G mux server =
     server_route G mux ''POST'' pattern_Service_ClaimVHTLC_0 ''/fulmine.v1.Service/ClaimVHTLC''
       ''/v1/vhtlc/claim'' (local_request_Service_ClaimVHTLC_0 G server) ForwardResponseMessage"

definition local_route_Service_RefundVHTLCWithoutReceiver_0 ::
  "('b, 'f, 'm, 'c, 'a) gw_lib \<Rightarrow> (string \<Rightarrow> string \<times> bool) \<Rightarrow> ('c, 'm, 'a, 's) rpc \<Rightarrow> ('b, 'a, 's) gw_route" where
  "local_route_Service_RefundVHTLCWithoutReceiver_0 G mux server =
     server_route G mux ''POST'' pattern_Service_RefundVHTLCWithoutReceiver_0 ''/fulmine.v1.Service/RefundVHTLCWithoutReceiver''
       ''/v1/vhtlc/refundWithoutReceiver'' (local_request_Service_RefundVHTLCWithoutReceiver_0 G server) ForwardResponseMessage"

definition local_route_Service_ListVHTLC_0 ::
  "('b, 'f, 'm, 'c, 'a) gw_lib \<Rightarrow> (string \<Rightarrow> string \<times> bool) \<Rightarrow> ('c, 'm, 'a, 's) rpc \<Rightarrow> ('b, 'a, 's) gw_route" where
  "local_route_Service_ListVHTLC_0 G mux server =
     server_route G mux ''GET'' pattern_Service_ListVHTLC_0 ''/fulmine.v1.Service/ListVHTLC''
       ''/v1/vhtlc'' (local_request_Service_ListVHTLC_0 G server) ForwardResponseMessage"

definition local_route_Service_ListVHTLCs_0 ::
  "('b, 'f, 'm, 'c, 'a) gw_lib \<Rightarrow> (string \<Rightarrow> string \<times> bool) \<Rightarrow> ('c, 'm, 'a, 's) rpc \<Rightarrow> ('b, 'a, 's) gw_route" where
  "local_route_Service_ListVHTLCs_0 G mux server =
     server_route G mux ''GET'' pattern_Service_ListVHTLCs_0 ''/fulmine.v1.Service/ListVHTLCs''
       ''/v1/vhtlcs'' (local_request_Service_ListVHTLCs_0 G server) ForwardResponseMessage"

definition local_route_Service_GetVHTLCSpendingTx_0 ::
  "('b, 'f, 'm, 'c, 'a) gw_lib \<Rightarrow> (string \<Rightarrow> string \<times> bool) \<Rightarrow> ('c, 'm, 'a, 's) rpc \<Rightarrow> ('b, 'a, 's) gw_route" where
  "local_route_Service_GetVHTLCSpendingTx_0 G mux server =
     server_route G mux ''GET'' pattern_Service_GetVHTLCSpendingTx_0 ''/fulmine.v1.Service/GetVHTLCSpendingTx''
       ''/v1/vhtlc/spendTx/{vhtlc_id}'' (local_request_Service_GetVHTLCSpendingTx_0 G server) ForwardResponseMessage"

definition local_route_Service_GetVirtualTxs_0 ::
  "('b, 'f, 'm, 'c, 'a) gw_lib \<Rightarrow> (string \<Rightarrow> string \<times> bool) \<Rightarrow> ('c, 'm, 'a, 's) rpc \<Rightarrow> ('b, 'a, 's) gw_route" where
  "local_route_Service_GetVirtualTxs_0 G mux server =
     server_route G mux ''GET'' pattern_Service_GetVirtualTxs_0 ''/fulmine.v1.Service/GetVirtualTxs''
       ''/v1/virtualTx/{txids}'' (local_request_Service_GetVirtualTxs_0 G server) ForwardResponseMessage"

definition local_route_Service_GetVtxos_0 ::
  "('b, 'f, 'm, 'c, 'a) gw_lib \<Rightarrow> (string \<Rightarrow> string \<times> bool) \<Rightarrow> ('c, 'm, 'a, 's) rpc \<Rightarrow> ('b, 'a, 's) gw_route" where
  "local_route_Service_GetVtxos_0 G mux server =
     server_route G mux ''GET'' pattern_Service_GetVtxos_0 ''/fulmine.v1.Service/GetVtxos''
       ''/v1/vtxos'' (local_request_Service_GetVtxos_0 G server) ForwardResponseMessage"

definition local_route_Service_NextSettlement_0 ::
  "('b, 'f, 'm, 'c, 'a) gw_lib \<Rightarrow> (string \<Rightarrow> string \<times> bool) \<Rightarrow> ('c, 'm, 'a, 's) rpc \<Rightarrow> ('b, 'a, 's) gw_route" where
  "local_route_Service_NextSettlement_0 G mux server =
     server_route G mux ''GET'' pattern_Service_NextSettlement_0 ''/fulmine.v1.Service/NextSettlement''
       ''/v1/settlement/next'' (local_request_Service_NextSettlement_0 G server) ForwardResponseMessage"

definition RegisterServiceHandlerServer ::
  "('b, 'f, 'm, 'c, 'a) gw_lib \<Rightarrow> (string \<Rightarrow> string \<times> bool) \<Rightarrow> ('c, 'm, 'a, 's) rpc \<Rightarrow> ('b, 'a, 's) gw_route list" where
  "RegisterServiceHandlerServer G mux server =
     [local_route_Service_GetAddress_0 G mux server,
      local_route_Service_GetBalance_0 G mux server,
      local_route_Service_GetInfo_0 G mux server,
      local_route_Service_GetOnboardAddress_0 G mux server,
      local_route_Service_GetTransactionHistory_0 G mux server,
      local_route_Service_RedeemNote_0 G mux server,
      local_route_Service_Settle_0 G mux server,
      local_route_Service_SendOffChain_0 G mux server,
      local_route_Service_SendOnChain_0 G mux server,
      local_route_Service_SignTransaction_0 G mux server,
      local_route_Service_CreateVHTLC_0 G mux server,
      local_route_Service_ClaimVHTLC_0 G mux server,
      local_route_Service_RefundVHTLCWithoutReceiver_0 G mux server,
      local_route_Service_ListVHTLC_0 G mux server,
      local_route_Service_ListVHTLCs_0 G mux server,
      local_route_Service_GetVHTLCSpendingTx_0 G mux server,
      local_route_Service_GetVirtualTxs_0 G mux server,
      local_route_Service_GetVtxos_0 G mux server,
      local_route_Service_NextSettlement_0 G mux server]"

end
