(* ===== verification/WalletGateway.thy ===== *)
theory WalletGateway
  imports Gateway
begin

text \<open>
  The requests of the other services of the API: \<open>wallet.pb.gw.go\<close> and \<open>notification.pb.gw.go\<close> of
  \<open>fulmine/v1\<close>, \<open>delegate.pb.gw.go\<close> and \<open>admin.pb.gw.go\<close> of \<open>delegate/v1\<close>.
\<close>

section \<open>The requests of \<open>WalletService\<close>\<close>

definition request_WalletService_GenSeed_0 ::
  "('b, 'f, 'm, 'c, 'a) gw_lib \<Rightarrow> ('c, 'm, 'a, 's) client \<Rightarrow> ('b, 'c, 'a, 's) request_fn" where
  "request_WalletService_GenSeed_0 G client =
     unary_call (Invoke client) (full_method (WalletService, ''GenSeed''))
       (no_arguments G ''GenSeedRequest'')"

definition request_WalletService_CreateWallet_0 ::
  "('b, 'f, 'm, 'c, 'a) gw_lib \<Rightarrow> ('c, 'm, 'a, 's) client \<Rightarrow> ('b, 'c, 'a, 's) request_fn" where
  "request_WalletService_CreateWallet_0 G client =
     unary_call (Invoke client) (full_method (WalletService, ''CreateWallet''))
       (json_body G ''CreateWalletRequest'')"

definition request_WalletService_Unlock_0 ::
  "('b, 'f, 'm, 'c, 'a) gw_lib \<Rightarrow> ('c, 'm, 'a, 's) client \<Rightarrow> ('b, 'c, 'a, 's) request_fn" where
  "request_WalletService_Unlock_0 G client =
     unary_call (Invoke client) (full_method (WalletService, ''Unlock''))
       (json_body G ''UnlockRequest'')"

definition request_WalletService_Lock_0 ::
  "('b, 'f, 'm, 'c, 'a) gw_lib \<Rightarrow> ('c, 'm, 'a, 's) client \<Rightarrow> ('b, 'c, 'a, 's) request_fn" where
  "request_WalletService_Lock_0 G client =
     unary_call (Invoke client) (full_method (WalletService, ''Lock''))
       (json_body G ''LockRequest'')"

definition request_WalletService_ChangePassword_0 ::
  "('b, 'f, 'm, 'c, 'a) gw_lib \<Rightarrow> ('c, 'm, 'a, 's) client \<Rightarrow> ('b, 'c, 'a, 's) request_fn" where
  "request_WalletService_ChangePassword_0 G client =
     unary_call (Invoke client) (full_method (WalletService, ''ChangePassword''))
       (json_body G ''ChangePasswordRequest'')"

definition request_WalletService_RestoreWallet_0 ::
  "('b, 'f, 'm, 'c, 'a) gw_lib \<Rightarrow> ('c, 'm, 'a, 's) client \<Rightarrow> ('b, 'c, 'a, 's) request_fn" where
  "request_WalletService_RestoreWallet_0 G client =
     stream_call G (NewStream client) (full_method (WalletService, ''RestoreWallet''))
       (json_body G ''RestoreWalletRequest'')"

definition request_WalletService_Status_0 ::
  "('b, 'f, 'm, 'c, 'a) gw_lib \<Rightarrow> ('c, 'm, 'a, 's) client \<Rightarrow> ('b, 'c, 'a, 's) request_fn" where
  "request_WalletService_Status_0 G client =
     unary_call (Invoke client) (full_method (WalletService, ''Status''))
       (no_arguments G ''StatusRequest'')"

definition request_WalletService_Auth_0 ::
  "('b, 'f, 'm, 'c, 'a) gw_lib \<Rightarrow> ('c, 'm, 'a, 's) client \<Rightarrow> ('b, 'c, 'a, 's) request_fn" where
  "request_WalletService_Auth_0 G client =
     unary_call (Invoke client) (full_method (WalletService, ''Auth''))
       (json_body G ''AuthRequest'')"

definition request_WalletService_GetPubKey_0 ::
  "('b, 'f, 'm, 'c, 'a) gw_lib \<Rightarrow> ('c, 'm, 'a, 's) client \<Rightarrow> ('b, 'c, 'a, 's) request_fn" where
  "request_WalletService_GetPubKey_0 G client =
     unary_call (Invoke client) (full_method (WalletService, ''GetPubKey''))
       (path_argument (Uint64_param G) ''key_index'' GetPubKeyRequest)"

section \<open>The same on the server itself\<close>

definition local_request_WalletService_GenSeed_0 ::
  "('b, 'f, 'm, 'c, 'a) gw_lib \<Rightarrow> ('c, 'm, 'a, 's) rpc \<Rightarrow> ('b, 'c, 'a, 's) request_fn" where
  "local_request_WalletService_GenSeed_0 G server =
     unary_call server (full_method (WalletService, ''GenSeed''))
       (no_arguments G ''GenSeedRequest'')"

definition local_request_WalletService_CreateWallet_0 ::
  "('b, 'f, 'm, 'c, 'a) gw_lib \<Rightarrow> ('c, 'm, 'a, 's) rpc \<Rightarrow> ('b, 'c, 'a, 's) request_fn" where
  "local_request_WalletService_CreateWallet_0 G server =
     unary_call server (full_method (WalletService, ''CreateWallet''))
       (json_body G ''CreateWalletRequest'')"

definition local_request_WalletService_Unlock_0 ::
  "('b, 'f, 'm, 'c, 'a) gw_lib \<Rightarrow> ('c, 'm, 'a, 's) rpc \<Rightarrow> ('b, 'c, 'a, 's) request_fn" where
  "local_request_WalletService_Unlock_0 G server =
     unary_call server (full_method (WalletService, ''Unlock''))
       (json_body G ''UnlockRequest'')"

definition local_request_WalletService_Lock_0 ::
  "('b, 'f, 'm, 'c, 'a) gw_lib \<Rightarrow> ('c, 'm, 'a, 's) rpc \<Rightarrow> ('b, 'c, 'a, 's) request_fn" where
  "local_request_WalletService_Lock_0 G server =
     unary_call server (full_method (WalletService, ''Lock''))
       (json_body G ''LockRequest'')"

definition local_request_WalletService_ChangePassword_0 ::
  "('b, 'f, 'm, 'c, 'a) gw_lib \<Rightarrow> ('c, 'm, 'a, 's) rpc \<Rightarrow> ('b, 'c, 'a, 's) request_fn" where
  "local_request_WalletService_ChangePassword_0 G server =
     unary_call server (full_method (WalletService, ''ChangePassword''))
       (json_body G ''ChangePasswordRequest'')"

definition local_request_WalletService_Status_0 ::
  "('b, 'f, 'm, 'c, 'a) gw_lib \<Rightarrow> ('c, 'm, 'a, 's) rpc \<Rightarrow> ('b, 'c, 'a, 's) request_fn" where
  "local_request_WalletService_Status_0 G server =
     unary_call server (full_method (WalletService, ''Status''))
       (no_arguments G ''StatusRequest'')"

definition local_request_WalletService_Auth_0 ::
  "('b, 'f, 'm, 'c, 'a) gw_lib \<Rightarrow> ('c, 'm, 'a, 's) rpc \<Rightarrow> ('b, 'c, 'a, 's) request_fn" where
  "local_request_WalletService_Auth_0 G server =
     unary_call server (full_method (WalletService, ''Auth''))
       (json_body G ''AuthRequest'')"

definition local_request_WalletService_GetPubKey_0 ::
  "('b, 'f, 'm, 'c, 'a) gw_lib \<Rightarrow> ('c, 'm, 'a, 's) rpc \<Rightarrow> ('b, 'c, 'a, 's) request_fn" where
  "local_request_WalletService_GetPubKey_0 G server =
     unary_call server (full_method (WalletService, ''GetPubKey''))
       (path_argument (Uint64_param G) ''key_index'' GetPubKeyRequest)"

section \<open>The requests of \<open>NotificationService\<close>\<close>

definition request_NotificationService_SubscribeForAddresses_0 ::
  "('b, 'f, 'm, 'c, 'a) gw_lib \<Rightarrow> ('c, 'm, 'a, 's) client \<Rightarrow> ('b, 'c, 'a, 's) request_fn" where
  "request_NotificationService_SubscribeForAddresses_0 G client =
     unary_call (Invoke client) (full_method (NotificationService, ''SubscribeForAddresses''))
       (json_body G ''SubscribeForAddressesRequest'')"

definition request_NotificationService_UnsubscribeForAddresses_0 ::
  "('b, 'f, 'm, 'c, 'a) gw_lib \<Rightarrow> ('c, 'm, 'a, 's) client \<Rightarrow> ('b, 'c, 'a, 's) request_fn" where
  "request_NotificationService_UnsubscribeForAddresses_0 G client =
     unary_call (Invoke client) (full_method (NotificationService, ''UnsubscribeForAddresses''))
       (json_body G ''UnsubscribeForAddressesRequest'')"

definition request_NotificationService_GetVtxoNotifications_0 ::
  "('b, 'f, 'm, 'c, 'a) gw_lib \<Rightarrow> ('c, 'm, 'a, 's) client \<Rightarrow> ('b, 'c, 'a, 's) request_fn" where
  "request_NotificationService_GetVtxoNotifications_0 G client =
     stream_call G (NewStream client) (full_method (NotificationService, ''GetVtxoNotifications''))
       (no_arguments G ''GetVtxoNotificationsRequest'')"

section \<open>The same on the server itself\<close>

definition local_request_NotificationService_SubscribeForAddresses_0 ::
  "('b, 'f, 'm, 'c, 'a) gw_lib \<Rightarrow> ('c, 'm, 'a, 's) rpc \<Rightarrow> ('b, 'c, 'a, 's) request_fn" where
  "local_request_NotificationService_SubscribeForAddresses_0 G server =
     unary_call server (full_method (NotificationService, ''SubscribeForAddresses''))
       (json_body G ''SubscribeForAddressesRequest'')"

definition local_request_NotificationService_UnsubscribeForAddresses_0 ::
  "('b, 'f, 'm, 'c, 'a) gw_lib \<Rightarrow> ('c, 'm, 'a, 's) rpc \<Rightarrow> ('b, 'c, 'a, 's) request_fn" where
  "local_request_NotificationService_UnsubscribeForAddresses_0 G server =
     unary_call server (full_method (NotificationService, ''UnsubscribeForAddresses''))
       (json_body G ''UnsubscribeForAddressesRequest'')"

section \<open>The requests of \<open>DelegateService\<close>\<close>

definition request_DelegateService_GetDelegateInfo_0 ::
  "('b, 'f, 'm, 'c, 'a) gw_lib \<Rightarrow> ('c, 'm, 'a, 's) client \<Rightarrow> ('b, 'c, 'a, 's) request_fn" where
  "request_DelegateService_GetDelegateInfo_0 G client =
     unary_call (Invoke client) (full_method (DelegateService_v1, ''GetDelegateInfo''))
       (no_arguments G ''GetDelegateInfoRequest'')"

definition request_DelegateService_GetDelegateInfo_1 ::
  "('b, 'f, 'm, 'c, 'a) gw_lib \<Rightarrow> ('c, 'm, 'a, 's) client \<Rightarrow> ('b, 'c, 'a, 's) request_fn" where
  "request_DelegateService_GetDelegateInfo_1 G client =
     unary_call (Invoke client) (full_method (DelegateService_v1, ''GetDelegateInfo''))
       (no_arguments G ''GetDelegateInfoRequest'')"

definition request_DelegateService_Delegate_0 ::
  "('b, 'f, 'm, 'c, 'a) gw_lib \<Rightarrow> ('c, 'm, 'a, 's) client \<Rightarrow> ('b, 'c, 'a, 's) request_fn" where
  "request_DelegateService_Delegate_0 G client =
     unary_call (Invoke client) (full_method (DelegateService_v1, ''Delegate''))
       (json_body G ''DelegateRequest'')"

section \<open>The same on the server itself\<close>

definition local_request_DelegateService_GetDelegateInfo_0 ::
  "('b, 'f, 'm, 'c, 'a) gw_lib \<Rightarrow> ('c, 'm, 'a, 's) rpc \<Rightarrow> ('b, 'c, 'a, 's) request_fn" where
  "local_request_DelegateService_GetDelegateInfo_0 G server =
     unary_call server (full_method (DelegateService_v1, ''GetDelegateInfo''))
       (no_arguments G ''GetDelegateInfoRequest'')"

definition local_request_DelegateService_GetDelegateInfo_1 ::
  "('b, 'f, 'm, 'c, 'a) gw_lib \<Rightarrow> ('c, 'm, 'a, 's) rpc \<Rightarrow> ('b, 'c, 'a, 's) request_fn" where
  "local_request_DelegateService_GetDelegateInfo_1 G server =
     unary_call server (full_method (DelegateService_v1, ''GetDelegateInfo''))
       (no_arguments G ''GetDelegateInfoRequest'')"

definition local_request_DelegateService_Delegate_0 ::
  "('b, 'f, 'm, 'c, 'a) gw_lib \<Rightarrow> ('c, 'm, 'a, 's) rpc \<Rightarrow> ('b, 'c, 'a, 's) request_fn" where
  "local_request_DelegateService_Delegate_0 G server =
     unary_call server (full_method (DelegateService_v1, ''Delegate''))
       (json_body G ''DelegateRequest'')"

section \<open>The requests of \<open>AdminService\<close>\<close>

definition request_AdminService_ListDelegates_0 ::
  "('b, 'f, 'm, 'c, 'a) gw_lib \<Rightarrow> ('c, 'm, 'a, 's) client \<Rightarrow> ('b, 'c, 'a, 's) request_fn" where
  "request_AdminService_ListDelegates_0 G client =
     unary_call (Invoke client) (full_method (AdminService, ''ListDelegates''))
       (query_form G ''ListDelegatesRequest'')"

section \<open>The same on the server itself\<close>

definition local_request_AdminService_ListDelegates_0 ::
  "('b, 'f, 'm, 'c, 'a) gw_lib \<Rightarrow> ('c, 'm, 'a, 's) rpc \<Rightarrow> ('b, 'c, 'a, 's) request_fn" where
  "local_request_AdminService_ListDelegates_0 G server =
     unary_call server (full_method (AdminService, ''ListDelegates''))
       (query_form G ''ListDelegatesRequest'')"

end
