(* ===== verification/WalletRoutes.thy ===== *)
theory WalletRoutes
  imports WalletGateway
begin

text \<open>
  The routes of the other services of the API.
\<close>

section \<open>The patterns of \<open>WalletService\<close>\<close>

definition pattern_WalletService_GenSeed_0 :: pattern where
  "pattern_WalletService_GenSeed_0 = (1, [2, 0, 2, 1, 2, 2], [''v1'', ''wallet'', ''genseed''], [])"

definition pattern_WalletService_CreateWallet_0 :: pattern where
  "pattern_WalletService_CreateWallet_0 = (1, [2, 0, 2, 1, 2, 2], [''v1'', ''wallet'', ''create''], [])"

definition pattern_WalletService_Unlock_0 :: pattern where
  "pattern_WalletService_Unlock_0 = (1, [2, 0, 2, 1, 2, 2], [''v1'', ''wallet'', ''unlock''], [])"

definition pattern_WalletService_Lock_0 :: pattern where
  "pattern_WalletService_Lock_0 = (1, [2, 0, 2, 1, 2, 2], [''v1'', ''wallet'', ''lock''], [])"

definition pattern_WalletService_ChangePassword_0 :: pattern where
  "pattern_WalletService_ChangePassword_0 = (1, [2, 0, 2, 1, 2, 2], [''v1'', ''password'', ''change''], [])"

definition pattern_WalletService_RestoreWallet_0 :: pattern where
  "pattern_WalletService_RestoreWallet_0 = (1, [2, 0, 2, 1, 2, 2], [''v1'', ''wallet'', ''restore''], [])"

definition pattern_WalletService_Status_0 :: pattern where
  "pattern_WalletService_Status_0 = (1, [2, 0, 2, 1, 2, 2], [''v1'', ''wallet'', ''status''], [])"

definition pattern_WalletService_Auth_0 :: pattern where
  "pattern_WalletService_Auth_0 = (1, [2, 0, 2, 1, 2, 2], [''v1'', ''wallet'', ''auth''], [])"

definition pattern_WalletService_GetPubKey_0 :: pattern where
  "pattern_WalletService_GetPubKey_0 = (1, [2, 0, 2, 1, 2, 2, 1, 0, 4, 1, 5, 3], [''v1'', ''wallet'', ''pubkey'', ''key_index''], [])"

section \<open>The routes of \<open>WalletService\<close>\<close>

definition route_WalletService_GenSeed_0 ::
  "('b, 'f, 'm, 'c, 'a) gw_lib \<Rightarrow> (string \<Rightarrow> string \<times> bool) \<Rightarrow> ('c, 'm, 'a, 's) client \<Rightarrow> ('b, 'a, 's) gw_route" where
  "route_WalletService_GenSeed_0 G mux client =
     client_route G mux ''GET'' pattern_WalletService_GenSeed_0 ''/fulmine.v1.WalletService/GenSeed''
       ''/v1/wallet/genseed'' (request_WalletService_GenSeed_0 G client) ForwardResponseMessage"

definition route_WalletService_CreateWallet_0 ::
  "('b, 'f, 'm, 'c, 'a) gw_lib \<Rightarrow> (string \<Rightarrow> string \<times> bool) \<Rightarrow> ('c, 'm, 'a, 's) client \<Rightarrow> ('b, 'a, 's) gw_route" where
  "route_WalletService_CreateWallet_0 G mux client =
     client_route G mux ''POST'' pattern_WalletService_CreateWallet_0 ''/fulmine.v1.WalletService/CreateWallet''
       ''/v1/wallet/create'' (request_WalletService_CreateWallet_0 G client) ForwardResponseMessage"

definition route_WalletService_Unlock_0 ::
  "('b, 'f, 'm, 'c, 'a) gw_lib \<Rightarrow> (string \<Rightarrow> string \<times> bool) \<Rightarrow> ('c, 'm, 'a, 's) client \<Rightarrow> ('b, 'a, 's) gw_route" where
  "route_WalletService_Unlock_0 G mux client =
     client_route G mux ''POST'' pattern_WalletService_Unlock_0 ''/fulmine.v1.WalletService/Unlock''
       ''/v1/wallet/unlock'' (request_WalletService_Unlock_0 G client) ForwardResponseMessage"

definition route_WalletService_Lock_0 ::
  "('b, 'f, 'm, 'c, 'a) gw_lib \<Rightarrow> (string \<Rightarrow> string \<times> bool) \<Rightarrow> ('c, 'm, 'a, 's) client \<Rightarrow> ('b, 'a, 's) gw_route" where
  "route_WalletService_Lock_0 G mux client =
     client_route G mux ''POST'' pattern_WalletService_Lock_0 ''/fulmine.v1.WalletService/Lock''
       ''/v1/wallet/lock'' (request_WalletService_Lock_0 G client) ForwardResponseMessage"

definition route_WalletService_ChangePassword_0 ::
  "('b, 'f, 'm, 'c, 'a) gw_lib \<Rightarrow> (string \<Rightarrow> string \<times> bool) \<Rightarrow> ('c, 'm, 'a, 's) client \<Rightarrow> ('b, 'a, 's) gw_route" where
  "route_WalletService_ChangePassword_0 G mux client =
     client_route G mux ''POST'' pattern_WalletService_ChangePassword_0 ''/fulmine.v1.WalletService/ChangePassword''
       ''/v1/password/change'' (request_WalletService_ChangePassword_0 G client) ForwardResponseMessage"

definition route_WalletService_RestoreWallet_0 ::
  "('b, 'f, 'm, 'c, 'a) gw_lib \<Rightarrow> (string \<Rightarrow> string \<times> bool) \<Rightarrow> ('c, 'm, 'a, 's) client \<Rightarrow> ('b, 'a, 's) gw_route" where
  "route_WalletService_RestoreWallet_0 G mux client =
     client_route G mux ''POST'' pattern_WalletService_RestoreWallet_0 ''/fulmine.v1.WalletService/RestoreWallet''
       ''/v1/wallet/restore'' (request_WalletService_RestoreWallet_0 G client) ForwardResponseStream"

definition route_WalletService_Status_0 ::
  "('b, 'f, 'm, 'c, 'a) gw_lib \<Rightarrow> (string \<Rightarrow> string \<times> bool) \<Rightarrow> ('c, 'm, 'a, 's) client \<Rightarrow> ('b, 'a, 's) gw_route" where
  "route_WalletService_Status_0 G mux client =
     client_route G mux ''GET'' pattern_WalletService_Status_0 ''/fulmine.v1.WalletService/Status''
       ''/v1/wallet/status'' (request_WalletService_Status_0 G client) ForwardResponseMessage"

definition route_WalletService_Auth_0 ::
  "('b, 'f, 'm, 'c, 'a) gw_lib \<Rightarrow> (string \<Rightarrow> string \<times> bool) \<Rightarrow> ('c, 'm, 'a, 's) client \<Rightarrow> ('b, 'a, 's) gw_route" where
  "route_WalletService_Auth_0 G mux client =
     client_route G mux ''POST'' pattern_WalletService_Auth_0 ''/fulmine.v1.WalletService/Auth''
       ''/v1/wallet/auth'' (request_WalletService_Auth_0 G client) ForwardResponseMessage"

definition route_WalletService_GetPubKey_0 ::
  "('b, 'f, 'm, 'c, 'a) gw_lib \<Rightarrow> (string \<Rightarrow> string \<times> bool) \<Rightarrow> ('c, 'm, 'a, 's) client \<Rightarrow> ('b, 'a, 's) gw_route" where
  "route_WalletService_GetPubKey_0 G mux client =
     client_route G mux ''GET'' pattern_WalletService_GetPubKey_0 ''/fulmine.v1.WalletService/GetPubKey''
       ''/v1/wallet/pubkey/{key_index}'' (request_WalletService_GetPubKey_0 G client) ForwardResponseMessage"

definition RegisterWalletServiceHandlerClient ::
  "('b, 'f, 'm, 'c, 'a) gw_lib \<Rightarrow> (string \<Rightarrow> string \<times> bool) \<Rightarrow> ('c, 'm, 'a, 's) client \<Rightarrow> ('b, 'a, 's) gw_route list" where
  "RegisterWalletServiceHandlerClient G mux client =
     [route_WalletService_GenSeed_0 G mux client,
      route_WalletService_CreateWallet_0 G mux client,
      route_WalletService_Unlock_0 G mux client,
      route_WalletService_Lock_0 G mux client,
      route_WalletService_ChangePassword_0 G mux client,
      route_WalletService_RestoreWallet_0 G mux client,
      route_WalletService_Status_0 G mux client,
      route_WalletService_Auth_0 G mux client,
      route_WalletService_GetPubKey_0 G mux client]"

section \<open>The routes in process\<close>

definition local_route_WalletService_GenSeed_0 ::
  "('b, 'f, 'm, 'c, 'a) gw_lib \<Rightarrow> (string \<Rightarrow> string \<times> bool) \<Rightarrow> ('c, 'm, 'a, 's) rpc \<Rightarrow> ('b, 'a, 's) gw_route" where
  "local_route_WalletService_GenSeed_0 G mux server =
     server_route G mux ''GET'' pattern_WalletService_GenSeed_0 ''/fulmine.v1.WalletService/GenSeed''
       ''/v1/wallet/genseed'' (local_request_WalletService_GenSeed_0 G server) ForwardResponseMessage"

definition local_route_WalletService_CreateWallet_0 ::
  "('b, 'f, 'm, 'c, 'a) gw_lib \<Rightarrow> (string \<Rightarrow> string \<times> bool) \<Rightarrow> ('c, 'm, 'a, 's) rpc \<Rightarrow> ('b, 'a, 's) gw_route" where
  "local_route_WalletService_CreateWallet_0 G mux server =
     server_route G mux ''POST'' pattern_WalletService_CreateWallet_0 ''/fulmine.v1.WalletService/CreateWallet''
       ''/v1/wallet/create'' (local_request_WalletService_CreateWallet_0 G server) ForwardResponseMessage"

definition local_route_WalletService_Unlock_0 ::
  "('b, 'f, 'm, 'c, 'a) gw_lib \<Rightarrow> (string \<Rightarrow> string \<times> bool) \<Rightarrow> ('c, 'm, 'a, 's) rpc \<Rightarrow> ('b, 'a, 's) gw_route" where
  "local_route_WalletService_Unlock_0 G mux server =
     server_route G mux ''POST'' pattern_WalletService_Unlock_0 ''/fulmine.v1.WalletService/Unlock''
       ''/v1/wallet/unlock'' (local_request_WalletService_Unlock_0 G server) ForwardResponseMessage"

definition local_route_WalletService_Lock_0 ::
  "('b, 'f, 'm, 'c, 'a) gw_lib \<Rightarrow> (string \<Rightarrow> string \<times> bool) \<Rightarrow> ('c, 'm, 'a, 's) rpc \<Rightarrow> ('b, 'a, 's) gw_route" where
  "local_route_WalletService_Lock_0 G mux server =
     server_route G mux ''POST'' pattern_WalletService_Lock_0 ''/fulmine.v1.WalletService/Lock''
       ''/v1/wallet/lock'' (local_request_WalletService_Lock_0 G server) ForwardResponseMessage"

definition local_route_WalletService_ChangePassword_0 ::
  "('b, 'f, 'm, 'c, 'a) gw_lib \<Rightarrow> (string \<Rightarrow> string \<times> bool) \<Rightarrow> ('c, 'm, 'a, 's) rpc \<Rightarrow> ('b, 'a, 's) gw_route" where
  "local_route_WalletService_ChangePassword_0 G mux server =
     server_route G mux ''POST'' pattern_WalletService_ChangePassword_0 ''/fulmine.v1.WalletService/ChangePassword''
       ''/v1/password/change'' (local_request_WalletService_ChangePassword_0 G server) ForwardResponseMessage"

definition local_route_WalletService_RestoreWallet_0 ::
  "('b, 'f, 'm, 'c, 'a) gw_lib \<Rightarrow> (string \<Rightarrow> string \<times> bool) \<Rightarrow> ('c, 'm, 'a, 's) rpc \<Rightarrow> ('b, 'a, 's) gw_route" where
  "local_route_WalletService_RestoreWallet_0 G mux server =
     no_stream_route ''POST'' pattern_WalletService_RestoreWallet_0"

definition local_route_WalletService_Status_0 ::
  "('b, 'f, 'm, 'c, 'a) gw_lib \<Rightarrow> (string \<Rightarrow> string \<times> bool) \<Rightarrow> ('c, 'm, 'a, 's) rpc \<Rightarrow> ('b, 'a, 's) gw_route" where
  "local_route_WalletService_Status_0 G mux server =
     server_route G mux ''GET'' pattern_WalletService_Status_0 ''/fulmine.v1.WalletService/Status''
       ''/v1/wallet/status'' (local_request_WalletService_Status_0 G server) ForwardResponseMessage"

definition local_route_WalletService_Auth_0 ::
  "('b, 'f, 'm, 'c, 'a) gw_lib \<Rightarrow> (string \<Rightarrow> string \<times> bool) \<Rightarrow> ('c, 'm, 'a, 's) rpc \<Rightarrow> ('b, 'a, 's) gw_route" where
  "local_route_WalletService_Auth_0 G mux server =
     server_route G mux ''POST'' pattern_WalletService_Auth_0 ''/fulmine.v1.WalletService/Auth''
       ''/v1/wallet/auth'' (local_request_WalletService_Auth_0 G server) ForwardResponseMessage"

definition local_route_WalletService_GetPubKey_0 ::
  "('b, 'f, 'm, 'c, 'a) gw_lib \<Rightarrow> (string \<Rightarrow> string \<times> bool) \<Rightarrow> ('c, 'm, 'a, 's) rpc \<Rightarrow> ('b, 'a, 's) gw_route" where
  "local_route_WalletService_GetPubKey_0 G mux server =
     server_route G mux ''GET'' pattern_WalletService_GetPubKey_0 ''/fulmine.v1.WalletService/GetPubKey''
       ''/v1/wallet/pubkey/{key_index}'' (local_request_WalletService_GetPubKey_0 G server) ForwardResponseMessage"

definition RegisterWalletServiceHandlerServer ::
  "('b, 'f, 'm, 'c, 'a) gw_lib \<Rightarrow> (string \<Rightarrow> string \<times> bool) \<Rightarrow> ('c, 'm, 'a, 's) rpc \<Rightarrow> ('b, 'a, 's) gw_route list" where
  "RegisterWalletServiceHandlerServer G mux server =
     [local_route_WalletService_GenSeed_0 G mux server,
      local_route_WalletService_CreateWallet_0 G mux server,
      local_route_WalletService_Unlock_0 G mux server,
      local_route_WalletService_Lock_0 G mux server,
      local_route_WalletService_ChangePassword_0 G mux server,
      local_route_WalletService_RestoreWallet_0 G mux server,
      local_route_WalletService_Status_0 G mux server,
      local_route_WalletService_Auth_0 G mux server,
      local_route_WalletService_GetPubKey_0 G mux server]"

section \<open>The patterns of \<open>NotificationService\<close>\<close>

definition pattern_NotificationService_SubscribeForAddresses_0 :: pattern where
  "pattern_NotificationService_SubscribeForAddresses_0 = (1, [2, 0, 2, 1], [''v1'', ''subscribe''], [])"

definition pattern_NotificationService_UnsubscribeForAddresses_0 :: pattern where
  "pattern_NotificationService_UnsubscribeForAddresses_0 = (1, [2, 0, 2, 1], [''v1'', ''unsubscribe''], [])"

definition pattern_NotificationService_GetVtxoNotifications_0 :: pattern where
  "pattern_NotificationService_GetVtxoNotifications_0 = (1, [2, 0, 2, 1], [''v1'', ''notifications''], [])"

section \<open>The routes of \<open>NotificationService\<close>\<close>

definition route_NotificationService_SubscribeForAddresses_0 ::
  "('b, 'f, 'm, 'c, 'a) gw_lib \<Rightarrow> (string \<Rightarrow> string \<times> bool) \<Rightarrow> ('c, 'm, 'a, 's) client \<Rightarrow> ('b, 'a, 's) gw_route" where
  "route_NotificationService_SubscribeForAddresses_0 G mux client =
     client_route G mux ''POST'' pattern_NotificationService_SubscribeForAddresses_0 ''/fulmine.v1.NotificationService/SubscribeForAddresses''
       ''/v1/subscribe'' (request_NotificationService_SubscribeForAddresses_0 G client) ForwardResponseMessage"

definition route_NotificationService_UnsubscribeForAddresses_0 ::
  "('b, 'f, 'm, 'c, 'a) gw_lib \<Rightarrow> (string \<Rightarrow> string \<times> bool) \<Rightarrow> ('c, 'm, 'a, 's) client \<Rightarrow> ('b, 'a, 's) gw_route" where
  "route_NotificationService_UnsubscribeForAddresses_0 G mux client =
     client_route G mux ''POST'' pattern_NotificationService_UnsubscribeForAddresses_0 ''/fulmine.v1.NotificationService/UnsubscribeForAddresses''
       ''/v1/unsubscribe'' (request_NotificationService_UnsubscribeForAddresses_0 G client) ForwardResponseMessage"

definition route_NotificationService_GetVtxoNotifications_0 ::
  "('b, 'f, 'm, 'c, 'a) gw_lib \<Rightarrow> (string \<Rightarrow> string \<times> bool) \<Rightarrow> ('c, 'm, 'a, 's) client \<Rightarrow> ('b, 'a, 's) gw_route" where
  "route_NotificationService_GetVtxoNotifications_0 G mux client =
     client_route G mux ''GET'' pattern_NotificationService_GetVtxoNotifications_0 ''/fulmine.v1.NotificationService/GetVtxoNotifications''
       ''/v1/notifications'' (request_NotificationService_GetVtxoNotifications_0 G client) ForwardResponseStream"

definition RegisterNotificationServiceHandlerClient ::
  "('b, 'f, 'm, 'c, 'a) gw_lib \<Rightarrow> (string \<Rightarrow> string \<times> bool) \<Rightarrow> ('c, 'm, 'a, 's) client \<Rightarrow> ('b, 'a, 's) gw_route list" where
  "RegisterNotificationServiceHandlerClient G mux client =
     [route_NotificationService_SubscribeForAddresses_0 G mux client,
      route_NotificationService_UnsubscribeForAddresses_0 G mux client,
      route_NotificationService_GetVtxoNotifications_0 G mux client]"

section \<open>The routes in process\<close>

definition local_route_NotificationService_SubscribeForAddresses_0 ::
  "('b, 'f, 'm, 'c, 'a) gw_lib \<Rightarrow> (string \<Rightarrow> string \<times> bool) \<Rightarrow> ('c, 'm, 'a, 's) rpc \<Rightarrow> ('b, 'a, 's) gw_route" where
  "local_route_NotificationService_SubscribeForAddresses_0 G mux server =
     server_route G mux ''POST'' pattern_NotificationService_SubscribeForAddresses_0 ''/fulmine.v1.NotificationService/SubscribeForAddresses''
       ''/v1/subscribe'' (local_request_NotificationService_SubscribeForAddresses_0 G server) ForwardResponseMessage"

definition local_route_NotificationService_UnsubscribeForAddresses_0 ::
  "('b, 'f, 'm, 'c, 'a) gw_lib \<Rightarrow> (string \<Rightarrow> string \<times> bool) \<Rightarrow> ('c, 'm, 'a, 's) rpc \<Rightarrow> ('b, 'a, 's) gw_route" where
  "local_route_NotificationService_UnsubscribeForAddresses_0 G mux server =
     server_route G mux ''POST'' pattern_NotificationService_UnsubscribeForAddresses_0 ''/fulmine.v1.NotificationService/UnsubscribeForAddresses''
       ''/v1/unsubscribe'' (local_request_NotificationService_UnsubscribeForAddresses_0 G server) ForwardResponseMessage"

definition local_route_NotificationService_GetVtxoNotifications_0 ::
  "('b, 'f, 'm, 'c, 'a) gw_lib \<Rightarrow> (string \<Rightarrow> string \<times> bool) \<Rightarrow> ('c, 'm, 'a, 's) rpc \<Rightarrow> ('b, 'a, 's) gw_route" where
  "local_route_NotificationService_GetVtxoNotifications_0 G mux server =
     no_stream_route ''GET'' pattern_NotificationService_GetVtxoNotifications_0"

definition RegisterNotificationServiceHandlerServer ::
  "('b, 'f, 'm, 'c, 'a) gw_lib \<Rightarrow> (string \<Rightarrow> string \<times> bool) \<Rightarrow> ('c, 'm, 'a, 's) rpc \<Rightarrow> ('b, 'a, 's) gw_route list" where
  "RegisterNotificationServiceHandlerServer G mux server =
     [local_route_NotificationService_SubscribeForAddresses_0 G mux server,
      local_route_NotificationService_UnsubscribeForAddresses_0 G mux server,
      local_route_NotificationService_GetVtxoNotifications_0 G mux server]"

section \<open>The patterns of \<open>DelegateService\<close>\<close>

definition pattern_DelegateService_GetDelegateInfo_0 :: pattern where
  "pattern_DelegateService_GetDelegateInfo_0 = (1, [2, 0, 2, 1, 2, 2], [''v1'', ''delegate'', ''info''], [])"

definition pattern_DelegateService_GetDelegateInfo_1 :: pattern where
  "pattern_DelegateService_GetDelegateInfo_1 = (1, [2, 0, 2, 1, 2, 2], [''v1'', ''delegator'', ''info''], [])"

definition pattern_DelegateService_Delegate_0 :: pattern where
  "pattern_DelegateService_Delegate_0 = (1, [2, 0, 2, 1], [''v1'', ''delegate''], [])"

section \<open>The routes of \<open>DelegateService\<close>\<close>

definition route_DelegateService_GetDelegateInfo_0 ::
  "('b, 'f, 'm, 'c, 'a) gw_lib \<Rightarrow> (string \<Rightarrow> string \<times> bool) \<Rightarrow> ('c, 'm, 'a, 's) client \<Rightarrow> ('b, 'a, 's) gw_route" where
  "route_DelegateService_GetDelegateInfo_0 G mux client =
     client_route G mux ''GET'' pattern_DelegateService_GetDelegateInfo_0 ''/delegate.v1.DelegateService/GetDelegateInfo''
       ''/v1/delegate/info'' (request_DelegateService_GetDelegateInfo_0 G client) ForwardResponseMessage"

definition route_DelegateService_GetDelegateInfo_1 ::
  "('b, 'f, 'm, 'c, 'a) gw_lib \<Rightarrow> (string \<Rightarrow> string \<times> bool) \<Rightarrow> ('c, 'm, 'a, 's) client \<Rightarrow> ('b, 'a, 's) gw_route" where
  "route_DelegateService_GetDelegateInfo_1 G mux client =
     client_route G mux ''GET'' pattern_DelegateService_GetDelegateInfo_1 ''/delegate.v1.DelegateService/GetDelegateInfo''
       ''/v1/delegator/info'' (request_DelegateService_GetDelegateInfo_1 G client) ForwardResponseMessage"

definition route_DelegateService_Delegate_0 ::
  "('b, 'f, 'm, 'c, 'a) gw_lib \<Rightarrow> (string \<Rightarrow> string \<times> bool) \<Rightarrow> ('c, 'm, 'a, 's) client \<Rightarrow> ('b, 'a, 's) gw_route" where
  "route_DelegateService_Delegate_0 G mux client =
     client_route G mux ''POST'' pattern_DelegateService_Delegate_0 ''/delegate.v1.DelegateService/Delegate''
       ''/v1/delegate'' (request_DelegateService_Delegate_0 G client) ForwardResponseMessage"

definition RegisterDelegateServiceHandlerClient ::
  "('b, 'f, 'm, 'c, 'a) gw_lib \<Rightarrow> (string \<Rightarrow> string \<times> bool) \<Rightarrow> ('c, 'm, 'a, 's) client \<Rightarrow> ('b, 'a, 's) gw_route list" where
  "RegisterDelegateServiceHandlerClient G mux client =
     [route_DelegateService_GetDelegateInfo_0 G mux client,
      route_DelegateService_GetDelegateInfo_1 G mux client,
      route_DelegateService_Delegate_0 G mux client]"

section \<open>The routes in process\<close>

definition local_route_DelegateService_GetDelegateInfo_0 ::
  "('b, 'f, 'm, 'c, 'a) gw_lib \<Rightarrow> (string \<Rightarrow> string \<times> bool) \<Rightarrow> ('c, 'm, 'a, 's) rpc \<Rightarrow> ('b, 'a, 's) gw_route" where
  "local_route_DelegateService_GetDelegateInfo_0 G mux server =
     server_route G mux ''GET'' pattern_DelegateService_GetDelegateInfo_0 ''/delegate.v1.DelegateService/GetDelegateInfo''
       ''/v1/delegate/info'' (local_request_DelegateService_GetDelegateInfo_0 G server) ForwardResponseMessage"

definition local_route_DelegateService_GetDelegateInfo_1 ::
  "('b, 'f, 'm, 'c, 'a) gw_lib \<Rightarrow> (string \<Rightarrow> string \<times> bool) \<Rightarrow> ('c, 'm, 'a, 's) rpc \<Rightarrow> ('b, 'a, 's) gw_route" where
  "local_route_DelegateService_GetDelegateInfo_1 G mux server =
     server_route G mux ''GET'' pattern_DelegateService_GetDelegateInfo_1 ''/delegate.v1.DelegateService/GetDelegateInfo''
       ''/v1/delegator/info'' (local_request_DelegateService_GetDelegateInfo_1 G server) ForwardResponseMessage"

definition local_route_DelegateService_Delegate_0 ::
  "('b, 'f, 'm, 'c, 'a) gw_lib \<Rightarrow> (string \<Rightarrow> string \<times> bool) \<Rightarrow> ('c, 'm, 'a, 's) rpc \<Rightarrow> ('b, 'a, 's) gw_route" where
  "local_route_DelegateService_Delegate_0 G mux server =
     server_route G mux ''POST'' pattern_DelegateService_Delegate_0 ''/delegate.v1.DelegateService/Delegate''
       ''/v1/delegate'' (local_request_DelegateService_Delegate_0 G server) ForwardResponseMessage"

definition RegisterDelegateServiceHandlerServer ::
  "('b, 'f, 'm, 'c, 'a) gw_lib \<Rightarrow> (string \<Rightarrow> string \<times> bool) \<Rightarrow> ('c, 'm, 'a, 's) rpc \<Rightarrow> ('b, 'a, 's) gw_route list" where
  "RegisterDelegateServiceHandlerServer G mux server =
     [local_route_DelegateService_GetDelegateInfo_0 G mux server,
      local_route_DelegateService_GetDelegateInfo_1 G mux server,
      local_route_DelegateService_Delegate_0 G mux server]"

section \<open>The patterns of \<open>AdminService\<close>\<close>

definition pattern_AdminService_ListDelegates_0 :: pattern where
  "pattern_AdminService_ListDelegates_0 = (1, [2, 0, 2, 1], [''v1'', ''delegates''], [])"

section \<open>The routes of \<open>AdminService\<close>\<close>

definition route_AdminService_ListDelegates_0 ::
  "('b, 'f, 'm, 'c, 'a) gw_lib \<Rightarrow> (string \<Rightarrow> string \<times> bool) \<Rightarrow> ('c, 'm, 'a, 's) client \<Rightarrow> ('b, 'a, 's) gw_route" where
  "route_AdminService_ListDelegates_0 G mux client =
     client_route G mux ''GET'' pattern_AdminService_ListDelegates_0 ''/delegate.v1.AdminService/ListDelegates''
       ''/v1/delegates'' (request_AdminService_ListDelegates_0 G client) ForwardResponseMessage"

definition RegisterAdminServiceHandlerClient ::
  "('b, 'f, 'm, 'c, 'a) gw_lib \<Rightarrow> (string \<Rightarrow> string \<times> bool) \<Rightarrow> ('c, 'm, 'a, 's) client \<Rightarrow> ('b, 'a, 's) gw_route list" where
  "RegisterAdminServiceHandlerClient G mux client =
     [route_AdminService_ListDelegates_0 G mux client]"

section \<open>The routes in process\<close>

definition local_route_AdminService_ListDelegates_0 ::
  "('b, 'f, 'm, 'c, 'a) gw_lib \<Rightarrow> (string \<Rightarrow> string \<times> bool) \<Rightarrow> ('c, 'm, 'a, 's) rpc \<Rightarrow> ('b, 'a, 's) gw_route" where
  "local_route_AdminService_ListDelegates_0 G mux server =
     server_route G mux ''GET'' pattern_AdminService_ListDelegates_0 ''/delegate.v1.AdminService/ListDelegates''
       ''/v1/delegates'' (local_request_AdminService_ListDelegates_0 G server) ForwardResponseMessage"

definition RegisterAdminServiceHandlerServer ::
  "('b, 'f, 'm, 'c, 'a) gw_lib \<Rightarrow> (string \<Rightarrow> string \<times> bool) \<Rightarrow> ('c, 'm, 'a, 's) rpc \<Rightarrow> ('b, 'a, 's) gw_route list" where
  "RegisterAdminServiceHandlerServer G mux server =
     [local_route_AdminService_ListDelegates_0 G mux server]"

end
