(* ===== verification/RestApi.thy ===== *)
theory RestApi
  imports ServiceRoutes WalletRoutes Server
begin

text \<open>
  The servers that \<open>NewService\<close> of \<open>interface/grpc/service.go\<close> builds: the gRPC server behind the macaroon
  interceptors, the REST gateway that calls it as a client, the HTTP server that tells the gateway
  from the web interface, and the delegate's port with a gRPC server and a gateway of its own and no
  macaroons.

  The loggers and the error reporting in front of the handlers change no answer and are left out
  (\<open>Redact\<close> has the log). A path is clean, as \<open>net/http\<close> makes it before it looks for a handler. Which route a gateway chooses
  is \<open>dispatch\<close>, the mux of grpc-gateway over the verbs and patterns in the order they were
  registered.
\<close>

section \<open>The gRPC servers\<close>

type_synonym metadata = "(string \<times> string) list"

definition MacaroonStreamAuthInterceptor ::
  "('k, 'r) mac_lib \<Rightarrow> 'k macaroonSvc option \<Rightarrow> 'r \<Rightarrow> string \<Rightarrow> ('s \<Rightarrow> 'a reply \<times> 's) \<Rightarrow> 's \<Rightarrow> 'a reply \<times> 's" where
  "MacaroonStreamAuthInterceptor B svc hdr method handler s =
     (case streamMacaroonAuth B svc hdr method (\<lambda>_. None) of
        Some e \<Rightarrow> (Fail (Unknown_code, e), s)
      | None \<Rightarrow> handler s)"

text \<open>\<open>srv\<close> are the methods of the handlers, \<open>unknown\<close> the text of gRPC for a method nobody registered.\<close>

definition main_conn ::
  "('k, metadata) mac_lib \<Rightarrow> 'k macaroonSvc option \<Rightarrow> (string \<Rightarrow> string) \<Rightarrow> (metadata, 'm, 'a, 's) rpc \<Rightarrow>
     (metadata, 'm, 'a, 's) client" where
  "main_conn B svc unknown srv =
     \<lparr>Invoke = \<lambda>x ctx msg s.
        if x \<in> set registered_methods then MacaroonAuthInterceptor B svc ctx x (srv x ctx msg) s
        else (Fail (Unimplemented, unknown x), s),
      NewStream = \<lambda>x ctx msg s.
        if x \<in> set registered_methods then MacaroonStreamAuthInterceptor B svc ctx x (srv x ctx msg) s
        else (Fail (Unimplemented, unknown x), s)\<rparr>"

definition delegate_methods :: "string list" where
  "delegate_methods = map (\<lambda>m. full_method (DelegateService_v1, m)) [''GetDelegateInfo'', ''Delegate'']"

definition delegate_conn :: "(string \<Rightarrow> string) \<Rightarrow> ('c, 'm, 'a, 's) rpc \<Rightarrow> ('c, 'm, 'a, 's) client" where
  "delegate_conn unknown srv =
     \<lparr>Invoke = \<lambda>x ctx msg s. if x \<in> set delegate_methods then srv x ctx msg s else (Fail (Unimplemented, unknown x), s),
      NewStream = \<lambda>x ctx msg s. if x \<in> set delegate_methods then srv x ctx msg s else (Fail (Unimplemented, unknown x), s)\<rparr>"

section \<open>The gateways\<close>

definition authHeaderMatcher :: "string \<Rightarrow> string \<times> bool" where
  "authHeaderMatcher key = (if key = ''X-Macaroon'' then (''macaroon'', True) else (key, False))"

text \<open>The handler of \<open>GET /healthz\<close> calls the server with the context of the request, which carries no
  metadata; \<open>health_of\<close> reads the status off the answer. It replaces the library's own health endpoint, which
  was registered before it.\<close>

definition healthz_route ::
  "pattern \<Rightarrow> ('a \<Rightarrow> health) \<Rightarrow> (metadata, 'm, 'a, 's) client \<Rightarrow> ('b, 'a, 's) gw_route" where
  "healthz_route pattern health_of client =
     \<lparr>Route_Verb = ''GET'', Route_Pattern = pattern, Route_Rpc = None,
      Route_Handle = \<lambda>req pathParams s.
        case Invoke client (full_method (Health, ''Check'')) [] (HealthCheckRequest ''fulmine'') s of
          (Reply resp, s') \<Rightarrow> (HTTPStatus (healthz (Inr (health_of resp))), s')
        | (Fail (_, e), s') \<Rightarrow> (HTTPStatus (healthz (Inl e)), s')
        | (Panic, s') \<Rightarrow> (Aborted, s')\<rparr>"

definition api_routes ::
  "('b, 'f, 'm, metadata, 'a) gw_lib \<Rightarrow> (metadata, 'm, 'a, 's) client \<Rightarrow> ('b, 'a, 's) gw_route list" where
  "api_routes G conn =
     RegisterServiceHandlerClient G authHeaderMatcher conn
     @ RegisterWalletServiceHandlerClient G authHeaderMatcher conn
     @ RegisterNotificationServiceHandlerClient G authHeaderMatcher conn"

text \<open>\<open>/healthz\<close> is compiled by the library; \<open>health_pattern\<close> is what it becomes.\<close>

definition main_routes ::
  "('b, 'f, 'm, metadata, 'a) gw_lib \<Rightarrow> pattern \<Rightarrow> ('a \<Rightarrow> health) \<Rightarrow> (metadata, 'm, 'a, 's) client \<Rightarrow>
     ('b, 'a, 's) gw_route list" where
  "main_routes G health_pattern health_of conn = healthz_route health_pattern health_of conn # api_routes G conn"

definition delegate_routes ::
  "('b, 'f, 'm, 'c, 'a) gw_lib \<Rightarrow> ('c, 'm, 'a, 's) client \<Rightarrow> ('b, 'a, 's) gw_route list" where
  "delegate_routes G conn = RegisterDelegateServiceHandlerClient G authHeaderMatcher conn"

type_synonym 'b dispatch = "(string \<times> pattern) list \<Rightarrow> 'b http_request \<Rightarrow> (nat \<times> path_params) option"

definition gwmux_ServeHTTP ::
  "'b dispatch \<Rightarrow> ('b, 'a, 's) gw_route list \<Rightarrow> 'b http_request \<Rightarrow> 's \<Rightarrow> 'a http_reply \<times> 's" where
  "gwmux_ServeHTTP D routes req s =
     (case D (map (\<lambda>r. (Route_Verb r, Route_Pattern r)) routes) req of
        None \<Rightarrow> (NoRoute, s)
      | Some (i, pathParams) \<Rightarrow> Route_Handle (routes ! i) req pathParams s)"

section \<open>The HTTP servers\<close>

text \<open>The mux of the main server: a pattern that ends in a slash takes everything below it, the longest
  one wins, and its root without the slash is redirected to it.\<close>

datatype mux_target = ToFrontend | ToApi string | ToSlash string

definition main_mux :: "string \<Rightarrow> mux_target" where
  "main_mux path =
     (if has_prefix ''/api/'' path then ToApi (drop (length ''/api'') path)
      else if path = ''/api'' \<or> path = ''/static'' then ToSlash (path @ ''/'')
      else ToFrontend)"

datatype ('w, 'a) main_reply = FrontendReply 'w | ApiReply "'a http_reply" | RedirectTo string

definition main_ServeHTTP ::
  "('b http_request \<Rightarrow> 's \<Rightarrow> 'w \<times> 's) \<Rightarrow> 'b dispatch \<Rightarrow> ('b, 'a, 's) gw_route list \<Rightarrow> 'b http_request \<Rightarrow> 's \<Rightarrow>
     ('w, 'a) main_reply \<times> 's" where
  "main_ServeHTTP feHandler D routes req s =
     (case main_mux (HR_Path req) of
        ToFrontend \<Rightarrow> map_prod FrontendReply id (feHandler req s)
      | ToSlash path \<Rightarrow> (RedirectTo path, s)
      | ToApi path \<Rightarrow> map_prod ApiReply id (gwmux_ServeHTTP D routes (req\<lparr>HR_Path := path\<rparr>) s))"

text \<open>On the delegate's port the router sends a request to the gateway or to the gRPC server itself, which
  decodes it (\<open>as_grpc\<close>) into a method, a context and a message.\<close>

datatype 'a delegate_reply = PreflightReply | GatewayReply "'a http_reply" | GrpcReply "'a reply" | NotGrpc

definition content_type :: "'b http_request \<Rightarrow> string" where
  "content_type req = (case map_of (HR_Header req) ''Content-Type'' of Some (v # _) \<Rightarrow> v | _ \<Rightarrow> [])"

definition delegate_ServeHTTP ::
  "'b dispatch \<Rightarrow> ('b, 'a, 's) gw_route list \<Rightarrow> ('b http_request \<Rightarrow> (string \<times> 'c \<times> 'm message) option) \<Rightarrow>
     ('c, 'm, 'a, 's) client \<Rightarrow> 'b http_request \<Rightarrow> 's \<Rightarrow> 'a delegate_reply \<times> 's" where
  "delegate_ServeHTTP D routes as_grpc grpcServer req s =
     (case router (HR_Method req) (content_type req) of
        Preflight \<Rightarrow> (PreflightReply, s)
      | ToGateway \<Rightarrow> map_prod GatewayReply id (gwmux_ServeHTTP D routes req s)
      | ToGrpc \<Rightarrow>
          (case as_grpc req of
             None \<Rightarrow> (NotGrpc, s)
           | Some (x, ctx, msg) \<Rightarrow> map_prod GrpcReply id (Invoke grpcServer x ctx msg s)))"

text \<open>
  The servers \<open>NewService\<close> builds from the services of the daemon: the connection to the gRPC server, the
  handler of the HTTP server, and the handler of the delegate's port if there is a delegate service.
  \<open>connect\<close> and \<open>connectDelegate\<close> are what \<open>grpc.NewClient\<close> answers for the two gateways.
\<close>

definition new_servers ::
  "err \<Rightarrow> err \<Rightarrow> ('b http_request \<Rightarrow> 's \<Rightarrow> 'w \<times> 's) \<Rightarrow> 'b dispatch \<Rightarrow> ('b, 'f, 'm, metadata, 'a) gw_lib \<Rightarrow> pattern \<Rightarrow>
     ('a \<Rightarrow> health) \<Rightarrow> ('b http_request \<Rightarrow> (string \<times> metadata \<times> 'm message) option) \<Rightarrow> (string \<Rightarrow> string) \<Rightarrow>
     ('k, metadata) mac_lib \<Rightarrow> 'k macaroonSvc option \<Rightarrow> (metadata, 'm, 'a, 's) rpc \<Rightarrow> (metadata, 'm, 'a, 's) rpc option \<Rightarrow>
     string + (metadata, 'm, 'a, 's) client \<times> ('b http_request \<Rightarrow> 's \<Rightarrow> ('w, 'a) main_reply \<times> 's)
       \<times> ('b http_request \<Rightarrow> 's \<Rightarrow> 'a delegate_reply \<times> 's) option" where
  "new_servers connect connectDelegate feHandler D G health_pattern health_of as_grpc unknown B macaroonSvc srv delegateSvc =
     (case connect of
        Some e \<Rightarrow> Inl e
      | None \<Rightarrow>
          (let conn = main_conn B macaroonSvc unknown srv;
               http = main_ServeHTTP feHandler D (main_routes G health_pattern health_of conn)
           in case delegateSvc of
                None \<Rightarrow> Inr (conn, http, None)
              | Some handler \<Rightarrow>
                  (case connectDelegate of
                     Some e \<Rightarrow> Inl e
                   | None \<Rightarrow>
                       (let delegateConn = delegate_conn unknown handler
                        in Inr (conn, http, Some (delegate_ServeHTTP D (delegate_routes G delegateConn) as_grpc delegateConn))))))"

lemma new_servers_main:
  "new_servers c cd fe D G hp h g u B m srv d = Inr (conn, http, dhttp) \<Longrightarrow>
     conn = main_conn B m u srv \<and> http = main_ServeHTTP fe D (main_routes G hp h conn)"
  by (auto simp: new_servers_def Let_def split: option.splits)

lemma new_servers_delegate:
  "new_servers c cd fe D G hp h g u B m srv d = Inr (conn, http, Some dhttp) \<Longrightarrow>
     \<exists>dsrv. d = Some dsrv \<and> dhttp = delegate_ServeHTTP D (delegate_routes G (delegate_conn u dsrv)) g (delegate_conn u dsrv)"
  by (auto simp: new_servers_def Let_def split: option.splits)

section \<open>The routes\<close>

lemmas service_requests =
  request_Service_GetAddress_0_def request_Service_GetBalance_0_def request_Service_GetInfo_0_def
  request_Service_GetOnboardAddress_0_def request_Service_GetTransactionHistory_0_def request_Service_RedeemNote_0_def
  request_Service_Settle_0_def request_Service_SendOffChain_0_def request_Service_SendOnChain_0_def
  request_Service_SignTransaction_0_def request_Service_CreateVHTLC_0_def request_Service_ClaimVHTLC_0_def
  request_Service_RefundVHTLCWithoutReceiver_0_def request_Service_ListVHTLC_0_def request_Service_ListVHTLCs_0_def
  request_Service_GetVHTLCSpendingTx_0_def request_Service_GetVirtualTxs_0_def request_Service_GetVtxos_0_def
  request_Service_NextSettlement_0_def

lemmas service_routes =
  route_Service_GetAddress_0_def route_Service_GetBalance_0_def route_Service_GetInfo_0_def
  route_Service_GetOnboardAddress_0_def route_Service_GetTransactionHistory_0_def route_Service_RedeemNote_0_def
  route_Service_Settle_0_def route_Service_SendOffChain_0_def route_Service_SendOnChain_0_def
  route_Service_SignTransaction_0_def route_Service_CreateVHTLC_0_def route_Service_ClaimVHTLC_0_def
  route_Service_RefundVHTLCWithoutReceiver_0_def route_Service_ListVHTLC_0_def route_Service_ListVHTLCs_0_def
  route_Service_GetVHTLCSpendingTx_0_def route_Service_GetVirtualTxs_0_def route_Service_GetVtxos_0_def
  route_Service_NextSettlement_0_def

lemmas wallet_requests =
  request_WalletService_GenSeed_0_def request_WalletService_CreateWallet_0_def request_WalletService_Unlock_0_def
  request_WalletService_Lock_0_def request_WalletService_ChangePassword_0_def request_WalletService_RestoreWallet_0_def
  request_WalletService_Status_0_def request_WalletService_Auth_0_def request_WalletService_GetPubKey_0_def
  request_NotificationService_SubscribeForAddresses_0_def request_NotificationService_UnsubscribeForAddresses_0_def
  request_NotificationService_GetVtxoNotifications_0_def

lemmas wallet_routes =
  route_WalletService_GenSeed_0_def route_WalletService_CreateWallet_0_def route_WalletService_Unlock_0_def
  route_WalletService_Lock_0_def route_WalletService_ChangePassword_0_def route_WalletService_RestoreWallet_0_def
  route_WalletService_Status_0_def route_WalletService_Auth_0_def route_WalletService_GetPubKey_0_def
  route_NotificationService_SubscribeForAddresses_0_def route_NotificationService_UnsubscribeForAddresses_0_def
  route_NotificationService_GetVtxoNotifications_0_def

lemmas delegate_requests =
  request_DelegateService_GetDelegateInfo_0_def request_DelegateService_GetDelegateInfo_1_def
  request_DelegateService_Delegate_0_def

lemmas delegate_route_defs =
  route_DelegateService_GetDelegateInfo_0_def route_DelegateService_GetDelegateInfo_1_def
  route_DelegateService_Delegate_0_def

text \<open>A route announces a method, and its handler calls that method and no other.\<close>

definition route_calls ::
  "('b, 'f, 'm, 'c, 'a) gw_lib \<Rightarrow> ('c, 'm, 'a, 's) client \<Rightarrow> ('b, 'a, 's) gw_route \<Rightarrow> bool" where
  "route_calls G C r \<longleftrightarrow>
     (\<exists>x tmpl f forward. Route_Rpc r = Some (x, tmpl) \<and>
        Route_Handle r = client_handler G authHeaderMatcher x tmpl f forward \<and> calls_method G C x f)"

lemma client_route_calls:
  "calls_method G C x f \<Longrightarrow> route_calls G C (client_route G authHeaderMatcher verb pat x tmpl f forward)"
  unfolding route_calls_def client_route_def gw_route.select_convs by blast

lemma service_names:
  "full_method (Service_v1, n) = ''/fulmine.v1.Service/'' @ n"
  "full_method (WalletService, n) = ''/fulmine.v1.WalletService/'' @ n"
  "full_method (NotificationService, n) = ''/fulmine.v1.NotificationService/'' @ n"
  "full_method (DelegateService_v1, n) = ''/delegate.v1.DelegateService/'' @ n"
  by (simp_all add: full_method_def Service_v1_def WalletService_def NotificationService_def DelegateService_v1_def)

lemma service_routes_call: "list_all (route_calls G C) (RegisterServiceHandlerClient G authHeaderMatcher C)"
  unfolding RegisterServiceHandlerClient_def list.pred_inject service_routes service_requests service_names append.simps
  by (intro conjI list.pred_inject(1) client_route_calls calling)

lemma wallet_routes_call:
  "list_all (route_calls G C) (RegisterWalletServiceHandlerClient G authHeaderMatcher C)"
  unfolding RegisterWalletServiceHandlerClient_def list.pred_inject wallet_routes wallet_requests service_names append.simps
  by (intro conjI list.pred_inject(1) client_route_calls calling)

lemma notification_routes_call:
  "list_all (route_calls G C) (RegisterNotificationServiceHandlerClient G authHeaderMatcher C)"
  unfolding RegisterNotificationServiceHandlerClient_def list.pred_inject wallet_routes wallet_requests service_names append.simps
  by (intro conjI list.pred_inject(1) client_route_calls calling)

lemma delegate_routes_call: "list_all (route_calls G C) (delegate_routes G C)"
  unfolding delegate_routes_def RegisterDelegateServiceHandlerClient_def
    list.pred_inject delegate_route_defs delegate_requests service_names append.simps
  by (intro conjI list.pred_inject(1) client_route_calls calling)

lemma api_routes_call: "list_all (route_calls G C) (api_routes G C)"
  by (simp add: api_routes_def service_routes_call wallet_routes_call notification_routes_call)

definition method_of :: "('b, 'a, 's) gw_route \<Rightarrow> string" where
  "method_of r = (case Route_Rpc r of Some (x, tmpl) \<Rightarrow> x | None \<Rightarrow> [])"

text \<open>The methods of the API's routes, in the order of their registration.\<close>

definition api_methods :: "string list" where
  "api_methods =
     map (\<lambda>m. full_method (Service_v1, m))
       [''GetAddress'', ''GetBalance'', ''GetInfo'', ''GetOnboardAddress'', ''GetTransactionHistory'', ''RedeemNote'',
        ''Settle'', ''SendOffChain'', ''SendOnChain'', ''SignTransaction'', ''CreateVHTLC'', ''ClaimVHTLC'',
        ''RefundVHTLCWithoutReceiver'', ''ListVHTLC'', ''ListVHTLCs'', ''GetVHTLCSpendingTx'', ''GetVirtualTxs'',
        ''GetVtxos'', ''NextSettlement'']
     @ map (\<lambda>m. full_method (WalletService, m))
       [''GenSeed'', ''CreateWallet'', ''Unlock'', ''Lock'', ''ChangePassword'', ''RestoreWallet'', ''Status'', ''Auth'',
        ''GetPubKey'']
     @ map (\<lambda>m. full_method (NotificationService, m))
       [''SubscribeForAddresses'', ''UnsubscribeForAddresses'', ''GetVtxoNotifications'']"

lemma api_routes_methods: "map method_of (api_routes G C) = api_methods"
  unfolding api_routes_def RegisterServiceHandlerClient_def RegisterWalletServiceHandlerClient_def
    RegisterNotificationServiceHandlerClient_def service_routes wallet_routes
  by (simp add: method_of_def client_route_def api_methods_def service_names)

end
