(* ===== verification/RestProps.thy ===== *)
theory RestProps
  imports RestApi
begin

text \<open>
  What the servers of \<open>RestApi\<close> let through: which calls reach a handler of the main server, what the
  routes of its gateway cover, and what the delegate's port serves.
\<close>

section \<open>Calls behind the macaroons\<close>

text \<open>\<open>conn\<close> is reached over the gRPC port, as a call or as a stream, and over HTTP.\<close>

datatype ('b, 'm) main_entry =
    OverGrpc string metadata "'m message"
  | OverGrpcStream string metadata "'m message"
  | OverHttp "'b http_request"

datatype ('w, 'a) entry_reply = GrpcPort "'a reply" | HttpPort "('w, 'a) main_reply"

definition main_serve ::
  "(metadata, 'm, 'a, 's) client \<Rightarrow> ('b http_request \<Rightarrow> 's \<Rightarrow> ('w, 'a) main_reply \<times> 's) \<Rightarrow> ('b, 'm) main_entry \<Rightarrow> 's \<Rightarrow>
     ('w, 'a) entry_reply \<times> 's" where
  "main_serve conn http entry s =
     (case entry of
        OverGrpc x ctx msg \<Rightarrow> map_prod GrpcPort id (Invoke conn x ctx msg s)
      | OverGrpcStream x ctx msg \<Rightarrow> map_prod GrpcPort id (NewStream conn x ctx msg s)
      | OverHttp req \<Rightarrow> map_prod HttpPort id (http req s))"

text \<open>
  What is relied on. The mux of grpc-gateway chooses a route that was registered. The context of a
  call has, under a name that is not one of the library's own, only values of headers that the
  matcher lets through under that name. The macaroon library accepts no context without a macaroon.
\<close>

definition dispatches_registered :: "'b dispatch \<Rightarrow> bool" where
  "dispatches_registered D \<longleftrightarrow> (\<forall>rs req i ps. D rs req = Some (i, ps) \<longrightarrow> i < length rs)"

definition forwards_matched :: "(string \<Rightarrow> bool) \<Rightarrow> ('b, 'f, 'm, metadata, 'a) gw_lib \<Rightarrow> bool" where
  "forwards_matched own G \<longleftrightarrow>
     (\<forall>req x tmpl ctx k v. AnnotateContext G authHeaderMatcher req x tmpl = Inr ctx \<longrightarrow> (k, v) \<in> set ctx \<longrightarrow>
        own k \<or> (\<exists>key vs. (key, vs) \<in> set (HR_Header req) \<and> v \<in> set vs \<and> authHeaderMatcher key = (k, True)))"

definition reads_macaroon :: "('k, metadata) mac_lib \<Rightarrow> bool" where
  "reads_macaroon B \<longleftrightarrow>
     (\<forall>k ctx perms x. ValidateMacaroon B k ctx perms x = None \<longrightarrow> ''macaroon'' \<in> fst ` set ctx)"

text \<open>A handler answers an error, or it makes one call and a failed call is an error.\<close>

lemma handler_cases:
  assumes "route_calls G C r" and "Route_Handle r req ps s = (resp, s')"
  obtains (failed) e where "resp = HTTPError e" and "s' = s"
    | (call) tmpl ctx c msg rep where "AnnotateContext G authHeaderMatcher req (method_of r) tmpl = Inr ctx"
      and "c = Invoke C \<or> c = NewStream C" and "c (method_of r) ctx msg s = (rep, s')"
      and "\<forall>e. rep = Fail e \<longrightarrow> resp = HTTPError e"
proof -
  from assms(1) obtain x tmpl f fwd where r: "Route_Rpc r = Some (x, tmpl)"
    "Route_Handle r = client_handler G authHeaderMatcher x tmpl f fwd" "calls_method G C x f" unfolding route_calls_def by blast
  then have x: "method_of r = x" by (simp add: method_of_def)
  show thesis
  proof (cases "AnnotateContext G authHeaderMatcher req x tmpl")
    case (Inl e)
    with assms(2) r have "resp = HTTPError e" "s' = s" by (auto simp: client_handler_def)
    then show ?thesis by (rule failed)
  next
    case (Inr ctx)
    with assms(2) r have run: "answer fwd (f ctx req ps s) = (resp, s')" by (simp add: client_handler_def)
    show ?thesis
    proof (rule calls_cases [OF r(3), of ctx req ps s])
      fix e assume "f ctx req ps s = (Fail (InvalidArgument, e), s)"
      with run failed show ?thesis by (auto simp: answer_def)
    next
      fix msg assume f: "f ctx req ps s = Invoke C x ctx msg s"
      obtain rep s1 where c: "Invoke C x ctx msg s = (rep, s1)" by (cases "Invoke C x ctx msg s") auto
      with f run have "s1 = s'" "\<forall>e. rep = Fail e \<longrightarrow> resp = HTTPError e" by (auto simp: answer_def split: reply.splits)
      with Inr c x call [of tmpl ctx "Invoke C" msg rep] show ?thesis by simp
    next
      fix msg assume f: "f ctx req ps s = (case NewStream C x ctx msg s of
           (Reply st, s') \<Rightarrow> (case Header G st of Some e \<Rightarrow> (Fail e, s') | None \<Rightarrow> (Reply st, s')) | r \<Rightarrow> r)"
      obtain rep s1 where c: "NewStream C x ctx msg s = (rep, s1)" by (cases "NewStream C x ctx msg s") auto
      with f run have "s1 = s'" "\<forall>e. rep = Fail e \<longrightarrow> resp = HTTPError e"
        by (auto simp: answer_def split: reply.splits option.splits)
      with Inr c x call [of tmpl ctx "NewStream C" msg rep] show ?thesis by simp
    qed
  qed
qed

text \<open>A call on the main server with macaroons on.\<close>

lemma main_conn_call:
  assumes "call = Invoke (main_conn B (Some mac) unknown srv) \<or> call = NewStream (main_conn B (Some mac) unknown srv)"
    and "call x ctx msg s = (rep, s')"
  shows "(\<exists>e. rep = Fail e) \<and> s' = s
     \<or> x \<in> set registered_methods \<and> mac_Auth B mac ctx x = None \<and> srv x ctx msg s = (rep, s')"
  using assms
  by (auto simp: main_conn_def MacaroonAuthInterceptor_def MacaroonStreamAuthInterceptor_def unaryMacaroonAuth_def
      streamMacaroonAuth_def split: if_splits option.splits)

lemma api_handler_cases:
  assumes "route_calls G (main_conn B (Some mac) unknown srv) r" and "Route_Handle r req ps s = (resp, s')"
  shows "(\<exists>e. resp = HTTPError e) \<and> s' = s
     \<or> (\<exists>tmpl ctx msg rep. AnnotateContext G authHeaderMatcher req (method_of r) tmpl = Inr ctx
          \<and> method_of r \<in> set registered_methods \<and> mac_Auth B mac ctx (method_of r) = None
          \<and> srv (method_of r) ctx msg s = (rep, s'))"
  using assms
proof (cases rule: handler_cases)
  case (call tmpl ctx c msg rep)
  from main_conn_call [OF call(2,3)] call(1,4) show ?thesis by blast
qed blast

text \<open>Nothing was done: the answer is an error, or the health endpoint's 503.\<close>

definition refused :: "('w, 'a) entry_reply \<Rightarrow> bool" where
  "refused rep =
     (case rep of
        GrpcPort (Fail e) \<Rightarrow> True
      | HttpPort (ApiReply (HTTPError e)) \<Rightarrow> True
      | HttpPort (ApiReply NoRoute) \<Rightarrow> True
      | HttpPort (ApiReply (HTTPStatus n)) \<Rightarrow> n = 503
      | _ \<Rightarrow> False)"

definition has_macaroon :: "('b, 'm) main_entry \<Rightarrow> metadata \<Rightarrow> bool" where
  "has_macaroon entry ctx \<longleftrightarrow>
     (\<exists>v. (''macaroon'', v) \<in> set ctx \<and>
        (case entry of
           OverHttp req \<Rightarrow> \<exists>vs. (''X-Macaroon'', vs) \<in> set (HR_Header req) \<and> v \<in> set vs
         | OverGrpc _ ctx' _ \<Rightarrow> ctx' = ctx
         | OverGrpcStream _ ctx' _ \<Rightarrow> ctx' = ctx))"

lemma authHeaderMatcher_macaroon: "authHeaderMatcher key = (''macaroon'', True) \<longleftrightarrow> key = ''X-Macaroon''"
  by (simp add: authHeaderMatcher_def)

lemma healthz_refused:
  "Route_Handle (healthz_route hp health_of (main_conn B (Some mac) unknown srv)) req ps s = (HTTPStatus 503, s)"
proof -
  let ?x = "full_method (Health, ''Check'')"
  have "?x \<in> set unlisted_methods" by (simp add: unlisted_methods_def)
  from unlisted_lookup [OF this] public_methods_lookup [of ?x] have auth: "mac_Auth B mac [] ?x \<noteq> None"
    by (auto simp: mac_Auth_def)
  have "(\<exists>e. rep = Fail e) \<and> s' = s"
    if "Invoke (main_conn B (Some mac) unknown srv) ?x [] (HealthCheckRequest ''fulmine'') s = (rep, s')" for rep s'
    using main_conn_call [OF disjI1 [OF refl] that] auth by blast
  then show ?thesis
    by (cases "Invoke (main_conn B (Some mac) unknown srv) ?x [] (HealthCheckRequest ''fulmine'') s")
      (auto simp: healthz_route_def healthz_def)
qed

text \<open>A request to the gateway ends without a call, or one of its routes calls its method.\<close>

lemma rest_call_cases:
  assumes "dispatches_registered D"
    and run: "gwmux_ServeHTTP D (main_routes G hp health_of (main_conn B (Some mac) unknown srv)) req s = (r, s')"
  shows "refused (HttpPort (ApiReply r)) \<and> s' = s
     \<or> (\<exists>x tmpl ctx msg rep. AnnotateContext G authHeaderMatcher req x tmpl = Inr ctx \<and> x \<in> set registered_methods
          \<and> mac_Auth B mac ctx x = None \<and> srv x ctx msg s = (rep, s'))"
proof -
  let ?C = "main_conn B (Some mac) unknown srv"
  let ?routes = "main_routes G hp health_of ?C"
  show ?thesis
  proof (cases "D (map (\<lambda>r. (Route_Verb r, Route_Pattern r)) ?routes) req")
    case None
    with run show ?thesis by (simp add: gwmux_ServeHTTP_def refused_def)
  next
    case (Some ip)
    then obtain i ps where ip: "D (map (\<lambda>r. (Route_Verb r, Route_Pattern r)) ?routes) req = Some (i, ps)"
      by (cases ip) auto
    with run have handle: "Route_Handle (?routes ! i) req ps s = (r, s')" by (simp add: gwmux_ServeHTTP_def)
    from ip assms(1) have "i < length ?routes" unfolding dispatches_registered_def by fastforce
    then have "?routes ! i \<in> set ?routes" by (rule nth_mem)
    then consider "?routes ! i = healthz_route hp health_of ?C" | "route_calls G ?C (?routes ! i)"
      using api_routes_call [of G ?C] by (auto simp: main_routes_def list_all_iff)
    then show ?thesis
    proof cases
      case 1
      with handle show ?thesis by (auto simp: refused_def healthz_refused)
    next
      case 2
      from api_handler_cases [OF 2 handle] show ?thesis
      proof
        assume "(\<exists>e. r = HTTPError e) \<and> s' = s"
        then show ?thesis by (auto simp: refused_def)
      qed blast
    qed
  qed
qed

lemma api_reply:
  assumes "main_serve conn (main_ServeHTTP feHandler D routes) (OverHttp req) s = (resp, s')"
    and "has_prefix ''/api/'' (HR_Path req)"
  obtains r where "resp = HttpPort (ApiReply r)"
    and "gwmux_ServeHTTP D routes (req\<lparr>HR_Path := drop (length ''/api'') (HR_Path req)\<rparr>) s = (r, s')"
  using assms by (auto simp: main_serve_def main_ServeHTTP_def main_mux_def map_prod_def split: prod.splits)

lemma grpc_reply:
  "main_serve conn http (OverGrpc x ctx msg) s = (resp, s') \<Longrightarrow>
     \<exists>rep. resp = GrpcPort rep \<and> Invoke conn x ctx msg s = (rep, s')"
  "main_serve conn http (OverGrpcStream x ctx msg) s = (resp, s') \<Longrightarrow>
     \<exists>rep. resp = GrpcPort rep \<and> NewStream conn x ctx msg s = (rep, s')"
  by (auto simp: main_serve_def map_prod_def split: prod.splits)

text \<open>
  C5: with macaroons on, a call that reaches a handler, whether it came over the gRPC port or over the REST
  gateway, is of a whitelisted method or carries a macaroon that was validated for that method and
  its permissions; over HTTP the macaroon is a value of the header \<open>X-Macaroon\<close>. Every other call is
  answered with an error and changes nothing.
\<close>

theorem main_call_needs_macaroon:
  assumes "dispatches_registered D" and "forwards_matched own G" and "\<not> own ''macaroon''" and "reads_macaroon B"
    and built: "new_servers connect connectDelegate feHandler D G hp health_of as_grpc unknown B (Some mac) srv delegateSvc
      = Inr (conn, http, dhttp)"
    and api: "\<forall>req. entry = OverHttp req \<longrightarrow> has_prefix ''/api/'' (HR_Path req)"
    and run: "main_serve conn http entry s = (resp, s')"
  shows "refused resp \<and> s' = s
     \<or> (\<exists>x ctx msg rep. srv x ctx msg s = (rep, s') \<and> x \<in> set registered_methods \<and>
          (x \<in> set public_methods \<or> authorized B mac ctx x \<and> has_macaroon entry ctx))"
proof -
  from new_servers_main [OF built] have conn: "conn = main_conn B (Some mac) unknown srv"
    and http: "http = main_ServeHTTP feHandler D (main_routes G hp health_of (main_conn B (Some mac) unknown srv))" by auto
  have granted: "x \<in> set public_methods \<or> authorized B mac ctx x \<and> ''macaroon'' \<in> fst ` set ctx"
    if "mac_Auth B mac ctx x = None" for x ctx
    using that assms(4) unfolding mac_Auth_agrees authorized_def reads_macaroon_def by blast
  show ?thesis
  proof (cases entry)
    case (OverGrpc x ctx msg)
    from grpc_reply(1) [OF run [unfolded OverGrpc conn]] main_conn_call [OF disjI1 [OF refl], of B mac unknown srv x ctx msg s]
      granted [of ctx x] OverGrpc show ?thesis by (fastforce simp: refused_def has_macaroon_def)
  next
    case (OverGrpcStream x ctx msg)
    from grpc_reply(2) [OF run [unfolded OverGrpcStream conn]]
      main_conn_call [OF disjI2 [OF refl], of B mac unknown srv x ctx msg s]
      granted [of ctx x] OverGrpcStream show ?thesis by (fastforce simp: refused_def has_macaroon_def)
  next
    case (OverHttp req)
    let ?req = "req\<lparr>HR_Path := drop (length ''/api'') (HR_Path req)\<rparr>"
    from OverHttp api have "has_prefix ''/api/'' (HR_Path req)" by blast
    with run [unfolded OverHttp http] obtain r where r: "resp = HttpPort (ApiReply r)"
      and mux: "gwmux_ServeHTTP D (main_routes G hp health_of (main_conn B (Some mac) unknown srv)) ?req s = (r, s')"
      by (blast elim: api_reply)
    from rest_call_cases [OF assms(1) mux] show ?thesis
    proof
      assume "refused (HttpPort (ApiReply r)) \<and> s' = s"
      with r show ?thesis by (auto simp: refused_def)
    next
      assume "\<exists>x tmpl ctx msg rep. AnnotateContext G authHeaderMatcher ?req x tmpl = Inr ctx \<and> x \<in> set registered_methods
          \<and> mac_Auth B mac ctx x = None \<and> srv x ctx msg s = (rep, s')"
      then obtain x tmpl ctx msg rep where call: "AnnotateContext G authHeaderMatcher ?req x tmpl = Inr ctx"
        "x \<in> set registered_methods" "mac_Auth B mac ctx x = None" "srv x ctx msg s = (rep, s')" by blast
      have "has_macaroon entry ctx" if "(''macaroon'', v) \<in> set ctx" for v
        using that assms(2,3) call(1) OverHttp
        by (fastforce simp: forwards_matched_def has_macaroon_def authHeaderMatcher_macaroon)
      then have "x \<in> set public_methods \<or> authorized B mac ctx x \<and> has_macaroon entry ctx"
        using granted [OF call(3)] by auto
      with call(2,4) show ?thesis by blast
    qed
  qed
qed

section \<open>The routes cover the API\<close>

definition api_table :: "(string \<times> pattern) list" where
  "api_table =
     [
      (''GET'', pattern_Service_GetAddress_0), (''GET'', pattern_Service_GetBalance_0),
      (''GET'', pattern_Service_GetInfo_0), (''POST'', pattern_Service_GetOnboardAddress_0),
      (''GET'', pattern_Service_GetTransactionHistory_0), (''POST'', pattern_Service_RedeemNote_0),
      (''GET'', pattern_Service_Settle_0), (''POST'', pattern_Service_SendOffChain_0),
      (''POST'', pattern_Service_SendOnChain_0), (''POST'', pattern_Service_SignTransaction_0),
      (''POST'', pattern_Service_CreateVHTLC_0), (''POST'', pattern_Service_ClaimVHTLC_0),
      (''POST'', pattern_Service_RefundVHTLCWithoutReceiver_0), (''GET'', pattern_Service_ListVHTLC_0),
      (''GET'', pattern_Service_ListVHTLCs_0), (''GET'', pattern_Service_GetVHTLCSpendingTx_0),
      (''GET'', pattern_Service_GetVirtualTxs_0), (''GET'', pattern_Service_GetVtxos_0),
      (''GET'', pattern_Service_NextSettlement_0), (''GET'', pattern_WalletService_GenSeed_0),
      (''POST'', pattern_WalletService_CreateWallet_0), (''POST'', pattern_WalletService_Unlock_0),
      (''POST'', pattern_WalletService_Lock_0), (''POST'', pattern_WalletService_ChangePassword_0),
      (''POST'', pattern_WalletService_RestoreWallet_0), (''GET'', pattern_WalletService_Status_0),
      (''POST'', pattern_WalletService_Auth_0), (''GET'', pattern_WalletService_GetPubKey_0),
      (''POST'', pattern_NotificationService_SubscribeForAddresses_0),
      (''POST'', pattern_NotificationService_UnsubscribeForAddresses_0),
      (''GET'', pattern_NotificationService_GetVtxoNotifications_0)]"

lemma api_table: "map (\<lambda>r. (Route_Verb r, Route_Pattern r)) (api_routes G C) = api_table"
  unfolding api_routes_def RegisterServiceHandlerClient_def RegisterWalletServiceHandlerClient_def
    RegisterNotificationServiceHandlerClient_def service_routes wallet_routes api_table_def
  by (simp add: client_route_def)

text \<open>The registered methods that have no route.\<close>

definition unrouted_methods :: "string list" where
  "unrouted_methods =
     map (\<lambda>m. full_method (NotificationService, m)) [''RoundNotifications'', ''AddWebhook'', ''RemoveWebhook'', ''ListWebhooks'']
     @ map (\<lambda>m. full_method (Health, m)) [''Check'', ''List'', ''Watch'']
     @ [full_method (''grpc.reflection.v1.ServerReflection'', ''ServerReflectionInfo''),
        full_method (''grpc.reflection.v1alpha.ServerReflection'', ''ServerReflectionInfo'')]"


section \<open>The delegate's port\<close>

lemma delegate_call:
  assumes "call = Invoke (delegate_conn unknown srv) \<or> call = NewStream (delegate_conn unknown srv)"
    and "call x ctx msg s = (rep, s')"
  shows "(\<exists>e. rep = Fail e) \<and> s' = s \<or> x \<in> set delegate_methods \<and> srv x ctx msg s = (rep, s')"
  using assms by (auto simp: delegate_conn_def split: if_splits)

lemma delegate_handler_cases:
  assumes "route_calls G (delegate_conn unknown srv) r" and "Route_Handle r req ps s = (resp, s')"
  shows "s' = s \<or> (\<exists>x ctx msg rep. x \<in> set delegate_methods \<and> srv x ctx msg s = (rep, s'))"
  using assms
proof (cases rule: handler_cases)
  case (call tmpl ctx c msg rep)
  from delegate_call [OF call(2,3)] show ?thesis by blast
qed blast

lemma delegate_gateway_cases:
  assumes "dispatches_registered D" and run: "gwmux_ServeHTTP D (delegate_routes G (delegate_conn unknown srv)) req s = (r, s')"
  shows "s' = s \<or> (\<exists>x ctx msg rep. x \<in> set delegate_methods \<and> srv x ctx msg s = (rep, s'))"
proof -
  let ?routes = "delegate_routes G (delegate_conn unknown srv)"
  show ?thesis
  proof (cases "D (map (\<lambda>r. (Route_Verb r, Route_Pattern r)) ?routes) req")
    case (Some ip)
    then obtain i ps where ip: "D (map (\<lambda>r. (Route_Verb r, Route_Pattern r)) ?routes) req = Some (i, ps)"
      by (cases ip) auto
    with assms(1) have "i < length ?routes" unfolding dispatches_registered_def by fastforce
    then have "route_calls G (delegate_conn unknown srv) (?routes ! i)"
      using delegate_routes_call [of G "delegate_conn unknown srv"] nth_mem [of i ?routes] by (simp add: list_all_iff)
    moreover from run ip have "Route_Handle (?routes ! i) req ps s = (r, s')" by (simp add: gwmux_ServeHTTP_def)
    ultimately show ?thesis by (rule delegate_handler_cases)
  qed (use run in \<open>simp add: gwmux_ServeHTTP_def\<close>)
qed

text \<open>
  C27: whatever arrives on the delegate's port, as a call over gRPC or over its gateway, runs one of the two
  methods of the delegate service or nothing, and those are none of the methods of the main server.
\<close>

theorem delegate_port_serves_delegations_only:
  assumes "dispatches_registered D"
    and built: "new_servers connect connectDelegate feHandler D G hp health_of as_grpc unknown B macaroonSvc srv delegateSvc
      = Inr (conn, http, Some dhttp)"
    and served: "dhttp req s = (resp, s')"
  shows "set delegate_methods \<inter> set registered_methods = {} \<and>
     (s' = s \<or> (\<exists>dsrv x ctx msg rep. delegateSvc = Some dsrv \<and> x \<in> set delegate_methods \<and> dsrv x ctx msg s = (rep, s')))"
proof
  show "set delegate_methods \<inter> set registered_methods = {}" by code_simp
  from new_servers_delegate [OF built] obtain dsrv where d: "delegateSvc = Some dsrv"
    and dhttp: "dhttp = delegate_ServeHTTP D (delegate_routes G (delegate_conn unknown dsrv)) as_grpc (delegate_conn unknown dsrv)"
    by blast
  note run = served [unfolded dhttp]
  have "s' = s \<or> (\<exists>x ctx msg rep. x \<in> set delegate_methods \<and> dsrv x ctx msg s = (rep, s'))"
  proof (cases "router (HR_Method req) (content_type req)")
    case ToGateway
    with run obtain r where "gwmux_ServeHTTP D (delegate_routes G (delegate_conn unknown dsrv)) req s = (r, s')"
      by (auto simp: delegate_ServeHTTP_def map_prod_def split: prod.splits)
    with assms(1) show ?thesis by (rule delegate_gateway_cases)
  next
    case ToGrpc
    with run show ?thesis
      by (auto simp: delegate_ServeHTTP_def map_prod_def delegate_conn_def split: prod.splits option.splits if_splits)
  qed (use run in \<open>auto simp: delegate_ServeHTTP_def\<close>)
  with d show "s' = s \<or> (\<exists>dsrv x ctx msg rep. delegateSvc = Some dsrv \<and> x \<in> set delegate_methods \<and> dsrv x ctx msg s = (rep, s'))"
    by blast
qed

section \<open>In process\<close>

text \<open>The registration that the program does not use: the gateway calls the methods itself.\<close>

definition in_process_routes ::
  "('b, 'f, 'm, 'c, 'a) gw_lib \<Rightarrow> ('c, 'm, 'a, 's) rpc \<Rightarrow> ('b, 'a, 's) gw_route list" where
  "in_process_routes G srv =
     RegisterServiceHandlerServer G authHeaderMatcher srv
     @ RegisterWalletServiceHandlerServer G authHeaderMatcher srv
     @ RegisterNotificationServiceHandlerServer G authHeaderMatcher srv"

lemmas local_requests =
  local_request_Service_GetAddress_0_def local_request_Service_GetBalance_0_def local_request_Service_GetInfo_0_def
  local_request_Service_GetOnboardAddress_0_def local_request_Service_GetTransactionHistory_0_def
  local_request_Service_RedeemNote_0_def local_request_Service_Settle_0_def local_request_Service_SendOffChain_0_def
  local_request_Service_SendOnChain_0_def local_request_Service_SignTransaction_0_def
  local_request_Service_CreateVHTLC_0_def local_request_Service_ClaimVHTLC_0_def
  local_request_Service_RefundVHTLCWithoutReceiver_0_def local_request_Service_ListVHTLC_0_def
  local_request_Service_ListVHTLCs_0_def local_request_Service_GetVHTLCSpendingTx_0_def
  local_request_Service_GetVirtualTxs_0_def local_request_Service_GetVtxos_0_def
  local_request_Service_NextSettlement_0_def local_request_WalletService_GenSeed_0_def
  local_request_WalletService_CreateWallet_0_def local_request_WalletService_Unlock_0_def
  local_request_WalletService_Lock_0_def local_request_WalletService_ChangePassword_0_def
  local_request_WalletService_Status_0_def local_request_WalletService_Auth_0_def
  local_request_WalletService_GetPubKey_0_def local_request_NotificationService_SubscribeForAddresses_0_def
  local_request_NotificationService_UnsubscribeForAddresses_0_def

lemmas local_routes =
  local_route_Service_GetAddress_0_def local_route_Service_GetBalance_0_def local_route_Service_GetInfo_0_def
  local_route_Service_GetOnboardAddress_0_def local_route_Service_GetTransactionHistory_0_def
  local_route_Service_RedeemNote_0_def local_route_Service_Settle_0_def local_route_Service_SendOffChain_0_def
  local_route_Service_SendOnChain_0_def local_route_Service_SignTransaction_0_def
  local_route_Service_CreateVHTLC_0_def local_route_Service_ClaimVHTLC_0_def
  local_route_Service_RefundVHTLCWithoutReceiver_0_def local_route_Service_ListVHTLC_0_def
  local_route_Service_ListVHTLCs_0_def local_route_Service_GetVHTLCSpendingTx_0_def
  local_route_Service_GetVirtualTxs_0_def local_route_Service_GetVtxos_0_def local_route_Service_NextSettlement_0_def
  local_route_WalletService_GenSeed_0_def local_route_WalletService_CreateWallet_0_def
  local_route_WalletService_Unlock_0_def local_route_WalletService_Lock_0_def
  local_route_WalletService_ChangePassword_0_def local_route_WalletService_RestoreWallet_0_def
  local_route_WalletService_Status_0_def local_route_WalletService_Auth_0_def
  local_route_WalletService_GetPubKey_0_def local_route_NotificationService_SubscribeForAddresses_0_def
  local_route_NotificationService_UnsubscribeForAddresses_0_def
  local_route_NotificationService_GetVtxoNotifications_0_def

text \<open>A route of the one registration and its counterpart of the other.\<close>

definition same_route :: "('b, 'a, 's) gw_route \<Rightarrow> ('b, 'a, 's) gw_route \<Rightarrow> bool" where
  "same_route l r \<longleftrightarrow> Route_Verb l = Route_Verb r \<and> Route_Pattern l = Route_Pattern r \<and>
     (case Route_Rpc l of
        None \<Rightarrow> Route_Handle l = no_stream_handler \<and>
          method_of r \<in> {full_method (WalletService, ''RestoreWallet''), full_method (NotificationService, ''GetVtxoNotifications'')}
      | Some rpc \<Rightarrow> Route_Rpc r = Some rpc \<and> Route_Handle l = Route_Handle r)"

lemma main_conn_None:
  "x \<in> set registered_methods \<Longrightarrow> Invoke (main_conn B None unknown srv) x = srv x"
  by (simp add: main_conn_def MacaroonAuthInterceptor_def unaryMacaroonAuth_def)

lemma same_unary:
  assumes "AnnotateIncomingContext G = AnnotateContext G" and "x \<in> set registered_methods"
  shows "same_route (server_route G mux v p m t (unary_call srv x b) fwd)
     (client_route G mux v p m t (unary_call (Invoke (main_conn B None unknown srv)) x b) fwd)"
proof -
  have "unary_call srv x b = unary_call (Invoke (main_conn B None unknown srv)) x b"
    by (intro ext) (simp add: unary_call_def main_conn_None [OF assms(2)] split: sum.split)
  then have "server_handler G mux m t (unary_call srv x b) fwd
      = client_handler G mux m t (unary_call (Invoke (main_conn B None unknown srv)) x b) fwd"
    by (intro ext) (simp add: server_handler_def client_handler_def assms(1) split: sum.split)
  then show ?thesis by (simp add: same_route_def server_route_def client_route_def)
qed

lemma same_stream:
  "m \<in> {full_method (WalletService, ''RestoreWallet''), full_method (NotificationService, ''GetVtxoNotifications'')} \<Longrightarrow>
     same_route (no_stream_route v p) (client_route G mux v p m t f fwd)"
  by (simp add: same_route_def no_stream_route_def client_route_def method_of_def)

text \<open>
  Registered in process, the gateway has the same routes in the same order as over a connection to a
  server without macaroons, and each unary route answers every request and changes the state in the
  same way; the two streams it refuses. It is the connection that puts the routes behind the
  macaroons.
\<close>

theorem in_process_routes_agree:
  assumes "AnnotateIncomingContext G = AnnotateContext G"
  shows "list_all2 same_route (in_process_routes G srv) (api_routes G (main_conn B None unknown srv))"
  unfolding in_process_routes_def api_routes_def RegisterServiceHandlerClient_def RegisterWalletServiceHandlerClient_def
    RegisterNotificationServiceHandlerClient_def RegisterServiceHandlerServer_def RegisterWalletServiceHandlerServer_def
    RegisterNotificationServiceHandlerServer_def service_routes wallet_routes local_routes service_requests
    wallet_requests local_requests append.simps
  by (intro list.rel_intros same_unary [OF assms] same_stream) (simp_all add: registered_methods_def service_names)

section \<open>A gateway on concrete inputs\<close>

definition demo_annotate ::
  "(string \<Rightarrow> string \<times> bool) \<Rightarrow> string http_request \<Rightarrow> string \<Rightarrow> string \<Rightarrow> status + metadata" where
  "demo_annotate matcher req x tmpl =
     Inr (concat (map (\<lambda>(key, vs). if snd (matcher key) then map (\<lambda>v. (fst (matcher key), v)) vs else []) (HR_Header req)))"

definition demo_gw :: "(string, unit, string, metadata, string) gw_lib" where
  "demo_gw =
     \<lparr>ZeroMessage = \<lambda>_. [], IOReaderFactory = Inr, Decode = \<lambda>b m. (None, b), ParseForm = \<lambda>_. Inr (),
      PopulateQueryParameters = \<lambda>m _. (None, m), String_param = Inr, StringSlice = \<lambda>c s. Inr (go_split c s),
      Uint64_param = \<lambda>_. Inr 0, Header = \<lambda>_. None, AnnotateContext = demo_annotate,
      AnnotateIncomingContext = demo_annotate\<rparr>"

text \<open>The first route with the verb whose words are those of the path.\<close>

definition demo_dispatch :: "string dispatch" where
  "demo_dispatch rs req =
     (case filter (\<lambda>i. fst (rs ! i) = HR_Method req \<and>
             concat (map (\<lambda>w. CHR ''/'' # w) (fst (snd (snd (snd (rs ! i)))))) = HR_Path req) [0..<length rs] of
        [] \<Rightarrow> None
      | i # _ \<Rightarrow> Some (i, []))"

definition demo_rest_lib :: "(unit, metadata) mac_lib" where
  "demo_rest_lib =
     \<lparr>CreateUnlock = \<lambda>_ k. (None, k), Lib_ChangePassword = \<lambda>_ _ k. (None, k), BakeMacaroon = \<lambda>_ _. Inr [1],
      ValidateMacaroon = \<lambda>_ ctx _ _. if (''macaroon'', ''admin'') \<in> set ctx then None else Some ''no macaroon'',
      FreshStore = Inr ()\<rparr>"

text \<open>A server that counts the calls.\<close>

definition demo_srv :: "(metadata, string, string, nat) rpc" where
  "demo_srv x ctx msg s = (Reply x, Suc s)"

definition demo_conn :: "(metadata, string, string, nat) client" where
  "demo_conn = main_conn demo_rest_lib (Some demo_mac) id demo_srv"

definition demo_http :: "string http_request \<Rightarrow> nat \<Rightarrow> (unit, string) main_reply \<times> nat" where
  "demo_http = main_ServeHTTP (\<lambda>_ s. ((), s)) demo_dispatch
     (main_routes demo_gw (1, [2, 0], [''healthz''], []) (\<lambda>_. SERVING) demo_conn)"

definition demo_delegate_http :: "string http_request \<Rightarrow> nat \<Rightarrow> string delegate_reply \<times> nat" where
  "demo_delegate_http =
     delegate_ServeHTTP demo_dispatch (delegate_routes demo_gw (delegate_conn id demo_srv)) (\<lambda>_. None) (delegate_conn id demo_srv)"

lemma demo_servers:
  "new_servers None None (\<lambda>_ s. ((), s)) demo_dispatch demo_gw (1, [2, 0], [''healthz''], []) (\<lambda>_. SERVING) (\<lambda>_. None) id
     demo_rest_lib (Some demo_mac) demo_srv (Some demo_srv) = Inr (demo_conn, demo_http, Some demo_delegate_http)"
  by (simp add: new_servers_def Let_def demo_conn_def demo_http_def demo_delegate_http_def)

definition demo_send :: "(string \<times> string list) list \<Rightarrow> (unit, string) entry_reply \<times> nat" where
  "demo_send header =
     main_serve demo_conn demo_http
       (OverHttp \<lparr>HR_Method = ''POST'', HR_Path = ''/api/v1/send/offchain'', HR_Header = header, HR_Body = ''{}''\<rparr>) 0"

lemma demo_dispatches: "dispatches_registered demo_dispatch"
  unfolding dispatches_registered_def
proof (intro allI impI)
  fix rs req i ps assume "demo_dispatch rs req = Some (i, ps)"
  then obtain js where "filter (\<lambda>i. fst (rs ! i) = HR_Method req \<and>
      concat (map (\<lambda>w. CHR ''/'' # w) (fst (snd (snd (snd (rs ! i)))))) = HR_Path req) [0..<length rs] = i # js"
    by (auto simp: demo_dispatch_def split: list.splits)
  from arg_cong [OF this, of set] show "i < length rs" by auto
qed

lemma demo_forwards: "forwards_matched (\<lambda>_. False) demo_gw"
  by (fastforce simp: forwards_matched_def demo_gw_def demo_annotate_def authHeaderMatcher_def split: if_splits prod.splits)

lemma demo_reads: "reads_macaroon demo_rest_lib"
  by (force simp: reads_macaroon_def demo_rest_lib_def split: if_splits)

theorem main_call_needs_macaroon_witness:
  "refused (fst (demo_send [(''Macaroon'', [''admin''])])) \<and> snd (demo_send [(''X-Macaroon'', [''admin''])]) = 1"
proof
  show "snd (demo_send [(''X-Macaroon'', [''admin''])]) = 1" by code_simp
  obtain resp s' where run: "demo_send [(''Macaroon'', [''admin''])] = (resp, s')" by force
  have "snd (demo_send [(''Macaroon'', [''admin''])]) = 0" by code_simp
  with run have "s' = 0" by simp
  moreover have "''/api/'' = take (length ''/api/'') ''/api/v1/send/offchain''" by simp
  ultimately show "refused (fst (demo_send [(''Macaroon'', [''admin''])]))"
    using main_call_needs_macaroon [OF demo_dispatches demo_forwards _ demo_reads demo_servers _ run [unfolded demo_send_def]] run
    by (auto simp: has_prefix_def demo_srv_def)
qed

theorem in_process_routes_agree_witness:
  "list_all2 same_route (in_process_routes demo_gw demo_srv) (api_routes demo_gw (main_conn demo_rest_lib None id demo_srv))"
  by (rule in_process_routes_agree) (simp add: demo_gw_def)

definition demo_info_request :: "string http_request" where
  "demo_info_request = \<lparr>HR_Method = ''GET'', HR_Path = ''/v1/delegate/info'', HR_Header = [], HR_Body = []\<rparr>"

theorem delegate_port_serves_delegations_only_witness:
  "demo_delegate_http demo_info_request 0 =
     (GatewayReply (ForwardResponseMessage ''/delegate.v1.DelegateService/GetDelegateInfo''), 1)
   \<and> set delegate_methods \<inter> set registered_methods = {}"
proof
  show run: "demo_delegate_http demo_info_request 0 =
      (GatewayReply (ForwardResponseMessage ''/delegate.v1.DelegateService/GetDelegateInfo''), 1)" by code_simp
  show "set delegate_methods \<inter> set registered_methods = {}"
    using delegate_port_serves_delegations_only [OF demo_dispatches demo_servers run] by (rule conjunct1)
qed

end
