(* ===== verification/Spec2Isabelle.thy ===== *)
theory Spec2Isabelle
  imports BatchProps RepoProps LifecycleProps Scheduler Subscription VhtlcMigration SqliteMigration
    PendingTx WalletProps DelegateLoops Notifications Redact Endpoints Web WebPages Daemon Telemetry
    RestProps
begin

text \<open>
  Verification of fulmine, a wallet daemon for the Ark protocol that also runs a delegate service:
  users hand it signed intents and forfeit transactions, and the daemon registers the intents,
  joins the batches they are selected for and submits the forfeits, so that the users' coins are
  renewed while they are offline.

  \<^bold>\<open>The parts of the program.\<close> Paths are under \<open>src/internal/\<close> unless they start otherwise.

  The domain (\<open>core/domain/\<close>) has the delegate tasks, the VHTLC records and the repositories as
  interfaces. Two stores implement them (\<open>infrastructure/db/sqlite/\<close>, \<open>infrastructure/db/badger/\<close>),
  and \<open>infrastructure/db/service.go\<close> opens one of them and upgrades the SQL schema. The application
  layer (\<open>core/application/\<close>) has the wallet \<open>Service\<close> with its life cycle (set up, unlock, lock, reset),
  the wallet operations behind its gate, the address subscription, the upgrade of old VHTLCs, and
  the \<open>DelegateService\<close> with the handler that takes part in a batch. A scheduler
  (\<open>infrastructure/scheduler/gocron/\<close>) runs tasks at a block height or a time. The daemon is driven
  over gRPC (\<open>interface/grpc/\<close>) behind macaroons (\<open>src/pkg/macaroon/\<close>), over a generated REST gateway
  in front of it (\<open>src/api-spec/\<close>), and over a web interface (\<open>interface/web/\<close>), and configured from the environment (\<open>internal/config/\<close>).

  \<^bold>\<open>Which theory models what.\<close>

  \<^item> \<open>Prelude\<close>: bytes, strings, decimal and hexadecimal texts, 64-bit amounts, times, finite maps kept
    as association lists. \<open>Bitcoin\<close>: outpoints, transactions and the parts of a PSBT the code reads,
    and the record \<open>crypto\<close> of the library calls on keys and scripts.
  \<^item> \<open>Domain\<close>: \<open>core/domain/\<close>. A task is the record \<open>delegate_task\<close>; a repository is a record of its
    operations on a store state; the contracts are the locales \<open>delegate_repository\<close>,
    \<open>scripts_store\<close> (in \<open>ScriptsRepo\<close>) and \<open>vhtlc_repository\<close> (in \<open>VhtlcRepo\<close>).
  \<^item> \<open>KvStore\<close>, \<open>SqliteRepo\<close>, \<open>BadgerRepo\<close>: the two delegate repositories. The SQL store is the list of
    rows of its two tables and an operation is what its transaction does to them, a failing statement
    included; the badger store is a map of documents under the laws of \<open>KvStore\<close>. \<open>SqliteRefine\<close> and
    \<open>BadgerRefine\<close> show that both implement the contract of \<open>Domain\<close>, \<open>RepoProps\<close> what follows.
    \<open>ScriptsRepo\<close> and \<open>VhtlcRepo\<close> do the same for the other two repositories.
  \<^item> \<open>SqliteMigration\<close>: \<open>infrastructure/db/sqlite/vhtlc_migration.go\<close> and \<open>infrastructure/db/service.go\<close>.
    \<open>VhtlcMigration\<close>: \<open>core/application/vhtlc_migration.go\<close>.
  \<^item> \<open>DelegateValidation\<close>, \<open>DelegateService\<close>: \<open>core/application/delegate_service.go\<close>. The state is the
    stored tasks, the registered intents, the scheduler's queue and who holds the lock; the RPC, the
    executor, the batch listener and the monitor of spent VTXOs are steps of one relation.
    \<open>DelegateSafety\<close> has the invariant of that relation, \<open>DelegateProps\<close> the properties.
    \<open>DelegateLoops\<close> has the two stream loops over whole streams, as runs of that relation.
  \<^item> \<open>BatchHandler\<close>, \<open>BatchProps\<close>: \<open>core/application/delegate_batch_handler.go\<close>.
  \<^item> \<open>Scheduler\<close>: \<open>infrastructure/scheduler/gocron/service.go\<close>. \<open>Subscription\<close>:
    \<open>core/application/subscription.go\<close>.
  \<^item> \<open>Lifecycle\<close>, \<open>LifecycleProps\<close>: the life cycle in \<open>core/application/service.go\<close>. The state \<open>node\<close>
    has the fields of \<open>Service\<close> the life cycle uses and one entry for each sync and post-unlock
    goroutine; a goroutine is a program counter that moves at its channel operations.
  \<^item> \<open>WalletOps\<close>, \<open>WalletProps\<close>, \<open>PendingTx\<close>: the wallet operations of \<open>service.go\<close> and the proof of
    ownership in \<open>core/application/utils.go\<close>. \<open>Utils\<close>: \<open>src/utils/\<close>.
  \<^item> \<open>Auth\<close>: \<open>config/permissions.go\<close>, \<open>src/pkg/macaroon/\<close>, \<open>interface/grpc/interceptors/auth.go\<close>.
    \<open>Redact\<close>: \<open>interface/grpc/interceptors/logger.go\<close>. \<open>Notifications\<close>, \<open>Handlers\<close>:
    \<open>interface/grpc/handlers/\<close>. \<open>Messages\<close>: the conversions to protobuf messages and the methods of the
    three gRPC services as the composition of check, operation and answer. \<open>Endpoints\<close>: such methods
    behind the interceptor, down to the stores.
  \<^item> \<open>Web\<close>, \<open>WebPages\<close>: \<open>interface/web/\<close>. A request is a value of \<open>web_request\<close>, one for each route;
    \<open>serve\<close> is its answer and the node after it. \<open>Config\<close>: \<open>config/config.go\<close>, the unlockers, the port
    check and the esplora client. \<open>Server\<close>: the start and the shutdown in \<open>interface/grpc/service.go\<close>.
  \<^item> \<open>Gateway\<close>: what the generated handlers of the REST gateway share. \<open>ServiceGateway\<close> and
    \<open>WalletGateway\<close>: the request of each method, \<open>ServiceRoutes\<close> and \<open>WalletRoutes\<close>: the pattern and the
    handler registered for it, under the names of the \<open>.pb.gw.go\<close> files. \<open>RestApi\<close>: the servers \<open>NewService\<close>
    builds, from the path of an HTTP request to the method of the gRPC server; \<open>RestProps\<close>: what they let
    through.
  \<^item> \<open>Daemon\<close>: \<open>src/cmd/fulmine/main.go\<close>, the start of the process over all of these. \<open>Telemetry\<close>:
    \<open>infrastructure/telemetry/\<close>.

  \<^bold>\<open>How the code is read.\<close> A Go string is a list of bytes (\<open>string\<close>), amounts and block heights are
  words at their width, a time is a whole number of nanoseconds since the Unix epoch. A returned error
  is a value of a sum or of \<open>err\<close>, where the model keeps the text the code gives; a panic is a value of its own (\<open>Crash\<close>, a flag, or \<open>None\<close>) where the code can
  reach one. A mutex that is held over a sequence of calls is a step; code that runs without one is
  split at the points where another goroutine can come between. Loops over a list are structural
  recursions; the loops that need not end are \<open>partial_function (option)\<close> (\<open>retry_from\<close>, \<open>more_pages\<close>),
  where \<open>None\<close> means that the loop does not return, and the theorems about them say when it does. No
  fuel is used.

  \<^bold>\<open>What the lemmas show.\<close>

  \<^item> The delegate service: over every interleaving, two pending tasks never share an input, every
    stored task evolves along its states, every row of the SQL tables reads back as a task, a finished
    batch closes exactly its tasks, a restart queues every pending task again, and an outpoint that
    was reported spent is in no pending task after the next tick of the monitor, unless the query of
    its tick failed.
  \<^item> A batch: each connector is attached to one forfeit, a forfeit that passed the validation of a
    request gets the signature of the delegate, and what is submitted is complete.
  \<^item> The stores: both delegate repositories refine the abstract contract, the documents of the badger
    store round-trip, the schema upgrade keeps every VHTLC and swap, the upgrade of the VHTLCs loses
    none and can be repeated.
  \<^item> The life cycle: an open gate means a wallet that is unlocked, keyed and serving, a locked wallet
    holds no key, a failed unlock is unwound, and an unlock in progress can finish. Where the code
    falls short of this, the theorem says how (\<open>failed_unlock_is_stuck\<close>, \<open>reset_during_sync_wedges\<close>).
  \<^item> The wallet operations: a listing has all pages, a VHTLC is recorded once and under its own id, the
    proof for pending transactions carries the leaf of each input, subscriptions keep the indexer and
    the store in step, BIP21 texts round-trip.
  \<^item> The interfaces: a method outside the whitelist runs only with a valid macaroon, over gRPC and over
    REST; no two routes share verb and pattern, and all registered methods but a few have exactly one;
    the delegate's port serves nothing but delegations. The request log hides exactly the secrets, no
    notification is lost or sent twice while the daemon lives, a send is retried a bounded number of
    times. A daemon that starts has a valid configuration and a closed gate. From request to store:
    funds move only after macaroon, arguments and gate were checked, a VHTLC created over gRPC is
    recorded once, and an accepted delegation is stored and queued. The web interface discloses nothing of a wallet
    that nobody could unlock; which clients its event stream serves, and when the daemon shuts down.

  \<^bold>\<open>Parameters and ghosts.\<close> The Ark SDK and ark-lib, the indexer, the explorer, the macaroon library,
  gocron, badgerhold, golang-migrate, the runtime of grpc-gateway, viper, parsing of URLs and floats, BIP32 and BIP39, HTTP and the
  file system are arguments of the definitions; what the theorems assume of them is a named
  hypothesis (\<open>intent_ok\<close>, the locale of the key-value store, and so on). A JSON text is represented
  by what it decodes to. The field \<open>covered\<close> of the life cycle and \<open>st_notified\<close> of the notification
  streams are not in the code: they record what a theorem speaks of.

  \<^bold>\<open>Not modelled.\<close> The generated protobuf messages and stubs, the \<open>_templ.go\<close> files (rendering of HTML),
  the compiled patterns of the gateway beyond their identity, the tools, HTML templates and static files; of the methods that
  only forward a call to the SDK, its answer is an argument. Not modelled within the parts above: the
  data race on the slice of notification listeners (the code reads it without its lock), the text of
  SQL faults in the schema upgrade (they are named by the statement), a template that fails to render,
  and the vtxo listener's cancel function, which the code never assigns.
\<close>

end
